(* ===== verification/Relay_Prelude.thy ===== *)
theory Relay_Prelude
  imports Main "HOL-Library.Multiset" "HOL-Library.AList" "HOL-Library.List_Lexorder"
    "HOL-Library.Char_ord" "HOL-Library.Sublist"
begin

text \<open>
  Shared vocabulary of the development: the Go standard-library operations that several
  components use (string helpers, decimal printing, \<open>sort.Sort\<close>, map insertion) and the generic
  lemmas on lists, association lists and results that carry the component proofs.

  A Go \<open>map[string]T\<close> is an association list whose keys are distinct. The order of the list is
  one iteration order the runtime may choose for \<open>range\<close>; theorems quantify over every list, so
  they hold for every such order. Go strings are compared bytewise, which is the lexicographic
  order of \<open>List_Lexorder\<close> over the character order of \<open>Char_ord\<close>.
\<close>

named_theorems go_defs \<open>definitions of Go library helpers that evaluate on concrete inputs\<close>

section \<open>Association lists as Go maps\<close>

type_synonym 'v gomap = "(string \<times> 'v) list"

definition wf_gomap :: "('k \<times> 'v) list \<Rightarrow> bool" where
  "wf_gomap m \<longleftrightarrow> distinct (map fst m)"

lemma wf_gomap_Nil [simp]: "wf_gomap []"
  by (simp add: wf_gomap_def)

lemma wf_gomap_Cons [simp]: "wf_gomap ((k, v) # m) \<longleftrightarrow> k \<notin> fst ` set m \<and> wf_gomap m"
  by (simp add: wf_gomap_def)

lemma wf_gomap_update [simp]: "wf_gomap m \<Longrightarrow> wf_gomap (AList.update k v m)"
  by (simp add: wf_gomap_def distinct_update)

lemma map_of_AList_update [simp]: "map_of (AList.update k v m) = (map_of m)(k \<mapsto> v)"
  by (rule update_conv')

lemma wf_gomap_map_snd: "map fst m' = map fst m \<Longrightarrow> wf_gomap m' = wf_gomap m"
  by (simp add: wf_gomap_def)

lemma update_absent: "k \<notin> fst ` set m \<Longrightarrow> AList.update k v m = m @ [(k, v)]"
  by (induction m) auto

lemma fold_update_distinct:
  "wf_gomap (acc @ m) \<Longrightarrow> fold (\<lambda>(k, v). AList.update k v) m acc = acc @ m"
proof (induction m arbitrary: acc)
  case Nil
  then show ?case by simp
next
  case (Cons p m)
  then have "AList.update (fst p) (snd p) acc = acc @ [p]"
    using update_absent [of "fst p" acc "snd p"] by (auto simp: wf_gomap_def)
  with Cons show ?case by (simp add: wf_gomap_def case_prod_beta)
qed

lemma map_of_None_fst: "map_of m k = None \<longleftrightarrow> k \<notin> fst ` set m"
  by (simp add: map_of_eq_None_iff)

lemma map_of_dom_cong: "map fst m' = map fst m \<Longrightarrow> (map_of m' k = None) = (map_of m k = None)"
  by (metis list.set_map map_of_eq_None_iff)

section \<open>Loops that stop at the first error\<close>

fun traverse :: "('a \<Rightarrow> 'e + 'b) \<Rightarrow> 'a list \<Rightarrow> 'e + 'b list" where
  "traverse f [] = Inr []"
| "traverse f (x # xs) =
     (case f x of
        Inl e \<Rightarrow> Inl e
      | Inr y \<Rightarrow> (case traverse f xs of Inl e \<Rightarrow> Inl e | Inr ys \<Rightarrow> Inr (y # ys)))"

lemma traverse_Inr_iff: "traverse f xs = Inr ys \<longleftrightarrow> list_all2 (\<lambda>x y. f x = Inr y) xs ys"
proof (induction xs arbitrary: ys)
  case Nil
  then show ?case by auto
next
  case (Cons x xs)
  show ?case
    by (cases ys; cases "f x"; cases "traverse f xs") (simp_all add: Cons.IH [symmetric])
qed

lemma traverse_Inl_iff:
  "traverse f xs = Inl e \<longleftrightarrow>
     (\<exists>as x bs. xs = as @ x # bs \<and> f x = Inl e \<and> (\<forall>a \<in> set as. \<exists>y. f a = Inr y))"
proof (induction xs)
  case Nil
  then show ?case by simp
next
  case (Cons x xs)
  show ?case
  proof (cases "f x")
    case (Inl e')
    then show ?thesis
      by (auto simp: Cons_eq_append_conv intro: exI [of _ "[]"])
  next
    case (Inr y)
    then show ?thesis using Cons.IH
      by (auto simp: Cons_eq_append_conv split: sum.splits) (metis Inr list.set_intros(1) set_ConsD)+
  qed
qed

lemma traverse_length: "traverse f xs = Inr ys \<Longrightarrow> length ys = length xs"
  by (auto simp: traverse_Inr_iff list_all2_lengthD)

lemma traverse_compose:
  "(\<And>x. x \<in> set xs \<Longrightarrow> \<exists>y. f x = Inr y \<and> g y = h x) \<Longrightarrow> \<exists>ys. traverse f xs = Inr ys \<and> traverse g ys = traverse h xs"
proof (induction xs)
  case (Cons x xs)
  from Cons.prems [of x] obtain y where "f x = Inr y" "g y = h x" by auto
  moreover from Cons obtain ys where "traverse f xs = Inr ys" "traverse g ys = traverse h xs" by auto
  ultimately show ?case by (intro exI [of _ "y # ys"]) (auto split: sum.split)
qed simp

lemma traverse_cong [fundef_cong]:
  "xs = ys \<Longrightarrow> (\<And>x. x \<in> set ys \<Longrightarrow> f x = g x) \<Longrightarrow> traverse f xs = traverse g ys"
  by (induction ys arbitrary: xs) (auto cong: sum.case_cong)

section \<open>Strings\<close>

definition has_prefix :: "string \<Rightarrow> string \<Rightarrow> bool" where [go_defs]:
  "has_prefix s p \<longleftrightarrow> take (length p) s = p"

definition trim_prefix :: "string \<Rightarrow> string \<Rightarrow> string" where [go_defs]:
  "trim_prefix s p = (if has_prefix s p then drop (length p) s else s)"

lemma has_prefix_iff: "has_prefix s p \<longleftrightarrow> (\<exists>t. s = p @ t)"
  unfolding has_prefix_def by (metis append_eq_conv_conj append_take_drop_id)

lemma trim_prefix_append [simp]: "trim_prefix (p @ t) p = t"
  by (simp add: trim_prefix_def has_prefix_def)

fun join :: "string \<Rightarrow> string list \<Rightarrow> string" where
  "join sep [] = []"
| "join sep [s] = s"
| "join sep (s # t # ss) = s @ sep @ join sep (t # ss)"

lemma join_empty_sep [simp]: "join [] ss = concat ss"
  by (induction "[] :: string" ss rule: join.induct) auto

text \<open>\<open>strings.SplitN(s, sep, 2)\<close> for a one-byte separator.\<close>

fun split_n2 :: "char \<Rightarrow> string \<Rightarrow> string list" where
  "split_n2 c [] = [[]]"
| "split_n2 c (x # xs) =
     (if x = c then [[], xs]
      else (case split_n2 c xs of [] \<Rightarrow> [[x]] | p # ps \<Rightarrow> (x # p) # ps))"

lemma split_n2_nonempty [simp]: "split_n2 c s \<noteq> []"
  by (induction s) (auto split: list.splits)

lemma split_n2_absent: "c \<notin> set s \<Longrightarrow> split_n2 c s = [s]"
  by (induction s) auto

lemma split_n2_append: "c \<notin> set s \<Longrightarrow> split_n2 c (s @ c # t) = [s, t]"
  by (induction s) auto

lemma split_n2_join: "split_n2 c s = [a, b] \<Longrightarrow> s = a @ c # b \<and> c \<notin> set a"
  by (induction s arbitrary: a b) (auto split: if_splits list.splits)

text \<open>\<open>strings.Split(s, sep)\<close> for a one-byte separator.\<close>

fun split_all :: "char \<Rightarrow> string \<Rightarrow> string list" where
  "split_all c [] = [[]]"
| "split_all c (x # xs) =
     (if x = c then [] # split_all c xs
      else (case split_all c xs of [] \<Rightarrow> [[x]] | p # ps \<Rightarrow> (x # p) # ps))"

lemma split_all_nonempty [simp]: "split_all c s \<noteq> []"
  by (induction s) (auto split: list.splits)

lemma split_all_absent: "c \<notin> set s \<Longrightarrow> split_all c s = [s]"
  by (induction s) auto

lemma split_all_append: "c \<notin> set s \<Longrightarrow> split_all c (s @ c # t) = s # split_all c t"
  by (induction s) (auto split: list.splits)

text \<open>\<open>strconv.Itoa\<close> on non-negative numbers.\<close>

definition digit_char :: "nat \<Rightarrow> char" where [go_defs]:
  "digit_char d = char_of (48 + d)"

fun itoa :: "nat \<Rightarrow> string" where
  "itoa n = (if n < 10 then [digit_char n] else itoa (n div 10) @ [digit_char (n mod 10)])"

declare itoa.simps [simp del]

fun atoi_acc :: "nat \<Rightarrow> string \<Rightarrow> nat" where
  "atoi_acc acc [] = acc"
| "atoi_acc acc (c # cs) = atoi_acc (10 * acc + (of_char c - 48)) cs"

lemma atoi_acc_append: "atoi_acc acc (xs @ ys) = atoi_acc (atoi_acc acc xs) ys"
  by (induction xs arbitrary: acc) auto

lemma atoi_itoa: "atoi_acc 0 (itoa n) = n"
proof (induction n rule: itoa.induct)
  case (1 n)
  have d: "of_char (digit_char k) - 48 = k" if "k < 10" for k
    using that by (simp add: digit_char_def of_char_of take_bit_eq_mod)
  show ?case
  proof (cases "n < 10")
    case True
    then show ?thesis by (simp add: itoa.simps [of n] d)
  next
    case False
    with 1 have "atoi_acc 0 (itoa (n div 10)) = n div 10" by simp
    with False show ?thesis by (simp add: itoa.simps [of n] atoi_acc_append d)
  qed
qed

lemma itoa_inj: "itoa m = itoa n \<Longrightarrow> m = n"
  by (metis atoi_itoa)

lemma itoa_eq_iff: "itoa m = itoa n \<longleftrightarrow> m = n"
  by (blast dest: itoa_inj)

section \<open>\<open>sort.Sort\<close>\<close>

text \<open>
  Go sorts short slices by insertion: each element moves left while it is \<open>Less\<close> than its left
  neighbour. \<open>sift\<close> is that inner loop on the already sorted prefix, held in reverse.
\<close>

fun sift :: "('a \<Rightarrow> 'a \<Rightarrow> bool) \<Rightarrow> 'a \<Rightarrow> 'a list \<Rightarrow> 'a list" where
  "sift lt x [] = [x]"
| "sift lt x (y # ys) = (if lt x y then y # sift lt x ys else x # y # ys)"

definition sort_slice :: "('a \<Rightarrow> 'a \<Rightarrow> bool) \<Rightarrow> 'a list \<Rightarrow> 'a list" where [go_defs]:
  "sort_slice lt xs = rev (fold (sift lt) xs [])"

lemma mset_sift [simp]: "mset (sift lt x ys) = add_mset x (mset ys)"
  by (induction ys) auto

lemma set_sift [simp]: "set (sift lt x ys) = insert x (set ys)"
  by (metis mset_sift set_mset_add_mset_insert set_mset_mset)

lemma mset_fold_sift: "mset (fold (sift lt) xs acc) = mset xs + mset acc"
  by (induction xs arbitrary: acc) auto

lemma mset_sort_slice [simp]: "mset (sort_slice lt xs) = mset xs"
  by (simp add: sort_slice_def mset_fold_sift)

lemma set_sort_slice [simp]: "set (sort_slice lt xs) = set xs"
  by (metis mset_sort_slice set_mset_mset)

lemma distinct_sort_slice [simp]: "distinct (sort_slice lt xs) = distinct xs"
  by (metis mset_eq_imp_distinct_iff mset_sort_slice)

lemma length_sort_slice [simp]: "length (sort_slice lt xs) = length xs"
  by (metis mset_sort_slice size_mset)

lemma sort_slice_Nil [simp]: "sort_slice lt [] = []"
  by (simp add: sort_slice_def)

lemma sort_slice_eq_Nil [simp]: "sort_slice lt xs = [] \<longleftrightarrow> xs = []"
  by (metis length_0_conv length_sort_slice)

text \<open>
  The contract \<open>sort.Sort\<close> asks of a \<open>Less\<close> method. With it the result is ordered; when in
  addition distinct elements are never tied, the result depends on the elements only and not on
  the order in which they arrive.
\<close>

locale less_order =
  fixes lt :: "'a \<Rightarrow> 'a \<Rightarrow> bool"
  assumes less_asym: "lt a b \<Longrightarrow> \<not> lt b a"
    and less_negtrans: "lt a c \<Longrightarrow> lt a b \<or> lt b c"
begin

lemma less_irrefl: "\<not> lt a a"
  using less_asym by blast

lemma sift_sorted: "sorted_wrt (\<lambda>a b. \<not> lt a b) ys \<Longrightarrow> sorted_wrt (\<lambda>a b. \<not> lt a b) (sift lt x ys)"
proof (induction ys)
  case Nil
  then show ?case by simp
next
  case (Cons y ys)
  then have IH: "sorted_wrt (\<lambda>a b. \<not> lt a b) (sift lt x ys)"
    and y: "\<forall>z \<in> set ys. \<not> lt y z" by auto
  show ?case
  proof (cases "lt x y")
    case True
    with IH y less_asym [OF True] show ?thesis by auto
  next
    case False
    with y less_negtrans [of x _ y] have "\<forall>z \<in> set ys. \<not> lt x z" by blast
    with False Cons.prems show ?thesis by simp
  qed
qed

lemma fold_sift_sorted:
  "sorted_wrt (\<lambda>a b. \<not> lt a b) acc \<Longrightarrow> sorted_wrt (\<lambda>a b. \<not> lt a b) (fold (sift lt) xs acc)"
  by (induction xs arbitrary: acc) (auto intro: sift_sorted)

lemma sort_slice_sorted: "sorted_wrt (\<lambda>a b. \<not> lt b a) (sort_slice lt xs)"
  using fold_sift_sorted [of "[]" xs] by (simp add: sort_slice_def sorted_wrt_rev)

end

locale strict_less_order = less_order +
  assumes less_total: "a \<noteq> b \<Longrightarrow> lt a b \<or> lt b a"
begin

lemma sorted_unique:
  "sorted_wrt (\<lambda>a b. \<not> lt b a) xs \<Longrightarrow> sorted_wrt (\<lambda>a b. \<not> lt b a) ys \<Longrightarrow> mset xs = mset ys \<Longrightarrow> xs = ys"
proof (induction xs arbitrary: ys)
  case Nil
  then show ?case by simp
next
  case (Cons x xs)
  then obtain y zs where ys: "ys = y # zs" by (cases ys) auto
  have "x = y"
  proof (rule ccontr)
    assume "x \<noteq> y"
    with Cons.prems ys have "y \<in> set xs" "x \<in> set zs"
      by (metis insert_iff list.simps(15) set_mset_mset set_ConsD)+
    with Cons.prems ys have "\<not> lt y x" "\<not> lt x y" by auto
    with \<open>x \<noteq> y\<close> less_total show False by blast
  qed
  with Cons ys show ?case by auto
qed

lemma sort_slice_unique: "mset xs = mset ys \<Longrightarrow> sort_slice lt xs = sort_slice lt ys"
  by (rule sorted_unique) (simp_all add: sort_slice_sorted)

lemma sort_slice_ordered: "distinct xs \<Longrightarrow> sorted_wrt lt (sort_slice lt xs)"
proof -
  assume d: "distinct xs"
  then have "distinct (sort_slice lt xs)" by simp
  with sort_slice_sorted [of xs] show ?thesis
    by (induction "sort_slice lt xs" rule: list.induct)
      (use less_total in \<open>force simp: sorted_wrt_iff_nth_less nth_eq_iff_index_eq\<close>)+
qed

end

end
