(* ===== verification/Go_Values.thy ===== *)
theory Go_Values
  imports Relay_Prelude "HOL-Library.Word"
begin

text \<open>
  The dynamic values and the errors that the expression packages exchange.

  \<open>gval\<close> is the Go \<open>interface{}\<close> restricted to the dynamic types the expression code
  distinguishes (\<open>pkg/expr/evaluate/evaluate.go\<close>, the type switch of \<open>evaluate\<close>); every
  other Go type is \<open>GOther\<close> with its name. A \<open>time.Time\<close> is its RFC 3339 rendering. A \<open>float64\<close> is its IEEE bit pattern, so that
  \<open>==\<close> can be stated for NaN and for signed zeroes. \<open>err\<close> has one constructor per error type
  or sentinel of \<open>pkg/expr\<close> and \<open>pkg/model\<close>; errors of other packages are \<open>OtherError\<close> with
  their message. \<open>error_string\<close> is the \<open>Error()\<close> method of each.
\<close>

section \<open>Values\<close>

datatype gval =
    GNil
  | GBool bool
  | GFloat64 "64 word"
  | GInt int
  | GInt64 int
  | GUint nat
  | GUint64 nat
  | GTime string
  | GStr string
  | GBytes string
  | GJSONOrStr string string
  | GList "gval list"
  | GMap "(string \<times> gval) list"
  | GOther string

datatype gotype =
    TNil | TBool | TFloat64 | TInt | TInt64 | TUint | TUint64 | TTime | TString | TBytes
  | TJSONOrStr | TSlice | TMap | TNamed string

primrec type_of :: "gval \<Rightarrow> gotype" where
  "type_of GNil = TNil"
| "type_of (GBool _) = TBool"
| "type_of (GFloat64 _) = TFloat64"
| "type_of (GInt _) = TInt"
| "type_of (GInt64 _) = TInt64"
| "type_of (GUint _) = TUint"
| "type_of (GUint64 _) = TUint64"
| "type_of (GTime _) = TTime"
| "type_of (GStr _) = TString"
| "type_of (GBytes _) = TBytes"
| "type_of (GJSONOrStr _ _) = TJSONOrStr"
| "type_of (GList _) = TSlice"
| "type_of (GMap _) = TMap"
| "type_of (GOther t) = TNamed t"

primrec type_name :: "gotype \<Rightarrow> string" where
  "type_name TNil = ''%!s(<nil>)''"
| "type_name TBool = ''bool''"
| "type_name TFloat64 = ''float64''"
| "type_name TInt = ''int''"
| "type_name TInt64 = ''int64''"
| "type_name TUint = ''uint''"
| "type_name TUint64 = ''uint64''"
| "type_name TTime = ''time.Time''"
| "type_name TString = ''string''"
| "type_name TBytes = ''[]uint8''"
| "type_name TJSONOrStr = ''transfer.JSONOrStr''"
| "type_name TSlice = ''[]interface {}''"
| "type_name TMap = ''map[string]interface {}''"
| "type_name (TNamed n) = n"

text \<open>\<open>fmt.Sprintf("%T", v)\<close> differs from \<open>%s\<close> of \<open>reflect.TypeOf\<close> on nil only.\<close>

definition fmt_T :: "gval \<Rightarrow> string" where
  "fmt_T v = (if v = GNil then ''<nil>'' else type_name (type_of v))"

text \<open>The children of a map are smaller than the map: the termination argument of every
  recursion over values.\<close>

lemma size_in_map: "(k, v) \<in> set m \<Longrightarrow> size v < size (GMap m)"
  by (induction m) auto

lemma size_in_map_option: "map_of m k = Some v \<Longrightarrow> size v < size (GMap m)"
  by (rule size_in_map) (rule map_of_SomeD)

lemma size_in_list: "v \<in> set vs \<Longrightarrow> size v < size (GList vs)"
  by (induction vs) auto

lemma gval_induct [case_names atom list map]:
  assumes "\<And>v. (\<forall>vs. v \<noteq> GList vs) \<Longrightarrow> (\<forall>m. v \<noteq> GMap m) \<Longrightarrow> P v"
    and "\<And>vs. (\<And>v. v \<in> set vs \<Longrightarrow> P v) \<Longrightarrow> P (GList vs)"
    and "\<And>m. (\<And>k v. (k, v) \<in> set m \<Longrightarrow> P v) \<Longrightarrow> P (GMap m)"
  shows "P v"
  by (induction v) (use assms in \<open>force simp: snds.simps\<close>)+

lemmas gval_sizes = size_in_map size_in_map_option size_in_list

text \<open>\<open>v, ok := m[k].(string)\<close>\<close>

definition get_string :: "gval gomap \<Rightarrow> string \<Rightarrow> string option" where [go_defs]:
  "get_string m k = (case map_of m k of Some (GStr s) \<Rightarrow> Some s | _ \<Rightarrow> None)"

lemma get_string_Some: "get_string m k = Some s \<longleftrightarrow> map_of m k = Some (GStr s)"
  by (auto simp: get_string_def split: option.splits gval.splits)

text \<open>Every map inside a value has distinct keys.\<close>

function wf_gval :: "gval \<Rightarrow> bool" where
  "wf_gval v = (case v of
      GList vs \<Rightarrow> list_all wf_gval vs
    | GMap m \<Rightarrow> wf_gomap m \<and> list_all (\<lambda>(k, w). wf_gval w) m
    | _ \<Rightarrow> True)"
  by pat_completeness auto
termination
  by (relation "measure size") (auto simp del: gval.size dest: gval_sizes)

declare wf_gval.simps [simp del]

lemma wf_gval_GMap: "wf_gval (GMap m) \<longleftrightarrow> wf_gomap m \<and> (\<forall>(k, w) \<in> set m. wf_gval w)"
  by (auto simp: wf_gval.simps [of "GMap m"] list_all_iff)

lemma wf_gval_GList: "wf_gval (GList vs) \<longleftrightarrow> (\<forall>v \<in> set vs. wf_gval v)"
  by (simp add: wf_gval.simps [of "GList vs"] list_all_iff)

lemma wf_gval_member: "wf_gval (GMap m) \<Longrightarrow> map_of m k = Some v \<Longrightarrow> wf_gval v"
  by (auto simp: wf_gval_GMap dest: map_of_SomeD)

text \<open>The value at a path of keys, and whether a value says something about the path: a map that
  misses a key on the way does not, an atom on the way hides whatever is below it.\<close>

fun lookup_path :: "gval \<Rightarrow> string list \<Rightarrow> gval option" where
  "lookup_path v [] = Some v"
| "lookup_path v (k # ks) =
     (case v of GMap m \<Rightarrow> (case map_of m k of None \<Rightarrow> None | Some w \<Rightarrow> lookup_path w ks) | _ \<Rightarrow> None)"

fun covers :: "gval \<Rightarrow> string list \<Rightarrow> bool" where
  "covers v [] = True"
| "covers v (k # ks) =
     (case v of GMap m \<Rightarrow> (case map_of m k of None \<Rightarrow> False | Some w \<Rightarrow> covers w ks) | _ \<Rightarrow> True)"

definition is_map :: "gval \<Rightarrow> bool" where
  "is_map v \<longleftrightarrow> (\<exists>m. v = GMap m)"

lemma is_map_simps [simp]: "is_map (GMap m)" "\<not> is_map (GStr s)" "\<not> is_map (GList vs)" "\<not> is_map GNil"
  "\<not> is_map (GBool b)"
  by (auto simp: is_map_def)

section \<open>\<open>reflect.DeepEqual\<close>\<close>

definition float_is_nan :: "64 word \<Rightarrow> bool" where [go_defs]:
  "float_is_nan x \<longleftrightarrow> take_bit 63 x > push_bit 52 0x7FF"

definition float_eq :: "64 word \<Rightarrow> 64 word \<Rightarrow> bool" where [go_defs]:
  "float_eq x y \<longleftrightarrow>
     \<not> float_is_nan x \<and> \<not> float_is_nan y \<and> (x = y \<or> take_bit 63 x = 0 \<and> take_bit 63 y = 0)"

fun deep_equal :: "gval \<Rightarrow> gval \<Rightarrow> bool"
  and deep_equal_list :: "gval list \<Rightarrow> gval list \<Rightarrow> bool"
  and deep_equal_map :: "(string \<times> gval) list \<Rightarrow> gval gomap \<Rightarrow> bool" where
  "deep_equal (GFloat64 x) (GFloat64 y) = float_eq x y"
| "deep_equal (GList xs) (GList ys) = deep_equal_list xs ys"
| "deep_equal (GMap m) (GMap n) = (length m = length n \<and> deep_equal_map m n)"
| "deep_equal a b = (a = b)"
| "deep_equal_list [] [] = True"
| "deep_equal_list (x # xs) (y # ys) = (deep_equal x y \<and> deep_equal_list xs ys)"
| "deep_equal_list _ _ = False"
| "deep_equal_map [] n = True"
| "deep_equal_map ((k, v) # m) n =
     ((case map_of n k of None \<Rightarrow> False | Some w \<Rightarrow> deep_equal v w) \<and> deep_equal_map m n)"

section \<open>Errors\<close>

datatype err =
    ErrFunctionNotFound
  | ErrArgNotFound
  | ErrPositionalArgsNotAccepted
  | ErrKeywordArgsNotAccepted
  | ArityError "nat list" bool nat
  | UnexpectedTypeError "gotype list" gotype
  | PositionalArgError nat err
  | KeywordArgError string err
  | DataQueryError string
  | DataNotFoundError string
  | SecretNotFoundError string
  | ConnectionNotFoundError string string
  | OutputNotFoundError string string
  | ParameterNotFoundError string
  | AnswerNotFoundError string string
  | FunctionResolutionError string err
  | ErrUnsupportedLanguage
  | UnsupportedValueError gotype
  | InvalidTypeError string err
  | FieldNotFoundError string
  | InvalidEncodingError string err
  | PathEvaluationError string err
  | UnresolvableError "err list"
  | ErrUnknownEncodingType
  | ErrNotEncodable
  | CorruptInputError
  | ErrConvertTypeNotSupported
  | ErrNotFound
  | ErrRejected
  | StatusError string string
  | OtherError string

type_synonym 'a res = "err + 'a"

text \<open>Sentinels are package variables: every use is the same pointer. All other errors are
  allocated where they arise, so two of them are never the same pointer.\<close>

fun is_sentinel :: "err \<Rightarrow> bool" where
  "is_sentinel ErrFunctionNotFound = True"
| "is_sentinel ErrArgNotFound = True"
| "is_sentinel ErrPositionalArgsNotAccepted = True"
| "is_sentinel ErrKeywordArgsNotAccepted = True"
| "is_sentinel ErrUnsupportedLanguage = True"
| "is_sentinel ErrUnknownEncodingType = True"
| "is_sentinel ErrNotEncodable = True"
| "is_sentinel ErrConvertTypeNotSupported = True"
| "is_sentinel ErrNotFound = True"
| "is_sentinel ErrRejected = True"
| "is_sentinel _ = False"

text \<open>\<open>(*PathEvaluationError).trace\<close>: the path from the outside in, and the first cause that is
  not itself a path error.\<close>

fun trace :: "string \<Rightarrow> err \<Rightarrow> string list \<times> err" where
  "trace p (PathEvaluationError q c) = (case trace q c of (ps, u) \<Rightarrow> (p # ps, u))"
| "trace p e = ([p], e)"

definition UnderlyingCause :: "string \<Rightarrow> err \<Rightarrow> err" where
  "UnderlyingCause p c = snd (trace p c)"

lemma size_trace: "size (snd (trace p c)) \<le> size c"
  by (induction p c rule: trace.induct) (auto split: prod.splits)

fun is_path_error :: "err \<Rightarrow> bool" where
  "is_path_error (PathEvaluationError _ _) = True"
| "is_path_error _ = False"

lemma trace_underlying: "\<not> is_path_error (snd (trace p c))"
  by (induction p c rule: trace.induct) (auto split: prod.splits)

lemma trace_rebuild:
  "foldr PathEvaluationError (fst (trace p c)) (snd (trace p c)) = PathEvaluationError p c"
  by (induction p c rule: trace.induct) (auto split: prod.splits)

section \<open>\<open>fmt\<close> formatting of errors\<close>

text \<open>
  \<open>strconv.Quote\<close>, the \<open>%q\<close> verb. Bytes above 127 are passed through, as they are for valid
  UTF-8 of printable runes.
\<close>

definition hex_digit :: "nat \<Rightarrow> char" where [go_defs]:
  "hex_digit d = (if d < 10 then char_of (48 + d) else char_of (87 + d))"

definition quote_byte :: "char \<Rightarrow> string" where [go_defs]:
  "quote_byte c = (let n = (of_char c :: nat) in
     if n = 34 \<or> n = 92 then [CHR 0x5C, c]
     else if n = 7 then [CHR 0x5C, CHR ''a'']
     else if n = 8 then [CHR 0x5C, CHR ''b'']
     else if n = 12 then [CHR 0x5C, CHR ''f'']
     else if n = 10 then [CHR 0x5C, CHR ''n'']
     else if n = 13 then [CHR 0x5C, CHR ''r'']
     else if n = 9 then [CHR 0x5C, CHR ''t'']
     else if n = 11 then [CHR 0x5C, CHR ''v'']
     else if n < 32 \<or> n = 127 then [CHR 0x5C, CHR ''x'', hex_digit (n div 16), hex_digit (n mod 16)]
     else [c])"

definition quote :: "string \<Rightarrow> string" where [go_defs]:
  "quote s = [CHR 0x22] @ concat (map quote_byte s) @ [CHR 0x22]"

definition newline :: string where [go_defs]: "newline = [CHR 0x0A]"

function error_string :: "err \<Rightarrow> string" where
  "error_string ErrFunctionNotFound = ''fn: function not found''"
| "error_string ErrArgNotFound = ''fn: arg not found''"
| "error_string ErrPositionalArgsNotAccepted = ''fn: positional arguments cannot be used''"
| "error_string ErrKeywordArgsNotAccepted = ''fn: keyword arguments cannot be used''"
| "error_string (ArityError wanted variadic got) =
     ''fn: unexpected number of arguments: '' @ itoa got @ '' (wanted '' @
     join '', '' (map itoa wanted) @ (if variadic then '' or more'' else []) @ '')''"
| "error_string (UnexpectedTypeError wanted got) =
     ''fn: unexpected type '' @ type_name got @ '' (wanted '' @ join '', '' (map type_name wanted) @ '')''"
| "error_string (PositionalArgError n c) = ''fn: arg '' @ itoa n @ '': '' @ error_string c"
| "error_string (KeywordArgError a c) = ''fn: arg '' @ quote a @ '': '' @ error_string c"
| "error_string (DataQueryError q) = ''resolve: data query '' @ quote q @ '' could not be processed''"
| "error_string (DataNotFoundError q) = ''resolve: data for query '' @ quote q @ '' could not be found''"
| "error_string (SecretNotFoundError n) = ''resolve: secret '' @ quote n @ '' could not be found''"
| "error_string (ConnectionNotFoundError t n) =
     ''resolve: connection type '' @ quote t @ '' with name '' @ quote n @ '' could not be found''"
| "error_string (OutputNotFoundError f n) =
     ''resolve: output '' @ quote n @ '' of step '' @ quote f @ '' could not be found''"
| "error_string (ParameterNotFoundError n) = ''resolve: parameter '' @ quote n @ '' could not be found''"
| "error_string (AnswerNotFoundError a n) =
     ''resolve: answer '' @ quote n @ '' of ask '' @ quote a @ '' could not be found''"
| "error_string (FunctionResolutionError n c) =
     ''resolve: function '' @ quote n @ '' could not be invoked: '' @ error_string c"
| "error_string ErrUnsupportedLanguage = ''evaluate: unsupported language''"
| "error_string (UnsupportedValueError t) =
     ''could not evaluate a value of type '' @ type_name t @ '', must be a JSON-compatible type''"
| "error_string (InvalidTypeError t c) = ''could not evaluate a '' @ t @ '' type: '' @ error_string c"
| "error_string (FieldNotFoundError n) = ''the required field '' @ quote n @ '' could not be found''"
| "error_string (InvalidEncodingError t c) = ''could not evaluate encoding '' @ quote t @ '': '' @ error_string c"
| "error_string (PathEvaluationError p c) =
     ''path '' @ quote (join ''.'' (fst (trace p c))) @ '': '' @ error_string (snd (trace p c))"
| "error_string (UnresolvableError cs) =
     ''unresolvable:'' @ newline @ join newline (map (\<lambda>c. ''* '' @ error_string c) cs)"
| "error_string ErrUnknownEncodingType = ''transfer: unknown encoding type''"
| "error_string ErrNotEncodable =
     ''transfer: the given value cannot be encoded for this transfer mechanism''"
| "error_string CorruptInputError = ''illegal base64 data''"
| "error_string ErrConvertTypeNotSupported = ''convert: type not supported''"
| "error_string ErrNotFound = ''model: not found''"
| "error_string ErrRejected = ''model: rejected''"
| "error_string (StatusError reason message) = message"
| "error_string (OtherError s) = s"
  by pat_completeness auto
termination
proof (relation "measure size")
  fix p c
  show "(snd (trace p c), PathEvaluationError p c) \<in> measure size"
    using size_trace [of p c] by simp
next
  fix cs and c :: err
  assume "c \<in> set cs"
  then show "(c, UnresolvableError cs) \<in> measure size"
    by (induction cs) auto
qed auto

end
