(* ===== verification/Fn.thy ===== *)
theory Fn
  imports Go_Values
begin

text \<open>
  The function library: \<open>pkg/expr/fn\<close> (descriptors, invokers and the function map),
  \<open>pkg/expr/fnlib\<close> (the seven functions of the core library) and \<open>pkg/expr/convert\<close>.

  An \<open>Invoker\<close> is a closure that is run at most once and reads nothing but its arguments, so it
  is represented by the result of running it. The third-party code the library calls is a field
  of \<open>golib\<close>: the Markdown renderers of \<open>github.com/gomarkdown/markdown\<close> and the decoding of a
  JSON text, whose decimal literals \<open>encoding/json\<close> rounds to \<open>float64\<close>.

  Here \<open>merge\<close> computes on values. In the code a deep merge also writes into nested maps that its
  result shares with its arguments; these writes are not modelled.
\<close>

section \<open>Descriptors (\<open>fn.go\<close>, \<open>invoke.go\<close>)\<close>

type_synonym invoker = "gval res"

record descriptor =
  DescriptionFunc :: "string option"
  PositionalInvokerFunc :: "(gval list \<Rightarrow> invoker res) option"
  KeywordInvokerFunc :: "(gval gomap \<Rightarrow> invoker res) option"

definition Description :: "descriptor \<Rightarrow> string" where
  "Description df = (case DescriptionFunc df of None \<Rightarrow> ''<anonymous>'' | Some d \<Rightarrow> d)"

definition PositionalInvoker :: "descriptor \<Rightarrow> gval list \<Rightarrow> invoker res" where
  "PositionalInvoker df args =
     (case PositionalInvokerFunc df of None \<Rightarrow> Inl ErrPositionalArgsNotAccepted | Some f \<Rightarrow> f args)"

definition KeywordInvoker :: "descriptor \<Rightarrow> gval gomap \<Rightarrow> invoker res" where
  "KeywordInvoker df args =
     (case KeywordInvokerFunc df of None \<Rightarrow> Inl ErrKeywordArgsNotAccepted | Some f \<Rightarrow> f args)"

type_synonym fn_map = "descriptor gomap"

definition Descriptor :: "fn_map \<Rightarrow> string \<Rightarrow> descriptor res" where
  "Descriptor fm name = (case map_of fm name of None \<Rightarrow> Inl ErrFunctionNotFound | Some fd \<Rightarrow> Inr fd)"

definition StaticInvoker :: "gval \<Rightarrow> invoker" where
  "StaticInvoker v = Inr v"

section \<open>Third-party code\<close>

record golib =
  render_html :: "string \<Rightarrow> string"
  render_jira :: "string \<Rightarrow> string"
  json_text :: "string \<Rightarrow> gval res"

section \<open>\<open>append\<close> and \<open>concat\<close>\<close>

definition append_positional :: "gval list \<Rightarrow> invoker res" where
  "append_positional args =
     (if length args < 2 then Inl (ArityError [2] True (length args))
      else Inr (case args ! 0 of
          GList base \<Rightarrow> Inr (GList (base @ tl args))
        | a \<Rightarrow> Inl (PositionalArgError 1 (UnexpectedTypeError [TSlice] (type_of a)))))"

definition appendDescriptor :: descriptor where
  "appendDescriptor = \<lparr>DescriptionFunc = Some ''Adds new items to a given array, returning a new array'',
     PositionalInvokerFunc = Some append_positional, KeywordInvokerFunc = None\<rparr>"

fun concat_strs :: "nat \<Rightarrow> gval list \<Rightarrow> string list res" where
  "concat_strs i [] = Inr []"
| "concat_strs i (GStr s # args) =
     (case concat_strs (i + 1) args of Inl e \<Rightarrow> Inl e | Inr strs \<Rightarrow> Inr (s # strs))"
| "concat_strs i (a # args) = Inl (PositionalArgError (i + 1) (UnexpectedTypeError [TString] (type_of a)))"

definition concat_positional :: "gval list \<Rightarrow> invoker res" where
  "concat_positional args =
     (if args = [] then Inr (StaticInvoker (GStr []))
      else Inr (case concat_strs 0 args of Inl e \<Rightarrow> Inl e | Inr strs \<Rightarrow> Inr (GStr (join [] strs))))"

definition concatDescriptor :: descriptor where
  "concatDescriptor = \<lparr>DescriptionFunc = Some ''Concatenates string arguments into a single string'',
     PositionalInvokerFunc = Some concat_positional, KeywordInvokerFunc = None\<rparr>"

section \<open>\<open>convertMarkdown\<close>\<close>

definition ConvertMarkdown :: "golib \<Rightarrow> string \<Rightarrow> string \<Rightarrow> string res" where
  "ConvertMarkdown lib ct md =
     (if ct = ''html'' then Inr (render_html lib md)
      else if ct = ''jira'' then Inr (render_jira lib md)
      else Inl ErrConvertTypeNotSupported)"

definition convert_positional :: "golib \<Rightarrow> gval list \<Rightarrow> invoker res" where
  "convert_positional lib args =
     (if length args \<noteq> 2 then Inl (ArityError [2] False (length args))
      else Inr (case args ! 0 of
          GStr t \<Rightarrow>
            (case args ! 1 of
               GStr md \<Rightarrow> (case ConvertMarkdown lib t md of Inl e \<Rightarrow> Inl e | Inr r \<Rightarrow> Inr (GStr r))
             | a \<Rightarrow> Inl (PositionalArgError 1 (UnexpectedTypeError [TString] (type_of a))))
        | a \<Rightarrow> Inl (PositionalArgError 0 (UnexpectedTypeError [TString] (type_of a)))))"

definition convert_keyword :: "golib \<Rightarrow> gval gomap \<Rightarrow> invoker res" where
  "convert_keyword lib args =
     (case map_of args ''to'' of
        None \<Rightarrow> Inl (KeywordArgError ''to'' ErrArgNotFound)
      | Some t \<Rightarrow>
          (case map_of args ''content'' of
             None \<Rightarrow> Inl (KeywordArgError ''content'' ErrArgNotFound)
           | Some content \<Rightarrow>
               Inr (case t of
                   GStr ct \<Rightarrow>
                     (case content of
                        GStr md \<Rightarrow> (case ConvertMarkdown lib ct md of Inl e \<Rightarrow> Inl e | Inr r \<Rightarrow> Inr (GStr r))
                      | a \<Rightarrow> Inl (KeywordArgError ''content'' (UnexpectedTypeError [TString] (type_of a))))
                 | a \<Rightarrow> Inl (KeywordArgError ''to'' (UnexpectedTypeError [TString] (type_of a))))))"

definition convertMarkdownDescriptor :: "golib \<Rightarrow> descriptor" where
  "convertMarkdownDescriptor lib =
     \<lparr>DescriptionFunc = Some ''Converts a string in markdown format to another applicable syntax'',
      PositionalInvokerFunc = Some (convert_positional lib), KeywordInvokerFunc = Some (convert_keyword lib)\<rparr>"

section \<open>\<open>equals\<close>, \<open>notEquals\<close> and \<open>jsonUnmarshal\<close>\<close>

definition equals_positional :: "gval list \<Rightarrow> invoker res" where
  "equals_positional args =
     (if length args \<noteq> 2 then Inl (ArityError [2] True (length args))
      else Inr (Inr (GBool (deep_equal (args ! 0) (args ! 1)))))"

definition equalsDescriptor :: descriptor where
  "equalsDescriptor = \<lparr>DescriptionFunc = Some ''Checks if the left side equals the right side'',
     PositionalInvokerFunc = Some equals_positional, KeywordInvokerFunc = None\<rparr>"

definition notEquals_positional :: "gval list \<Rightarrow> invoker res" where
  "notEquals_positional args =
     (if length args \<noteq> 2 then Inl (ArityError [2] True (length args))
      else Inr (Inr (GBool (\<not> deep_equal (args ! 0) (args ! 1)))))"

definition notEqualsDescriptor :: descriptor where
  "notEqualsDescriptor = \<lparr>DescriptionFunc = Some ''Checks if the left side does not equal the right side'',
     PositionalInvokerFunc = Some notEquals_positional, KeywordInvokerFunc = None\<rparr>"

definition jsonUnmarshal_positional :: "golib \<Rightarrow> gval list \<Rightarrow> invoker res" where
  "jsonUnmarshal_positional lib args =
     (if length args \<noteq> 1 then Inl (ArityError [1] False (length args))
      else Inr (case args ! 0 of
          GStr s \<Rightarrow> json_text lib s
        | a \<Rightarrow> Inl (PositionalArgError 1 (UnexpectedTypeError [TString] (type_of a)))))"

definition jsonUnmarshalDescriptor :: "golib \<Rightarrow> descriptor" where
  "jsonUnmarshalDescriptor lib =
     \<lparr>DescriptionFunc = Some ''Unmarshals a JSON-encoded string into the specification'',
      PositionalInvokerFunc = Some (jsonUnmarshal_positional lib), KeywordInvokerFunc = None\<rparr>"

section \<open>\<open>merge\<close>\<close>

function merge :: "gval gomap \<Rightarrow> gval gomap \<Rightarrow> bool \<Rightarrow> gval gomap" where
  "merge dst [] deep = dst"
| "merge dst ((k, v) # src) deep =
     merge (AList.update k
       (if deep then
          (case map_of dst k of
             Some (GMap dm) \<Rightarrow> (case v of GMap sm \<Rightarrow> GMap (merge dm sm deep) | _ \<Rightarrow> v)
           | _ \<Rightarrow> v)
        else v) dst) src deep"
  by pat_completeness auto
termination
  by (relation "measure (\<lambda>(dst, src, deep). size (GMap src))") auto

definition mergeCast_error :: "nat \<Rightarrow> gval \<Rightarrow> err" where
  "mergeCast_error i obj = OtherError (''array index '' @ itoa i @ '': '' @
     error_string (UnexpectedTypeError [TMap] (type_of obj)))"

fun mergeCast_from :: "nat \<Rightarrow> gval list \<Rightarrow> gval gomap list res" where
  "mergeCast_from i [] = Inr []"
| "mergeCast_from i (GMap m # os) =
     (case mergeCast_from (i + 1) os of Inl e \<Rightarrow> Inl e | Inr objs \<Rightarrow> Inr (m # objs))"
| "mergeCast_from i (obj # os) = Inl (mergeCast_error i obj)"

definition mergeCast :: "gval list \<Rightarrow> gval gomap list res" where
  "mergeCast os = mergeCast_from 0 os"

definition merge_all :: "gval gomap list \<Rightarrow> bool \<Rightarrow> gval gomap" where
  "merge_all objs deep = fold (\<lambda>obj r. merge r obj deep) objs []"

definition merge_positional :: "gval list \<Rightarrow> invoker res" where
  "merge_positional args =
     (if args = [] then Inr (StaticInvoker (GMap []))
      else Inr (case mergeCast args of
          Inl e \<Rightarrow> Inl (PositionalArgError 1 e)
        | Inr objs \<Rightarrow> Inr (GMap (merge_all objs True))))"

text \<open>\<open>%q\<close> of a value that need not be a string; the operand of the bad-verb form is not shown.\<close>

definition quote_any :: "gval \<Rightarrow> string" where
  "quote_any v = (case v of GStr s \<Rightarrow> quote s | _ \<Rightarrow> ''%!q('' @ fmt_T v @ '')'')"

definition merge_keyword :: "gval gomap \<Rightarrow> invoker res" where
  "merge_keyword args =
     (case map_of args ''objects'' of
        None \<Rightarrow> Inl (KeywordArgError ''objects'' ErrArgNotFound)
      | Some oi \<Rightarrow>
          (let mode = (case map_of args ''mode'' of None \<Rightarrow> GStr ''deep'' | Some m \<Rightarrow> m);
               os = (case oi of GList os \<Rightarrow> os | _ \<Rightarrow> []);
               run = (\<lambda>deep. case mergeCast os of
                  Inl e \<Rightarrow> Inl (KeywordArgError ''objects'' e)
                | Inr objs \<Rightarrow> Inr (GMap (merge_all objs deep)))
           in Inr (if mode = GStr ''deep'' then run True
                   else if mode = GStr ''shallow'' then run False
                   else Inl (KeywordArgError ''mode'' (OtherError (''unexpected value '' @ quote_any mode @
                     '', wanted one of '' @ quote ''deep'' @ '' or '' @ quote ''shallow''))))))"

definition mergeDescriptor :: descriptor where
  "mergeDescriptor = \<lparr>DescriptionFunc = Some
      (''Merges a series of objects, with each object overwriting prior entries.'' @ newline @ newline @
       ''Merges are performed deeply by default. Use the keyword form and set mode: shallow to perform a shallow merge.''),
     PositionalInvokerFunc = Some merge_positional, KeywordInvokerFunc = Some merge_keyword\<rparr>"

section \<open>The library (\<open>fnlib.go\<close>)\<close>

definition library :: "golib \<Rightarrow> fn_map" where
  "library lib =
     [(''append'', appendDescriptor), (''concat'', concatDescriptor),
      (''convertMarkdown'', convertMarkdownDescriptor lib), (''equals'', equalsDescriptor),
      (''jsonUnmarshal'', jsonUnmarshalDescriptor lib), (''merge'', mergeDescriptor),
      (''notEquals'', notEqualsDescriptor)]"

lemmas fnlib_defs = append_positional_def concat_positional_def convert_positional_def
  convert_keyword_def equals_positional_def notEquals_positional_def jsonUnmarshal_positional_def
  merge_positional_def merge_keyword_def StaticInvoker_def

lemmas descriptor_defs = appendDescriptor_def concatDescriptor_def convertMarkdownDescriptor_def
  equalsDescriptor_def jsonUnmarshalDescriptor_def mergeDescriptor_def notEqualsDescriptor_def
  PositionalInvoker_def KeywordInvoker_def Descriptor_def library_def

section \<open>What \<open>merge\<close> computes\<close>

text \<open>The entry that \<open>merge\<close> stores for a key of the source.\<close>

definition merge_value :: "bool \<Rightarrow> gval option \<Rightarrow> gval \<Rightarrow> gval" where
  "merge_value deep d v =
     (if deep then
        (case d of
           Some (GMap dm) \<Rightarrow> (case v of GMap sm \<Rightarrow> GMap (merge dm sm deep) | _ \<Rightarrow> v)
         | _ \<Rightarrow> v)
      else v)"

lemma merge_Cons: "merge dst ((k, v) # src) deep = merge (AList.update k (merge_value deep (map_of dst k) v) dst) src deep"
  by (simp add: merge_value_def)

lemma merge_lookup:
  "wf_gomap src \<Longrightarrow> map_of (merge dst src deep) k =
     (case map_of src k of None \<Rightarrow> map_of dst k | Some v \<Rightarrow> Some (merge_value deep (map_of dst k) v))"
proof (induction src arbitrary: dst)
  case Nil
  then show ?case by simp
next
  case (Cons p src)
  obtain k' v where p: "p = (k', v)" by (cases p)
  with Cons.prems have "k' \<notin> fst ` set src" and wf: "wf_gomap src" by auto
  then have absent: "map_of src k' = None" by (simp add: map_of_None_fst)
  show ?case
    unfolding p merge_Cons using Cons.IH [OF wf] absent by (auto split: option.splits)
qed

lemma wf_gomap_merge: "wf_gomap dst \<Longrightarrow> wf_gomap (merge dst src deep)"
proof (induction src arbitrary: dst)
  case (Cons p src)
  then show ?case by (cases p) (simp add: merge_Cons del: merge.simps)
qed simp

lemma merge_order_irrelevant:
  "wf_gomap src \<Longrightarrow> mset src = mset src' \<Longrightarrow> map_of (merge dst src deep) = map_of (merge dst src' deep)"
proof -
  assume wf: "wf_gomap src" and eq: "mset src = mset src'"
  from eq have "mset (map fst src) = mset (map fst src')" by (simp add: mset_map)
  with wf have wf': "wf_gomap src'" unfolding wf_gomap_def by (metis mset_eq_imp_distinct_iff)
  from wf wf' eq have "map_of src = map_of src'"
    by (metis map_of_inject_set set_mset_mset wf_gomap_def)
  with wf wf' show ?thesis by (auto simp: merge_lookup fun_eq_iff)
qed

lemma merge_shallow: "wf_gomap src \<Longrightarrow> map_of (merge dst src False) = map_of dst ++ map_of src"
  by (auto simp: merge_lookup merge_value_def map_add_def fun_eq_iff split: option.splits)

lemma merge_all_shallow:
  assumes "\<forall>obj \<in> set objs. wf_gomap obj"
  shows "map_of (merge_all objs False) = foldl (\<lambda>r obj. r ++ map_of obj) Map.empty objs"
proof -
  have "map_of (fold (\<lambda>obj r. merge r obj False) objs acc) = foldl (\<lambda>r obj. r ++ map_of obj) (map_of acc) objs"
    for acc using assms by (induction objs arbitrary: acc) (auto simp: merge_shallow)
  from this [of "[]"] show ?thesis by (simp add: merge_all_def)
qed

lemma mergeCast_maps [simp]: "mergeCast (map GMap objs) = Inr objs"
proof -
  have "mergeCast_from i (map GMap objs) = Inr objs" for i
    by (induction objs arbitrary: i) auto
  then show ?thesis by (simp add: mergeCast_def)
qed

lemma merge_value_True_cases:
  "merge_value True d v =
     (if is_map v \<and> (\<exists>dm. d = Some (GMap dm))
      then GMap (merge (case the d of GMap dm \<Rightarrow> dm | _ \<Rightarrow> []) (case v of GMap sm \<Rightarrow> sm | _ \<Rightarrow> []) True)
      else v)"
  by (cases v) (auto simp: merge_value_def is_map_def split: option.splits gval.splits)

lemma merge_keeps_leaf_aux:
  "wf_gval (GMap src) \<Longrightarrow> lookup_path (GMap src) p = Some leaf \<Longrightarrow> \<not> is_map leaf \<Longrightarrow>
   lookup_path (GMap (merge dst src True)) p = Some leaf"
proof (induction p arbitrary: dst src)
  case Nil
  then show ?case by auto
next
  case (Cons k ks)
  from Cons.prems obtain v where v: "map_of src k = Some v" "lookup_path v ks = Some leaf"
    by (auto split: option.splits)
  have wf: "wf_gval v" and wfs: "wf_gomap src"
    using Cons.prems v by (auto simp: wf_gval_GMap dest: map_of_SomeD)
  show ?case
  proof (cases "is_map v \<and> (\<exists>dm. map_of dst k = Some (GMap dm))")
    case True
    then obtain sm dm where "v = GMap sm" "map_of dst k = Some (GMap dm)" by (auto simp: is_map_def)
    with Cons.IH [of sm dm] Cons.prems v wf wfs show ?thesis
      by (simp add: merge_lookup merge_value_def)
  next
    case False
    then have "merge_value True (map_of dst k) v = v" by (auto simp: merge_value_True_cases)
    with v wfs show ?thesis by (simp add: merge_lookup)
  qed
qed

lemma covers_lookup_None: "\<not> covers v p \<Longrightarrow> lookup_path v p = None"
  by (induction v p rule: covers.induct) (auto split: gval.splits option.splits)

lemma merge_frame_aux:
  "wf_gval (GMap src) \<Longrightarrow> \<not> covers (GMap src) p \<Longrightarrow>
   lookup_path (GMap (merge dst src True)) p = lookup_path (GMap dst) p"
proof (induction p arbitrary: dst src)
  case Nil
  then show ?case by simp
next
  case (Cons k ks)
  then have wfs: "wf_gomap src" by (simp add: wf_gval_GMap)
  show ?case
  proof (cases "map_of src k")
    case None
    with wfs show ?thesis by (simp add: merge_lookup)
  next
    case (Some v)
    with Cons.prems have nc: "\<not> covers v ks" by simp
    then obtain sm where sm: "v = GMap sm" by (cases ks; cases v) auto
    show ?thesis
    proof (cases "\<exists>dm. map_of dst k = Some (GMap dm)")
      case True
      then obtain dm where "map_of dst k = Some (GMap dm)" by auto
      with Cons.IH [of sm dm] Cons.prems Some sm nc wfs show ?thesis
        by (simp add: merge_lookup merge_value_def wf_gval_member)
    next
      case False
      then have "lookup_path (GMap dst) (k # ks) = None"
        using nc by (cases ks) (auto split: option.splits gval.splits)
      with False Some sm nc wfs show ?thesis
        by (simp add: merge_lookup merge_value_True_cases covers_lookup_None)
    qed
  qed
qed

end
