(* ===== verification/Resolve.thy ===== *)
theory Resolve
  imports Fn
begin

text \<open>
  The resolvers of \<open>pkg/expr/resolve\<close>: the chains (\<open>chain.go\<close>), the in-memory resolvers
  (\<open>memory.go\<close>) and the no-op resolvers (\<open>noop.go\<close>). A resolver is a function from the name of
  what an expression refers to, to its value or an error. The contract every client relies on is
  the locale \<open>resolver_kind\<close>: which errors mean "not found" for a kind of reference; \<open>honest\<close>
  says that a resolver reports as not found only what it was asked for.
\<close>

section \<open>Chains\<close>

text \<open>The loop shared by the six chain resolvers, with the type assertion on the error as
  \<open>is_nf\<close> and the error returned after the loop as \<open>nf\<close>.\<close>

fun chain_loop :: "(err \<Rightarrow> bool) \<Rightarrow> err \<Rightarrow> ('k \<Rightarrow> 'a res) list \<Rightarrow> 'k \<Rightarrow> 'a res" where
  "chain_loop is_nf nf [] k = Inl nf"
| "chain_loop is_nf nf (r # rs) k =
     (case r k of
        Inl e \<Rightarrow> if is_nf e then chain_loop is_nf nf rs k else Inl e
      | Inr v \<Rightarrow> Inr v)"

text \<open>The type assertions on errors, \<open>serr, ok := err.(*DataNotFoundError)\<close> and its kin.\<close>

fun as_DataNotFound :: "err \<Rightarrow> (string) option" where
  "as_DataNotFound (DataNotFoundError n) = Some n" | "as_DataNotFound _ = None"

definition is_DataNotFound :: "err \<Rightarrow> bool" where
  "is_DataNotFound e \<longleftrightarrow> as_DataNotFound e \<noteq> None"

fun as_SecretNotFound :: "err \<Rightarrow> (string) option" where
  "as_SecretNotFound (SecretNotFoundError n) = Some n" | "as_SecretNotFound _ = None"

definition is_SecretNotFound :: "err \<Rightarrow> bool" where
  "is_SecretNotFound e \<longleftrightarrow> as_SecretNotFound e \<noteq> None"

fun as_ConnectionNotFound :: "err \<Rightarrow> (string \<times> string) option" where
  "as_ConnectionNotFound (ConnectionNotFoundError a b) = Some (a, b)" | "as_ConnectionNotFound _ = None"

definition is_ConnectionNotFound :: "err \<Rightarrow> bool" where
  "is_ConnectionNotFound e \<longleftrightarrow> as_ConnectionNotFound e \<noteq> None"

fun as_OutputNotFound :: "err \<Rightarrow> (string \<times> string) option" where
  "as_OutputNotFound (OutputNotFoundError a b) = Some (a, b)" | "as_OutputNotFound _ = None"

definition is_OutputNotFound :: "err \<Rightarrow> bool" where
  "is_OutputNotFound e \<longleftrightarrow> as_OutputNotFound e \<noteq> None"

fun as_ParameterNotFound :: "err \<Rightarrow> (string) option" where
  "as_ParameterNotFound (ParameterNotFoundError n) = Some n" | "as_ParameterNotFound _ = None"

definition is_ParameterNotFound :: "err \<Rightarrow> bool" where
  "is_ParameterNotFound e \<longleftrightarrow> as_ParameterNotFound e \<noteq> None"

fun as_AnswerNotFound :: "err \<Rightarrow> (string \<times> string) option" where
  "as_AnswerNotFound (AnswerNotFoundError a b) = Some (a, b)" | "as_AnswerNotFound _ = None"

definition is_AnswerNotFound :: "err \<Rightarrow> bool" where
  "is_AnswerNotFound e \<longleftrightarrow> as_AnswerNotFound e \<noteq> None"

lemma is_NotFound_simps [simp]:
  "is_DataNotFound (DataNotFoundError q)" "is_SecretNotFound (SecretNotFoundError n)"
  "is_ConnectionNotFound (ConnectionNotFoundError a b)" "is_OutputNotFound (OutputNotFoundError a b)"
  "is_ParameterNotFound (ParameterNotFoundError n)" "is_AnswerNotFound (AnswerNotFoundError a b)"
  "\<not> is_DataNotFound (DataQueryError q)"
  by (simp_all add: is_DataNotFound_def is_SecretNotFound_def is_ConnectionNotFound_def
      is_OutputNotFound_def is_ParameterNotFound_def is_AnswerNotFound_def)

lemma as_NotFound_iff:
  "as_DataNotFound e = Some q \<longleftrightarrow> e = DataNotFoundError q"
  "as_SecretNotFound e = Some q \<longleftrightarrow> e = SecretNotFoundError q"
  "as_ConnectionNotFound e = Some (a, b) \<longleftrightarrow> e = ConnectionNotFoundError a b"
  "as_OutputNotFound e = Some (a, b) \<longleftrightarrow> e = OutputNotFoundError a b"
  "as_ParameterNotFound e = Some q \<longleftrightarrow> e = ParameterNotFoundError q"
  "as_AnswerNotFound e = Some (a, b) \<longleftrightarrow> e = AnswerNotFoundError a b"
  by (cases e; simp)+

fun as_FunctionResolutionError :: "err \<Rightarrow> (string \<times> err) option" where
  "as_FunctionResolutionError (FunctionResolutionError n c) = Some (n, c)"
| "as_FunctionResolutionError _ = None"

lemma as_FunctionResolutionError_iff:
  "as_FunctionResolutionError e = Some (n, c) \<longleftrightarrow> e = FunctionResolutionError n c"
  by (cases e) auto

type_synonym data_resolver = "string \<Rightarrow> gval res"
type_synonym secret_resolver = "string \<Rightarrow> string res"
type_synonym connection_resolver = "string \<times> string \<Rightarrow> gval res"
type_synonym output_resolver = "string \<times> string \<Rightarrow> gval res"
type_synonym parameter_resolver = "string \<Rightarrow> gval res"
type_synonym answer_resolver = "string \<times> string \<Rightarrow> gval res"

definition ChainDataTypeResolvers :: "data_resolver list \<Rightarrow> data_resolver" where
  "ChainDataTypeResolvers rs query = chain_loop is_DataNotFound (DataNotFoundError query) rs query"

definition ChainSecretTypeResolvers :: "secret_resolver list \<Rightarrow> secret_resolver" where
  "ChainSecretTypeResolvers rs name = chain_loop is_SecretNotFound (SecretNotFoundError name) rs name"

definition ChainConnectionTypeResolvers :: "connection_resolver list \<Rightarrow> connection_resolver" where
  "ChainConnectionTypeResolvers rs k =
     chain_loop is_ConnectionNotFound (ConnectionNotFoundError (fst k) (snd k)) rs k"

definition ChainOutputTypeResolvers :: "output_resolver list \<Rightarrow> output_resolver" where
  "ChainOutputTypeResolvers rs k =
     chain_loop is_OutputNotFound (OutputNotFoundError (fst k) (snd k)) rs k"

definition ChainParameterTypeResolvers :: "parameter_resolver list \<Rightarrow> parameter_resolver" where
  "ChainParameterTypeResolvers rs name =
     chain_loop is_ParameterNotFound (ParameterNotFoundError name) rs name"

definition ChainAnswerTypeResolvers :: "answer_resolver list \<Rightarrow> answer_resolver" where
  "ChainAnswerTypeResolvers rs k =
     chain_loop is_AnswerNotFound (AnswerNotFoundError (fst k) (snd k)) rs k"

section \<open>No-op resolvers\<close>

definition NoOpDataTypeResolver :: data_resolver where
  "NoOpDataTypeResolver = ChainDataTypeResolvers []"

definition NoOpSecretTypeResolver :: secret_resolver where
  "NoOpSecretTypeResolver = ChainSecretTypeResolvers []"

definition NoOpConnectionTypeResolver :: connection_resolver where
  "NoOpConnectionTypeResolver = ChainConnectionTypeResolvers []"

definition NoOpOutputTypeResolver :: output_resolver where
  "NoOpOutputTypeResolver = ChainOutputTypeResolvers []"

definition NoOpParameterTypeResolver :: parameter_resolver where
  "NoOpParameterTypeResolver = ChainParameterTypeResolvers []"

definition NoOpAnswerTypeResolver :: answer_resolver where
  "NoOpAnswerTypeResolver = ChainAnswerTypeResolvers []"

lemmas noop_defs = NoOpDataTypeResolver_def NoOpSecretTypeResolver_def NoOpConnectionTypeResolver_def
  NoOpOutputTypeResolver_def NoOpParameterTypeResolver_def NoOpAnswerTypeResolver_def

lemmas chain_defs = ChainDataTypeResolvers_def ChainSecretTypeResolvers_def
  ChainConnectionTypeResolvers_def ChainOutputTypeResolvers_def ChainParameterTypeResolvers_def
  ChainAnswerTypeResolvers_def

section \<open>In-memory resolvers\<close>

text \<open>
  \<open>gval.Base()\<close> of \<open>github.com/puppetlabs/paesslerag-gval\<close> compiles a query to an evaluable over
  the resolver's map; it is the parameter \<open>compile\<close>.
\<close>

definition MemoryData_ResolveData :: "(string \<Rightarrow> (gval gomap \<Rightarrow> gval res) res) \<Rightarrow> gval gomap \<Rightarrow> data_resolver" where
  "MemoryData_ResolveData compile m query =
     (case compile query of
        Inl _ \<Rightarrow> Inl (DataQueryError query)
      | Inr pl \<Rightarrow> (case pl m of Inl _ \<Rightarrow> Inl (DataNotFoundError query) | Inr v \<Rightarrow> Inr v))"

definition MemorySecret_ResolveSecret :: "string gomap \<Rightarrow> secret_resolver" where
  "MemorySecret_ResolveSecret m name =
     (case map_of m name of None \<Rightarrow> Inl (SecretNotFoundError name) | Some s \<Rightarrow> Inr s)"

definition MemoryConnection_ResolveConnection :: "((string \<times> string) \<times> gval) list \<Rightarrow> connection_resolver" where
  "MemoryConnection_ResolveConnection m k =
     (case map_of m k of None \<Rightarrow> Inl (ConnectionNotFoundError (fst k) (snd k)) | Some v \<Rightarrow> Inr v)"

definition MemoryOutput_ResolveOutput :: "((string \<times> string) \<times> gval) list \<Rightarrow> output_resolver" where
  "MemoryOutput_ResolveOutput m k =
     (case map_of m k of None \<Rightarrow> Inl (OutputNotFoundError (fst k) (snd k)) | Some v \<Rightarrow> Inr v)"

definition MemoryParameter_ResolveParameter :: "gval gomap \<Rightarrow> parameter_resolver" where
  "MemoryParameter_ResolveParameter m name =
     (case map_of m name of None \<Rightarrow> Inl (ParameterNotFoundError name) | Some v \<Rightarrow> Inr v)"

definition MemoryAnswer_ResolveAnswer :: "((string \<times> string) \<times> gval) list \<Rightarrow> answer_resolver" where
  "MemoryAnswer_ResolveAnswer m k =
     (case map_of m k of None \<Rightarrow> Inl (AnswerNotFoundError (fst k) (snd k)) | Some v \<Rightarrow> Inr v)"

text \<open>The wrapped invoker adds the function name to the errors of the call.\<close>

definition wrap_invoker :: "string \<Rightarrow> invoker \<Rightarrow> invoker" where
  "wrap_invoker name i = (case i of Inl e \<Rightarrow> Inl (FunctionResolutionError name e) | Inr r \<Rightarrow> Inr r)"

definition ResolveInvocationPositional :: "fn_map \<Rightarrow> string \<Rightarrow> gval list \<Rightarrow> invoker res" where
  "ResolveInvocationPositional m name args =
     (case Descriptor m name of
        Inl e \<Rightarrow> Inl (FunctionResolutionError name e)
      | Inr f \<Rightarrow>
          (case PositionalInvoker f args of
             Inl e \<Rightarrow> Inl (FunctionResolutionError name e)
           | Inr i \<Rightarrow> Inr (wrap_invoker name i)))"

definition ResolveInvocation :: "fn_map \<Rightarrow> string \<Rightarrow> gval gomap \<Rightarrow> invoker res" where
  "ResolveInvocation m name args =
     (case Descriptor m name of
        Inl e \<Rightarrow> Inl (FunctionResolutionError name e)
      | Inr f \<Rightarrow>
          (case KeywordInvoker f args of
             Inl e \<Rightarrow> Inl (FunctionResolutionError name e)
           | Inr i \<Rightarrow> Inr (wrap_invoker name i)))"

section \<open>The resolver contract\<close>

locale resolver_kind =
  fixes is_nf :: "err \<Rightarrow> bool" and nf :: "'k \<Rightarrow> err"
  assumes nf_is_nf: "is_nf (nf k)"
begin

text \<open>A resolver that reports as not found only the key it was asked for.\<close>

definition honest :: "('k \<Rightarrow> 'a res) \<Rightarrow> bool" where
  "honest r \<longleftrightarrow> (\<forall>k e. r k = Inl e \<longrightarrow> is_nf e \<longrightarrow> e = nf k)"

definition chain :: "('k \<Rightarrow> 'a res) list \<Rightarrow> 'k \<Rightarrow> 'a res" where
  "chain rs k = chain_loop is_nf (nf k) rs k"

lemma chain_honest: "honest (chain rs)"
proof -
  have "chain_loop is_nf (nf k) rs k = Inl e \<Longrightarrow> is_nf e \<Longrightarrow> e = nf k" for k e
    by (induction rs) (auto split: sum.splits if_splits)
  then show ?thesis by (simp add: honest_def chain_def)
qed

lemma chain_first:
  "\<forall>r \<in> set as. \<exists>e. r k = Inl e \<and> is_nf e \<Longrightarrow> (\<And>e. r k = Inl e \<Longrightarrow> \<not> is_nf e) \<Longrightarrow>
   chain (as @ r # bs) k = r k"
  unfolding chain_def by (induction as) (auto split: sum.splits)

lemma chain_none: "\<forall>r \<in> set rs. \<exists>e. r k = Inl e \<and> is_nf e \<Longrightarrow> chain rs k = Inl (nf k)"
  unfolding chain_def by (induction rs) (auto split: sum.splits)

lemma chain_append: "chain (as @ bs) k = chain [chain as, chain bs] k"
proof -
  have "chain_loop is_nf (nf k) (as @ bs) k =
    (case chain_loop is_nf (nf k) as k of
       Inl e \<Rightarrow> if is_nf e then chain_loop is_nf (nf k) bs k else Inl e | Inr v \<Rightarrow> Inr v)"
    by (induction as) (auto simp: nf_is_nf split: sum.splits)
  moreover have "chain_loop is_nf (nf k) bs k = Inl e \<Longrightarrow> is_nf e \<Longrightarrow> e = nf k" for e
    using chain_honest [of bs] by (simp add: honest_def chain_def)
  ultimately show ?thesis
    by (auto simp: chain_def split: sum.splits)
qed

lemma chain_dropWhile:
  "chain rs k = (case dropWhile (\<lambda>r. \<exists>x. r k = Inl x \<and> is_nf x) rs of [] \<Rightarrow> Inl (nf k) | r # _ \<Rightarrow> r k)"
  unfolding chain_def by (induction rs) (auto split: sum.splits)

text \<open>Which of its resolvers decided the answer of a chain.\<close>

lemma chain_cases:
  obtains (decided) as r bs where "rs = as @ r # bs" "\<forall>r \<in> set as. \<exists>e. r k = Inl e \<and> is_nf e"
    "chain rs k = r k" "\<forall>e. r k = Inl e \<longrightarrow> \<not> is_nf e"
  | (none) "\<forall>r \<in> set rs. \<exists>e. r k = Inl e \<and> is_nf e" "chain rs k = Inl (nf k)"
proof (cases "\<exists>r \<in> set rs. \<not> (\<exists>e. r k = Inl e \<and> is_nf e)")
  case True
  then obtain as r bs where "rs = as @ r # bs" "\<not> (\<exists>e. r k = Inl e \<and> is_nf e)"
    "\<forall>r \<in> set as. \<not> \<not> (\<exists>e. r k = Inl e \<and> is_nf e)"
    by (rule split_list_first_propE)
  with chain_first [of as k r bs] decided show ?thesis by blast
next
  case False
  with chain_none none show ?thesis by blast
qed

end

interpretation data_kind: resolver_kind is_DataNotFound DataNotFoundError
  by unfold_locales simp

interpretation secret_kind: resolver_kind is_SecretNotFound SecretNotFoundError
  by unfold_locales simp

interpretation connection_kind: resolver_kind is_ConnectionNotFound "\<lambda>k. ConnectionNotFoundError (fst k) (snd k)"
  by unfold_locales simp

interpretation output_kind: resolver_kind is_OutputNotFound "\<lambda>k. OutputNotFoundError (fst k) (snd k)"
  by unfold_locales simp

interpretation parameter_kind: resolver_kind is_ParameterNotFound ParameterNotFoundError
  by unfold_locales simp

interpretation answer_kind: resolver_kind is_AnswerNotFound "\<lambda>k. AnswerNotFoundError (fst k) (snd k)"
  by unfold_locales simp

lemma chains_are_chains:
  "ChainDataTypeResolvers = data_kind.chain" "ChainSecretTypeResolvers = secret_kind.chain"
  "ChainConnectionTypeResolvers = connection_kind.chain" "ChainOutputTypeResolvers = output_kind.chain"
  "ChainParameterTypeResolvers = parameter_kind.chain" "ChainAnswerTypeResolvers = answer_kind.chain"
  by (simp_all add: fun_eq_iff chain_defs data_kind.chain_def secret_kind.chain_def
      connection_kind.chain_def output_kind.chain_def parameter_kind.chain_def answer_kind.chain_def)

lemma memory_honest:
  "secret_kind.honest (MemorySecret_ResolveSecret ms)"
  "connection_kind.honest (MemoryConnection_ResolveConnection mc)"
  "output_kind.honest (MemoryOutput_ResolveOutput mo)"
  "parameter_kind.honest (MemoryParameter_ResolveParameter mp)"
  "answer_kind.honest (MemoryAnswer_ResolveAnswer ma)"
  "data_kind.honest (MemoryData_ResolveData compile md)"
  by (auto simp: secret_kind.honest_def connection_kind.honest_def output_kind.honest_def
      parameter_kind.honest_def answer_kind.honest_def data_kind.honest_def
      MemorySecret_ResolveSecret_def MemoryConnection_ResolveConnection_def
      MemoryOutput_ResolveOutput_def MemoryParameter_ResolveParameter_def
      MemoryAnswer_ResolveAnswer_def MemoryData_ResolveData_def split: option.splits sum.splits)

end
