(* ===== verification/Unresolvable.thy ===== *)
theory Unresolvable
  imports Resolve
begin

text \<open>
  \<open>pkg/expr/evaluate/result.go\<close> and \<open>result_json.go\<close>: what an evaluation could not resolve, how
  two such reports are combined, and the JSON envelope the metadata API returns.

  \<open>extends\<close> goes through a hash set, whose elements come out in the order of a Go map. The model
  takes one such order (\<open>hashset_values\<close>); \<open>sort.Sort\<close> then fixes the order of every
  category whose \<open>Less\<close> tells distinct elements apart.
\<close>

section \<open>Data\<close>

datatype UnresolvableData = UnresolvableData (ud_Query: string)
datatype UnresolvableSecret = UnresolvableSecret (us_Name: string)
datatype UnresolvableConnection = UnresolvableConnection (uc_Type: string) (uc_Name: string)
datatype UnresolvableOutput = UnresolvableOutput (uo_From: string) (uo_Name: string)
datatype UnresolvableParameter = UnresolvableParameter (up_Name: string)
datatype UnresolvableAnswer = UnresolvableAnswer (ua_AskRef: string) (ua_Name: string)
datatype UnresolvableInvocation = UnresolvableInvocation (ui_Name: string) (ui_Cause: err)

definition unresolvableSecretSort_Less :: "UnresolvableSecret \<Rightarrow> UnresolvableSecret \<Rightarrow> bool" where
  "unresolvableSecretSort_Less a b \<longleftrightarrow> us_Name a < us_Name b"

definition unresolvableConnectionSort_Less :: "UnresolvableConnection \<Rightarrow> UnresolvableConnection \<Rightarrow> bool" where
  "unresolvableConnectionSort_Less a b \<longleftrightarrow>
     uc_Type a < uc_Type b \<or> uc_Type a = uc_Type b \<and> uc_Name a < uc_Name b"

definition unresolvableOutputSort_Less :: "UnresolvableOutput \<Rightarrow> UnresolvableOutput \<Rightarrow> bool" where
  "unresolvableOutputSort_Less a b \<longleftrightarrow>
     uo_From a < uo_From b \<or> uo_From a = uo_From b \<and> uo_Name a < uo_Name b"

definition unresolvableParameterSort_Less :: "UnresolvableParameter \<Rightarrow> UnresolvableParameter \<Rightarrow> bool" where
  "unresolvableParameterSort_Less a b \<longleftrightarrow> up_Name a < up_Name b"

text \<open>The second disjunct compares the names for equality where \<open>AskRef\<close> is meant.\<close>

definition unresolvableAnswerSort_Less :: "UnresolvableAnswer \<Rightarrow> UnresolvableAnswer \<Rightarrow> bool" where
  "unresolvableAnswerSort_Less a b \<longleftrightarrow>
     ua_AskRef a < ua_AskRef b \<or> ua_Name a = ua_Name b \<and> ua_Name a < ua_Name b"

definition unresolvableInvocationSort_Less :: "UnresolvableInvocation \<Rightarrow> UnresolvableInvocation \<Rightarrow> bool" where
  "unresolvableInvocationSort_Less a b \<longleftrightarrow>
     ui_Name a < ui_Name b \<or>
     ui_Name a = ui_Name b \<and> error_string (ui_Cause a) < error_string (ui_Cause b)"

lemmas less_defs = unresolvableSecretSort_Less_def unresolvableConnectionSort_Less_def
  unresolvableOutputSort_Less_def unresolvableParameterSort_Less_def
  unresolvableAnswerSort_Less_def unresolvableInvocationSort_Less_def

record unresolvable =
  Data :: "UnresolvableData list"
  Secrets :: "UnresolvableSecret list"
  Connections :: "UnresolvableConnection list"
  Outputs :: "UnresolvableOutput list"
  Parameters :: "UnresolvableParameter list"
  Answers :: "UnresolvableAnswer list"
  Invocations :: "UnresolvableInvocation list"

definition no_unresolvable :: unresolvable where
  "no_unresolvable = \<lparr>Data = [], Secrets = [], Connections = [], Outputs = [], Parameters = [],
     Answers = [], Invocations = []\<rparr>"

section \<open>Operations\<close>

definition as_causes :: "unresolvable \<Rightarrow> err list" where
  "as_causes u =
     map (\<lambda>d. DataNotFoundError (ud_Query d)) (Data u) @
     map (\<lambda>s. SecretNotFoundError (us_Name s)) (Secrets u) @
     map (\<lambda>c. ConnectionNotFoundError (uc_Type c) (uc_Name c)) (Connections u) @
     map (\<lambda>c. OutputNotFoundError (uo_From c) (uo_Name c)) (Outputs u) @
     map (\<lambda>p. ParameterNotFoundError (up_Name p)) (Parameters u) @
     map (\<lambda>a. AnswerNotFoundError (ua_AskRef a) (ua_Name a)) (Answers u) @
     map (\<lambda>i. FunctionResolutionError (ui_Name i) (ui_Cause i)) (Invocations u)"

definition AsError :: "unresolvable \<Rightarrow> err option" where
  "AsError u = (let causes = as_causes u in if length causes = 0 then None else Some (UnresolvableError causes))"

definition hashset_values :: "'a list \<Rightarrow> 'a list" where
  "hashset_values xs = remdups xs"

text \<open>The cause of an invocation is an error interface, so the hash set tells invocations apart by
  the identity of the error: only sentinel errors can be equal.\<close>

fun hashset_invocations :: "UnresolvableInvocation list \<Rightarrow> UnresolvableInvocation list" where
  "hashset_invocations [] = []"
| "hashset_invocations (x # xs) =
     (if is_sentinel (ui_Cause x) \<and> x \<in> set xs then hashset_invocations xs else x # hashset_invocations xs)"

definition extend_category :: "('a list \<Rightarrow> 'a list) \<Rightarrow> 'a list \<Rightarrow> 'a list \<Rightarrow> 'a list" where
  "extend_category merged u other =
     (if length u = 0 then u @ other
      else if length other \<noteq> 0 then merged (u @ other)
      else u)"

definition extends :: "unresolvable \<Rightarrow> unresolvable \<Rightarrow> unresolvable" where
  "extends u other =
     \<lparr>Data = extend_category hashset_values (Data u) (Data other),
      Secrets = extend_category (sort_slice unresolvableSecretSort_Less \<circ> hashset_values) (Secrets u) (Secrets other),
      Connections = extend_category (sort_slice unresolvableConnectionSort_Less \<circ> hashset_values) (Connections u) (Connections other),
      Outputs = extend_category (sort_slice unresolvableOutputSort_Less \<circ> hashset_values) (Outputs u) (Outputs other),
      Parameters = extend_category (sort_slice unresolvableParameterSort_Less \<circ> hashset_values) (Parameters u) (Parameters other),
      Answers = extend_category (sort_slice unresolvableAnswerSort_Less \<circ> hashset_values) (Answers u) (Answers other),
      Invocations = extend_category (sort_slice unresolvableInvocationSort_Less \<circ> hashset_invocations) (Invocations u) (Invocations other)\<rparr>"

record result =
  Value :: gval
  Unresolvable :: unresolvable

definition Complete :: "result \<Rightarrow> bool" where
  "Complete r \<longleftrightarrow> AsError (Unresolvable r) = None"

definition Result_extends :: "result \<Rightarrow> result \<Rightarrow> result" where
  "Result_extends r other = r\<lparr>Unresolvable := extends (Unresolvable r) (Unresolvable other)\<rparr>"

definition value_result :: "gval \<Rightarrow> result" where
  "value_result v = \<lparr>Value = v, Unresolvable = no_unresolvable\<rparr>"

section \<open>The JSON envelope\<close>

record json_unresolvable_envelope =
  env_Secrets :: "string list"
  env_Connections :: "(string \<times> string) list"
  env_Outputs :: "(string \<times> string) list"
  env_Parameters :: "string list"
  env_Answers :: "(string \<times> string) list"
  env_Invocations :: "string list"

definition NewJSONUnresolvableEnvelope :: "unresolvable \<Rightarrow> json_unresolvable_envelope" where
  "NewJSONUnresolvableEnvelope ur =
     \<lparr>env_Secrets = map us_Name (Secrets ur),
      env_Connections = map (\<lambda>c. (uc_Type c, uc_Name c)) (Connections ur),
      env_Outputs = map (\<lambda>c. (uo_From c, uo_Name c)) (Outputs ur),
      env_Parameters = map up_Name (Parameters ur),
      env_Answers = map (\<lambda>a. (ua_AskRef a, ua_Name a)) (Answers ur),
      env_Invocations = map ui_Name (Invocations ur)\<rparr>"

record json_result_envelope =
  env_Value :: gval
  env_Unresolvable :: "json_unresolvable_envelope option"
  env_Complete :: bool

definition NewJSONResultEnvelope :: "result \<Rightarrow> json_result_envelope" where
  "NewJSONResultEnvelope rv =
     \<lparr>env_Value = Value rv, env_Unresolvable = Some (NewJSONUnresolvableEnvelope (Unresolvable rv)),
      env_Complete = Complete rv\<rparr>"

section \<open>The orders\<close>

interpretation secret_order: strict_less_order unresolvableSecretSort_Less
  by unfold_locales (auto simp: less_defs not_less_iff_gr_or_eq intro: UnresolvableSecret.expand)

interpretation connection_order: strict_less_order unresolvableConnectionSort_Less
  by unfold_locales (auto simp: less_defs not_less_iff_gr_or_eq intro: UnresolvableConnection.expand)

interpretation output_order: strict_less_order unresolvableOutputSort_Less
  by unfold_locales (auto simp: less_defs not_less_iff_gr_or_eq intro: UnresolvableOutput.expand)

interpretation parameter_order: strict_less_order unresolvableParameterSort_Less
  by unfold_locales (auto simp: less_defs not_less_iff_gr_or_eq intro: UnresolvableParameter.expand)

interpretation answer_order: less_order unresolvableAnswerSort_Less
  by unfold_locales (auto simp: less_defs)

interpretation invocation_order: less_order unresolvableInvocationSort_Less
  by unfold_locales (auto simp: less_defs)

section \<open>Reports as sets of causes\<close>

text \<open>What a report means, whatever the order of its slices: the set of errors it stands for.\<close>

definition causes :: "unresolvable \<Rightarrow> err set" where
  "causes u = set (as_causes u)"

lemma set_hashset_values [simp]: "set (hashset_values xs) = set xs"
  by (simp add: hashset_values_def)

lemma set_hashset_invocations [simp]: "set (hashset_invocations xs) = set xs"
  by (induction xs) auto

lemma set_extend_category:
  "set (extend_category f u other) = set u \<union> set other" if "\<And>xs. set (f xs) = set xs"
  using that by (auto simp: extend_category_def)

lemma extend_category_Nil [simp]: "extend_category f u [] = u" "extend_category f [] u = u"
  by (simp_all add: extend_category_def)

lemma extends_none [simp]: "extends u no_unresolvable = u" "extends no_unresolvable u = u"
  by (simp_all add: extends_def no_unresolvable_def)

lemma causes_extends [simp]: "causes (extends u other) = causes u \<union> causes other"
  by (simp add: causes_def as_causes_def extends_def set_extend_category image_Un) blast

lemma causes_none [simp]: "causes no_unresolvable = {}"
  by (simp add: causes_def as_causes_def no_unresolvable_def)

lemma causes_empty_iff: "causes u = {} \<longleftrightarrow> u = no_unresolvable"
  by (cases u) (auto simp: causes_def as_causes_def no_unresolvable_def)

lemma AsError_None_iff: "AsError u = None \<longleftrightarrow> causes u = {}"
  by (simp add: AsError_def Let_def causes_def)

lemma Complete_iff: "Complete r \<longleftrightarrow> Unresolvable r = no_unresolvable"
  by (simp add: Complete_def AsError_None_iff causes_empty_iff)

lemma Complete_causes: "Complete r \<longleftrightarrow> causes (Unresolvable r) = {}"
  by (simp add: Complete_iff causes_empty_iff)

lemma Complete_value_result [simp]: "Complete (value_result v)"
  by (simp add: Complete_iff value_result_def)

lemma value_result_simps [simp]:
  "Value (value_result v) = v" "Unresolvable (value_result v) = no_unresolvable"
  by (simp_all add: value_result_def)

section \<open>Reports stay ordered and free of duplicates\<close>

definition wf_unresolvable :: "unresolvable \<Rightarrow> bool" where
  "wf_unresolvable u \<longleftrightarrow>
     distinct (Data u) \<and>
     sorted_wrt unresolvableSecretSort_Less (Secrets u) \<and>
     sorted_wrt unresolvableConnectionSort_Less (Connections u) \<and>
     sorted_wrt unresolvableOutputSort_Less (Outputs u) \<and>
     sorted_wrt unresolvableParameterSort_Less (Parameters u) \<and>
     distinct (Answers u) \<and> sorted_wrt (\<lambda>a b. \<not> unresolvableAnswerSort_Less b a) (Answers u) \<and>
     sorted_wrt (\<lambda>a b. \<not> unresolvableInvocationSort_Less b a) (Invocations u)"

lemma extend_sorted:
  "sorted_wrt R u \<Longrightarrow> sorted_wrt R other \<Longrightarrow> (\<And>xs. sorted_wrt R (f xs)) \<Longrightarrow> sorted_wrt R (extend_category f u other)"
  by (simp add: extend_category_def)

lemma extend_distinct:
  "distinct u \<Longrightarrow> distinct other \<Longrightarrow> (\<And>xs. distinct (f xs)) \<Longrightarrow> distinct (extend_category f u other)"
  by (simp add: extend_category_def)

lemma distinct_hashset_values [simp]: "distinct (hashset_values xs)"
  by (simp add: hashset_values_def)

lemmas strict_sorts = secret_order.sort_slice_ordered connection_order.sort_slice_ordered
  output_order.sort_slice_ordered parameter_order.sort_slice_ordered

lemma wf_none [simp]: "wf_unresolvable no_unresolvable"
  by (simp add: wf_unresolvable_def no_unresolvable_def)

lemma wf_extends:
  assumes "wf_unresolvable u" and "wf_unresolvable other"
  shows "wf_unresolvable (extends u other)"
  using assms unfolding wf_unresolvable_def extends_def unresolvable.simps
  by (intro conjI extend_sorted extend_distinct)
    (simp_all add: strict_sorts answer_order.sort_slice_sorted invocation_order.sort_slice_sorted)

lemma wf_fold_extends:
  "wf_unresolvable u \<Longrightarrow> \<forall>x \<in> set us. wf_unresolvable x \<Longrightarrow> wf_unresolvable (fold (\<lambda>x u. extends u x) us u)"
  by (induction us arbitrary: u) (auto intro: wf_extends)

lemma causes_fold_extends: "causes (fold (\<lambda>x u. extends u x) us u) = causes u \<union> (\<Union>x \<in> set us. causes x)"
  by (induction us arbitrary: u) auto

text \<open>The order in which the hash set yields its elements is visible in the \<open>Data\<close> slice and, as
  the order below leaves answers of one ask unordered, in the \<open>Answers\<close> slice; the four strictly
  ordered categories do not depend on it.\<close>

lemma strict_categories_deterministic:
  assumes "distinct xs" and "distinct ys" and "set xs = set ys"
  shows "sort_slice unresolvableSecretSort_Less xs = sort_slice unresolvableSecretSort_Less ys"
  using assms by (intro secret_order.sort_slice_unique) (metis set_eq_iff_mset_eq_distinct)

end
