(* ===== verification/Transfer_Encoding.thy ===== *)
theory Transfer_Encoding
  imports Go_Values
begin

text \<open>
  The byte encodings that carry values between the components: base64 and UTF-8 validity as the
  Go library defines them, and \<open>vendor/github.com/puppetlabs/horsehead/v2/encoding/transfer\<close>,
  which keeps strings intact through JSON by wrapping the ones that are not UTF-8 in
  \<open>{"$encoding": "base64", "data": ...}\<close>.

  A JSON text is modelled by its document (\<open>json\<close>): what \<open>json.Marshal\<close> prints and
  \<open>json.Unmarshal\<close> reads back is the same document, whose object members carry no order.
\<close>

section \<open>Base64\<close>

definition b64_char :: "nat \<Rightarrow> char" where [go_defs]:
  "b64_char n = char_of (if n < 26 then n + 65 else if n < 52 then n + 71 else if n < 62 then n - 4
     else if n = 62 then 43 else (47 :: nat))"

definition b64_val :: "char \<Rightarrow> nat option" where [go_defs]:
  "b64_val c = (let n = (of_char c :: nat) in
     if 65 \<le> n \<and> n \<le> 90 then Some (n - 65) else if 97 \<le> n \<and> n \<le> 122 then Some (n - 71)
     else if 48 \<le> n \<and> n \<le> 57 then Some (n + 4) else if n = 43 then Some 62
     else if n = 47 then Some 63 else None)"

abbreviation (input) pad :: char where "pad \<equiv> CHR ''=''"

abbreviation (input) ord :: "char \<Rightarrow> nat" where "ord c \<equiv> of_char c"

fun b64_encode :: "string \<Rightarrow> string" where
  "b64_encode [] = []"
| "b64_encode [a] = [b64_char (ord a div 4), b64_char (ord a mod 4 * 16), pad, pad]"
| "b64_encode [a, b] =
     [b64_char (ord a div 4), b64_char (ord a mod 4 * 16 + ord b div 16), b64_char (ord b mod 16 * 4), pad]"
| "b64_encode (a # b # c # r) =
     b64_char (ord a div 4) # b64_char (ord a mod 4 * 16 + ord b div 16) #
     b64_char (ord b mod 16 * 4 + ord c div 64) # b64_char (ord c mod 64) # b64_encode r"

text \<open>The decoder after line breaks have been skipped. Trailing bits of a padded group are
  ignored, as outside of strict mode.\<close>

fun b64_quanta :: "string \<Rightarrow> string option" where
  "b64_quanta [] = Some []"
| "b64_quanta (w # x # y # z # r) =
     (case (b64_val w, b64_val x) of
        (Some w', Some x') \<Rightarrow>
          (if y = pad then (if z = pad \<and> r = [] then Some [char_of (w' * 4 + x' div 16)] else None)
           else (case b64_val y of
               None \<Rightarrow> None
             | Some y' \<Rightarrow>
                 (if z = pad then
                    (if r = [] then Some [char_of (w' * 4 + x' div 16), char_of (x' mod 16 * 16 + y' div 4)]
                     else None)
                  else (case (b64_val z, b64_quanta r) of
                      (Some z', Some s) \<Rightarrow>
                        Some (char_of (w' * 4 + x' div 16) # char_of (x' mod 16 * 16 + y' div 4) #
                              char_of (y' mod 4 * 64 + z') # s)
                    | _ \<Rightarrow> None))))
      | _ \<Rightarrow> None)"
| "b64_quanta _ = None"

definition b64_decode :: "string \<Rightarrow> string res" where
  "b64_decode s = (case b64_quanta (filter (\<lambda>c. c \<noteq> CHR 0x0A \<and> c \<noteq> CHR 0x0D) s) of
     None \<Rightarrow> Inl CorruptInputError | Some b \<Rightarrow> Inr b)"

lemma b64_val_char [simp]: "n < 64 \<Longrightarrow> b64_val (b64_char n) = Some n"
  by (auto simp: b64_val_def b64_char_def Let_def)

lemma b64_val_special [simp]: "b64_val pad = None" "b64_val (CHR 0x0A) = None" "b64_val (CHR 0x0D) = None"
  by (simp_all add: b64_val_def)

lemma b64_char_neq [simp]:
  assumes "n < 64"
  shows "b64_char n \<noteq> pad" and "b64_char n \<noteq> CHR 0x0A" and "b64_char n \<noteq> CHR 0x0D"
  using b64_val_char [OF assms] by (metis b64_val_special option.distinct(1))+

text \<open>The arithmetic of regrouping three octets as four sextets.\<close>

lemma octet_bounds:
  fixes a b c :: nat
  assumes "a < 256" "b < 256" "c < 256"
  shows "a div 4 < 64" "b div 16 < 16" "c div 64 < 4" "a mod 4 * 16 + b div 16 < 64"
    "b mod 16 * 4 + c div 64 < 64"
proof -
  show b: "b div 16 < 16" and c: "c div 64 < 4" and "a div 4 < 64" using assms by auto
  have "a mod 4 \<le> 3" "b mod 16 \<le> 15" by auto
  with b c show "a mod 4 * 16 + b div 16 < 64" "b mod 16 * 4 + c div 64 < 64" by linarith+
qed

lemma octet_join1: "(a::nat) div 4 * 4 + (a mod 4 * 16 + k) div 16 = a" if "k < 16"
  using that by (simp add: add.commute [of _ k] div_mult_mod_eq)

lemma octet_join2: "(m * 16 + (b::nat) div 16) mod 16 * 16 + (b mod 16 * 4 + k) div 4 = b"
  if "k < 4" "b < 256"
proof -
  from that have "b div 16 < 16" by auto
  then have "(m * 16 + b div 16) mod 16 = b div 16" by simp
  moreover from that have "(b mod 16 * 4 + k) div 4 = b mod 16" by simp
  ultimately show ?thesis by (simp only: div_mult_mod_eq)
qed

lemma octet_join3: "(m * 4 + (c::nat) div 64) mod 4 * 64 + c mod 64 = c" if "c < 256"
proof -
  from that have "c div 64 < 4" by auto
  then have "(m * 4 + c div 64) mod 4 = c div 64" by simp
  then show ?thesis by (simp only: div_mult_mod_eq)
qed

lemmas byte_bounds = octet_bounds [OF nat_of_char_less_256 nat_of_char_less_256 nat_of_char_less_256]

lemmas byte_joins = octet_join1 octet_join2 octet_join3

lemma small_muls: "(a::nat) mod 4 * 16 < 64" "(b::nat) mod 16 * 4 < 64"
proof -
  have "a mod 4 \<le> 3" "b mod 16 \<le> 15" by auto
  then show "a mod 4 * 16 < 64" "b mod 16 * 4 < 64" by linarith+
qed

lemma b64_quanta_encode: "b64_quanta (b64_encode s) = Some s"
proof (induction s rule: b64_encode.induct)
  case 1
  then show ?case by simp
next
  case (2 a)
  then show ?case
    using octet_join1 [of 0 "ord a"] by (simp add: small_muls byte_bounds)
next
  case (3 a b)
  then show ?case
    using octet_join2 [of 0 "ord b" "ord a mod 4"]
    by (simp add: small_muls byte_bounds octet_join1)
next
  case (4 a b c r)
  then show ?case
    by (simp add: small_muls byte_bounds byte_joins)
qed

lemma b64_encode_no_breaks: "filter (\<lambda>c. c \<noteq> CHR 0x0A \<and> c \<noteq> CHR 0x0D) (b64_encode s) = b64_encode s"
  by (induction s rule: b64_encode.induct) (simp_all add: small_muls byte_bounds)

lemma b64_decode_encode [simp]: "b64_decode (b64_encode s) = Inr s"
  by (simp add: b64_decode_def b64_encode_no_breaks b64_quanta_encode)

section \<open>UTF-8\<close>

definition is_cont :: "char \<Rightarrow> bool" where [go_defs]: "is_cont c \<longleftrightarrow> 0x80 \<le> ord c \<and> ord c \<le> 0xBF"

definition second_ok :: "nat \<Rightarrow> nat \<Rightarrow> bool" where [go_defs]:
  "second_ok b s \<longleftrightarrow>
     (if b = 0xE0 then 0xA0 \<le> s \<and> s \<le> 0xBF else if b = 0xED then 0x80 \<le> s \<and> s \<le> 0x9F
      else if b = 0xF0 then 0x90 \<le> s \<and> s \<le> 0xBF else if b = 0xF4 then 0x80 \<le> s \<and> s \<le> 0x8F
      else 0x80 \<le> s \<and> s \<le> 0xBF)"

text \<open>The length of the encoded rune at the head of a string, 0 when there is none.\<close>

definition rune_len :: "string \<Rightarrow> nat" where [go_defs]:
  "rune_len s = (case s of
     [] \<Rightarrow> 0
   | a # r \<Rightarrow> (let b = ord a in
       if b < 0x80 then 1
       else if 0xC2 \<le> b \<and> b \<le> 0xDF then (case r of c # _ \<Rightarrow> if is_cont c then 2 else 0 | _ \<Rightarrow> 0)
       else if 0xE0 \<le> b \<and> b \<le> 0xEF then
         (case r of c # d # _ \<Rightarrow> if second_ok b (ord c) \<and> is_cont d then 3 else 0 | _ \<Rightarrow> 0)
       else if 0xF0 \<le> b \<and> b \<le> 0xF4 then
         (case r of c # d # e # _ \<Rightarrow> if second_ok b (ord c) \<and> is_cont d \<and> is_cont e then 4 else 0 | _ \<Rightarrow> 0)
       else 0))"

function utf8_valid :: "string \<Rightarrow> bool" where
  "utf8_valid s = (if s = [] then True else if rune_len s = 0 then False
     else utf8_valid (drop (rune_len s) s))"
  by pat_completeness auto
termination
  by (relation "measure length") auto

declare utf8_valid.simps [simp del]

text \<open>\<open>json.Marshal\<close> replaces each byte that starts no rune by U+FFFD.\<close>

function utf8_coerce :: "string \<Rightarrow> string" where
  "utf8_coerce s = (if s = [] then []
     else if rune_len s = 0 then [CHR 0xEF, CHR 0xBF, CHR 0xBD] @ utf8_coerce (drop 1 s)
     else take (rune_len s) s @ utf8_coerce (drop (rune_len s) s))"
  by pat_completeness auto
termination
  by (relation "measure length") auto

declare utf8_coerce.simps [simp del]

lemma utf8_coerce_valid: "utf8_valid s \<Longrightarrow> utf8_coerce s = s"
proof (induction s rule: utf8_valid.induct)
  case (1 s)
  show ?case
  proof (cases "s = []")
    case True
    then show ?thesis by (simp add: utf8_coerce.simps)
  next
    case False
    with 1 have "rune_len s \<noteq> 0" "utf8_coerce (drop (rune_len s) s) = drop (rune_len s) s"
      by (simp_all add: utf8_valid.simps [of s] split: if_splits)
    with False show ?thesis by (simp add: utf8_coerce.simps [of s])
  qed
qed

lemma utf8_valid_ascii: "\<forall>c \<in> set s. ord c < 128 \<Longrightarrow> utf8_valid s"
proof (induction s)
  case Nil
  then show ?case by (simp add: utf8_valid.simps)
next
  case (Cons c s)
  then have "rune_len (c # s) = 1" by (simp add: rune_len_def)
  with Cons show ?case by (simp add: utf8_valid.simps [of "c # s"])
qed

section \<open>Transfer encodings\<close>

definition Base64EncodingType :: string where [go_defs]: "Base64EncodingType = ''base64''"

definition NoEncodingType :: string where [go_defs]: "NoEncodingType = []"

definition encodingTypeOf :: "string \<Rightarrow> string" where
  "encodingTypeOf v = (if \<not> utf8_valid v then Base64EncodingType else NoEncodingType)"

text \<open>\<open>EncodeJSON\<close>: the encoding type and the data of the \<open>JSONOrStr\<close>.\<close>

definition EncodeJSON :: "string \<Rightarrow> (string \<times> string) res" where
  "EncodeJSON v =
     (if encodingTypeOf v = Base64EncodingType then Inr (Base64EncodingType, b64_encode v)
      else if \<not> utf8_valid v then Inl ErrNotEncodable
      else Inr (NoEncodingType, v))"

text \<open>\<open>JSON.Decode\<close> with the default factories.\<close>

definition JSON_Decode :: "string \<Rightarrow> string \<Rightarrow> string res" where
  "JSON_Decode ty data =
     (if ty = Base64EncodingType then b64_decode data
      else if ty = NoEncodingType then Inr data
      else Inl ErrUnknownEncodingType)"

definition ParseEncodedValue :: "string \<Rightarrow> string \<times> string" where
  "ParseEncodedValue value =
     (case split_n2 (CHR '':'') value of
        [p, rest] \<Rightarrow> if p = ''base64'' then (Base64EncodingType, rest) else (NoEncodingType, value)
      | _ \<Rightarrow> (NoEncodingType, value))"

definition DecodeFromTransfer :: "string \<Rightarrow> string res" where
  "DecodeFromTransfer value = (case ParseEncodedValue value of (t, v) \<Rightarrow>
     if t = Base64EncodingType then b64_decode v else Inr v)"

definition EncodeForTransfer :: "string \<Rightarrow> string res" where
  "EncodeForTransfer v =
     (if encodingTypeOf v = Base64EncodingType then Inr (''base64:'' @ b64_encode v) else Inr v)"

lemma EncodeJSON_total: "EncodeJSON v =
    Inr (if utf8_valid v then (NoEncodingType, v) else (Base64EncodingType, b64_encode v))"
  by (simp add: EncodeJSON_def encodingTypeOf_def Base64EncodingType_def NoEncodingType_def)

lemma JSON_Decode_EncodeJSON: "EncodeJSON v = Inr (t, d) \<Longrightarrow> JSON_Decode t d = Inr v"
  by (auto simp: EncodeJSON_total JSON_Decode_def NoEncodingType_def Base64EncodingType_def split: if_splits)

section \<open>JSON documents\<close>

datatype json =
    JNull
  | JBool bool
  | JInt int
  | JFloat "64 word"
  | JStr string
  | JArr "json list"
  | JObj "(string \<times> json) list"

lemma size_in_JObj: "(k, v) \<in> set m \<Longrightarrow> size v < size (JObj m)"
  by (induction m) auto

lemma size_in_JArr: "v \<in> set vs \<Longrightarrow> size v < size (JArr vs)"
  by (induction vs) auto

text \<open>The IEEE double nearest to an integer literal, ties to even.\<close>

fun bit_len :: "nat \<Rightarrow> nat" where
  "bit_len n = (if n = 0 then 0 else Suc (bit_len (n div 2)))"

declare bit_len.simps [simp del]

definition float_of_nat :: "nat \<Rightarrow> nat" where
  "float_of_nat n = (if n = 0 then 0 else
     (let e = bit_len n - 1 in
      if e \<le> 52 then (e + 1023) * 2 ^ 52 + (n * 2 ^ (52 - e) - 2 ^ 52)
      else (let sh = e - 52; q = n div 2 ^ sh; r = n mod 2 ^ sh; half = 2 ^ (sh - 1);
                q' = (if r > half \<or> r = half \<and> odd q then q + 1 else q)
            in (e + 1023) * 2 ^ 52 + (q' - 2 ^ 52))))"

definition float_of_int :: "int \<Rightarrow> 64 word" where
  "float_of_int n = word_of_nat ((if n < 0 then 2 ^ 63 else 0) + float_of_nat (nat \<bar>n\<bar>))"

definition float_is_finite :: "64 word \<Rightarrow> bool" where [go_defs]:
  "float_is_finite x \<longleftrightarrow> take_bit 63 x < push_bit 52 0x7FF"

text \<open>\<open>json.Marshal\<close>.\<close>

function json_marshal :: "gval \<Rightarrow> json res" where
  "json_marshal GNil = Inr JNull"
| "json_marshal (GBool b) = Inr (JBool b)"
| "json_marshal (GFloat64 x) =
     (if float_is_finite x then Inr (JFloat x) else Inl (OtherError ''json: unsupported value''))"
| "json_marshal (GInt n) = Inr (JInt n)"
| "json_marshal (GInt64 n) = Inr (JInt n)"
| "json_marshal (GUint n) = Inr (JInt (int n))"
| "json_marshal (GUint64 n) = Inr (JInt (int n))"
| "json_marshal (GTime s) = Inr (JStr s)"
| "json_marshal (GStr s) = Inr (JStr (utf8_coerce s))"
| "json_marshal (GBytes s) = Inr (JStr (b64_encode s))"
| "json_marshal (GJSONOrStr t d) =
     Inr (if t = NoEncodingType then JStr (utf8_coerce d)
          else JObj [(''$encoding'', JStr (utf8_coerce t)), (''data'', JStr (utf8_coerce d))])"
| "json_marshal (GList vs) =
     (case traverse json_marshal vs of Inl e \<Rightarrow> Inl e | Inr js \<Rightarrow> Inr (JArr js))"
| "json_marshal (GMap m) =
     (case traverse (\<lambda>(k, v). case json_marshal v of Inl e \<Rightarrow> Inl e | Inr j \<Rightarrow> Inr (utf8_coerce k, j)) m of
        Inl e \<Rightarrow> Inl e | Inr js \<Rightarrow> Inr (JObj js))"
| "json_marshal (GOther t) = Inl (OtherError (''json: unsupported type: '' @ t))"
  by pat_completeness auto
termination
  by (relation "measure size") (auto simp del: gval.size dest: gval_sizes)

text \<open>\<open>json.Unmarshal\<close> into an \<open>interface{}\<close>: a later member replaces an earlier one of the same
  name.\<close>

function json_unmarshal :: "json \<Rightarrow> gval" where
  "json_unmarshal JNull = GNil"
| "json_unmarshal (JBool b) = GBool b"
| "json_unmarshal (JInt n) = GFloat64 (float_of_int n)"
| "json_unmarshal (JFloat x) = GFloat64 x"
| "json_unmarshal (JStr s) = GStr s"
| "json_unmarshal (JArr js) = GList (map json_unmarshal js)"
| "json_unmarshal (JObj m) =
     GMap (fold (\<lambda>(k, v). AList.update k v) (map (\<lambda>(k, j). (k, json_unmarshal j)) m) [])"
  by pat_completeness auto
termination
  by (relation "measure size") (auto simp del: json.size dest: size_in_JObj size_in_JArr)

text \<open>\<open>JSONInterface.MarshalJSON\<close>.\<close>

function JSONInterface_Marshal :: "gval \<Rightarrow> json res" where
  "JSONInterface_Marshal v =
     (case v of
        GMap m \<Rightarrow>
          (case traverse (\<lambda>(k, v). case JSONInterface_Marshal v of Inl e \<Rightarrow> Inl e | Inr j \<Rightarrow> Inr (utf8_coerce k, j)) m of
             Inl e \<Rightarrow> Inl e | Inr js \<Rightarrow> Inr (JObj js))
      | GList vs \<Rightarrow>
          (case traverse JSONInterface_Marshal vs of Inl e \<Rightarrow> Inl e | Inr js \<Rightarrow> Inr (JArr js))
      | GStr s \<Rightarrow> (case EncodeJSON s of Inl e \<Rightarrow> Inl e | Inr (t, d) \<Rightarrow> json_marshal (GJSONOrStr t d))
      | _ \<Rightarrow> json_marshal v)"
  by pat_completeness auto
termination
  by (relation "measure size") (auto simp del: gval.size dest: gval_sizes)

declare JSONInterface_Marshal.simps [simp del]

lemma JSONInterface_Marshal_simps [simp]:
  "JSONInterface_Marshal (GMap m) =
     (case traverse (\<lambda>(k, v). case JSONInterface_Marshal v of Inl e \<Rightarrow> Inl e | Inr j \<Rightarrow> Inr (utf8_coerce k, j)) m of
        Inl e \<Rightarrow> Inl e | Inr js \<Rightarrow> Inr (JObj js))"
  "JSONInterface_Marshal (GList vs) =
     (case traverse JSONInterface_Marshal vs of Inl e \<Rightarrow> Inl e | Inr js \<Rightarrow> Inr (JArr js))"
  "JSONInterface_Marshal (GStr s) =
     (case EncodeJSON s of Inl e \<Rightarrow> Inl e | Inr (t, d) \<Rightarrow> json_marshal (GJSONOrStr t d))"
  "JSONInterface_Marshal GNil = Inr JNull"
  "JSONInterface_Marshal (GBool b) = Inr (JBool b)"
  "JSONInterface_Marshal (GFloat64 x) = json_marshal (GFloat64 x)"
  by (simp_all add: JSONInterface_Marshal.simps [of "GMap m"] JSONInterface_Marshal.simps [of "GList vs"]
      JSONInterface_Marshal.simps [of "GStr s"] JSONInterface_Marshal.simps [of GNil]
      JSONInterface_Marshal.simps [of "GBool b"] JSONInterface_Marshal.simps [of "GFloat64 x"])

text \<open>
  The \<open>decode\<close> closure of \<open>JSONInterface.UnmarshalJSON\<close>. A map with a string \<open>$encoding\<close> becomes
  the decoded string; its members are still visited, and their errors reported, before it is
  returned.
\<close>

function JSONInterface_decode :: "gval \<Rightarrow> gval res" where
  "JSONInterface_decode v =
     (case v of
        GMap m \<Rightarrow>
          (case (case get_string m ''$encoding'' of
                   None \<Rightarrow> Inr None
                 | Some ty \<Rightarrow>
                     (case JSON_Decode ty (case get_string m ''data'' of None \<Rightarrow> [] | Some d \<Rightarrow> d) of
                        Inl e \<Rightarrow> Inl e | Inr b \<Rightarrow> Inr (Some b))) of
             Inl e \<Rightarrow> Inl e
           | Inr decoded \<Rightarrow>
               (case traverse (\<lambda>(k, v). case JSONInterface_decode v of Inl e \<Rightarrow> Inl e | Inr v' \<Rightarrow> Inr (k, v')) m of
                  Inl e \<Rightarrow> Inl e
                | Inr m' \<Rightarrow> Inr (case decoded of None \<Rightarrow> GMap m' | Some b \<Rightarrow> GStr b)))
      | GList vs \<Rightarrow>
          (case traverse JSONInterface_decode vs of Inl e \<Rightarrow> Inl e | Inr vs' \<Rightarrow> Inr (GList vs'))
      | _ \<Rightarrow> Inr v)"
  by pat_completeness auto
termination
  by (relation "measure size") (auto simp del: gval.size dest: gval_sizes)

declare JSONInterface_decode.simps [simp del]

definition JSONInterface_Unmarshal :: "json \<Rightarrow> gval res" where
  "JSONInterface_Unmarshal j = JSONInterface_decode (json_unmarshal j)"

section \<open>Values survive the transfer\<close>

text \<open>The values \<open>JSONInterface\<close> can carry: what \<open>encoding/json\<close> decodes to, with no map that
  already looks like an encoding.\<close>

function transferable :: "gval \<Rightarrow> bool" where
  "transferable v =
     (case v of
        GNil \<Rightarrow> True
      | GBool _ \<Rightarrow> True
      | GStr _ \<Rightarrow> True
      | GFloat64 x \<Rightarrow> float_is_finite x
      | GList vs \<Rightarrow> list_all transferable vs
      | GMap m \<Rightarrow> wf_gomap m \<and> list_all (utf8_valid \<circ> fst) m \<and> get_string m ''$encoding'' = None \<and>
                 list_all (\<lambda>(k, v). transferable v) m
      | _ \<Rightarrow> False)"
  by pat_completeness auto
termination
  by (relation "measure size") (auto simp del: gval.size dest: gval_sizes)

declare transferable.simps [simp del]

lemma transferable_GMap [simp]:
  "transferable (GMap m) \<longleftrightarrow> wf_gomap m \<and> (\<forall>(k, v) \<in> set m. utf8_valid k \<and> transferable v) \<and>
     get_string m ''$encoding'' = None"
  by (auto simp: transferable.simps [of "GMap m"] list_all_iff)

lemma transferable_GList [simp]: "transferable (GList vs) \<longleftrightarrow> (\<forall>v \<in> set vs. transferable v)"
  by (simp add: transferable.simps [of "GList vs"] list_all_iff)

lemma transferable_atom:
  "transferable (GStr s)" "transferable GNil" "transferable (GBool b)"
  "transferable (GFloat64 x) = float_is_finite x"
  by (simp_all add: transferable.simps [of "GStr s"] transferable.simps [of GNil]
      transferable.simps [of "GBool b"] transferable.simps [of "GFloat64 x"])

lemma transferable_cases:
  assumes "transferable v"
  obtains "v = GNil" | b where "v = GBool b" | s where "v = GStr s"
  | x where "v = GFloat64 x" "float_is_finite x" | vs where "v = GList vs" | m where "v = GMap m"
  using assms [unfolded transferable.simps [of v]] by (cases v) auto

lemma b64_char_ascii: "n < 64 \<Longrightarrow> ord (b64_char n) < 128"
  by (auto simp: b64_char_def)

lemma b64_encode_ascii: "c \<in> set (b64_encode s) \<Longrightarrow> ord c < 128"
  by (induction s rule: b64_encode.induct) (auto simp: b64_char_ascii small_muls byte_bounds)

lemma utf8_valid_b64: "utf8_valid (b64_encode s)"
  by (auto intro: utf8_valid_ascii dest: b64_encode_ascii)

lemma utf8_valid_base64_type: "utf8_valid ''base64''"
  by (rule utf8_valid_ascii) simp

text \<open>What \<open>json.Unmarshal\<close> sees of a transferred string.\<close>

definition wire :: "string \<Rightarrow> json" where
  "wire s = (if utf8_valid s then JStr s
     else JObj [(''$encoding'', JStr ''base64''), (''data'', JStr (b64_encode s))])"

lemma JSONInterface_Marshal_GStr: "JSONInterface_Marshal (GStr s) = Inr (wire s)"
  by (simp add: EncodeJSON_total wire_def utf8_coerce_valid utf8_valid_b64 Base64EncodingType_def
      NoEncodingType_def utf8_valid_base64_type)

lemma decode_atom [simp]:
  "JSONInterface_decode (GStr s) = Inr (GStr s)" "JSONInterface_decode GNil = Inr GNil"
  "JSONInterface_decode (GBool b) = Inr (GBool b)" "JSONInterface_decode (GFloat64 x) = Inr (GFloat64 x)"
  by (simp_all add: JSONInterface_decode.simps [of "GStr s"] JSONInterface_decode.simps [of GNil]
      JSONInterface_decode.simps [of "GBool b"] JSONInterface_decode.simps [of "GFloat64 x"])

lemma decode_wire: "JSONInterface_decode (json_unmarshal (wire s)) = Inr (GStr s)"
  by (simp add: wire_def JSONInterface_decode.simps [of "GMap _"] get_string_def JSON_Decode_def
      Base64EncodingType_def)

lemma decode_plain_map:
  assumes "get_string m ''$encoding'' = None"
  shows "JSONInterface_decode (GMap m) =
    (case traverse (\<lambda>(k, v). case JSONInterface_decode v of Inl e \<Rightarrow> Inl e | Inr v' \<Rightarrow> Inr (k, v')) m of
       Inl e \<Rightarrow> Inl e | Inr m' \<Rightarrow> Inr (GMap m'))"
  using assms by (simp add: JSONInterface_decode.simps [of "GMap m"] split: sum.split)

text \<open>Only a string arrives as a JSON string.\<close>

lemma marshal_to_string:
  "transferable v \<Longrightarrow> JSONInterface_Marshal v = Inr j \<Longrightarrow> json_unmarshal j = GStr s \<Longrightarrow> \<exists>t. v = GStr t"
  by (erule transferable_cases) (auto split: sum.splits if_splits)

lemma traverse_decode_map:
  assumes "list_all2 (\<lambda>(k, v) (k', u). k' = k \<and> JSONInterface_decode u = Inr v) m us"
  shows "traverse (\<lambda>(k, v). case JSONInterface_decode v of Inl e \<Rightarrow> Inl e | Inr v' \<Rightarrow> Inr (k, v')) us = Inr m"
  using assms by (induction rule: list_all2_induct) (auto split: prod.splits)

lemma roundtrip_list:
  assumes "\<And>v. v \<in> set vs \<Longrightarrow> \<exists>j. JSONInterface_Marshal v = Inr j \<and> JSONInterface_decode (json_unmarshal j) = Inr v"
  shows "\<exists>js. traverse JSONInterface_Marshal vs = Inr js \<and>
    traverse JSONInterface_decode (map json_unmarshal js) = Inr vs"
  using assms by (induction vs) (fastforce split: sum.splits)+

lemma roundtrip_map:
  assumes "\<And>k v. (k, v) \<in> set m \<Longrightarrow> utf8_valid k \<and>
      (\<exists>j. JSONInterface_Marshal v = Inr j \<and> JSONInterface_decode (json_unmarshal j) = Inr v)"
  shows "\<exists>js. traverse (\<lambda>(k, v). case JSONInterface_Marshal v of Inl e \<Rightarrow> Inl e | Inr j \<Rightarrow> Inr (utf8_coerce k, j)) m = Inr js \<and>
    list_all2 (\<lambda>(k, v) (k', j). k' = k \<and> JSONInterface_Marshal v = Inr j \<and>
       JSONInterface_decode (json_unmarshal j) = Inr v) m js"
  using assms
proof (induction m)
  case Nil
  then show ?case by simp
next
  case (Cons p m)
  obtain k v where p: "p = (k, v)" by (cases p)
  then have "(k, v) \<in> set (p # m)" by simp
  from Cons.prems [OF this] obtain j where j: "utf8_valid k" "JSONInterface_Marshal v = Inr j"
    "JSONInterface_decode (json_unmarshal j) = Inr v" by blast
  have "\<And>k v. (k, v) \<in> set m \<Longrightarrow> utf8_valid k \<and>
      (\<exists>j. JSONInterface_Marshal v = Inr j \<and> JSONInterface_decode (json_unmarshal j) = Inr v)"
    by (rule Cons.prems) simp
  from Cons.IH [OF this] obtain js where
    "traverse (\<lambda>(k, v). case JSONInterface_Marshal v of Inl e \<Rightarrow> Inl e | Inr j \<Rightarrow> Inr (utf8_coerce k, j)) m = Inr js"
    "list_all2 (\<lambda>(k, v) (k', j). k' = k \<and> JSONInterface_Marshal v = Inr j \<and>
       JSONInterface_decode (json_unmarshal j) = Inr v) m js" by blast
  with p j show ?case by (simp add: utf8_coerce_valid)
qed

lemma unmarshal_JObj:
  assumes "wf_gomap m" and "list_all2 (\<lambda>(k, v) (k', j). k' = k \<and> Q v j) m js"
  shows "json_unmarshal (JObj js) = GMap (map (\<lambda>(k, j). (k, json_unmarshal j)) js)"
proof -
  have "map fst js = map fst m"
    using assms(2) by (induction rule: list_all2_induct) auto
  then have "wf_gomap ([] @ map (\<lambda>(k, j). (k, json_unmarshal j)) js)"
    using assms(1) by (simp add: wf_gomap_def comp_def case_prod_beta)
  from fold_update_distinct [OF this] show ?thesis by simp
qed

lemma wire_get_string_None:
  assumes "list_all2 (\<lambda>(k, v) (k', j). k' = k \<and> JSONInterface_Marshal v = Inr j \<and> R v j) m js"
    and "\<forall>(k, v) \<in> set m. transferable v" and "get_string m key = None" and "wf_gomap m"
  shows "get_string (map (\<lambda>(k, j). (k, json_unmarshal j)) js) key = None"
  using assms
proof (induction rule: list_all2_induct)
  case Nil
  then show ?case by simp
next
  case (Cons p m q js)
  obtain k v j where p: "p = (k, v)" "q = (k, j)" "JSONInterface_Marshal v = Inr j" "transferable v"
    using Cons by (cases p; cases q) auto
  show ?case
  proof (cases "k = key")
    case True
    with Cons.prems p have "\<nexists>s. v = GStr s" by (auto simp: get_string_def)
    with marshal_to_string p have "\<nexists>s. json_unmarshal j = GStr s" by blast
    with True p show ?thesis by (auto simp: get_string_def split: gval.splits)
  next
    case False
    with Cons p show ?thesis by (simp add: get_string_def)
  qed
qed

lemma transfer_roundtrip:
  "transferable v \<Longrightarrow> \<exists>j. JSONInterface_Marshal v = Inr j \<and> JSONInterface_decode (json_unmarshal j) = Inr v"
proof (induction v rule: gval_induct)
  case (atom v)
  from atom.prems show ?case
    by (rule transferable_cases) (use atom in \<open>auto simp: JSONInterface_Marshal_GStr decode_wire
      simp del: JSONInterface_Marshal_simps(3)\<close>)
next
  case (list vs)
  then show ?case
    using roundtrip_list [of vs] by (fastforce simp: JSONInterface_decode.simps [of "GList _"])
next
  case (map m)
  then have "\<And>k v. (k, v) \<in> set m \<Longrightarrow> utf8_valid k \<and>
      (\<exists>j. JSONInterface_Marshal v = Inr j \<and> JSONInterface_decode (json_unmarshal j) = Inr v)"
    by fastforce
  from roundtrip_map [OF this] obtain js where
    js: "traverse (\<lambda>(k, v). case JSONInterface_Marshal v of Inl e \<Rightarrow> Inl e | Inr j \<Rightarrow> Inr (utf8_coerce k, j)) m = Inr js"
    and rel: "list_all2 (\<lambda>(k, v) (k', j). k' = k \<and> JSONInterface_Marshal v = Inr j \<and>
       JSONInterface_decode (json_unmarshal j) = Inr v) m js" by blast
  let ?us = "List.map (\<lambda>(k, j). (k, json_unmarshal j)) js"
  from rel have us: "list_all2 (\<lambda>(k, v) (k', u). k' = k \<and> JSONInterface_decode u = Inr v) m ?us"
    by (auto simp: list_all2_map2 case_prod_beta elim!: list_all2_mono)
  have "get_string ?us ''$encoding'' = None"
    using wire_get_string_None [OF rel] map.prems by auto
  with us have "JSONInterface_decode (GMap ?us) = Inr (GMap m)"
    by (simp add: decode_plain_map traverse_decode_map)
  moreover from map.prems rel have "json_unmarshal (JObj js) = GMap ?us"
    by (intro unmarshal_JObj) auto
  ultimately show ?case using js by auto
qed

end
