(* ===== verification/Evaluate.thy ===== *)
theory Evaluate
  imports Unresolvable Transfer_Encoding
begin

text \<open>
  The expression evaluator, \<open>pkg/expr/evaluate\<close>: \<open>evaluate.go\<close>, \<open>option.go\<close>, \<open>scoped.go\<close>,
  \<open>resultmapper.go\<close> and \<open>select.go\<close>.

  \<open>evaluate\<close> and \<open>evaluateUnchecked\<close> call each other; the model passes the recursive call to
  \<open>evaluateUnchecked\<close>, \<open>evaluateEncoding\<close> and \<open>evaluateInvocation\<close> as the argument \<open>ev\<close> and ties
  the knot in \<open>evaluate\<close>. The recursion is on strictly smaller values, so it ends for every tree,
  depth and resolver; a negative depth never reaches zero and means "everything".
\<close>

section \<open>The evaluator and its options\<close>

type_synonym language = int

definition LanguagePath :: language where "LanguagePath = 1"
definition LanguageJSONPath :: language where "LanguageJSONPath = 2"
definition LanguageJSONPathTemplate :: language where "LanguageJSONPathTemplate = 3"

record evaluator =
  lang :: language
  invoke :: "invoker \<Rightarrow> gval res"
  resultMapper :: "result \<Rightarrow> result res"
  dataTypeResolver :: data_resolver
  secretTypeResolver :: secret_resolver
  connectionTypeResolver :: connection_resolver
  outputTypeResolver :: output_resolver
  parameterTypeResolver :: parameter_resolver
  answerTypeResolver :: answer_resolver
  invocationPositional :: "string \<Rightarrow> gval list \<Rightarrow> invoker res"
  invocationKeyword :: "string \<Rightarrow> gval gomap \<Rightarrow> invoker res"

type_synonym evaluator_option = "evaluator \<Rightarrow> evaluator"

definition WithDataTypeResolver :: "data_resolver \<Rightarrow> evaluator_option" where
  "WithDataTypeResolver r e = e\<lparr>dataTypeResolver := r\<rparr>"

definition WithSecretTypeResolver :: "secret_resolver \<Rightarrow> evaluator_option" where
  "WithSecretTypeResolver r e = e\<lparr>secretTypeResolver := r\<rparr>"

definition WithConnectionTypeResolver :: "connection_resolver \<Rightarrow> evaluator_option" where
  "WithConnectionTypeResolver r e = e\<lparr>connectionTypeResolver := r\<rparr>"

definition WithOutputTypeResolver :: "output_resolver \<Rightarrow> evaluator_option" where
  "WithOutputTypeResolver r e = e\<lparr>outputTypeResolver := r\<rparr>"

definition WithParameterTypeResolver :: "parameter_resolver \<Rightarrow> evaluator_option" where
  "WithParameterTypeResolver r e = e\<lparr>parameterTypeResolver := r\<rparr>"

definition WithAnswerTypeResolver :: "answer_resolver \<Rightarrow> evaluator_option" where
  "WithAnswerTypeResolver r e = e\<lparr>answerTypeResolver := r\<rparr>"

definition WithInvocationResolver :: "fn_map \<Rightarrow> evaluator_option" where
  "WithInvocationResolver m e = e\<lparr>invocationPositional := ResolveInvocationPositional m,
     invocationKeyword := ResolveInvocation m\<rparr>"

definition WithLanguage :: "language \<Rightarrow> evaluator_option" where
  "WithLanguage l e = e\<lparr>lang := l\<rparr>"

definition WithInvokeFunc :: "(invoker \<Rightarrow> gval res) \<Rightarrow> evaluator_option" where
  "WithInvokeFunc f e = e\<lparr>invoke := f\<rparr>"

definition WithResultMapper :: "(result \<Rightarrow> result res) \<Rightarrow> evaluator_option" where
  "WithResultMapper rm e = e\<lparr>resultMapper := rm\<rparr>"

lemmas option_defs = WithDataTypeResolver_def WithSecretTypeResolver_def WithConnectionTypeResolver_def
  WithOutputTypeResolver_def WithParameterTypeResolver_def WithAnswerTypeResolver_def
  WithInvocationResolver_def WithLanguage_def WithInvokeFunc_def WithResultMapper_def

definition IdentityResultMapper :: "result \<Rightarrow> result res" where
  "IdentityResultMapper r = Inr r"

definition NewEvaluator :: "golib \<Rightarrow> evaluator_option list \<Rightarrow> evaluator" where
  "NewEvaluator lib opts = fold (\<lambda>opt e. opt e) opts
     \<lparr>lang = LanguagePath, invoke = (\<lambda>i. i), resultMapper = IdentityResultMapper,
      dataTypeResolver = NoOpDataTypeResolver, secretTypeResolver = NoOpSecretTypeResolver,
      connectionTypeResolver = NoOpConnectionTypeResolver, outputTypeResolver = NoOpOutputTypeResolver,
      parameterTypeResolver = NoOpParameterTypeResolver, answerTypeResolver = NoOpAnswerTypeResolver,
      invocationPositional = ResolveInvocationPositional (library lib),
      invocationKeyword = ResolveInvocation (library lib)\<rparr>"

definition Copy :: "evaluator_option list \<Rightarrow> evaluator \<Rightarrow> evaluator" where
  "Copy opts e = (if length opts = 0 then e else fold (\<lambda>opt ne. opt ne) opts e)"

section \<open>Types\<close>

text \<open>The three outcomes of a lookup: a value, a reference left in place and reported, an error.\<close>

definition resolved :: "string \<Rightarrow> gval gomap \<Rightarrow> (err \<Rightarrow> 'k option) \<Rightarrow> ('k \<Rightarrow> unresolvable) \<Rightarrow> gval res \<Rightarrow> result res" where
  "resolved ty tm as_nf report r =
     (case r of
        Inr value \<Rightarrow> Inr (value_result value)
      | Inl err \<Rightarrow>
          (case as_nf err of
             Some k \<Rightarrow> Inr \<lparr>Value = GMap tm, Unresolvable = report k\<rparr>
           | None \<Rightarrow> Inl (InvalidTypeError ty err)))"

definition missing_field :: "string \<Rightarrow> string \<Rightarrow> result res" where
  "missing_field ty name = Inl (InvalidTypeError ty (FieldNotFoundError name))"

definition report_data :: "string \<Rightarrow> unresolvable" where
  "report_data q = no_unresolvable\<lparr>Data := [UnresolvableData q]\<rparr>"

definition report_secret :: "string \<Rightarrow> unresolvable" where
  "report_secret n = no_unresolvable\<lparr>Secrets := [UnresolvableSecret n]\<rparr>"

definition report_connection :: "string \<times> string \<Rightarrow> unresolvable" where
  "report_connection k = no_unresolvable\<lparr>Connections := [UnresolvableConnection (fst k) (snd k)]\<rparr>"

definition report_output :: "string \<times> string \<Rightarrow> unresolvable" where
  "report_output k = no_unresolvable\<lparr>Outputs := [UnresolvableOutput (fst k) (snd k)]\<rparr>"

definition report_parameter :: "string \<Rightarrow> unresolvable" where
  "report_parameter n = no_unresolvable\<lparr>Parameters := [UnresolvableParameter n]\<rparr>"

definition report_answer :: "string \<times> string \<Rightarrow> unresolvable" where
  "report_answer k = no_unresolvable\<lparr>Answers := [UnresolvableAnswer (fst k) (snd k)]\<rparr>"

definition report_invocation :: "string \<times> err \<Rightarrow> unresolvable" where
  "report_invocation k = no_unresolvable\<lparr>Invocations := [UnresolvableInvocation (fst k) (snd k)]\<rparr>"

lemmas report_defs = report_data_def report_secret_def report_connection_def report_output_def
  report_parameter_def report_answer_def report_invocation_def

definition evaluateType :: "evaluator \<Rightarrow> gval gomap \<Rightarrow> result res" where
  "evaluateType e tm =
     (let ty = map_of tm ''$type'' in
      if ty = Some (GStr ''Data'') then
        (case get_string tm ''query'' of
           None \<Rightarrow> missing_field ''Data'' ''query''
         | Some query \<Rightarrow> resolved ''Data'' tm as_DataNotFound report_data (dataTypeResolver e query))
      else if ty = Some (GStr ''Secret'') then
        (case get_string tm ''name'' of
           None \<Rightarrow> missing_field ''Secret'' ''name''
         | Some name \<Rightarrow> resolved ''Secret'' tm as_SecretNotFound report_secret
             (map_sum id GStr (secretTypeResolver e name)))
      else if ty = Some (GStr ''Connection'') then
        (case get_string tm ''type'' of
           None \<Rightarrow> missing_field ''Connection'' ''type''
         | Some connectionType \<Rightarrow>
             (case get_string tm ''name'' of
                None \<Rightarrow> missing_field ''Connection'' ''name''
              | Some name \<Rightarrow> resolved ''Connection'' tm as_ConnectionNotFound report_connection
                  (connectionTypeResolver e (connectionType, name))))
      else if ty = Some (GStr ''Output'') then
        (case (case get_string tm ''from'' of None \<Rightarrow> get_string tm ''taskName'' | Some from \<Rightarrow> Some from) of
           None \<Rightarrow> missing_field ''Output'' ''from''
         | Some from \<Rightarrow>
             (case get_string tm ''name'' of
                None \<Rightarrow> missing_field ''Output'' ''name''
              | Some name \<Rightarrow> resolved ''Output'' tm as_OutputNotFound report_output
                  (outputTypeResolver e (from, name))))
      else if ty = Some (GStr ''Parameter'') then
        (case get_string tm ''name'' of
           None \<Rightarrow> missing_field ''Parameter'' ''name''
         | Some name \<Rightarrow> resolved ''Parameter'' tm as_ParameterNotFound report_parameter
             (parameterTypeResolver e name))
      else if ty = Some (GStr ''Answer'') then
        (case get_string tm ''askRef'' of
           None \<Rightarrow> missing_field ''Answer'' ''askRef''
         | Some askRef \<Rightarrow>
             (case get_string tm ''name'' of
                None \<Rightarrow> missing_field ''Answer'' ''name''
              | Some name \<Rightarrow> resolved ''Answer'' tm as_AnswerNotFound report_answer
                  (answerTypeResolver e (askRef, name))))
      else Inr (value_result (GMap tm)))"

section \<open>Encodings and invocations\<close>

definition decoded_result :: "string \<Rightarrow> result res \<Rightarrow> result res" where
  "decoded_result ty r =
     (case r of
        Inl err \<Rightarrow> Inl (InvalidEncodingError ty err)
      | Inr dr \<Rightarrow>
          if \<not> Complete dr then
            Inr (Result_extends (value_result (GMap [(''$encoding'', GStr ty), (''data'', Value dr)])) dr)
          else
            (case Value dr of
               GStr data \<Rightarrow>
                 (case JSON_Decode ty data of
                    Inl err \<Rightarrow> Inl (InvalidEncodingError ty err)
                  | Inr decoded \<Rightarrow> Inr (value_result (GStr decoded)))
             | w \<Rightarrow> Inl (InvalidEncodingError ty (UnexpectedTypeError [TString] (type_of w)))))"

definition evaluateEncoding :: "(gval \<Rightarrow> int \<Rightarrow> result res) \<Rightarrow> gval gomap \<Rightarrow> result res" where
  "evaluateEncoding ev em =
     (case get_string em ''$encoding'' of
        None \<Rightarrow> Inr (value_result (GMap em))
      | Some ty \<Rightarrow> decoded_result ty (ev (case map_of em ''data'' of None \<Rightarrow> GNil | Some d \<Rightarrow> d) (-1)))"

text \<open>The switch on the evaluated argument: a slice holds positional arguments, a map keyword
  arguments, anything else is the only positional argument.\<close>

definition resolve_call :: "evaluator \<Rightarrow> string \<Rightarrow> gval \<Rightarrow> invoker res" where
  "resolve_call e name a =
     (case a of
        GList args \<Rightarrow> invocationPositional e name args
      | GMap args \<Rightarrow> invocationKeyword e name args
      | arg \<Rightarrow> invocationPositional e name [arg])"

text \<open>Called on maps with one entry only; ranging over the map leaves its key and value.\<close>

definition evaluateInvocation :: "evaluator \<Rightarrow> (gval \<Rightarrow> int \<Rightarrow> result res) \<Rightarrow> gval gomap \<Rightarrow> result res" where
  "evaluateInvocation e ev im =
     (case last im of (key, value) \<Rightarrow>
      let name = trim_prefix key ''$fn.'' in
      (case ev value (-1) of
         Inl err \<Rightarrow> Inl err
       | Inr a \<Rightarrow>
           if \<not> Complete a then Inr (Result_extends (value_result (GMap [(key, Value a)])) a)
           else
             (case resolve_call e name (Value a) of
                Inl err \<Rightarrow>
                  (case as_FunctionResolutionError err of
                     Some k \<Rightarrow> Inr \<lparr>Value = GMap im, Unresolvable = report_invocation k\<rparr>
                   | None \<Rightarrow> Inl err)
              | Inr invoker \<Rightarrow>
                  (case invoke e invoker of
                     Inl err \<Rightarrow> Inl err
                   | Inr v \<Rightarrow> Inr (value_result v)))))"

section \<open>The recursion\<close>

text \<open>The loops over the items of a slice and of a map: the first error stops them and is wrapped
  with the path of the item.\<close>

definition eval_items :: "(gval \<Rightarrow> result res) \<Rightarrow> (string \<times> gval) list \<Rightarrow> (string \<times> result) list res" where
  "eval_items ev items = traverse (\<lambda>(k, v).
     case ev v of Inl err \<Rightarrow> Inl (PathEvaluationError k err) | Inr nv \<Rightarrow> Inr (k, nv)) items"

definition collect_items :: "(string \<times> result) list \<Rightarrow> unresolvable" where
  "collect_items nvs = fold (\<lambda>x u. extends u x) (map (Unresolvable \<circ> snd) nvs) no_unresolvable"

definition index_items :: "gval list \<Rightarrow> (string \<times> gval) list" where
  "index_items vs = zip (map itoa [0..<length vs]) vs"

definition evaluateUnchecked :: "evaluator \<Rightarrow> (gval \<Rightarrow> int \<Rightarrow> result res) \<Rightarrow> gval \<Rightarrow> int \<Rightarrow> result res" where
  "evaluateUnchecked e ev v depth =
     (if depth = 0 then Inr (value_result v)
      else
        (case v of
           GList vt \<Rightarrow>
             (if depth = 1 then Inr (value_result v)
              else
                (case eval_items (\<lambda>v. ev v (depth - 1)) (index_items vt) of
                   Inl err \<Rightarrow> Inl err
                 | Inr nvs \<Rightarrow> Inr \<lparr>Value = GList (map (Value \<circ> snd) nvs), Unresolvable = collect_items nvs\<rparr>))
         | GMap vt \<Rightarrow>
             (if map_of vt ''$type'' \<noteq> None then evaluateType e vt
              else if map_of vt ''$encoding'' \<noteq> None then evaluateEncoding ev vt
              else if length vt = 1 \<and> has_prefix (fst (last vt)) ''$fn.'' then evaluateInvocation e ev vt
              else if length vt \<noteq> 1 \<and> depth = 1 then Inr (value_result v)
              else
                (case eval_items (\<lambda>v. ev v (depth - 1)) vt of
                   Inl err \<Rightarrow> Inl err
                 | Inr nvs \<Rightarrow> Inr \<lparr>Value = GMap (map (\<lambda>(k, nv). (k, Value nv)) nvs),
                     Unresolvable = collect_items nvs\<rparr>))
         | _ \<Rightarrow> Inr (value_result v)))"

definition supported :: "gval \<Rightarrow> bool" where
  "supported v \<longleftrightarrow> (case v of GBytes _ \<Rightarrow> False | GJSONOrStr _ _ \<Rightarrow> False | GOther _ \<Rightarrow> False | _ \<Rightarrow> True)"

definition checked :: "result res \<Rightarrow> result res" where
  "checked r = (case r of
     Inl err \<Rightarrow> Inl err
   | Inr candidate \<Rightarrow>
       if supported (Value candidate) then Inr candidate
       else Inl (UnsupportedValueError (type_of (Value candidate))))"

lemma eval_items_cong:
  "(\<And>k w. (k, w) \<in> set items \<Longrightarrow> f w = g w) \<Longrightarrow> eval_items f items = eval_items g items"
  unfolding eval_items_def by (rule traverse_cong) (auto split: prod.splits)

lemma set_index_items: "(k, w) \<in> set (index_items vs) \<Longrightarrow> w \<in> set vs"
  by (auto simp: index_items_def dest: set_zip_rightD)

lemma evaluateEncoding_cong:
  assumes "\<And>w. size w < size (GMap em) \<Longrightarrow> f w (-1) = g w (-1)"
  shows "evaluateEncoding f em = evaluateEncoding g em"
proof -
  let ?d = "case map_of em ''data'' of None \<Rightarrow> GNil | Some d \<Rightarrow> d"
  have "size ?d < size (GMap em)"
    using size_in_map_option [of em "''data''"] by (cases "map_of em ''data''") auto
  then have "f ?d (-1) = g ?d (-1)" by (rule assms)
  then show ?thesis by (simp only: evaluateEncoding_def)
qed

lemma evaluateInvocation_cong:
  assumes "im \<noteq> []" and "\<And>w. size w < size (GMap im) \<Longrightarrow> f w (-1) = g w (-1)"
  shows "evaluateInvocation e f im = evaluateInvocation e g im"
proof -
  obtain key w where l: "last im = (key, w)" by fastforce
  then have "(key, w) \<in> set im" using assms(1) by (metis last_in_set)
  then have "f w (-1) = g w (-1)" by (intro assms size_in_map)
  with l show ?thesis by (simp add: evaluateInvocation_def)
qed

lemma evaluateUnchecked_cong [fundef_cong]:
  assumes "e = e'" "v = v'" "depth = depth'"
    and "\<And>w d. size w < size v' \<Longrightarrow> f w d = g w d"
  shows "evaluateUnchecked e f v depth = evaluateUnchecked e' g v' depth'"
proof (cases v')
  case (GList vs)
  have "eval_items (\<lambda>v. f v (depth' - 1)) (index_items vs) = eval_items (\<lambda>v. g v (depth' - 1)) (index_items vs)"
    using GList assms(4) by (intro eval_items_cong) (meson set_index_items size_in_list)
  with GList assms show ?thesis by (simp add: evaluateUnchecked_def)
next
  case (GMap m)
  have "eval_items (\<lambda>v. f v (depth' - 1)) m = eval_items (\<lambda>v. g v (depth' - 1)) m"
    using GMap assms(4) by (intro eval_items_cong) (meson size_in_map)
  moreover have "evaluateEncoding f m = evaluateEncoding g m"
    using GMap assms(4) by (intro evaluateEncoding_cong) simp
  moreover have "length m = 1 \<Longrightarrow> evaluateInvocation e f m = evaluateInvocation e g m"
    using GMap assms(4) by (intro evaluateInvocation_cong) auto
  ultimately show ?thesis using GMap assms by (simp add: evaluateUnchecked_def)
qed (use assms in \<open>simp_all add: evaluateUnchecked_def\<close>)

function evaluate :: "evaluator \<Rightarrow> gval \<Rightarrow> int \<Rightarrow> result res" where
  "evaluate e v depth = checked (evaluateUnchecked e (\<lambda>w d. evaluate e w d) v depth)"
  by pat_completeness auto
termination
  by (relation "measure (\<lambda>(e, v, depth). size v)") auto

declare evaluate.simps [simp del]

section \<open>Entry points\<close>

definition Evaluate :: "evaluator \<Rightarrow> gval \<Rightarrow> int \<Rightarrow> result res" where
  "Evaluate e tree depth = (case evaluate e tree depth of Inl err \<Rightarrow> Inl err | Inr r \<Rightarrow> resultMapper e r)"

definition EvaluateAll :: "evaluator \<Rightarrow> gval \<Rightarrow> result res" where
  "EvaluateAll e tree = Evaluate e tree (-1)"

record scoped_evaluator =
  parent :: evaluator
  tree :: gval

definition ScopeTo :: "evaluator \<Rightarrow> gval \<Rightarrow> scoped_evaluator" where
  "ScopeTo e t = \<lparr>parent = e, tree = t\<rparr>"

definition Scoped_Evaluate :: "scoped_evaluator \<Rightarrow> int \<Rightarrow> result res" where
  "Scoped_Evaluate se depth = Evaluate (parent se) (tree se) depth"

definition Scoped_EvaluateAll :: "scoped_evaluator \<Rightarrow> result res" where
  "Scoped_EvaluateAll se = EvaluateAll (parent se) (tree se)"

definition Scoped_Copy :: "evaluator_option list \<Rightarrow> scoped_evaluator \<Rightarrow> scoped_evaluator" where
  "Scoped_Copy opts se = \<lparr>parent = Copy opts (parent se), tree = tree se\<rparr>"

section \<open>Result mappers\<close>

fun ChainResultMappers :: "(result \<Rightarrow> result res) list \<Rightarrow> result \<Rightarrow> result res" where
  "ChainResultMappers [] r = Inr r"
| "ChainResultMappers (rm # rms) r = (case rm r of Inl err \<Rightarrow> Inl err | Inr nr \<Rightarrow> ChainResultMappers rms nr)"

function utf8safe :: "gval \<Rightarrow> gval res" where
  "utf8safe v =
     (case v of
        GBytes b \<Rightarrow> (case EncodeJSON b of Inl err \<Rightarrow> Inl err | Inr (t, d) \<Rightarrow> Inr (GJSONOrStr t d))
      | GStr s \<Rightarrow> (case EncodeJSON s of Inl err \<Rightarrow> Inl err | Inr (t, d) \<Rightarrow> Inr (GJSONOrStr t d))
      | GMap m \<Rightarrow>
          (case traverse (\<lambda>(k, w). case utf8safe w of Inl err \<Rightarrow> Inl err | Inr w' \<Rightarrow> Inr (k, w')) m of
             Inl err \<Rightarrow> Inl err | Inr m' \<Rightarrow> Inr (GMap m'))
      | GList vs \<Rightarrow> (case traverse utf8safe vs of Inl err \<Rightarrow> Inl err | Inr vs' \<Rightarrow> Inr (GList vs'))
      | _ \<Rightarrow> Inr v)"
  by pat_completeness auto
termination
  by (relation "measure size") (auto simp del: gval.size dest: gval_sizes)

declare utf8safe.simps [simp del]

definition UTF8SafeResultMapper :: "result \<Rightarrow> result res" where
  "UTF8SafeResultMapper r = (case utf8safe (Value r) of Inl err \<Rightarrow> Inl err | Inr v \<Rightarrow> Inr (r\<lparr>Value := v\<rparr>))"

text \<open>\<open>JSONResultMapper\<close> as \<open>NewJSONResultMapper\<close> builds it: the options are not applied, so the
  indentation is always 0 and the document is printed by \<open>json.Marshal\<close>. The bytes it stores are
  the returned document.\<close>

definition JSONResultMapper :: "result \<Rightarrow> (json \<times> unresolvable) res" where
  "JSONResultMapper r =
     (case UTF8SafeResultMapper r of
        Inl err \<Rightarrow> Inl err
      | Inr r' \<Rightarrow> (case json_marshal (Value r') of Inl err \<Rightarrow> Inl err | Inr j \<Rightarrow> Inr (j, Unresolvable r')))"

end
