(* ===== verification/Evaluate_Props.thy ===== *)
theory Evaluate_Props
  imports Evaluate
begin

text \<open>
  The theorems on the evaluator: values without expressions evaluate to themselves, reports are
  well formed and list exactly the references that no resolver answers, results have
  JSON-compatible types, the depth only cuts the recursion, and evaluating in two stages (in the
  controller without resolvers, then in the metadata API with them) gives what one evaluation
  would.
\<close>

section \<open>Unfolding the evaluator\<close>

abbreviation evals :: "evaluator \<Rightarrow> gval \<Rightarrow> int \<Rightarrow> result res" where
  "evals e \<equiv> (\<lambda>w d. evaluate e w d)"

lemma checked_Inr: "checked r = Inr x \<longleftrightarrow> r = Inr x \<and> supported (Value x)"
  by (auto simp: checked_def split: sum.splits)

lemma checked_Inl [simp]: "checked (Inl err) = Inl err"
  by (simp add: checked_def)

lemma checked_supported [simp]: "supported (Value x) \<Longrightarrow> checked (Inr x) = Inr x"
  by (simp add: checked_def)

lemma supported_simps [simp]:
  "supported GNil" "supported (GBool b)" "supported (GStr s)" "supported (GList vs)" "supported (GMap m)"
  by (simp_all add: supported_def)

definition is_fn_map :: "gval gomap \<Rightarrow> bool" where
  "is_fn_map m \<longleftrightarrow> length m = 1 \<and> has_prefix (fst (last m)) ''$fn.''"

definition plain_map :: "gval gomap \<Rightarrow> bool" where
  "plain_map m \<longleftrightarrow> map_of m ''$type'' = None \<and> map_of m ''$encoding'' = None \<and> \<not> is_fn_map m"

lemma is_fn_map_cong: "map fst m' = map fst m \<Longrightarrow> is_fn_map m' = is_fn_map m"
  by (cases m rule: rev_cases; cases m' rule: rev_cases)
    (auto simp: is_fn_map_def dest: map_eq_imp_length_eq)

lemma plain_map_cong: "map fst m' = map fst m \<Longrightarrow> plain_map m' = plain_map m"
  unfolding plain_map_def
  using is_fn_map_cong [of m' m] map_of_dom_cong [of m' m "''$type''"] map_of_dom_cong [of m' m "''$encoding''"] by simp

lemma evaluate_list:
  "depth \<noteq> 0 \<Longrightarrow> depth \<noteq> 1 \<Longrightarrow> evaluate e (GList vs) depth =
     (case eval_items (\<lambda>v. evaluate e v (depth - 1)) (index_items vs) of
        Inl err \<Rightarrow> Inl err
      | Inr nvs \<Rightarrow> Inr \<lparr>Value = GList (map (Value \<circ> snd) nvs), Unresolvable = collect_items nvs\<rparr>)"
  by (simp add: evaluate.simps [of e "GList vs"] evaluateUnchecked_def split: sum.split)

lemma evaluate_type:
  "depth \<noteq> 0 \<Longrightarrow> map_of m ''$type'' \<noteq> None \<Longrightarrow> evaluate e (GMap m) depth = checked (evaluateType e m)"
  by (simp add: evaluate.simps [of e "GMap m"] evaluateUnchecked_def)

lemma evaluate_encoding:
  "depth \<noteq> 0 \<Longrightarrow> map_of m ''$type'' = None \<Longrightarrow> map_of m ''$encoding'' \<noteq> None \<Longrightarrow>
   evaluate e (GMap m) depth = checked (evaluateEncoding (evals e) m)"
  by (simp add: evaluate.simps [of e "GMap m"] evaluateUnchecked_def)

lemma evaluate_invocation:
  "depth \<noteq> 0 \<Longrightarrow> map_of m ''$type'' = None \<Longrightarrow> map_of m ''$encoding'' = None \<Longrightarrow> is_fn_map m \<Longrightarrow>
   evaluate e (GMap m) depth = checked (evaluateInvocation e (evals e) m)"
  by (simp add: evaluate.simps [of e "GMap m"] evaluateUnchecked_def is_fn_map_def)

lemma evaluate_plain:
  "depth \<noteq> 0 \<Longrightarrow> depth \<noteq> 1 \<Longrightarrow> plain_map m \<Longrightarrow> evaluate e (GMap m) depth =
     (case eval_items (\<lambda>v. evaluate e v (depth - 1)) m of
        Inl err \<Rightarrow> Inl err
      | Inr nvs \<Rightarrow> Inr \<lparr>Value = GMap (map (\<lambda>(k, nv). (k, Value nv)) nvs), Unresolvable = collect_items nvs\<rparr>)"
  by (auto simp: evaluate.simps [of e "GMap m"] evaluateUnchecked_def plain_map_def is_fn_map_def split: sum.split)

definition is_container :: "gval \<Rightarrow> bool" where
  "is_container v \<longleftrightarrow> (case v of GList _ \<Rightarrow> True | GMap _ \<Rightarrow> True | _ \<Rightarrow> False)"

lemma evaluate_atom:
  "\<not> is_container v \<Longrightarrow> evaluate e v depth = checked (Inr (value_result v))"
  by (subst evaluate.simps, cases v) (simp_all add: evaluateUnchecked_def is_container_def)

lemma evaluate_depth_0: "evaluate e v 0 = checked (Inr (value_result v))"
  by (simp add: evaluate.simps [of e v] evaluateUnchecked_def)

lemmas evaluate_maps = evaluate_type evaluate_encoding evaluate_invocation evaluate_plain

text \<open>The shape of every value, as the type switch of \<open>evaluateUnchecked\<close> takes it apart.\<close>

lemma gval_eval_cases:
  obtains (atom) "\<not> is_container v"
  | (list) vs where "v = GList vs"
  | (type) m where "v = GMap m" "map_of m ''$type'' \<noteq> None"
  | (encoding) m where "v = GMap m" "map_of m ''$type'' = None" "map_of m ''$encoding'' \<noteq> None"
  | (invocation) m where "v = GMap m" "map_of m ''$type'' = None" "map_of m ''$encoding'' = None" "is_fn_map m"
  | (plain) m where "v = GMap m" "plain_map m"
proof -
  consider "\<not> is_container v" | vs where "v = GList vs" | m where "v = GMap m"
    by (cases v) (simp_all add: is_container_def)
  then show thesis
  proof cases
    case (3 m)
    note map_cases = type [OF 3] encoding [OF 3] invocation [OF 3] plain [OF 3, unfolded plain_map_def]
    show ?thesis
      by (cases "map_of m ''$type'' = None"; cases "map_of m ''$encoding'' = None"; cases "is_fn_map m")
        (simp_all only: map_cases not_False_eq_True simp_thms)
  qed (fact atom, fact list)
qed

lemma fn_map_obtain:
  assumes "is_fn_map m" obtains key w where "m = [(key, w)]" "has_prefix key ''$fn.''"
  using assms by (cases m rule: rev_cases) (auto simp: is_fn_map_def)

lemma eval_items_Inr:
  "eval_items ev items = Inr nvs \<longleftrightarrow> list_all2 (\<lambda>(k, v) (k', nv). k' = k \<and> ev v = Inr nv) items nvs"
  unfolding eval_items_def traverse_Inr_iff
  by (rule iffI; erule list_all2_mono) (auto split: sum.splits prod.splits)

lemma eval_items_keys: "eval_items ev items = Inr nvs \<Longrightarrow> map fst nvs = map fst items"
  unfolding eval_items_Inr by (induction rule: list_all2_induct) auto

lemma causes_collect: "causes (collect_items nvs) = (\<Union>(k, nv) \<in> set nvs. causes (Unresolvable nv))"
  by (auto simp: collect_items_def causes_fold_extends)

section \<open>Types of results\<close>

lemma evaluate_supported: "evaluate e v depth = Inr r \<Longrightarrow> supported (Value r)"
  by (subst (asm) evaluate.simps) (simp add: checked_Inr)

section \<open>Reports are well formed\<close>

lemma wf_reports [simp]:
  "wf_unresolvable (report_data q)" "wf_unresolvable (report_secret q)" "wf_unresolvable (report_connection k)"
  "wf_unresolvable (report_output k)" "wf_unresolvable (report_parameter q)"
  "wf_unresolvable (report_answer k)" "wf_unresolvable (report_invocation i)"
  by (simp_all add: wf_unresolvable_def report_defs no_unresolvable_def)

lemma resolved_Inr: "resolved ty tm as_nf report r = Inr x \<Longrightarrow>
    (\<exists>v. r = Inr v \<and> x = value_result v) \<or>
    (\<exists>err k. r = Inl err \<and> as_nf err = Some k \<and> x = \<lparr>Value = GMap tm, Unresolvable = report k\<rparr>)"
  by (auto simp: resolved_def split: sum.splits option.splits)

lemma missing_field_Inr [simp]: "missing_field ty n \<noteq> Inr x"
  by (simp add: missing_field_def)

lemma wf_evaluateType: "evaluateType e tm = Inr r \<Longrightarrow> wf_unresolvable (Unresolvable r)"
  by (auto simp: evaluateType_def Let_def split: if_splits option.splits dest!: resolved_Inr)

lemma wf_Result_extends:
  "wf_unresolvable (Unresolvable r) \<Longrightarrow> wf_unresolvable (Unresolvable s) \<Longrightarrow>
   wf_unresolvable (Unresolvable (Result_extends r s))"
  by (simp add: Result_extends_def wf_extends)

lemma wf_evaluateEncoding:
  assumes "\<And>w r. size w < size (GMap em) \<Longrightarrow> ev w (-1) = Inr r \<Longrightarrow> wf_unresolvable (Unresolvable r)"
    and "evaluateEncoding ev em = Inr r"
  shows "wf_unresolvable (Unresolvable r)"
proof -
  let ?d = "case map_of em ''data'' of None \<Rightarrow> GNil | Some d \<Rightarrow> d"
  have "size ?d < size (GMap em)"
    using size_in_map_option [of em "''data''"] by (cases "map_of em ''data''") auto
  then have "ev ?d (-1) = Inr dr \<Longrightarrow> wf_unresolvable (Unresolvable dr)" for dr by (rule assms(1))
  with assms(2) show ?thesis
    by (auto simp: evaluateEncoding_def decoded_result_def split: option.splits sum.splits if_splits gval.splits
        intro!: wf_Result_extends)
qed

lemma wf_evaluateInvocation:
  assumes "\<And>w r. size w < size (GMap im) \<Longrightarrow> ev w (-1) = Inr r \<Longrightarrow> wf_unresolvable (Unresolvable r)"
    and "is_fn_map im" and "evaluateInvocation e ev im = Inr r"
  shows "wf_unresolvable (Unresolvable r)"
proof -
  obtain key w where im: "im = [(key, w)]" using assms(2) by (rule fn_map_obtain)
  then have "ev w (-1) = Inr a \<Longrightarrow> wf_unresolvable (Unresolvable a)" for a by (intro assms(1)) auto
  with assms(3) im show ?thesis
    by (auto simp: evaluateInvocation_def Let_def split: option.splits sum.splits if_splits
        intro!: wf_Result_extends)
qed

lemma wf_collect:
  "(\<And>k nv. (k, nv) \<in> set nvs \<Longrightarrow> wf_unresolvable (Unresolvable nv)) \<Longrightarrow> wf_unresolvable (collect_items nvs)"
  unfolding collect_items_def by (rule wf_fold_extends) auto

lemma eval_items_member:
  "eval_items ev items = Inr nvs \<Longrightarrow> (k, nv) \<in> set nvs \<Longrightarrow> \<exists>v. (k, v) \<in> set items \<and> ev v = Inr nv"
  unfolding eval_items_Inr by (induction rule: list_all2_induct) auto

lemma wf_evaluate: "evaluate e v depth = Inr r \<Longrightarrow> wf_unresolvable (Unresolvable r)"
proof (induction e v depth arbitrary: r rule: evaluate.induct)
  case (1 e v depth)
  note IH = "1.IH"
  from "1.prems" have u: "evaluateUnchecked e (evals e) v depth = Inr r"
    by (simp add: evaluate.simps [of e v] checked_Inr)
  show ?case
  proof (cases v)
    case (GList vs)
    have "wf_unresolvable (collect_items nvs)"
      if "eval_items (\<lambda>v. evaluate e v (depth - 1)) (index_items vs) = Inr nvs" for nvs
      using that IH GList by (intro wf_collect) (meson eval_items_member set_index_items size_in_list)
    with u GList show ?thesis by (auto simp: evaluateUnchecked_def split: if_splits sum.splits)
  next
    case (GMap m)
    have "wf_unresolvable (collect_items nvs)"
      if "eval_items (\<lambda>v. evaluate e v (depth - 1)) m = Inr nvs" for nvs
      using that IH GMap by (intro wf_collect) (meson eval_items_member size_in_map)
    moreover have "evaluateEncoding (evals e) m = Inr r \<Longrightarrow> wf_unresolvable (Unresolvable r)"
      by (rule wf_evaluateEncoding [of m "evals e"]) (use IH GMap in blast)+
    moreover have "is_fn_map m \<Longrightarrow> evaluateInvocation e (evals e) m = Inr r \<Longrightarrow> wf_unresolvable (Unresolvable r)"
      by (rule wf_evaluateInvocation [of m "evals e" e]) (use IH GMap in blast)+
    ultimately show ?thesis using u GMap
      by (auto simp: evaluateUnchecked_def is_fn_map_def split: if_splits sum.splits intro: wf_evaluateType)
  qed (use u in \<open>auto simp: evaluateUnchecked_def split: if_splits\<close>)
qed

section \<open>Values without expressions\<close>

definition known_type :: "gval gomap \<Rightarrow> bool" where
  "known_type m \<longleftrightarrow> map_of m ''$type'' \<in>
     {Some (GStr ''Data''), Some (GStr ''Secret''), Some (GStr ''Connection''), Some (GStr ''Output''),
      Some (GStr ''Parameter''), Some (GStr ''Answer'')}"

text \<open>Inert values hold nothing to evaluate: no reference of a known type, no encoding with a
  string type, no invocation, and no value of an unsupported Go type.\<close>

function inert :: "gval \<Rightarrow> bool" where
  "inert v =
     (case v of
        GList vs \<Rightarrow> list_all inert vs
      | GMap m \<Rightarrow>
          if map_of m ''$type'' \<noteq> None then \<not> known_type m
          else if map_of m ''$encoding'' \<noteq> None then get_string m ''$encoding'' = None
          else \<not> is_fn_map m \<and> list_all (\<lambda>(k, w). inert w) m
      | _ \<Rightarrow> supported v)"
  by pat_completeness auto
termination
  by (relation "measure size") (auto simp del: gval.size dest: gval_sizes)

declare inert.simps [simp del]

lemma inert_GList [simp]: "inert (GList vs) \<longleftrightarrow> (\<forall>v \<in> set vs. inert v)"
  by (simp add: inert.simps [of "GList vs"] list_all_iff)

lemma inert_plain: "plain_map m \<Longrightarrow> inert (GMap m) \<longleftrightarrow> (\<forall>(k, w) \<in> set m. inert w)"
  by (auto simp: inert.simps [of "GMap m"] plain_map_def list_all_iff)

lemma inert_atom: "\<not> is_container v \<Longrightarrow> inert v = supported v"
  by (cases v) (simp_all add: inert.simps [of v] is_container_def inert.simps)

lemma inert_type: "map_of m ''$type'' \<noteq> None \<Longrightarrow> inert (GMap m) \<longleftrightarrow> \<not> known_type m"
  by (simp add: inert.simps [of "GMap m"])

lemma inert_encoding:
  "map_of m ''$type'' = None \<Longrightarrow> map_of m ''$encoding'' \<noteq> None \<Longrightarrow>
   inert (GMap m) \<longleftrightarrow> get_string m ''$encoding'' = None"
  by (simp add: inert.simps [of "GMap m"])

lemma inert_fn: "map_of m ''$type'' = None \<Longrightarrow> map_of m ''$encoding'' = None \<Longrightarrow> is_fn_map m \<Longrightarrow> \<not> inert (GMap m)"
  by (simp add: inert.simps [of "GMap m"])

lemma inert_supported: "inert v \<Longrightarrow> supported v"
  by (cases v) (simp_all add: inert.simps [of v] supported_def inert.simps)

lemma inert_GStr [simp]: "inert (GStr s)"
  by (simp add: inert.simps)

lemma evaluateType_unknown: "\<not> known_type m \<Longrightarrow> evaluateType e m = Inr (value_result (GMap m))"
  by (simp add: known_type_def evaluateType_def)

lemma eval_items_values:
  "(\<And>k v. (k, v) \<in> set items \<Longrightarrow> ev v = Inr (value_result v)) \<Longrightarrow>
   eval_items ev items = Inr (map (\<lambda>(k, v). (k, value_result v)) items)"
  unfolding eval_items_Inr list_all2_conv_all_nth
  by (auto simp: set_conv_nth split: prod.splits) metis

lemma collect_values: "collect_items (map (\<lambda>(k, v). (k, value_result v)) items) = no_unresolvable"
  unfolding collect_items_def by (induction items) auto

lemma map_snd_index_items [simp]: "map snd (index_items vs) = vs"
  by (simp add: index_items_def)

lemma evaluate_inert_aux: "inert v \<Longrightarrow> evaluate e v depth = Inr (value_result v)"
proof (induction e v depth rule: evaluate.induct)
  case (1 e v depth)
  show ?case
  proof (cases "depth = 0")
    case True
    with inert_supported [OF "1.prems"] show ?thesis by (simp add: evaluate_depth_0)
  next
    case False
    show ?thesis
    proof (cases v rule: gval_eval_cases)
      case atom
      with inert_supported [OF "1.prems"] show ?thesis by (simp add: evaluate_atom)
    next
      case (list vs)
      have "eval_items (\<lambda>v. evaluate e v (depth - 1)) (index_items vs) =
          Inr (map (\<lambda>(k, v). (k, value_result v)) (index_items vs))"
        using "1" list by (intro eval_items_values) (auto simp del: gval.size dest: set_index_items intro!: "1.IH" size_in_list)
      moreover have "map (\<lambda>x. Value (snd (case x of (k, v) \<Rightarrow> (k, value_result v)))) (index_items vs) = vs"
        using map_snd_index_items [of vs] by (simp add: case_prod_beta)
      ultimately show ?thesis using False list
        by (cases "depth = 1") (simp_all add: evaluate_list collect_values value_result_def [of "GList vs"] comp_def
            evaluate.simps [of e "GList vs" 1] evaluateUnchecked_def)
    next
      case (type m)
      with False "1.prems" show ?thesis by (simp add: evaluate_type inert_type evaluateType_unknown)
    next
      case (encoding m)
      with False "1.prems" show ?thesis by (simp add: evaluate_encoding inert_encoding evaluateEncoding_def)
    next
      case (invocation m)
      with "1.prems" inert_fn show ?thesis by blast
    next
      case (plain m)
      have "eval_items (\<lambda>v. evaluate e v (depth - 1)) m = Inr (map (\<lambda>(k, v). (k, value_result v)) m)"
        using "1" plain by (intro eval_items_values) (auto simp del: gval.size simp: inert_plain intro!: "1.IH" size_in_map)
      moreover have "map (\<lambda>x. case case x of (k, v) \<Rightarrow> (k, value_result v) of (k, nv) \<Rightarrow> (k, Value nv)) m = m"
        by (auto simp: case_prod_beta intro: map_idI)
      ultimately have items: "eval_items (\<lambda>v. evaluate e v (depth - 1)) m = Inr (map (\<lambda>(k, v). (k, value_result v)) m)"
        "map (\<lambda>(k, nv). (k, Value nv)) (map (\<lambda>(k, v). (k, value_result v)) m) = m"
        by (simp_all add: comp_def)
      show ?thesis
      proof (cases "depth = 1 \<and> length m \<noteq> 1")
        case True
        with plain show ?thesis
          by (auto simp: evaluate.simps [of e "GMap m"] evaluateUnchecked_def plain_map_def)
      next
        case False
        with items plain \<open>depth \<noteq> 0\<close> show ?thesis
          by (auto simp: evaluate.simps [of e "GMap m"] evaluateUnchecked_def plain_map_def is_fn_map_def
              collect_values value_result_def [of "GMap m"] simp del: map_map)
      qed
    qed
  qed
qed

section \<open>Depth\<close>

text \<open>The depth from which on nothing of a value is cut off.\<close>

function levels :: "gval \<Rightarrow> nat" where
  "levels v =
     (case v of
        GList vs \<Rightarrow> Suc (foldr max (map levels vs) 1)
      | GMap m \<Rightarrow>
          if plain_map m then Suc (foldr max (map (\<lambda>(k, w). levels w) m) 1) else 1
      | _ \<Rightarrow> 0)"
  by pat_completeness auto
termination
  by (relation "measure size") (auto simp del: gval.size dest: gval_sizes)

declare levels.simps [simp del]

lemma foldr_max_bounds: "n \<le> foldr max ns (n :: nat)" "x \<in> set ns \<Longrightarrow> x \<le> foldr max ns n"
  by (induction ns) auto

lemma levels_list: "2 \<le> levels (GList vs)" "w \<in> set vs \<Longrightarrow> levels w < levels (GList vs)"
  using foldr_max_bounds [of 1 "map levels vs"] foldr_max_bounds(2) [of "levels w" "map levels vs" 1]
  by (auto simp: levels.simps [of "GList vs"])

lemma levels_plain:
  "plain_map m \<Longrightarrow> 2 \<le> levels (GMap m)" "plain_map m \<Longrightarrow> (k, w) \<in> set m \<Longrightarrow> levels w < levels (GMap m)"
  using foldr_max_bounds [of 1 "map (\<lambda>(k, w). levels w) m"]
    foldr_max_bounds(2) [of "levels w" "map (\<lambda>(k, w). levels w) m" 1]
  by (force simp: levels.simps [of "GMap m"])+

lemma levels_expression: "\<not> plain_map m \<Longrightarrow> levels (GMap m) = 1"
  by (simp add: levels.simps)

definition enough :: "int \<Rightarrow> gval \<Rightarrow> bool" where
  "enough depth v \<longleftrightarrow> depth < 0 \<or> int (levels v) \<le> depth"

lemma enough_list: "enough depth (GList vs) \<Longrightarrow> w \<in> set vs \<Longrightarrow> enough (depth - 1) w"
  and enough_list_depth: "enough depth (GList vs) \<Longrightarrow> depth \<noteq> 0 \<and> depth \<noteq> 1"
  using levels_list(1) [of vs] by (auto simp: enough_def dest!: levels_list(2))

lemma enough_plain: "enough depth (GMap m) \<Longrightarrow> plain_map m \<Longrightarrow> (k, w) \<in> set m \<Longrightarrow> enough (depth - 1) w"
  and enough_plain_depth: "enough depth (GMap m) \<Longrightarrow> plain_map m \<Longrightarrow> depth \<noteq> 0 \<and> depth \<noteq> 1"
  using levels_plain(1) [of m] levels_plain(2) [of m k w] by (fastforce simp: enough_def)+

lemma enough_expression_depth: "enough depth (GMap m) \<Longrightarrow> depth \<noteq> 0"
  using levels_plain(1) [of m] levels_expression [of m] by (cases "plain_map m") (auto simp: enough_def)

lemma evaluate_enough: "enough depth v \<Longrightarrow> evaluate e v depth = evaluate e v (-1)"
proof (induction "size v" arbitrary: v depth rule: less_induct)
  case less
  have IH: "evaluate e w (depth - 1) = evaluate e w (-1 - 1)" if "size w < size v" "enough (depth - 1) w" for w
    using less.hyps [OF that] less.hyps [OF that(1), of "-2"] by (simp add: enough_def)
  show ?case
  proof (cases v rule: gval_eval_cases)
    case atom
    then show ?thesis by (simp add: evaluate_atom)
  next
    case (list vs)
    have "eval_items (\<lambda>v. evaluate e v (depth - 1)) (index_items vs) =
        eval_items (\<lambda>v. evaluate e v (-1 - 1)) (index_items vs)"
      using list less.prems by (intro eval_items_cong IH) (auto simp del: gval.size dest!: set_index_items intro: size_in_list enough_list)
    then show ?thesis using list less.prems enough_list_depth [of depth vs] by (simp add: evaluate_list)
  next
    case (plain m)
    have "eval_items (\<lambda>v. evaluate e v (depth - 1)) m = eval_items (\<lambda>v. evaluate e v (-1 - 1)) m"
      using plain less.prems by (intro eval_items_cong IH) (auto simp del: gval.size intro: size_in_map enough_plain)
    then show ?thesis using plain less.prems enough_plain_depth [of depth m] by (simp add: evaluate_plain)
  qed (use less.prems enough_expression_depth [of depth] in \<open>simp_all add: evaluate_maps\<close>)
qed

lemma evaluate_negative: "depth < 0 \<Longrightarrow> evaluate e v depth = evaluate e v (-1)"
  by (rule evaluate_enough) (simp add: enough_def)

lemma full_list: "evaluate e (GList vs) (-1) =
     (case eval_items (\<lambda>v. evaluate e v (-1)) (index_items vs) of
        Inl err \<Rightarrow> Inl err
      | Inr nvs \<Rightarrow> Inr \<lparr>Value = GList (map (Value \<circ> snd) nvs), Unresolvable = collect_items nvs\<rparr>)"
  by (subst evaluate_list) (simp_all add: evaluate_negative [of "-2"])

lemma full_plain: "plain_map m \<Longrightarrow> evaluate e (GMap m) (-1) =
     (case eval_items (\<lambda>v. evaluate e v (-1)) m of
        Inl err \<Rightarrow> Inl err
      | Inr nvs \<Rightarrow> Inr \<lparr>Value = GMap (map (\<lambda>(k, nv). (k, Value nv)) nvs), Unresolvable = collect_items nvs\<rparr>)"
  by (subst evaluate_plain) (simp_all add: evaluate_negative [of "-2"])

section \<open>Where errors arise\<close>

definition is_expression :: "gval \<Rightarrow> bool" where
  "is_expression v \<longleftrightarrow> (case v of GMap m \<Rightarrow> \<not> plain_map m | _ \<Rightarrow> False)"

fun value_at :: "gval \<Rightarrow> string list \<Rightarrow> gval option" where
  "value_at v [] = Some v"
| "value_at v (p # ps) =
     (case v of
        GList vs \<Rightarrow> (case map_of (index_items vs) p of None \<Rightarrow> None | Some w \<Rightarrow> value_at w ps)
      | GMap m \<Rightarrow> (case map_of m p of None \<Rightarrow> None | Some w \<Rightarrow> value_at w ps)
      | _ \<Rightarrow> None)"

lemma eval_items_Inl:
  "eval_items f items = Inl err \<Longrightarrow> \<exists>k w c. (k, w) \<in> set items \<and> f w = Inl c \<and> err = PathEvaluationError k c"
proof (induction items)
  case (Cons item items)
  then show ?case by (cases item; cases "f (snd item)") (fastforce simp: eval_items_def split: sum.splits)+
qed (simp add: eval_items_def)

lemma wf_index_items: "wf_gomap (index_items vs)"
  by (simp add: wf_gomap_def index_items_def distinct_map inj_on_def itoa_inj)

lemma located_aux:
  "wf_gval v \<Longrightarrow> evaluate e v (-1) = Inl err \<Longrightarrow>
   \<exists>ps w c. err = foldr PathEvaluationError ps c \<and> value_at v ps = Some w \<and>
     evaluate e w (-1) = Inl c \<and> (supported w \<longrightarrow> is_expression w)"
proof (induction "size v" arbitrary: v err rule: less_induct)
  case less
  let ?located = "\<lambda>v err. \<exists>ps w c. err = foldr PathEvaluationError ps c \<and> value_at v ps = Some w \<and>
     evaluate e w (-1) = Inl c \<and> (supported w \<longrightarrow> is_expression w)"
  have here: "?located v err" if "supported v \<longrightarrow> is_expression v"
    using that less.prems by (intro exI [of _ "[]"]) auto
  have below: "?located v err" if w: "size w < size v" "wf_gval w" "evaluate e w (-1) = Inl c"
    and err: "err = PathEvaluationError k c" and at: "\<And>ps. value_at v (k # ps) = value_at w ps" for k w c
  proof -
    from less.hyps [OF w] obtain ps u d where "c = foldr PathEvaluationError ps d" "value_at w ps = Some u"
      "evaluate e u (-1) = Inl d" "supported u \<longrightarrow> is_expression u" by blast
    then show ?thesis using err at by (intro exI [of _ "k # ps"]) auto
  qed
  show ?case
  proof (cases v rule: gval_eval_cases)
    case atom
    with less.prems show ?thesis by (intro here) (auto simp: evaluate_atom)
  next
    case (list vs)
    with less.prems obtain k w c where w: "(k, w) \<in> set (index_items vs)" "evaluate e w (-1) = Inl c"
      "err = PathEvaluationError k c" by (auto simp: full_list split: sum.splits dest!: eval_items_Inl)
    moreover have "map_of (index_items vs) k = Some w"
      using w wf_index_items [of vs] by (simp add: wf_gomap_def)
    ultimately show ?thesis using list less.prems
      by (intro below [of w c k]) (auto simp del: gval.size simp: wf_gval_GList dest: set_index_items intro: size_in_list)
  next
    case (plain m)
    with less.prems obtain k w c where w: "(k, w) \<in> set m" "evaluate e w (-1) = Inl c"
      "err = PathEvaluationError k c" by (auto simp: full_plain split: sum.splits dest!: eval_items_Inl)
    moreover have "map_of m k = Some w"
      using w plain less.prems by (simp add: wf_gomap_def wf_gval_GMap)
    ultimately show ?thesis using plain less.prems
      by (intro below [of w c k]) (auto simp del: gval.size simp: wf_gval_GMap intro: size_in_map)
  qed (rule here, simp add: is_expression_def plain_map_def)+
qed

section \<open>Results on the wire\<close>

lemma utf8safe_marshal:
  "transferable v \<Longrightarrow> \<exists>v'. utf8safe v = Inr v' \<and> json_marshal v' = JSONInterface_Marshal v"
proof (induction v rule: gval_induct)
  case (atom v)
  from atom.prems show ?case
    by (rule transferable_cases) (use atom in \<open>auto simp: utf8safe.simps EncodeJSON_total split: if_splits\<close>)
next
  case (list vs)
  then have "\<exists>ys. traverse utf8safe vs = Inr ys \<and> traverse json_marshal ys = traverse JSONInterface_Marshal vs"
    by (intro traverse_compose) auto
  then show ?case by (auto simp: utf8safe.simps [of "GList vs"])
next
  case (map m)
  then have "\<exists>ys. traverse (\<lambda>(k, w). case utf8safe w of Inl err \<Rightarrow> Inl err | Inr w' \<Rightarrow> Inr (k, w')) m = Inr ys \<and>
      traverse (\<lambda>(k, v). case json_marshal v of Inl e \<Rightarrow> Inl e | Inr j \<Rightarrow> Inr (utf8_coerce k, j)) ys =
      traverse (\<lambda>(k, v). case JSONInterface_Marshal v of Inl e \<Rightarrow> Inl e | Inr j \<Rightarrow> Inr (utf8_coerce k, j)) m"
    by (intro traverse_compose) fastforce
  then show ?case by (auto simp: utf8safe.simps [of "GMap m"])
qed

end
