(* ===== verification/Staged.thy ===== *)
theory Staged
  imports Evaluate_Props
begin

text \<open>
  Evaluation in two stages. The controller evaluates what it can while it builds a step and stores
  the value that is left, references in place; the metadata API evaluates that value again with the
  resolvers of the step. \<open>staged_agrees\<close> shows that the second evaluation ends like a single
  evaluation of the original value would: the same error, or the same report, and the same value
  when it is complete. The functions called must not build expressions from values that hold
  none (\<open>closed_functions\<close>): of the library, only \<open>jsonUnmarshal\<close> and \<open>merge\<close> can.
\<close>

definition without_resolvers :: "evaluator \<Rightarrow> evaluator" where
  "without_resolvers e = e\<lparr>dataTypeResolver := NoOpDataTypeResolver, secretTypeResolver := NoOpSecretTypeResolver,
     connectionTypeResolver := NoOpConnectionTypeResolver, outputTypeResolver := NoOpOutputTypeResolver,
     parameterTypeResolver := NoOpParameterTypeResolver, answerTypeResolver := NoOpAnswerTypeResolver\<rparr>"

text \<open>The functions a value calls.\<close>

function fn_calls :: "gval \<Rightarrow> string list" where
  "fn_calls v = (case v of
      GList vs \<Rightarrow> concat (map fn_calls vs)
    | GMap m \<Rightarrow> concat (map (\<lambda>(k, w). (if has_prefix k ''$fn.'' then [trim_prefix k ''$fn.''] else []) @ fn_calls w) m)
    | _ \<Rightarrow> [])"
  by pat_completeness auto
termination
  by (relation "measure size") (auto simp del: gval.size dest: gval_sizes)

declare fn_calls.simps [simp del]

definition smaller :: "gval \<Rightarrow> gval \<Rightarrow> bool" where
  "smaller w v \<longleftrightarrow> size w < size v \<and> set (fn_calls w) \<subseteq> set (fn_calls v)"

lemma smaller_in_map: "(k, w) \<in> set m \<Longrightarrow> smaller w (GMap m)"
  by (force simp: smaller_def fn_calls.simps [of "GMap m"] simp del: gval.size dest: size_in_map)

lemma smaller_in_list: "w \<in> set vs \<Longrightarrow> smaller w (GList vs)"
  by (auto simp: smaller_def fn_calls.simps [of "GList vs"] simp del: gval.size dest: size_in_list)

lemma fn_calls_invocation: "has_prefix key ''$fn.'' \<Longrightarrow> trim_prefix key ''$fn.'' \<in> set (fn_calls (GMap [(key, w)]))"
  by (simp add: fn_calls.simps [of "GMap [(key, w)]"])

definition closed_functions :: "evaluator \<Rightarrow> string set \<Rightarrow> bool" where
  "closed_functions e names \<longleftrightarrow>
     (\<forall>name \<in> names. \<forall>a i v. inert a \<longrightarrow> resolve_call e name a = Inr i \<longrightarrow> invoke e i = Inr v \<longrightarrow> supported v \<longrightarrow> inert v)"

definition agree :: "result res \<Rightarrow> result res \<Rightarrow> bool" where
  "agree x y \<longleftrightarrow>
     (case x of
        Inl err \<Rightarrow> y = Inl err
      | Inr r \<Rightarrow> (case y of
          Inl err \<Rightarrow> False
        | Inr r' \<Rightarrow> Unresolvable r = Unresolvable r' \<and> (Complete r \<longrightarrow> Value r = Value r')))"

lemma closed_smaller: "closed_functions e (set (fn_calls v)) \<Longrightarrow> smaller w v \<Longrightarrow> closed_functions e (set (fn_calls w))"
  by (auto simp: closed_functions_def smaller_def)

lemma agree_refl [simp, intro!]: "agree x x"
  by (simp add: agree_def split: sum.split)

lemma agree_Inl: "agree (Inl err) y \<longleftrightarrow> y = Inl err" "agree y (Inl err) \<longleftrightarrow> y = Inl err"
  by (auto simp: agree_def split: sum.splits)

lemma agree_Inr: "agree (Inr r) (Inr r') \<longleftrightarrow> Unresolvable r = Unresolvable r' \<and> (Complete r \<longrightarrow> Value r = Value r')"
  by (simp add: agree_def)

lemma agree_cases:
  assumes "agree x y"
  obtains (error) err where "x = Inl err" "y = Inl err"
  | (complete) v where "x = Inr (value_result v)" "y = Inr (value_result v)"
  | (partial) r r' where "x = Inr r" "y = Inr r'" "Unresolvable r = Unresolvable r'" "\<not> Complete r" "\<not> Complete r'"
proof (cases x)
  case (Inl err)
  with assms error show ?thesis by (simp add: agree_Inl)
next
  case (Inr r)
  with assms obtain r' where r': "y = Inr r'" "Unresolvable r = Unresolvable r'" "Complete r \<longrightarrow> Value r = Value r'"
    by (auto simp: agree_def split: sum.splits)
  show ?thesis
  proof (cases "Complete r")
    case True
    with r' have "r = value_result (Value r)" "r' = value_result (Value r)"
      by (simp_all add: Complete_iff value_result_def)
    with Inr r' complete show ?thesis by metis
  next
    case False
    with Inr r' partial show ?thesis by (simp add: Complete_iff)
  qed
qed

lemma Complete_eq: "Complete r \<longleftrightarrow> r = value_result (Value r)"
  by (cases r) (auto simp: Complete_iff value_result_def)

lemma report_not_none [simp]:
  "report_data q \<noteq> no_unresolvable" "report_secret n \<noteq> no_unresolvable" "report_connection k \<noteq> no_unresolvable"
  "report_output k \<noteq> no_unresolvable" "report_parameter n \<noteq> no_unresolvable" "report_answer k \<noteq> no_unresolvable"
  "report_invocation i \<noteq> no_unresolvable"
  by (simp_all add: report_defs no_unresolvable_def)

lemma resolve_call_without [simp]: "resolve_call (without_resolvers e) = resolve_call e"
  by (simp add: resolve_call_def without_resolvers_def fun_eq_iff split: gval.split)

lemma noop_resolvers [simp]:
  "NoOpDataTypeResolver q = Inl (DataNotFoundError q)" "NoOpSecretTypeResolver n = Inl (SecretNotFoundError n)"
  "NoOpConnectionTypeResolver k = Inl (ConnectionNotFoundError (fst k) (snd k))"
  "NoOpOutputTypeResolver k = Inl (OutputNotFoundError (fst k) (snd k))"
  "NoOpParameterTypeResolver n = Inl (ParameterNotFoundError n)"
  "NoOpAnswerTypeResolver k = Inl (AnswerNotFoundError (fst k) (snd k))"
  by (simp_all add: noop_defs chain_defs)

lemma without_resolvers_simps [simp]:
  "invoke (without_resolvers e) = invoke e" "invocationPositional (without_resolvers e) = invocationPositional e"
  "invocationKeyword (without_resolvers e) = invocationKeyword e"
  by (simp_all add: without_resolvers_def)

text \<open>Without resolvers a reference stays as it is written, and is reported.\<close>

lemma evaluateType_noop:
  assumes "evaluateType (without_resolvers e) m = Inr r"
  shows "Value r = GMap m" "Complete r \<Longrightarrow> \<not> known_type m"
  using assms
  by (auto simp: evaluateType_def without_resolvers_def resolved_def missing_field_def known_type_def Let_def
      Complete_iff report_defs no_unresolvable_def split: if_splits option.splits)

section \<open>Items\<close>

definition same_item :: "string \<times> result \<Rightarrow> string \<times> result \<Rightarrow> bool" where
  "same_item x y \<longleftrightarrow> fst x = fst y \<and> Unresolvable (snd x) = Unresolvable (snd y) \<and> (Complete (snd x) \<longrightarrow> x = y)"

lemma eval_items_Cons:
  "eval_items f ((k, v) # items) =
     (case f v of
        Inl err \<Rightarrow> Inl (PathEvaluationError k err)
      | Inr nv \<Rightarrow> (case eval_items f items of Inl err \<Rightarrow> Inl err | Inr nvs \<Rightarrow> Inr ((k, nv) # nvs)))"
  by (simp add: eval_items_def split: sum.split)

lemma eval_items_Nil [simp]: "eval_items f [] = Inr []"
  by (simp add: eval_items_def)

lemma agree_items:
  assumes "list_all2 (\<lambda>x y. fst x = fst y \<and> agree (f (snd x)) (f (snd y))) items items'"
  shows "(\<exists>err. eval_items f items = Inl err \<and> eval_items f items' = Inl err) \<or>
    (\<exists>nvs nvs'. eval_items f items = Inr nvs \<and> eval_items f items' = Inr nvs' \<and> list_all2 same_item nvs nvs')"
  using assms
proof (induction rule: list_all2_induct)
  case Nil
  show ?case by simp
next
  case (Cons x xs y ys)
  obtain k v v' where xy: "x = (k, v)" "y = (k, v')" using Cons.hyps(1) by (cases x; cases y) auto
  with Cons.hyps have "agree (f v) (f v')" by simp
  then show ?case using Cons.IH
    by (cases rule: agree_cases) (auto simp: xy eval_items_Cons same_item_def)
qed

lemma collect_same: "list_all2 same_item nvs nvs' \<Longrightarrow> collect_items nvs = collect_items nvs'"
proof -
  assume "list_all2 same_item nvs nvs'"
  then have "map (Unresolvable \<circ> snd) nvs = map (Unresolvable \<circ> snd) nvs'"
    by (induction rule: list_all2_induct) (auto simp: same_item_def)
  then show ?thesis by (simp add: collect_items_def)
qed

lemma collect_complete: "collect_items nvs = no_unresolvable \<longleftrightarrow> (\<forall>(k, nv) \<in> set nvs. Complete nv)"
  unfolding causes_empty_iff [symmetric] causes_collect by (auto simp: Complete_causes)

lemma same_complete:
  assumes "list_all2 same_item nvs nvs'" and "collect_items nvs = no_unresolvable"
  shows "nvs = nvs'"
proof -
  have "list_all2 (=) nvs nvs'"
    using assms by (elim list.rel_mono_strong) (auto simp: same_item_def collect_complete)
  then show ?thesis by (simp add: list.rel_eq)
qed

lemma agree_items_result:
  assumes "list_all2 (\<lambda>x y. fst x = fst y \<and> agree (f (snd x)) (f (snd y))) items items'"
  shows "agree
    (case eval_items f items of Inl err \<Rightarrow> Inl err | Inr nvs \<Rightarrow> Inr \<lparr>Value = C nvs, Unresolvable = collect_items nvs\<rparr>)
    (case eval_items f items' of Inl err \<Rightarrow> Inl err | Inr nvs \<Rightarrow> Inr \<lparr>Value = C nvs, Unresolvable = collect_items nvs\<rparr>)"
  using agree_items [OF assms] collect_same same_complete
  by (fastforce simp: agree_def Complete_iff)

section \<open>Complete results of the first stage\<close>

lemma eval_items_complete:
  assumes "eval_items f items = Inr nvs" and "collect_items nvs = no_unresolvable"
    and "\<And>k v r. (k, v) \<in> set items \<Longrightarrow> f v = Inr r \<Longrightarrow> Complete r \<Longrightarrow> g v = Inr r \<and> inert (Value r)"
  shows "eval_items g items = Inr nvs" and "\<forall>(k, nv) \<in> set nvs. inert (Value nv)"
proof -
  have "list_all2 (\<lambda>(k, v) (k', nv). k' = k \<and> g v = Inr nv) items nvs"
    using assms(1) unfolding eval_items_Inr
    by (rule list.rel_mono_strong) (use assms(2,3) in \<open>auto simp: collect_complete\<close>)
  then show "eval_items g items = Inr nvs" unfolding eval_items_Inr .
  show "\<forall>(k, nv) \<in> set nvs. inert (Value nv)"
    using eval_items_member [OF assms(1)] assms(2,3) by (fastforce simp: collect_complete)
qed

lemma map_data_size: "size (case map_of em ''data'' of None \<Rightarrow> GNil | Some d \<Rightarrow> d) < size (GMap em)"
  using size_in_map_option [of em "''data''"] by (cases "map_of em ''data''") auto

lemma smaller_data: "smaller (case map_of em ''data'' of None \<Rightarrow> GNil | Some d \<Rightarrow> d) (GMap em)"
  by (cases "map_of em ''data''") (auto simp: smaller_def [of GNil] fn_calls.simps [of GNil] intro: smaller_in_map map_of_SomeD)

lemma encoding_complete:
  assumes "evaluateEncoding f m = Inr r" and "Complete r"
    and "\<And>w r. smaller w (GMap m) \<Longrightarrow> f w (-1) = Inr r \<Longrightarrow> Complete r \<Longrightarrow> g w (-1) = Inr r"
    and "map_of m ''$type'' = None" "map_of m ''$encoding'' \<noteq> None"
  shows "evaluateEncoding g m = Inr r \<and> inert (Value r)"
proof (cases "get_string m ''$encoding''")
  case None
  with assms show ?thesis by (auto simp: evaluateEncoding_def inert_encoding)
next
  case (Some ty)
  let ?d = "case map_of m ''data'' of None \<Rightarrow> GNil | Some d \<Rightarrow> d"
  from assms(1,2) Some obtain dr where dr: "f ?d (-1) = Inr dr" "Complete dr"
    by (auto simp: evaluateEncoding_def decoded_result_def Result_extends_def Complete_iff split: sum.splits if_splits)
  with assms(3) [OF smaller_data] have "g ?d (-1) = Inr dr" by blast
  with dr Some assms(1) show ?thesis
    by (auto simp: evaluateEncoding_def decoded_result_def split: gval.splits sum.splits)
qed

lemma invocation_complete:
  assumes "evaluateInvocation (without_resolvers e) f m = Inr r" and "Complete r" and "supported (Value r)"
    and "\<And>w r. smaller w (GMap m) \<Longrightarrow> f w (-1) = Inr r \<Longrightarrow> Complete r \<Longrightarrow> g w (-1) = Inr r \<and> inert (Value r)"
    and "is_fn_map m" and "closed_functions e (set (fn_calls (GMap m)))"
  shows "evaluateInvocation e g m = Inr r \<and> inert (Value r)"
proof -
  obtain key w where m: "m = [(key, w)]" using assms(5) by (rule fn_map_obtain)
  from assms(1,2) m obtain a where a: "f w (-1) = Inr a" "Complete a"
    by (auto simp: evaluateInvocation_def Result_extends_def Complete_iff Let_def split: sum.splits if_splits)
  with assms(4) [of w a] smaller_in_map [of key w m] m have g: "g w (-1) = Inr a" "inert (Value a)" by auto
  from assms(1,2) m a obtain i v where i: "resolve_call e (trim_prefix key ''$fn.'') (Value a) = Inr i" "invoke e i = Inr v" "r = value_result v"
    by (auto simp: evaluateInvocation_def Let_def Complete_iff split: sum.splits option.splits)
  have "trim_prefix key ''$fn.'' \<in> set (fn_calls (GMap m))"
    using assms(5) m by (simp add: fn_calls_invocation is_fn_map_def split: if_splits)
  with i g(2) assms(3,6) have "inert v"
    unfolding closed_functions_def by (metis value_result_simps(1))
  with g a i m show ?thesis by (simp add: evaluateInvocation_def)
qed

lemma staged_complete:
  assumes "closed_functions e (set (fn_calls v))" and "evaluate (without_resolvers e) v (-1) = Inr r" and "Complete r"
  shows "evaluate e v (-1) = Inr r \<and> inert (Value r)"
  using assms
proof (induction "size v" arbitrary: v r rule: less_induct)
  case less
  let ?e0 = "without_resolvers e"
  have IH: "evaluate ?e0 w (-1) = Inr r \<Longrightarrow> Complete r \<Longrightarrow> evaluate e w (-1) = Inr r \<and> inert (Value r)" if "smaller w v" for w r
    using less.hyps [of w r] closed_smaller [OF less.prems(1) that] that by (simp add: smaller_def)
  show ?case
  proof (cases v rule: gval_eval_cases)
    case atom
    with less.prems show ?thesis by (auto simp: evaluate_atom checked_Inr inert_atom)
  next
    case (list vs)
    with less.prems obtain nvs where nvs: "eval_items (\<lambda>v. evaluate ?e0 v (-1)) (index_items vs) = Inr nvs"
      "r = \<lparr>Value = GList (map (Value \<circ> snd) nvs), Unresolvable = collect_items nvs\<rparr>" "collect_items nvs = no_unresolvable"
      by (auto simp: full_list Complete_iff split: sum.splits)
    note items = eval_items_complete [OF nvs(1,3), of "\<lambda>v. evaluate e v (-1)"]
    have "eval_items (\<lambda>v. evaluate e v (-1)) (index_items vs) = Inr nvs" "\<forall>(k, nv) \<in> set nvs. inert (Value nv)"
      by (rule items; use IH list in \<open>meson set_index_items smaller_in_list\<close>)+
    with list nvs show ?thesis by (auto simp: full_list)
  next
    case (type m)
    with less.prems show ?thesis
      using evaluateType_noop [of e m r]
      by (auto simp: evaluate_type checked_Inr inert_type evaluateType_unknown Complete_eq)
  next
    case (encoding m)
    with less.prems encoding_complete [of "evals ?e0" m r "evals e"] IH show ?thesis
      by (simp add: evaluate_encoding checked_Inr del: gval.size)
  next
    case (invocation m)
    with less.prems invocation_complete [of e "evals ?e0" m r "evals e"] IH show ?thesis
      by (simp add: evaluate_invocation checked_Inr del: gval.size)
  next
    case (plain m)
    with less.prems obtain nvs where nvs: "eval_items (\<lambda>v. evaluate ?e0 v (-1)) m = Inr nvs"
      "r = \<lparr>Value = GMap (map (\<lambda>(k, nv). (k, Value nv)) nvs), Unresolvable = collect_items nvs\<rparr>" "collect_items nvs = no_unresolvable"
      by (auto simp: full_plain Complete_iff split: sum.splits)
    note items = eval_items_complete [OF nvs(1,3), of "\<lambda>v. evaluate e v (-1)"]
    have "eval_items (\<lambda>v. evaluate e v (-1)) m = Inr nvs" "\<forall>(k, nv) \<in> set nvs. inert (Value nv)"
      by (rule items; use IH plain in \<open>meson smaller_in_map\<close>)+
    moreover have "plain_map (map (\<lambda>(k, nv). (k, Value nv)) nvs)"
      using plain eval_items_keys [OF nvs(1)] plain_map_cong [of "map (\<lambda>(k, nv). (k, Value nv)) nvs" m]
      by (simp add: comp_def case_prod_beta)
    ultimately show ?thesis using plain nvs by (auto simp: full_plain inert_plain)
  qed
qed

section \<open>The second stage\<close>

lemma agree_decoded: "agree x y \<Longrightarrow> agree (checked (decoded_result ty x)) (checked (decoded_result ty y))"
  by (erule agree_cases) (simp_all add: decoded_result_def agree_Inr Result_extends_def Complete_iff)

lemma agree_encoding:
  assumes "agree (f (Value dr) (-1)) (f d (-1))"
    and "d = (case map_of m ''data'' of None \<Rightarrow> GNil | Some d \<Rightarrow> d)" and "get_string m ''$encoding'' = Some ty"
  shows "agree (checked (evaluateEncoding f [(''$encoding'', GStr ty), (''data'', Value dr)]))
    (checked (evaluateEncoding f m))"
  using agree_decoded [OF assms(1), of ty] assms(2,3) by (simp add: evaluateEncoding_def get_string_def)

lemma agree_invocation:
  assumes "agree (f (Value a) (-1)) (f w (-1))"
  shows "agree (checked (evaluateInvocation e f [(key, Value a)])) (checked (evaluateInvocation e f [(key, w)]))"
  using assms
  by (cases rule: agree_cases) (auto simp: evaluateInvocation_def Let_def agree_Inr Result_extends_def
      Complete_iff split: sum.split option.split)

lemma staged_items:
  assumes "eval_items f items = Inr nvs"
    and "\<And>k w nv. f w = Inr nv \<Longrightarrow> (k, w) \<in> set items \<Longrightarrow> agree (g (Value nv)) (g w)"
  shows "list_all2 (\<lambda>x y. fst x = fst y \<and> agree (g (snd x)) (g (snd y))) (map (\<lambda>(k, nv). (k, Value nv)) nvs) items"
proof -
  have "list_all2 (\<lambda>y x. fst x = fst y \<and> agree (g (Value (snd x))) (g (snd y))) items nvs"
    using assms(1) unfolding eval_items_Inr by (rule list.rel_mono_strong) (use assms(2) in auto)
  then show ?thesis by (auto simp: list_all2_conv_all_nth split: prod.splits)
qed

lemma eval_items_index:
  assumes "eval_items f (index_items vs) = Inr nvs"
  shows "map (\<lambda>(k, nv). (k, Value nv)) nvs = index_items (map (Value \<circ> snd) nvs)"
proof -
  have "length nvs = length vs"
    using eval_items_keys [OF assms] by (auto simp: index_items_def dest: map_eq_imp_length_eq)
  moreover have "map fst nvs = map itoa [0..<length vs]"
    using eval_items_keys [OF assms] by (simp add: index_items_def)
  moreover have "map (\<lambda>(k, nv). (k, Value nv)) nvs = zip (map fst nvs) (map Value (map snd nvs))"
    using zip_map2 [of "map fst nvs" Value "map snd nvs"] by (simp only: zip_map_fst_snd)
  ultimately show ?thesis by (simp only: index_items_def zip_map_fst_snd length_map list.map_comp)
qed

lemma staged_aux:
  assumes "closed_functions e (set (fn_calls v))" and "evaluate (without_resolvers e) v (-1) = Inr r"
  shows "agree (evaluate e (Value r) (-1)) (evaluate e v (-1))"
  using assms
proof (induction "size v" arbitrary: v r rule: less_induct)
  case less
  let ?e0 = "without_resolvers e"
  have IH: "evaluate ?e0 w (-1) = Inr r \<Longrightarrow> agree (evaluate e (Value r) (-1)) (evaluate e w (-1))" if "smaller w v" for w r
    using less.hyps [of w r] closed_smaller [OF less.prems(1) that] that by (simp add: smaller_def)
  show ?case
  proof (cases "Complete r")
    case True
    with staged_complete [OF less.prems] have "evaluate e v (-1) = Inr r" "inert (Value r)" by auto
    with True show ?thesis by (simp add: evaluate_inert_aux Complete_eq)
  next
    case False
    show ?thesis
    proof (cases v rule: gval_eval_cases)
      case atom
      with less.prems False show ?thesis by (auto simp: evaluate_atom checked_Inr)
    next
      case (list vs)
      with less.prems obtain nvs where nvs: "eval_items (\<lambda>v. evaluate ?e0 v (-1)) (index_items vs) = Inr nvs"
        "Value r = GList (map (Value \<circ> snd) nvs)"
        by (auto simp: full_list split: sum.splits)
      have "agree (evaluate e (Value nv) (-1)) (evaluate e w (-1))"
        if "evaluate ?e0 w (-1) = Inr nv" "(k, w) \<in> set (index_items vs)" for k w nv
        using that list IH by (meson set_index_items smaller_in_list)
      then have "list_all2 (\<lambda>x y. fst x = fst y \<and> agree (evaluate e (snd x) (-1)) (evaluate e (snd y) (-1)))
          (map (\<lambda>(k, nv). (k, Value nv)) nvs) (index_items vs)"
        by (intro staged_items [OF nvs(1)]) blast
      moreover have "map (\<lambda>(k, nv). (k, Value nv)) nvs = index_items (map (Value \<circ> snd) nvs)"
        using eval_items_index [OF nvs(1)] .
      ultimately show ?thesis using list nvs by (simp add: full_list agree_items_result)
    next
      case (type m)
      with less.prems show ?thesis
        using evaluateType_noop [of e m r] by (simp add: evaluate_type checked_Inr)
    next
      case (encoding m)
      let ?d = "case map_of m ''data'' of None \<Rightarrow> GNil | Some d \<Rightarrow> d"
      from encoding less.prems have "evaluateEncoding (evals ?e0) m = Inr r"
        by (simp add: evaluate_encoding checked_Inr)
      with False obtain ty dr where d: "get_string m ''$encoding'' = Some ty" "evaluate ?e0 ?d (-1) = Inr dr"
        "Value r = GMap [(''$encoding'', GStr ty), (''data'', Value dr)]"
        by (auto simp: evaluateEncoding_def decoded_result_def Result_extends_def
            split: option.splits sum.splits if_splits gval.splits)
      moreover have "agree (evaluate e (Value dr) (-1)) (evaluate e ?d (-1))"
        using IH d(2) encoding(1) smaller_data [of m] by simp
      ultimately show ?thesis using encoding agree_encoding [of "evals e" dr ?d m ty] by (simp add: evaluate_encoding)
    next
      case (invocation m)
      obtain key w where m: "m = [(key, w)]" using invocation(4) by (rule fn_map_obtain)
      from invocation less.prems have inv: "evaluateInvocation ?e0 (evals ?e0) m = Inr r"
        by (simp add: evaluate_invocation checked_Inr)
      show ?thesis
      proof (cases "Value r = GMap m")
        case False
        with inv m \<open>\<not> Complete r\<close> obtain a where a: "evaluate ?e0 w (-1) = Inr a" "Value r = GMap [(key, Value a)]"
          by (auto simp: evaluateInvocation_def Let_def Result_extends_def split: sum.splits if_splits option.splits)
        then have "agree (evaluate e (Value a) (-1)) (evaluate e w (-1))"
          using IH smaller_in_map [of key w m] invocation(1) m by simp
        with agree_invocation [of "evals e" a w e key] a m invocation show ?thesis
          by (simp add: evaluate_invocation is_fn_map_def split: if_splits)
      qed (simp add: invocation)
    next
      case (plain m)
      with less.prems obtain nvs where nvs: "eval_items (\<lambda>v. evaluate ?e0 v (-1)) m = Inr nvs"
        "Value r = GMap (map (\<lambda>(k, nv). (k, Value nv)) nvs)"
        by (auto simp: full_plain split: sum.splits)
      have "agree (evaluate e (Value nv) (-1)) (evaluate e w (-1))"
        if "evaluate ?e0 w (-1) = Inr nv" "(k, w) \<in> set m" for k w nv
        using that plain IH by (meson smaller_in_map)
      then have "list_all2 (\<lambda>x y. fst x = fst y \<and> agree (evaluate e (snd x) (-1)) (evaluate e (snd y) (-1)))
          (map (\<lambda>(k, nv). (k, Value nv)) nvs) m"
        by (intro staged_items [OF nvs(1)]) blast
      moreover have "plain_map (map (\<lambda>(k, nv). (k, Value nv)) nvs)"
        using plain eval_items_keys [OF nvs(1)] plain_map_cong [of "map (\<lambda>(k, nv). (k, Value nv)) nvs" m]
        by (simp add: comp_def case_prod_beta)
      ultimately show ?thesis using plain nvs by (simp add: full_plain agree_items_result)
    qed
  qed
qed

section \<open>Functions of the library that build no expressions\<close>

definition closed_descriptor :: "descriptor \<Rightarrow> bool" where
  "closed_descriptor d \<longleftrightarrow>
     (\<forall>args v. (\<forall>a \<in> set args. inert a) \<longrightarrow> PositionalInvoker d args = Inr (Inr v) \<longrightarrow> inert v) \<and>
     (\<forall>args v. inert (GMap args) \<longrightarrow> KeywordInvoker d args = Inr (Inr v) \<longrightarrow> inert v)"

lemma inert_GBool [simp]: "inert (GBool b)"
  by (simp add: inert.simps)

lemma closed_append: "closed_descriptor appendDescriptor"
proof -
  have "inert v" if "\<forall>a \<in> set args. inert a" "append_positional args = Inr (Inr v)" for args v
    using that by (cases args) (auto simp: append_positional_def split: if_splits gval.splits)
  then show ?thesis
    by (simp add: closed_descriptor_def appendDescriptor_def PositionalInvoker_def KeywordInvoker_def)
qed

lemma closed_concat: "closed_descriptor concatDescriptor"
  by (auto simp: closed_descriptor_def concatDescriptor_def concat_positional_def PositionalInvoker_def KeywordInvoker_def
      StaticInvoker_def split: if_splits sum.splits)

lemma closed_convert: "closed_descriptor (convertMarkdownDescriptor lib)"
  by (auto simp: closed_descriptor_def convertMarkdownDescriptor_def convert_positional_def convert_keyword_def
      PositionalInvoker_def KeywordInvoker_def split: if_splits sum.splits gval.splits option.splits)

lemma closed_equals: "closed_descriptor equalsDescriptor" "closed_descriptor notEqualsDescriptor"
  by (auto simp: closed_descriptor_def equalsDescriptor_def notEqualsDescriptor_def equals_positional_def
      notEquals_positional_def PositionalInvoker_def KeywordInvoker_def split: if_splits)

lemma ResolveInvocation_returns:
  "ResolveInvocationPositional fm name args = Inr (Inr v) \<longleftrightarrow>
     (\<exists>d. map_of fm name = Some d \<and> PositionalInvoker d args = Inr (Inr v))"
  "ResolveInvocation fm name kwargs = Inr (Inr v) \<longleftrightarrow>
     (\<exists>d. map_of fm name = Some d \<and> KeywordInvoker d kwargs = Inr (Inr v))"
  by (auto simp: ResolveInvocationPositional_def ResolveInvocation_def Descriptor_def wrap_invoker_def
      split: option.splits sum.splits)

lemma closed_invocations:
  assumes "\<And>name d. name \<in> names \<Longrightarrow> map_of fm name = Some d \<Longrightarrow> closed_descriptor d"
    and "invocationPositional e = ResolveInvocationPositional fm" "invocationKeyword e = ResolveInvocation fm"
    and "invoke e = (\<lambda>i. i)"
  shows "closed_functions e names"
  unfolding closed_functions_def
proof (intro ballI allI impI)
  fix name a i v
  assume name: "name \<in> names" and a: "inert a" and "resolve_call e name a = Inr i" and "invoke e i = Inr v"
  then have i: "resolve_call e name a = Inr (Inr v)" using assms(4) by simp
  have pos: "inert v" if "\<forall>a \<in> set args. inert a" "ResolveInvocationPositional fm name args = Inr (Inr v)" for args
    using that assms(1) [OF name] unfolding closed_descriptor_def ResolveInvocation_returns by blast
  have kw: "inert v" if "inert (GMap args)" "ResolveInvocation fm name args = Inr (Inr v)" for args
    using that assms(1) [OF name] unfolding closed_descriptor_def ResolveInvocation_returns by blast
  from i a show "inert v"
    by (cases a) (auto simp: resolve_call_def assms intro: pos [of "[a]"] pos kw)
qed

text \<open>Of the library, all functions but two build no expressions.\<close>

lemma closed_library:
  assumes "''jsonUnmarshal'' \<notin> names" "''merge'' \<notin> names"
    and "invocationPositional e = ResolveInvocationPositional (library lib)" "invocationKeyword e = ResolveInvocation (library lib)"
    and "invoke e = (\<lambda>i. i)"
  shows "closed_functions e names"
proof (rule closed_invocations [OF _ assms(3-5)])
  fix name d
  assume "name \<in> names" "map_of (library lib) name = Some d"
  with assms(1,2) show "closed_descriptor d"
    by (auto simp: library_def closed_append closed_concat closed_convert closed_equals split: if_splits)
qed

end
