(* ===== verification/Reports.thy ===== *)
theory Reports
  imports Staged
begin

text \<open>
  What a result reports as unresolvable, stated without the evaluator's bookkeeping: \<open>unresolved\<close>
  relates a value to the errors of the references in it that no resolver answers, wherever they
  are nested, and of the function calls that cannot be resolved once their arguments are known.
\<close>

definition dangling :: "evaluator \<Rightarrow> gval gomap \<Rightarrow> err \<Rightarrow> bool" where
  "dangling e m x \<longleftrightarrow>
     (case map_of m ''$type'' of
        Some (GStr ty) \<Rightarrow>
          (ty = ''Data'' \<and> is_DataNotFound x \<and> (\<exists>q. get_string m ''query'' = Some q \<and> dataTypeResolver e q = Inl x)) \<or>
          (ty = ''Secret'' \<and> is_SecretNotFound x \<and> (\<exists>n. get_string m ''name'' = Some n \<and> secretTypeResolver e n = Inl x)) \<or>
          (ty = ''Connection'' \<and> is_ConnectionNotFound x \<and>
            (\<exists>t n. get_string m ''type'' = Some t \<and> get_string m ''name'' = Some n \<and> connectionTypeResolver e (t, n) = Inl x)) \<or>
          (ty = ''Output'' \<and> is_OutputNotFound x \<and>
            (\<exists>s n. (get_string m ''from'' = Some s \<or> get_string m ''from'' = None \<and> get_string m ''taskName'' = Some s) \<and>
               get_string m ''name'' = Some n \<and> outputTypeResolver e (s, n) = Inl x)) \<or>
          (ty = ''Parameter'' \<and> is_ParameterNotFound x \<and>
            (\<exists>n. get_string m ''name'' = Some n \<and> parameterTypeResolver e n = Inl x)) \<or>
          (ty = ''Answer'' \<and> is_AnswerNotFound x \<and>
            (\<exists>a n. get_string m ''askRef'' = Some a \<and> get_string m ''name'' = Some n \<and> answerTypeResolver e (a, n) = Inl x))
      | _ \<Rightarrow> False)"

inductive unresolved :: "evaluator \<Rightarrow> gval \<Rightarrow> err \<Rightarrow> bool" for e where
  list: "v \<in> set vs \<Longrightarrow> unresolved e v x \<Longrightarrow> unresolved e (GList vs) x"
| reference: "dangling e m x \<Longrightarrow> unresolved e (GMap m) x"
| encoding: "map_of m ''$type'' = None \<Longrightarrow> get_string m ''$encoding'' = Some ty \<Longrightarrow> map_of m ''data'' = Some d \<Longrightarrow>
    unresolved e d x \<Longrightarrow> unresolved e (GMap m) x"
| argument: "map_of m ''$type'' = None \<Longrightarrow> map_of m ''$encoding'' = None \<Longrightarrow> is_fn_map m \<Longrightarrow> (key, w) \<in> set m \<Longrightarrow>
    unresolved e w x \<Longrightarrow> unresolved e (GMap m) x"
| call: "map_of m ''$type'' = None \<Longrightarrow> map_of m ''$encoding'' = None \<Longrightarrow> is_fn_map m \<Longrightarrow> (key, w) \<in> set m \<Longrightarrow>
    evaluate e w (-1) = Inr a \<Longrightarrow> Complete a \<Longrightarrow>
    resolve_call e (trim_prefix key ''$fn.'') (Value a) = Inl x \<Longrightarrow> as_FunctionResolutionError x \<noteq> None \<Longrightarrow>
    unresolved e (GMap m) x"
| plain: "plain_map m \<Longrightarrow> (k, v) \<in> set m \<Longrightarrow> unresolved e v x \<Longrightarrow> unresolved e (GMap m) x"

inductive_simps unresolved_list: "unresolved e (GList vs) x"
inductive_simps unresolved_map: "unresolved e (GMap m) x"
inductive_cases unresolved_atomE: "unresolved e v x"

lemma unresolved_atom: "\<not> is_container v \<Longrightarrow> \<not> unresolved e v x"
  by (auto simp: is_container_def elim: unresolved_atomE)

lemma causes_report [simp]:
  "causes (report_data q) = {DataNotFoundError q}" "causes (report_secret n) = {SecretNotFoundError n}"
  "causes (report_connection k) = {ConnectionNotFoundError (fst k) (snd k)}"
  "causes (report_output k) = {OutputNotFoundError (fst k) (snd k)}"
  "causes (report_parameter n) = {ParameterNotFoundError n}"
  "causes (report_answer k) = {AnswerNotFoundError (fst k) (snd k)}"
  "causes (report_invocation i) = {FunctionResolutionError (fst i) (snd i)}"
  by (simp_all add: causes_def as_causes_def report_defs no_unresolvable_def)

lemma as_NotFound_pair:
  "as_ConnectionNotFound x = Some k \<longleftrightarrow> x = ConnectionNotFoundError (fst k) (snd k)"
  "as_OutputNotFound x = Some k \<longleftrightarrow> x = OutputNotFoundError (fst k) (snd k)"
  "as_AnswerNotFound x = Some k \<longleftrightarrow> x = AnswerNotFoundError (fst k) (snd k)"
  "as_FunctionResolutionError x = Some i \<longleftrightarrow> x = FunctionResolutionError (fst i) (snd i)"
  by (cases x; auto)+

lemma resolved_causes:
  assumes "resolved ty tm as_nf report r = Inr s" and "\<And>x k. as_nf x = Some k \<Longrightarrow> causes (report k) = {x}"
  shows "x \<in> causes (Unresolvable s) \<longleftrightarrow> r = Inl x \<and> as_nf x \<noteq> None"
  using resolved_Inr [OF assms(1)] assms(2) by auto

lemma reported_reference:
  assumes "evaluateType e m = Inr r"
  shows "x \<in> causes (Unresolvable r) \<longleftrightarrow> dangling e m x"
proof -
  have nf: "as_DataNotFound x = Some k \<Longrightarrow> causes (report_data k) = {x}"
    "as_SecretNotFound x = Some k \<Longrightarrow> causes (report_secret k) = {x}"
    "as_ConnectionNotFound x = Some p \<Longrightarrow> causes (report_connection p) = {x}"
    "as_OutputNotFound x = Some p \<Longrightarrow> causes (report_output p) = {x}"
    "as_ParameterNotFound x = Some k \<Longrightarrow> causes (report_parameter k) = {x}"
    "as_AnswerNotFound x = Some p \<Longrightarrow> causes (report_answer p) = {x}" for x k p
    by (simp_all add: as_NotFound_iff as_NotFound_pair)
  show ?thesis
  proof (cases "known_type m")
    case False
    then have "\<not> dangling e m x" by (auto simp: known_type_def dangling_def split: option.splits gval.splits)
    with False assms show ?thesis by (auto simp: evaluateType_unknown)
  next
    case known: True
    have inl_map: "map_sum id GStr y = Inl x \<longleftrightarrow> y = Inl x" for y :: "string res" by (cases y) auto
    note nf_defs = is_DataNotFound_def is_SecretNotFound_def is_ConnectionNotFound_def is_OutputNotFound_def
      is_ParameterNotFound_def is_AnswerNotFound_def
    note causes = resolved_causes [OF _ nf(1)] resolved_causes [OF _ nf(2)] resolved_causes [OF _ nf(3)]
      resolved_causes [OF _ nf(4)] resolved_causes [OF _ nf(5)] resolved_causes [OF _ nf(6)]
    from known consider "map_of m ''$type'' = Some (GStr ''Data'')" | "map_of m ''$type'' = Some (GStr ''Secret'')"
      | "map_of m ''$type'' = Some (GStr ''Connection'')" | "map_of m ''$type'' = Some (GStr ''Output'')"
      | "map_of m ''$type'' = Some (GStr ''Parameter'')" | "map_of m ''$type'' = Some (GStr ''Answer'')"
      unfolding known_type_def by blast
    then show ?thesis
      by cases (use assms in \<open>auto simp: evaluateType_def dangling_def nf_defs inl_map causes [where x = x] split: option.splits\<close>)
  qed
qed

lemma unresolved_expression:
  "map_of m ''$type'' \<noteq> None \<Longrightarrow> unresolved e (GMap m) x \<longleftrightarrow> dangling e m x"
  "map_of m ''$type'' = None \<Longrightarrow> \<not> dangling e m x"
  by (auto simp: unresolved_map plain_map_def dangling_def)

lemma unresolved_encoding:
  assumes "map_of m ''$type'' = None" "map_of m ''$encoding'' \<noteq> None"
  shows "unresolved e (GMap m) x \<longleftrightarrow>
    get_string m ''$encoding'' \<noteq> None \<and> unresolved e (case map_of m ''data'' of None \<Rightarrow> GNil | Some d \<Rightarrow> d) x"
proof -
  have "\<not> unresolved e GNil x" by (simp add: unresolved_atom is_container_def)
  with assms show ?thesis by (auto simp: unresolved_map unresolved_expression plain_map_def split: option.split)
qed

lemma unresolved_invocation:
  assumes "map_of [(key, w)] ''$type'' = None" "map_of [(key, w)] ''$encoding'' = None" "is_fn_map [(key, w)]"
  shows "unresolved e (GMap [(key, w)]) x \<longleftrightarrow> unresolved e w x \<or>
    (\<exists>a. evaluate e w (-1) = Inr a \<and> Complete a \<and> resolve_call e (trim_prefix key ''$fn.'') (Value a) = Inl x \<and>
      as_FunctionResolutionError x \<noteq> None)"
  using assms by (auto simp: unresolved_map unresolved_expression plain_map_def get_string_def split: if_splits)

lemma unresolved_plain: "plain_map m \<Longrightarrow> unresolved e (GMap m) x \<longleftrightarrow> (\<exists>(k, v) \<in> set m. unresolved e v x)"
  by (auto simp: unresolved_map unresolved_expression plain_map_def get_string_def)

lemma reported_items:
  assumes "eval_items f items = Inr nvs"
    and "\<And>k v r. (k, v) \<in> set items \<Longrightarrow> f v = Inr r \<Longrightarrow> x \<in> causes (Unresolvable r) \<longleftrightarrow> P v"
  shows "x \<in> causes (collect_items nvs) \<longleftrightarrow> (\<exists>(k, v) \<in> set items. P v)"
  using assms unfolding causes_collect eval_items_Inr
  by (induction rule: list_all2_induct) fastforce+

lemma reported_aux: "evaluate e v (-1) = Inr r \<Longrightarrow> x \<in> causes (Unresolvable r) \<longleftrightarrow> unresolved e v x"
proof (induction "size v" arbitrary: v r rule: less_induct)
  case less
  show ?case
  proof (cases v rule: gval_eval_cases)
    case atom
    with less.prems show ?thesis by (auto simp: evaluate_atom checked_Inr unresolved_atom)
  next
    case (list vs)
    with less.prems obtain nvs where nvs: "eval_items (\<lambda>v. evaluate e v (-1)) (index_items vs) = Inr nvs"
      "Unresolvable r = collect_items nvs" by (auto simp: full_list split: sum.splits)
    have "x \<in> causes (collect_items nvs) \<longleftrightarrow> (\<exists>(k, v) \<in> set (index_items vs). unresolved e v x)"
      by (rule reported_items [OF nvs(1)]) (use less.hyps list in \<open>meson set_index_items size_in_list\<close>)
    also have "\<dots> \<longleftrightarrow> (\<exists>v \<in> snd ` set (index_items vs). unresolved e v x)" by force
    also have "snd ` set (index_items vs) = set vs" by (metis map_snd_index_items set_map)
    finally show ?thesis using nvs list by (auto simp: unresolved_list)
  next
    case (type m)
    with less.prems show ?thesis
      by (simp add: evaluate_type checked_Inr reported_reference unresolved_expression(1))
  next
    case (encoding m)
    let ?d = "case map_of m ''data'' of None \<Rightarrow> GNil | Some d \<Rightarrow> d"
    have "evaluate e ?d (-1) = Inr dr \<Longrightarrow> x \<in> causes (Unresolvable dr) \<longleftrightarrow> unresolved e ?d x" for dr
      using less.hyps encoding(1) map_data_size [of m] by simp
    with encoding less.prems show ?thesis
      by (auto simp: evaluate_encoding checked_Inr unresolved_encoding evaluateEncoding_def decoded_result_def
          Result_extends_def Complete_causes split: option.splits sum.splits if_splits gval.splits)
  next
    case (invocation m)
    obtain key w where m: "m = [(key, w)]" using invocation(4) by (rule fn_map_obtain)
    have IH: "evaluate e w (-1) = Inr a \<Longrightarrow> x \<in> causes (Unresolvable a) \<longleftrightarrow> unresolved e w x" for a
      using less.hyps invocation(1) m by simp
    from invocation less.prems have "evaluateInvocation e (evals e) m = Inr r"
      by (simp add: evaluate_invocation checked_Inr)
    with IH m show ?thesis unfolding invocation(1) m unresolved_invocation [OF invocation(2-4) [unfolded m]]
      by (cases "evaluate e w (-1)") (auto simp: evaluateInvocation_def Let_def Result_extends_def Complete_iff as_NotFound_pair
          split: sum.splits option.splits if_splits)
  next
    case (plain m)
    with less.prems obtain nvs where nvs: "eval_items (\<lambda>v. evaluate e v (-1)) m = Inr nvs"
      "Unresolvable r = collect_items nvs" by (auto simp: full_plain split: sum.splits)
    have "x \<in> causes (collect_items nvs) \<longleftrightarrow> (\<exists>(k, v) \<in> set m. unresolved e v x)"
      by (rule reported_items [OF nvs(1)]) (use less.hyps plain in \<open>meson size_in_map\<close>)
    with nvs plain show ?thesis by (auto simp: unresolved_plain)
  qed
qed

end
