(* ===== verification/Expr_Properties.thy ===== *)
theory Expr_Properties
  imports Reports "HOL-Library.Product_Lexorder"
begin

text \<open>
  What the expression language of \<open>pkg/expr\<close> promises to its clients: the evaluator, its reports,
  the resolvers and the function library. The evaluator \<open>sample\<close> below is the concrete input of
  the examples: it knows one secret.
\<close>

section \<open>A concrete evaluator\<close>

definition sample :: evaluator where
  "sample = NewEvaluator \<lparr>render_html = (\<lambda>s. s), render_jira = (\<lambda>s. s), json_text = (\<lambda>s. Inr (GStr s))\<rparr>
     [WithSecretTypeResolver (MemorySecret_ResolveSecret [(''foo'', ''v3ry s3kr3t!'')])]"

definition sample_tree :: gval where
  "sample_tree = GMap
     [(''a'', GMap [(''$type'', GStr ''Secret''), (''name'', GStr ''foo'')]),
      (''b'', GMap [(''$fn.concat'', GList [GMap [(''$fn.concat'', GList [GStr ''x'', GStr ''y''])], GMap [(''$type'', GStr ''Secret''), (''name'', GStr ''bar'')]])])]"

definition sample_left :: gval where
  "sample_left = GMap
     [(''a'', GMap [(''$type'', GStr ''Secret''), (''name'', GStr ''foo'')]),
      (''b'', GMap [(''$fn.concat'', GList [GStr ''xy'', GMap [(''$type'', GStr ''Secret''), (''name'', GStr ''bar'')]])])]"

lemma sample_calls: "fn_calls sample_tree = [''concat'', ''concat'']"
  by code_simp

lemma sample_closed: "closed_functions sample (set (fn_calls sample_tree))"
  by (rule closed_library) (simp_all add: sample_calls sample_def NewEvaluator_def option_defs)

lemma sample_first_stage:
  "evaluate (without_resolvers sample) sample_tree (-1) =
    Inr \<lparr>Value = sample_left, Unresolvable = no_unresolvable\<lparr>Secrets := [UnresolvableSecret ''bar'', UnresolvableSecret ''foo'']\<rparr>\<rparr>"
  by code_simp

section \<open>Evaluation\<close>

text \<open>C1: Staged evaluation. Evaluating a value without resolvers, as the controller does, and then
  evaluating the value that is left with the resolvers of an evaluator ends as evaluating the
  original value with them does: with the same error, or with the same report of unresolvable
  references and, when nothing is missing, the same value; as long as no function called in the value
  builds an expression out of values that hold none.\<close>

theorem staged_evaluation:
  assumes "closed_functions e (set (fn_calls v))" and "evaluate (without_resolvers e) v (-1) = Inr r"
  shows "agree (evaluate e (Value r) (-1)) (evaluate e v (-1))"
  using assms by (rule staged_aux)

theorem staged_evaluation_witness:
  "agree (evaluate sample sample_left (-1)) (evaluate sample sample_tree (-1))"
  using staged_evaluation [OF sample_closed sample_first_stage] by simp

text \<open>C8: A result reports a reference or function as unresolvable exactly when it is unresolved
  somewhere in the evaluated value: no resolver is silent about a missing reference and none is
  reported that could be resolved.\<close>

theorem evaluate_reports_exactly:
  assumes "evaluate e v (-1) = Inr r"
  shows "x \<in> causes (Unresolvable r) \<longleftrightarrow> unresolved e v x"
  using assms by (rule reported_aux)

theorem evaluate_reports_exactly_witness:
  "unresolved (without_resolvers sample) sample_tree (SecretNotFoundError ''bar'') \<and>
   \<not> unresolved (without_resolvers sample) sample_tree (SecretNotFoundError ''qux'')"
  using evaluate_reports_exactly [OF sample_first_stage, of "SecretNotFoundError ''bar''"]
    evaluate_reports_exactly [OF sample_first_stage, of "SecretNotFoundError ''qux''"]
  by (simp add: causes_def as_causes_def no_unresolvable_def)

text \<open>A value that holds no expression evaluates to itself, completely, with every evaluator and
  at every depth.\<close>

theorem evaluate_inert:
  assumes "inert v"
  shows "evaluate e v depth = Inr (value_result v)"
  using assms by (rule evaluate_inert_aux)

theorem evaluate_inert_witness:
  "evaluate sample (GMap [(''a'', GList [GStr ''b'', GNil]), (''$type'', GStr ''Unknown'')]) 7 =
     Inr (value_result (GMap [(''a'', GList [GStr ''b'', GNil]), (''$type'', GStr ''Unknown'')]))"
  by (rule evaluate_inert) code_simp

text \<open>The depth limits how far nested slices and maps are evaluated and nothing else: from the
  nesting depth of the value on (\<open>levels\<close>), and for every negative depth, evaluation gives what
  \<open>EvaluateAll\<close> gives.\<close>

theorem evaluate_depth_only_cuts:
  assumes "depth < 0 \<or> int (levels v) \<le> depth"
  shows "evaluate e v depth = evaluate e v (-1)"
  using assms by (intro evaluate_enough) (simp add: enough_def)

theorem evaluate_depth_only_cuts_witness:
  "levels sample_tree = 2 \<and> evaluate sample sample_tree 2 = evaluate sample sample_tree (-1)"
proof -
  have "levels sample_tree = 2" by code_simp
  with evaluate_depth_only_cuts [of 2 sample_tree sample] show ?thesis by simp
qed

text \<open>A list that is strictly ascending by a key is known from the set of its keys.\<close>

lemma ascending_keys:
  fixes key :: "'a \<Rightarrow> 'k :: linorder"
  assumes "sorted_wrt (\<lambda>a b. key a < key b) xs" "set (map key xs) = K"
  shows "map key xs = sorted_list_of_set K"
proof -
  have "sorted_wrt (<) (map key xs)" using assms(1) by (simp add: sorted_wrt_map)
  then show ?thesis using assms(2) by (metis sorted_list_of_set.idem_if_sorted_distinct strict_sorted_iff)
qed

lemma in_causes:
  "SecretNotFoundError n \<in> causes u \<longleftrightarrow> n \<in> us_Name ` set (Secrets u)"
  "ParameterNotFoundError n \<in> causes u \<longleftrightarrow> n \<in> up_Name ` set (Parameters u)"
  "ConnectionNotFoundError t n \<in> causes u \<longleftrightarrow> (t, n) \<in> (\<lambda>c. (uc_Type c, uc_Name c)) ` set (Connections u)"
  "OutputNotFoundError f n \<in> causes u \<longleftrightarrow> (f, n) \<in> (\<lambda>c. (uo_From c, uo_Name c)) ` set (Outputs u)"
  "DataNotFoundError q \<in> causes u \<longleftrightarrow> q \<in> ud_Query ` set (Data u)"
  "AnswerNotFoundError a n \<in> causes u \<longleftrightarrow> (a, n) \<in> (\<lambda>c. (ua_AskRef c, ua_Name c)) ` set (Answers u)"
  "FunctionResolutionError n err \<in> causes u \<longleftrightarrow> (n, err) \<in> (\<lambda>i. (ui_Name i, ui_Cause i)) ` set (Invocations u)"
  by (auto simp: causes_def as_causes_def)

lemma report_orders:
  assumes "wf_unresolvable u"
  shows "sorted_wrt (\<lambda>a b. us_Name a < us_Name b) (Secrets u)"
    "sorted_wrt (\<lambda>a b. up_Name a < up_Name b) (Parameters u)"
    "sorted_wrt (\<lambda>a b. (uc_Type a, uc_Name a) < (uc_Type b, uc_Name b)) (Connections u)"
    "sorted_wrt (\<lambda>a b. (uo_From a, uo_Name a) < (uo_From b, uo_Name b)) (Outputs u)"
    "sorted (map ua_AskRef (Answers u))"
    "sorted (map (\<lambda>i. (ui_Name i, error_string (ui_Cause i))) (Invocations u))"
    "distinct (map ud_Query (Data u))" "distinct (map (\<lambda>a. (ua_AskRef a, ua_Name a)) (Answers u))"
proof -
  show "distinct (map ud_Query (Data u))" "distinct (map (\<lambda>a. (ua_AskRef a, ua_Name a)) (Answers u))"
    using assms by (auto simp: wf_unresolvable_def distinct_map inj_on_def intro: UnresolvableData.expand UnresolvableAnswer.expand)
qed (use assms in \<open>auto simp: wf_unresolvable_def less_defs sorted_map not_less elim!: sorted_wrt_mono_rel [rotated]\<close>)

text \<open>C28: What a report looks like. The slices of secrets, parameters, connections and outputs are the unresolved ones of the evaluated
  value, each once, in ascending order (by type and then name, and by step and then name), whatever the order in which they were found. The slice of data queries has
  each unresolved query once, in no particular order. The slice of answers has each unresolved answer once, ordered by its ask only, and the slice of
  invocations is ordered by name and message and has each unresolved invocation at least once, maybe more often.\<close>

theorem evaluate_report_ordered:
  assumes "evaluate e v (-1) = Inr r"
  shows "map us_Name (Secrets (Unresolvable r)) = sorted_list_of_set {n. unresolved e v (SecretNotFoundError n)} \<and>
    map up_Name (Parameters (Unresolvable r)) = sorted_list_of_set {n. unresolved e v (ParameterNotFoundError n)} \<and>
    map (\<lambda>c. (uc_Type c, uc_Name c)) (Connections (Unresolvable r)) = sorted_list_of_set {(t, n). unresolved e v (ConnectionNotFoundError t n)} \<and>
    map (\<lambda>c. (uo_From c, uo_Name c)) (Outputs (Unresolvable r)) = sorted_list_of_set {(f, n). unresolved e v (OutputNotFoundError f n)} \<and>
    distinct (map ud_Query (Data (Unresolvable r))) \<and> ud_Query ` set (Data (Unresolvable r)) = {q. unresolved e v (DataNotFoundError q)} \<and>
    distinct (map (\<lambda>a. (ua_AskRef a, ua_Name a)) (Answers (Unresolvable r))) \<and> sorted (map ua_AskRef (Answers (Unresolvable r))) \<and>
      (\<lambda>a. (ua_AskRef a, ua_Name a)) ` set (Answers (Unresolvable r)) = {(a, n). unresolved e v (AnswerNotFoundError a n)} \<and>
    sorted (map (\<lambda>i. (ui_Name i, error_string (ui_Cause i))) (Invocations (Unresolvable r))) \<and>
      (\<lambda>i. (ui_Name i, ui_Cause i)) ` set (Invocations (Unresolvable r)) = {(n, err). unresolved e v (FunctionResolutionError n err)}"
proof (intro conjI)
  let ?u = "Unresolvable r"
  note iff = reported_aux [OF assms, symmetric] and orders = report_orders [OF wf_evaluate [OF assms]]
  show "map us_Name (Secrets ?u) = sorted_list_of_set {n. unresolved e v (SecretNotFoundError n)}"
    by (rule ascending_keys [OF orders(1)]) (auto simp: iff in_causes)
  show "map up_Name (Parameters ?u) = sorted_list_of_set {n. unresolved e v (ParameterNotFoundError n)}"
    by (rule ascending_keys [OF orders(2)]) (auto simp: iff in_causes)
  show "map (\<lambda>c. (uc_Type c, uc_Name c)) (Connections ?u) = sorted_list_of_set {(t, n). unresolved e v (ConnectionNotFoundError t n)}"
    by (rule ascending_keys [OF orders(3)]) (auto simp: iff in_causes)
  show "map (\<lambda>c. (uo_From c, uo_Name c)) (Outputs ?u) = sorted_list_of_set {(f, n). unresolved e v (OutputNotFoundError f n)}"
    by (rule ascending_keys [OF orders(4)]) (auto simp: iff in_causes)
qed (use report_orders(5-8) [OF wf_evaluate [OF assms]] in \<open>auto simp: reported_aux [OF assms, symmetric] in_causes\<close>)

theorem evaluate_report_ordered_witness:
  "sorted_list_of_set {n. unresolved (without_resolvers sample) sample_tree (SecretNotFoundError n)} = [''bar'', ''foo'']"
  using evaluate_report_ordered [OF sample_first_stage] by simp

text \<open>C22: An evaluation error names where it arose: it is a chain of path errors that leads through
  slices and plain maps to a part of the value whose own evaluation fails with the cause, and that
  part is an expression or a value of an unsupported type.\<close>

theorem evaluate_error_located:
  assumes "wf_gval v" and "evaluate e v (-1) = Inl err"
  shows "\<exists>ps w c. err = foldr PathEvaluationError ps c \<and> value_at v ps = Some w \<and>
    evaluate e w (-1) = Inl c \<and> (supported w \<longrightarrow> is_expression w)"
  using assms by (rule located_aux)

theorem evaluate_error_located_witness:
  "evaluate sample (GMap [(''a'', GList [GStr ''x'', GMap [(''$type'', GStr ''Secret'')]])]) (-1) =
     Inl (PathEvaluationError ''a'' (PathEvaluationError ''1'' (InvalidTypeError ''Secret'' (FieldNotFoundError ''name'')))) \<and>
   (\<exists>ps w c. PathEvaluationError ''a'' (PathEvaluationError ''1'' (InvalidTypeError ''Secret'' (FieldNotFoundError ''name''))) =
      foldr PathEvaluationError ps c \<and>
      value_at (GMap [(''a'', GList [GStr ''x'', GMap [(''$type'', GStr ''Secret'')]])]) ps = Some w \<and>
      evaluate sample w (-1) = Inl c \<and> (supported w \<longrightarrow> is_expression w))"
proof -
  have "evaluate sample (GMap [(''a'', GList [GStr ''x'', GMap [(''$type'', GStr ''Secret'')]])]) (-1) =
     Inl (PathEvaluationError ''a'' (PathEvaluationError ''1'' (InvalidTypeError ''Secret'' (FieldNotFoundError ''name''))))"
    by code_simp
  moreover have "wf_gval (GMap [(''a'', GList [GStr ''x'', GMap [(''$type'', GStr ''Secret'')]])])" by code_simp
  ultimately show ?thesis using evaluate_error_located by blast
qed

section \<open>Resolvers and functions\<close>

text \<open>A chain of resolvers answers with the first resolver that does not say "not found",
  error or value; when all say so, the chain says so of the reference it was asked for.\<close>

theorem chain_first_answer:
  "ChainDataTypeResolvers ds q =
     (case dropWhile (\<lambda>r. \<exists>x. r q = Inl x \<and> is_DataNotFound x) ds of [] \<Rightarrow> Inl (DataNotFoundError q) | r # _ \<Rightarrow> r q) \<and>
   ChainSecretTypeResolvers ss n =
     (case dropWhile (\<lambda>r. \<exists>x. r n = Inl x \<and> is_SecretNotFound x) ss of [] \<Rightarrow> Inl (SecretNotFoundError n) | r # _ \<Rightarrow> r n) \<and>
   ChainConnectionTypeResolvers cs (t, n) =
     (case dropWhile (\<lambda>r. \<exists>x. r (t, n) = Inl x \<and> is_ConnectionNotFound x) cs of
        [] \<Rightarrow> Inl (ConnectionNotFoundError t n) | r # _ \<Rightarrow> r (t, n)) \<and>
   ChainOutputTypeResolvers os (t, n) =
     (case dropWhile (\<lambda>r. \<exists>x. r (t, n) = Inl x \<and> is_OutputNotFound x) os of
        [] \<Rightarrow> Inl (OutputNotFoundError t n) | r # _ \<Rightarrow> r (t, n)) \<and>
   ChainParameterTypeResolvers ps n =
     (case dropWhile (\<lambda>r. \<exists>x. r n = Inl x \<and> is_ParameterNotFound x) ps of [] \<Rightarrow> Inl (ParameterNotFoundError n) | r # _ \<Rightarrow> r n) \<and>
   ChainAnswerTypeResolvers as (t, n) =
     (case dropWhile (\<lambda>r. \<exists>x. r (t, n) = Inl x \<and> is_AnswerNotFound x) as of
        [] \<Rightarrow> Inl (AnswerNotFoundError t n) | r # _ \<Rightarrow> r (t, n))"
  unfolding chains_are_chains data_kind.chain_dropWhile secret_kind.chain_dropWhile connection_kind.chain_dropWhile
    output_kind.chain_dropWhile parameter_kind.chain_dropWhile answer_kind.chain_dropWhile fst_conv snd_conv
  by (intro conjI refl)

text \<open>Deep merging keeps every leaf of the source at its path and every leaf of the
  destination that the source does not cover.\<close>

theorem merge_deep:
  assumes "wf_gval (GMap src)"
  shows "(\<forall>p leaf. lookup_path (GMap src) p = Some leaf \<longrightarrow> \<not> is_map leaf \<longrightarrow>
      lookup_path (GMap (merge dst src True)) p = Some leaf) \<and>
    (\<forall>p. \<not> covers (GMap src) p \<longrightarrow> lookup_path (GMap (merge dst src True)) p = lookup_path (GMap dst) p)"
  using assms by (simp add: merge_keeps_leaf_aux merge_frame_aux)

theorem merge_deep_witness:
  "lookup_path (GMap (merge [(''a'', GMap [(''x'', GStr ''1''), (''y'', GStr ''2'')])]
      [(''a'', GMap [(''y'', GStr ''3'')])] True)) [''a'', ''x''] = Some (GStr ''1'') \<and>
   lookup_path (GMap (merge [(''a'', GMap [(''x'', GStr ''1''), (''y'', GStr ''2'')])]
      [(''a'', GMap [(''y'', GStr ''3'')])] True)) [''a'', ''y''] = Some (GStr ''3'')"
proof -
  let ?src = "[(''a'', GMap [(''y'', GStr ''3'')])]"
  let ?dst = "[(''a'', GMap [(''x'', GStr ''1''), (''y'', GStr ''2'')])]"
  have src: "wf_gval (GMap ?src)" "\<not> covers (GMap ?src) [''a'', ''x'']"
    "lookup_path (GMap ?src) [''a'', ''y''] = Some (GStr ''3'')"
    "lookup_path (GMap ?dst) [''a'', ''x''] = Some (GStr ''1'')"
    by code_simp+
  have leaf: "\<not> is_map (GStr ''3'')" by (simp add: is_map_def)
  note merged = merge_deep [OF src(1), of ?dst]
  from merged [THEN conjunct2, rule_format, OF src(2)] merged [THEN conjunct1, rule_format, OF src(3) leaf] src(4)
  show ?thesis by simp
qed

text \<open>The function \<open>merge\<close> in shallow mode is the right-biased union of its objects, whatever the
  order in which Go ranges over each of them.\<close>

theorem merge_keyword_shallow:
  assumes "\<forall>obj \<in> set objs. wf_gomap obj"
  shows "\<exists>m. merge_keyword [(''objects'', GList (map GMap objs)), (''mode'', GStr ''shallow'')] = Inr (Inr (GMap m)) \<and>
    map_of m = foldl (\<lambda>r obj. r ++ map_of obj) Map.empty objs"
  using merge_all_shallow [OF assms] by (simp add: merge_keyword_def mergeCast_maps)

theorem merge_keyword_shallow_witness:
  "\<exists>m. merge_keyword [(''objects'', GList (map GMap [[(''a'', GNil)], [(''a'', GStr ''x'')]])), (''mode'', GStr ''shallow'')] =
      Inr (Inr (GMap m)) \<and>
    map_of m = foldl (\<lambda>r obj. r ++ map_of obj) Map.empty [[(''a'', GNil)], [(''a'', GStr ''x'')]]"
  by (rule merge_keyword_shallow) simp

section \<open>Reports\<close>

text \<open>Reports built from the same references in another order are equal in the categories that
  are strictly ordered, but not in the category of answers: the order of answers compares the name
  only with itself, so the answers of one ask keep the order in which the hash set yields them.\<close>

theorem report_order_determined:
  "(\<forall>xs ys. distinct xs \<and> distinct ys \<and> set xs = set ys \<longrightarrow>
      sort_slice unresolvableOutputSort_Less xs = sort_slice unresolvableOutputSort_Less ys) \<and>
   (\<exists>xs ys. distinct xs \<and> distinct ys \<and> set xs = set ys \<and>
      sort_slice unresolvableAnswerSort_Less xs \<noteq> sort_slice unresolvableAnswerSort_Less ys)"
proof (intro conjI allI impI)
  fix xs ys :: "UnresolvableOutput list"
  assume "distinct xs \<and> distinct ys \<and> set xs = set ys"
  then show "sort_slice unresolvableOutputSort_Less xs = sort_slice unresolvableOutputSort_Less ys"
    by (intro output_order.sort_slice_unique) (metis set_eq_iff_mset_eq_distinct)
next
  let ?xs = "[UnresolvableAnswer ''ask'' ''a'', UnresolvableAnswer ''ask'' ''b'']"
  let ?ys = "[UnresolvableAnswer ''ask'' ''b'', UnresolvableAnswer ''ask'' ''a'']"
  have "distinct ?xs \<and> distinct ?ys \<and> set ?xs = set ?ys \<and>
      sort_slice unresolvableAnswerSort_Less ?xs \<noteq> sort_slice unresolvableAnswerSort_Less ?ys"
    by code_simp
  then show "\<exists>xs ys. distinct xs \<and> distinct ys \<and> set xs = set ys \<and>
      sort_slice unresolvableAnswerSort_Less xs \<noteq> sort_slice unresolvableAnswerSort_Less ys" by blast
qed

theorem report_order_determined_witness:
  "sort_slice unresolvableOutputSort_Less [UnresolvableOutput ''b'' ''x'', UnresolvableOutput ''a'' ''x''] =
   sort_slice unresolvableOutputSort_Less [UnresolvableOutput ''a'' ''x'', UnresolvableOutput ''b'' ''x'']"
  by (rule report_order_determined [THEN conjunct1, rule_format]) auto

text \<open>The JSON envelope tells completeness correctly, but lists no data query: a result whose
  only missing reference is one is sent as incomplete with nothing unresolvable.\<close>

theorem envelope_complete:
  "env_Complete (NewJSONResultEnvelope r) = (causes (Unresolvable r) = {}) \<and>
   NewJSONUnresolvableEnvelope (report_data q) = NewJSONUnresolvableEnvelope no_unresolvable \<and>
   AsError (report_data q) \<noteq> None"
  by (simp add: NewJSONResultEnvelope_def Complete_causes NewJSONUnresolvableEnvelope_def report_data_def
      no_unresolvable_def AsError_None_iff causes_def as_causes_def)

section \<open>Results on the wire\<close>

text \<open>A complete result survives the JSON result mapper: the document it prints is read back by
  the decoder of the transfer encoding as the same value, also when strings hold bytes that are not
  UTF-8.\<close>

theorem json_result_roundtrip:
  assumes "transferable v"
  shows "\<exists>j. JSONResultMapper (value_result v) = Inr (j, no_unresolvable) \<and> JSONInterface_Unmarshal j = Inr v"
  using utf8safe_marshal [OF assms] transfer_roundtrip [OF assms]
  by (auto simp: JSONResultMapper_def UTF8SafeResultMapper_def JSONInterface_Unmarshal_def value_result_def)

theorem json_result_roundtrip_witness:
  "\<exists>j. JSONResultMapper (value_result (GMap [(''a'', GList [GStr [CHR 0xFF], GNil])])) = Inr (j, no_unresolvable) \<and>
    JSONInterface_Unmarshal j = Inr (GMap [(''a'', GList [GStr [CHR 0xFF], GNil])])"
  by (rule json_result_roundtrip) code_simp

end
