(* ===== verification/Go_Stdlib.thy ===== *)
theory Go_Stdlib
  imports Go_Values
begin

text \<open>
  The parts of Go's standard library that the model package builds names with: \<open>path.Clean\<close> and
  \<open>path.Join\<close>, \<open>crypto/sha1\<close> and \<open>encoding/hex\<close>. Strings are byte strings.
\<close>

unbundle bit_operations_syntax

section \<open>Paths\<close>

text \<open>\<open>path.Clean\<close> drops empty and \<open>.\<close> elements, lets \<open>..\<close> remove the element before it, and keeps
  leading \<open>..\<close> elements of a relative path only.\<close>

definition clean_step :: "bool \<Rightarrow> string \<Rightarrow> string list \<Rightarrow> string list" where
  "clean_step rooted c out =
     (if c = [] \<or> c = ''.'' then out
      else if c = ''..'' then
        (if out \<noteq> [] \<and> last out \<noteq> ''..'' then butlast out
         else if rooted then out
         else out @ [c])
      else out @ [c])"

definition path_Clean :: "string \<Rightarrow> string" where
  "path_Clean p =
     (let rooted = has_prefix p ''/'';
          out = fold (clean_step rooted) (split_all (CHR ''/'') p) []
      in if rooted then ''/'' @ join ''/'' out else if out = [] then ''.'' else join ''/'' out)"

definition path_Join :: "string list \<Rightarrow> string" where
  "path_Join elem = (case dropWhile (\<lambda>e. e = []) elem of [] \<Rightarrow> [] | es \<Rightarrow> path_Clean (join ''/'' es))"

definition segment :: "string \<Rightarrow> bool" where
  "segment s \<longleftrightarrow> s \<noteq> [] \<and> s \<noteq> ''.'' \<and> s \<noteq> ''..'' \<and> CHR ''/'' \<notin> set s"

lemma split_all_join:
  "ss \<noteq> [] \<Longrightarrow> \<forall>s \<in> set ss. CHR ''/'' \<notin> set s \<Longrightarrow> split_all (CHR ''/'') (join ''/'' ss) = ss"
proof (induction ss)
  case (Cons s ss)
  then show ?case by (cases ss) (auto simp: split_all_absent split_all_append)
qed simp

lemma fold_clean_segments: "\<forall>s \<in> set ss. segment s \<Longrightarrow> fold (clean_step rooted) ss out = out @ ss"
  by (induction ss arbitrary: out) (auto simp: clean_step_def segment_def)

lemma join_rooted: "s \<noteq> [] \<Longrightarrow> CHR ''/'' \<notin> set s \<Longrightarrow> \<not> has_prefix (join ''/'' (s # ss)) ''/''"
  by (cases s; cases ss) (auto simp: has_prefix_def)

lemma path_Join_segments:
  assumes "ss \<noteq> []" and "\<forall>s \<in> set ss. segment s"
  shows "path_Join ss = join ''/'' ss"
proof -
  obtain s ss' where ss: "ss = s # ss'" using assms(1) by (cases ss) auto
  from assms(2) ss have "dropWhile (\<lambda>e. e = []) ss = s # ss'" "\<not> has_prefix (join ''/'' ss) ''/''"
    using join_rooted [of s ss'] by (auto simp: segment_def)
  moreover have "split_all (CHR ''/'') (join ''/'' ss) = ss"
    using assms by (intro split_all_join) (auto simp: segment_def)
  ultimately show ?thesis
    using assms ss by (simp add: path_Join_def path_Clean_def Let_def fold_clean_segments clean_step_def segment_def)
qed

lemma join_append: "ss \<noteq> [] \<Longrightarrow> ts \<noteq> [] \<Longrightarrow> join sep (ss @ ts) = join sep ss @ sep @ join sep ts"
  by (induction sep ss rule: join.induct) (auto simp: neq_Nil_conv)

text \<open>Joining paths that are clean already.\<close>

lemma join_concat:
  "\<forall>ss \<in> set sss. ss \<noteq> [] \<Longrightarrow> join sep (map (join sep) sss) = join sep (concat sss)"
proof (induction sss)
  case (Cons ss sss)
  then show ?case
    by (cases sss) (auto simp: join_append)
qed simp

lemma path_Join_joined:
  assumes "sss \<noteq> []" and "\<forall>ss \<in> set sss. ss \<noteq> [] \<and> (\<forall>s \<in> set ss. segment s)"
  shows "path_Join (map (join ''/'') sss) = join ''/'' (concat sss)"
proof -
  have ne: "join ''/'' ss \<noteq> []" if "ss \<noteq> []" "\<forall>s \<in> set ss. segment s" for ss
    using that by (cases ss rule: remdups_adj.cases) (auto simp: segment_def)
  have "concat sss \<noteq> []" using assms by (cases sss) auto
  with assms have "path_Join (concat sss) = join ''/'' (concat sss)" by (intro path_Join_segments) auto
  moreover have "path_Join (map (join ''/'') sss) = path_Clean (join ''/'' (concat sss))"
    using assms ne join_concat [of sss "''/''"] by (cases sss) (auto simp: path_Join_def)
  moreover have "path_Join (concat sss) = path_Clean (join ''/'' (concat sss))"
  proof -
    obtain s ss where "concat sss = s # ss" "segment s"
      using assms by (cases sss; cases "hd sss") auto
    then show ?thesis by (auto simp: path_Join_def segment_def)
  qed
  ultimately show ?thesis by simp
qed

lemma path_Join_inj:
  assumes "path_Join ss = path_Join ts" "ss \<noteq> []" "ts \<noteq> []" "\<forall>s \<in> set ss. segment s" "\<forall>t \<in> set ts. segment t"
  shows "ss = ts"
proof -
  have "split_all (CHR ''/'') (join ''/'' ss) = ss" "split_all (CHR ''/'') (join ''/'' ts) = ts"
    using assms by (intro split_all_join; auto simp: segment_def)+
  with assms show ?thesis by (metis path_Join_segments)
qed

section \<open>Hexadecimal\<close>

definition hex_EncodeToString :: "string \<Rightarrow> string" where
  "hex_EncodeToString s = concat (map (\<lambda>c. [hex_digit (of_char c div 16), hex_digit (of_char c mod 16)]) s)"

lemma length_hex [simp]: "length (hex_EncodeToString s) = 2 * length s"
  by (induction s) (auto simp: hex_EncodeToString_def)

lemma hex_digit_inj:
  assumes "m < 16" "n < 16" "hex_digit m = hex_digit n"
  shows "m = n"
proof -
  have "(of_char (hex_digit k) :: nat) = (if k < 10 then 48 + k else 87 + k)" if "k < 16" for k
    using that by (auto simp: hex_digit_def)
  with assms have "(if m < 10 then 48 + m else 87 + m) = (if n < 10 then 48 + n else 87 + n)" by metis
  with assms(1,2) show ?thesis by (auto split: if_splits)
qed

lemma hex_digit_alnum: "n < 16 \<Longrightarrow> hex_digit n \<notin> {CHR ''.'', CHR ''/''}"
  by (auto simp: hex_digit_def dest: arg_cong [of _ _ "of_char :: char \<Rightarrow> nat"])

lemma hex_alnum:
  assumes "c \<in> set (hex_EncodeToString s)"
  shows "c \<notin> {CHR ''.'', CHR ''/''}"
proof -
  from assms obtain x :: char where
    "c = hex_digit (of_char x div 16) \<or> c = hex_digit (of_char x mod 16)"
    by (auto simp: hex_EncodeToString_def)
  moreover have "(of_char x :: nat) div 16 < 16"
    using nat_of_char_less_256 [of x] by linarith
  ultimately show ?thesis
    using hex_digit_alnum [of "of_char x div 16"] hex_digit_alnum [of "of_char x mod 16"] by auto
qed

lemma hex_no_dot: "CHR ''.'' \<notin> set (hex_EncodeToString s)"
  using hex_alnum by blast

lemma segment_hex: "s \<noteq> [] \<Longrightarrow> segment (hex_EncodeToString s)"
proof -
  assume "s \<noteq> []"
  then have "hex_EncodeToString s \<noteq> []" by (metis length_hex length_0_conv mult_eq_0_iff zero_neq_numeral)
  moreover have "CHR ''/'' \<notin> set (hex_EncodeToString s)" using hex_alnum by blast
  ultimately show ?thesis using hex_no_dot [of s] by (auto simp: segment_def)
qed

lemma hex_inj: "hex_EncodeToString s = hex_EncodeToString t \<Longrightarrow> s = t"
proof (induction s arbitrary: t)
  case Nil
  then show ?case by (cases t) (simp_all add: hex_EncodeToString_def)
next
  case (Cons c s)
  then obtain d t' where t: "t = d # t'" by (cases t) (auto simp: hex_EncodeToString_def)
  have bound: "(of_char x :: nat) div 16 < 16" for x :: char
    using nat_of_char_less_256 [of x] by linarith
  from Cons.prems t have "(of_char c :: nat) div 16 = of_char d div 16" "(of_char c :: nat) mod 16 = of_char d mod 16"
    by (auto simp: hex_EncodeToString_def intro!: hex_digit_inj bound)
  then have "c = d" by (metis div_mult_mod_eq of_char_eq_iff)
  with Cons t show ?case by (auto simp: hex_EncodeToString_def)
qed

section \<open>SHA-1\<close>

definition sha1_f :: "nat \<Rightarrow> 32 word \<Rightarrow> 32 word \<Rightarrow> 32 word \<Rightarrow> 32 word" where
  "sha1_f t b c d =
     (if t < 20 then (b AND c) OR (NOT b AND d)
      else if t < 40 then b XOR c XOR d
      else if t < 60 then (b AND c) OR (b AND d) OR (c AND d)
      else b XOR c XOR d)"

definition sha1_k :: "nat \<Rightarrow> 32 word" where
  "sha1_k t = (if t < 20 then 0x5A827999 else if t < 40 then 0x6ED9EBA1 else if t < 60 then 0x8F1BBCDC else 0xCA62C1D6)"

text \<open>Bytes are \<open>8 word\<close>s; the length in bits is appended as a big-endian 64-bit number.\<close>

definition be_length :: "nat \<Rightarrow> 8 word list" where
  "be_length n = map (\<lambda>i. ucast (drop_bit (8 * i) (word_of_nat n :: 64 word))) [7, 6, 5, 4, 3, 2, 1, 0]"

definition be_bytes :: "32 word \<Rightarrow> 8 word list" where
  "be_bytes w = map (\<lambda>i. ucast (drop_bit (8 * i) w)) [3, 2, 1, 0]"

definition sha1_pad :: "8 word list \<Rightarrow> 8 word list" where
  "sha1_pad m = m @ [128] @ replicate ((119 - length m mod 64) mod 64) 0 @ be_length (8 * length m)"

fun be_words :: "8 word list \<Rightarrow> 32 word list" where
  "be_words (a # b # c # d # m) =
     (push_bit 24 (ucast a) OR push_bit 16 (ucast b) OR push_bit 8 (ucast c) OR ucast d) # be_words m"
| "be_words m = []"

text \<open>The message schedule; the sixteen words before the next one are kept with the last first.\<close>

fun sha1_schedule :: "nat \<Rightarrow> 32 word list \<Rightarrow> 32 word list" where
  "sha1_schedule 0 ws = []"
| "sha1_schedule (Suc n) ws =
     (let w = word_rotl 1 (ws ! 2 XOR ws ! 7 XOR ws ! 13 XOR ws ! 15) in w # sha1_schedule n (w # butlast ws))"

type_synonym sha1_state = "32 word \<times> 32 word \<times> 32 word \<times> 32 word \<times> 32 word"

definition sha1_round :: "nat \<times> 32 word \<Rightarrow> sha1_state \<Rightarrow> sha1_state" where
  "sha1_round tw st = (case tw of (t, w) \<Rightarrow> case st of (a, b, c, d, e) \<Rightarrow>
     (word_rotl 5 a + sha1_f t b c d + e + sha1_k t + w, a, word_rotl 30 b, c, d))"

definition sha1_block :: "32 word list \<Rightarrow> sha1_state \<Rightarrow> sha1_state" where
  "sha1_block ws st =
     (case fold sha1_round (zip [0..<80] (ws @ sha1_schedule 64 (rev ws))) st of
        (a', b', c', d', e') \<Rightarrow> case st of (a, b, c, d, e) \<Rightarrow> (a + a', b + b', c + c', d + d', e + e'))"

function sha1_blocks :: "32 word list \<Rightarrow> sha1_state \<Rightarrow> sha1_state" where
  "sha1_blocks ws st = (if ws = [] then st else sha1_blocks (drop 16 ws) (sha1_block (take 16 ws) st))"
  by pat_completeness auto
termination
  by (relation "measure (length \<circ> fst)") auto

declare sha1_blocks.simps [simp del]

definition sha1_Sum :: "string \<Rightarrow> string" where
  "sha1_Sum m =
     (case sha1_blocks (be_words (sha1_pad (map of_char m)))
        (0x67452301, 0xEFCDAB89, 0x98BADCFE, 0x10325476, 0xC3D2E1F0) of
        (a, b, c, d, e) \<Rightarrow> map (char_of \<circ> uint) (concat (map be_bytes [a, b, c, d, e])))"

lemma length_sha1_Sum [simp]: "length (sha1_Sum m) = 20"
  by (simp add: sha1_Sum_def be_bytes_def split: prod.split)

end
