(* ===== verification/Model.thy ===== *)
theory Model
  imports Go_Stdlib
begin

text \<open>
  The data model of \<open>pkg/model\<close>: actions (steps and triggers) and their hashes, the records the
  managers exchange, and scripts. The interfaces of \<open>pkg/model\<close> (\<open>ParameterManager\<close> and its kin)
  are the locales and records of the theories on managers.
\<close>

section \<open>Actions\<close>

record action_type =
  Singular :: string
  Plural :: string

definition ActionTypeStep :: action_type where
  "ActionTypeStep = \<lparr>Singular = ''step'', Plural = ''steps''\<rparr>"

definition ActionTypeTrigger :: action_type where
  "ActionTypeTrigger = \<lparr>Singular = ''trigger'', Plural = ''triggers''\<rparr>"

record run =
  Run_ID :: string

record step =
  Step_Run :: run
  Step_Name :: string

record trigger =
  Trigger_Name :: string

text \<open>The interface \<open>Action\<close> has the two implementations \<open>*Step\<close> and \<open>*Trigger\<close>.\<close>

datatype action = Step step | Trigger trigger

type_synonym hash = string

definition Step_Hash :: "step \<Rightarrow> hash" where
  "Step_Hash s = sha1_Sum (path_Join [''runs'', Run_ID (Step_Run s), Plural ActionTypeStep, Step_Name s])"

definition Trigger_Hash :: "trigger \<Rightarrow> hash" where
  "Trigger_Hash t = sha1_Sum (path_Join [Plural ActionTypeTrigger, Trigger_Name t])"

fun Action_Type :: "action \<Rightarrow> action_type" where
  "Action_Type (Step s) = ActionTypeStep"
| "Action_Type (Trigger t) = ActionTypeTrigger"

fun Action_Hash :: "action \<Rightarrow> hash" where
  "Action_Hash (Step s) = Step_Hash s"
| "Action_Hash (Trigger t) = Trigger_Hash t"

definition HexEncoding :: "hash \<Rightarrow> string" where
  "HexEncoding h = hex_EncodeToString h"

definition IfStep :: "action \<Rightarrow> (step \<Rightarrow> 's \<Rightarrow> 's) \<Rightarrow> 's \<Rightarrow> 's" where
  "IfStep a fn st = (case a of Step s \<Rightarrow> fn s st | _ \<Rightarrow> st)"

definition IfTrigger :: "action \<Rightarrow> (trigger \<Rightarrow> 's \<Rightarrow> 's) \<Rightarrow> 's \<Rightarrow> 's" where
  "IfTrigger a fn st = (case a of Trigger t \<Rightarrow> fn t st | _ \<Rightarrow> st)"

section \<open>Records\<close>

record condition =
  Condition_Tree :: gval

record connection =
  Connection_Type :: string
  Connection_Name :: string
  Attributes :: "gval gomap"

record environment =
  Environment_Value :: "gval gomap"

record event =
  Event_Data :: "gval gomap"
  Event_Key :: string

record parameter =
  Parameter_Name :: string
  Parameter_Value :: gval

record secret =
  Secret_Name :: string
  Secret_Value :: string

record spec =
  Spec_Tree :: gval

record state =
  State_Name :: string
  State_Value :: gval

record step_output =
  Output_Step :: step
  Output_Name :: string
  Output_Value :: gval

section \<open>Scripts\<close>

definition Shebang :: string where "Shebang = ''#!''"

definition DefaultInterpreter :: string where "DefaultInterpreter = Shebang @ ''/bin/sh''"

definition ScriptForInput :: "string list \<Rightarrow> string" where
  "ScriptForInput input =
     (let script = join newline input
      in if \<not> has_prefix script Shebang then DefaultInterpreter @ newline @ script else script)"

lemma ScriptForInput_shebang: "has_prefix (ScriptForInput input) Shebang"
  by (auto simp: ScriptForInput_def Let_def DefaultInterpreter_def has_prefix_iff)

lemma ScriptForInput_fixed: "ScriptForInput [ScriptForInput input] = ScriptForInput input"
  using ScriptForInput_shebang [of input] by (simp add: ScriptForInput_def [of "[ScriptForInput input]"])

section \<open>Which actions share a hash\<close>

definition action_path :: "action \<Rightarrow> string" where
  "action_path a = (case a of
     Step s \<Rightarrow> path_Join [''runs'', Run_ID (Step_Run s), ''steps'', Step_Name s]
   | Trigger t \<Rightarrow> path_Join [''triggers'', Trigger_Name t])"

lemma Action_Hash_path: "Action_Hash a = sha1_Sum (action_path a)"
  by (cases a) (simp_all add: action_path_def Step_Hash_def Trigger_Hash_def ActionTypeStep_def ActionTypeTrigger_def)

text \<open>Names that are single path segments. Nothing in \<open>pkg/model\<close> enforces this: see
  \<open>step_collision\<close>.\<close>

fun clean_action :: "action \<Rightarrow> bool" where
  "clean_action (Step s) \<longleftrightarrow> segment (Run_ID (Step_Run s)) \<and> segment (Step_Name s)"
| "clean_action (Trigger t) \<longleftrightarrow> segment (Trigger_Name t)"

lemma action_path_inj:
  assumes "clean_action a" "clean_action b" "action_path a = action_path b"
  shows "a = b"
proof -
  have seg: "segment ''runs''" "segment ''steps''" "segment ''triggers''" by (simp_all add: segment_def)
  show ?thesis
    using assms seg by (cases a; cases b) (auto simp: action_path_def dest!: path_Join_inj)
qed

text \<open>A set of actions without SHA-1 collisions among their paths.\<close>

definition collision_free :: "action set \<Rightarrow> bool" where
  "collision_free A \<longleftrightarrow> inj_on sha1_Sum (action_path ` A)"

lemma Action_Hash_inj:
  assumes "collision_free A" "a \<in> A" "b \<in> A" "clean_action a" "clean_action b" "Action_Hash a = Action_Hash b"
  shows "a = b"
  using assms by (auto simp: collision_free_def Action_Hash_path dest: inj_onD intro: action_path_inj)

lemma step_collision: "Action_Hash (Step \<lparr>Step_Run = \<lparr>Run_ID = ''r''\<rparr>, Step_Name = ''a/../b''\<rparr>) =
    Action_Hash (Step \<lparr>Step_Run = \<lparr>Run_ID = ''r''\<rparr>, Step_Name = ''b''\<rparr>)"
proof -
  have "path_Join [''runs'', ''r'', ''steps'', ''a/../b''] = path_Join [''runs'', ''r'', ''steps'', ''b'']" by code_simp
  then show ?thesis by (simp add: Action_Hash_path action_path_def)
qed

end
