(* ===== verification/Managers.thy ===== *)
theory Managers
  imports Model Resolve
begin

text \<open>
  The managers of \<open>pkg/manager\<close> that live in memory (\<open>memory\<close>), that refuse everything
  (\<open>reject\<close>), the adapters that turn managers into resolvers (\<open>resolve\<close>) and the builder
  (\<open>builder\<close>) that bundles them for the metadata API.

  A manager's state is passed explicitly. The mutexes of the memory managers make every operation
  atomic, so that the sequences of operations are the interleavings of the callers.
  The contract of the keyed managers (parameters, state, step outputs) is the locale
  \<open>keyed_store\<close>.
\<close>

section \<open>The contract of a keyed manager\<close>

locale keyed_store =
  fixes get :: "'s \<Rightarrow> 'k \<Rightarrow> 'v res" and put :: "'s \<Rightarrow> 'k \<Rightarrow> 'v \<Rightarrow> 's" and storable :: "'v \<Rightarrow> bool"
  assumes get_put: "storable v \<Longrightarrow> get (put s k v) k = Inr v"
    and get_other: "k \<noteq> k' \<Longrightarrow> get (put s k v) k' = get s k'"
begin

definition writes :: "('k \<times> 'v) list \<Rightarrow> 's \<Rightarrow> 's" where
  "writes ws s = fold (\<lambda>(k, v) s. put s k v) ws s"

text \<open>After any sequence of writes a key reads as its last written value, whatever was written to other keys.\<close>

lemma get_writes:
  "\<forall>v. (k, v) \<in> set ws \<longrightarrow> storable v \<Longrightarrow>
   get (writes ws s) k = (case map_of (rev ws) k of Some v \<Rightarrow> Inr v | None \<Rightarrow> get s k)"
proof (induction ws rule: rev_induct)
  case Nil
  then show ?case by (simp add: writes_def)
next
  case (snoc w ws)
  obtain k' v' where w: "w = (k', v')" by fastforce
  with snoc show ?case
    by (cases "k' = k") (auto simp: writes_def get_put get_other)
qed

end

text \<open>Clients that name their entries by something else than the key.\<close>

locale keyed_view = keyed_store get put storable
  for get :: "'s \<Rightarrow> 'k \<Rightarrow> 'v res" and put :: "'s \<Rightarrow> 'k \<Rightarrow> 'v \<Rightarrow> 's" and storable :: "'v \<Rightarrow> bool" +
  fixes key :: "'a \<Rightarrow> 'k" and domain :: "'a set"
  assumes key_inj: "inj_on key domain"
begin

lemma view_get_writes:
  assumes "\<forall>(b, v) \<in> set ws. b \<in> domain" and "a \<in> domain" and "\<forall>v. (a, v) \<in> set ws \<longrightarrow> storable v"
  shows "get (writes (map (\<lambda>(a, v). (key a, v)) ws) s) (key a) =
    (case map_of (rev ws) a of Some v \<Rightarrow> Inr v | None \<Rightarrow> get s (key a))"
proof -
  have "map_of (map (\<lambda>(a, v). (key a, v)) us) (key a) = map_of us a" if "\<forall>(a, v) \<in> set us. a \<in> domain" for us
    using that assms(2) by (induction us) (auto simp: inj_on_eq_iff [OF key_inj])
  from this [of "rev ws"] assms(1)
  have "map_of (rev (map (\<lambda>(a, v). (key a, v)) ws)) (key a) = map_of (rev ws) a"
    by (auto simp: rev_map)
  moreover have "\<forall>v. (key a, v) \<in> set (map (\<lambda>(a, v). (key a, v)) ws) \<longrightarrow> storable v"
    using assms by (auto simp: inj_on_eq_iff [OF key_inj])
  ultimately show ?thesis by (simp add: get_writes)
qed

end

section \<open>Managers in memory\<close>

definition memory_Parameter_Get :: "gval gomap \<Rightarrow> string \<Rightarrow> parameter res" where
  "memory_Parameter_Get params name =
     (case map_of params name of
        None \<Rightarrow> Inl ErrNotFound
      | Some value \<Rightarrow> Inr \<lparr>Parameter_Name = name, Parameter_Value = value\<rparr>)"

definition memory_Parameter_Set :: "gval gomap \<Rightarrow> string \<Rightarrow> gval \<Rightarrow> parameter res \<times> gval gomap" where
  "memory_Parameter_Set params name value =
     (Inr \<lparr>Parameter_Name = name, Parameter_Value = value\<rparr>, AList.update name value params)"

definition ParameterManagerWithInitialParameters :: "gval gomap \<Rightarrow> gval gomap \<Rightarrow> gval gomap" where
  "ParameterManagerWithInitialParameters params pm = fold (\<lambda>(k, v) pm. AList.update k v pm) params pm"

definition NewParameterManager :: "(gval gomap \<Rightarrow> gval gomap) list \<Rightarrow> gval gomap" where
  "NewParameterManager opts = fold (\<lambda>opt pm. opt pm) opts []"

definition memory_State_Get :: "gval gomap \<Rightarrow> string \<Rightarrow> state res" where
  "memory_State_Get st name =
     (case map_of st name of
        None \<Rightarrow> Inl ErrNotFound
      | Some value \<Rightarrow> Inr \<lparr>State_Name = name, State_Value = value\<rparr>)"

definition memory_State_Set :: "gval gomap \<Rightarrow> string \<Rightarrow> gval \<Rightarrow> state res \<times> gval gomap" where
  "memory_State_Set st name value =
     (Inr \<lparr>State_Name = name, State_Value = value\<rparr>, AList.update name value st)"

definition StateManagerWithInitialState :: "gval gomap \<Rightarrow> gval gomap \<Rightarrow> gval gomap" where
  "StateManagerWithInitialState st sm = fold (\<lambda>(k, v) sm. AList.update k v sm) st sm"

definition NewStateManager :: "(gval gomap \<Rightarrow> gval gomap) list \<Rightarrow> gval gomap" where
  "NewStateManager opts = fold (\<lambda>opt sm. opt sm) opts []"

text \<open>The single-valued managers keep a pointer that is nil until something is set.\<close>

definition memory_Condition_Get :: "condition option \<Rightarrow> condition res" where
  "memory_Condition_Get val = (case val of None \<Rightarrow> Inl ErrNotFound | Some c \<Rightarrow> Inr c)"

definition memory_Condition_Set :: "condition option \<Rightarrow> gval \<Rightarrow> condition res \<times> condition option" where
  "memory_Condition_Set val value = (let c = \<lparr>Condition_Tree = value\<rparr> in (Inr c, Some c))"

definition memory_Spec_Get :: "spec option \<Rightarrow> spec res" where
  "memory_Spec_Get val = (case val of None \<Rightarrow> Inl ErrNotFound | Some c \<Rightarrow> Inr c)"

definition memory_Spec_Set :: "spec option \<Rightarrow> gval gomap \<Rightarrow> spec res \<times> spec option" where
  "memory_Spec_Set val value = (let c = \<lparr>Spec_Tree = GMap value\<rparr> in (Inr c, Some c))"

definition memory_Environment_Get :: "environment option \<Rightarrow> environment res" where
  "memory_Environment_Get val = (case val of None \<Rightarrow> Inl ErrNotFound | Some c \<Rightarrow> Inr c)"

definition memory_Environment_Set :: "environment option \<Rightarrow> gval gomap \<Rightarrow> environment res \<times> environment option" where
  "memory_Environment_Set val value =
     (let evs = fold (\<lambda>(name, ev) evs. AList.update name ev evs) value [];
          c = \<lparr>Environment_Value = evs\<rparr> in (Inr c, Some c))"

definition memory_Connection_Get :: "((string \<times> string) \<times> gval gomap) list \<Rightarrow> string \<Rightarrow> string \<Rightarrow> connection res" where
  "memory_Connection_Get connections typ name =
     (case map_of connections (typ, name) of
        None \<Rightarrow> Inl ErrNotFound
      | Some attrs \<Rightarrow> Inr \<lparr>Connection_Type = typ, Connection_Name = name, Attributes = attrs\<rparr>)"

definition memory_Secret_Get :: "string gomap \<Rightarrow> string \<Rightarrow> secret res" where
  "memory_Secret_Get secrets name =
     (case map_of secrets name of
        None \<Rightarrow> Inl ErrNotFound
      | Some value \<Rightarrow> Inr \<lparr>Secret_Name = name, Secret_Value = value\<rparr>)"

definition NewSecretManager :: "string gomap \<Rightarrow> string gomap" where
  "NewSecretManager secrets = fold (\<lambda>(k, v) m. AList.update k v m) secrets []"

text \<open>Step outputs are kept per step, keyed by the hash of the step.\<close>

type_synonym output_map = "(hash \<times> gval gomap) list"

definition StepOutputMap_Get :: "output_map \<Rightarrow> step \<Rightarrow> string \<Rightarrow> gval option" where
  "StepOutputMap_Get m st name =
     (case map_of m (Step_Hash st) of None \<Rightarrow> None | Some outputs \<Rightarrow> map_of outputs name)"

definition StepOutputMap_Set :: "output_map \<Rightarrow> step \<Rightarrow> string \<Rightarrow> gval \<Rightarrow> output_map" where
  "StepOutputMap_Set m st name value =
     (let h = Step_Hash st;
          outputs = (case map_of m h of None \<Rightarrow> [] | Some outputs \<Rightarrow> outputs)
      in AList.update h (AList.update name value outputs) m)"

definition memory_StepOutput_Get :: "step \<Rightarrow> output_map \<Rightarrow> string \<Rightarrow> string \<Rightarrow> step_output res" where
  "memory_StepOutput_Get me m stepName name =
     (let st = \<lparr>Step_Run = Step_Run me, Step_Name = stepName\<rparr>
      in case StepOutputMap_Get m st name of
           None \<Rightarrow> Inl ErrNotFound
         | Some value \<Rightarrow> Inr \<lparr>Output_Step = st, Output_Name = name, Output_Value = value\<rparr>)"

definition memory_StepOutput_Set :: "step \<Rightarrow> output_map \<Rightarrow> string \<Rightarrow> gval \<Rightarrow> step_output res \<times> output_map" where
  "memory_StepOutput_Set me m name value =
     (Inr \<lparr>Output_Step = me, Output_Name = name, Output_Value = value\<rparr>, StepOutputMap_Set m me name value)"

interpretation memory_parameters: keyed_store
  "\<lambda>s k. map_sum id Parameter_Value (memory_Parameter_Get s k)" "\<lambda>s k v. snd (memory_Parameter_Set s k v)" "\<lambda>_. True"
  by unfold_locales (auto simp: memory_Parameter_Get_def memory_Parameter_Set_def)

interpretation memory_state: keyed_store
  "\<lambda>s k. map_sum id State_Value (memory_State_Get s k)" "\<lambda>s k v. snd (memory_State_Set s k v)" "\<lambda>_. True"
  by unfold_locales (auto simp: memory_State_Get_def memory_State_Set_def)

text \<open>One map serves the managers of all steps; an entry belongs to a step and a name.\<close>

definition output_get :: "output_map \<Rightarrow> hash \<times> string \<Rightarrow> gval res" where
  "output_get m k = (case map_of m (fst k) of None \<Rightarrow> Inl ErrNotFound
     | Some outputs \<Rightarrow> (case map_of outputs (snd k) of None \<Rightarrow> Inl ErrNotFound | Some v \<Rightarrow> Inr v))"

definition output_put :: "output_map \<Rightarrow> hash \<times> string \<Rightarrow> gval \<Rightarrow> output_map" where
  "output_put m k v = AList.update (fst k)
     (AList.update (snd k) v (case map_of m (fst k) of None \<Rightarrow> [] | Some outputs \<Rightarrow> outputs)) m"

interpretation memory_outputs: keyed_store output_get output_put "\<lambda>_. True"
  by unfold_locales (auto simp: output_get_def output_put_def split: option.splits)

lemma StepOutputMap_Set_put: "StepOutputMap_Set m st name v = output_put m (Step_Hash st, name) v"
  by (simp add: StepOutputMap_Set_def output_put_def Let_def)

lemma memory_StepOutput_Get_get:
  "map_sum id Output_Value (memory_StepOutput_Get me m n name) =
     output_get m (Step_Hash \<lparr>Step_Run = Step_Run me, Step_Name = n\<rparr>, name)"
  by (simp add: memory_StepOutput_Get_def StepOutputMap_Get_def output_get_def Let_def split: option.split)

section \<open>From managers to resolvers\<close>

definition ParameterTypeResolver :: "(string \<Rightarrow> parameter res) \<Rightarrow> parameter_resolver" where
  "ParameterTypeResolver get name =
     (case get name of
        Inl err \<Rightarrow> if err = ErrNotFound then Inl (ParameterNotFoundError name) else Inl err
      | Inr p \<Rightarrow> Inr (Parameter_Value p))"

definition SecretTypeResolver :: "(string \<Rightarrow> secret res) \<Rightarrow> secret_resolver" where
  "SecretTypeResolver get name =
     (case get name of
        Inl err \<Rightarrow> if err = ErrNotFound then Inl (SecretNotFoundError name) else Inl err
      | Inr so \<Rightarrow> Inr (Secret_Value so))"

definition ConnectionTypeResolver :: "(string \<Rightarrow> string \<Rightarrow> connection res) \<Rightarrow> connection_resolver" where
  "ConnectionTypeResolver get k =
     (case get (fst k) (snd k) of
        Inl err \<Rightarrow> if err = ErrNotFound then Inl (ConnectionNotFoundError (fst k) (snd k)) else Inl err
      | Inr so \<Rightarrow> Inr (GMap (Attributes so)))"

definition OutputTypeResolver :: "(string \<Rightarrow> string \<Rightarrow> step_output res) \<Rightarrow> output_resolver" where
  "OutputTypeResolver get k =
     (case get (fst k) (snd k) of
        Inl err \<Rightarrow> if err = ErrNotFound then Inl (OutputNotFoundError (fst k) (snd k)) else Inl err
      | Inr so \<Rightarrow> Inr (Output_Value so))"

text \<open>The reference to the ask is not used for the lookup.\<close>

definition AnswerTypeResolver :: "(string \<Rightarrow> state res) \<Rightarrow> answer_resolver" where
  "AnswerTypeResolver get k =
     (case get (snd k) of
        Inl err \<Rightarrow> if err = ErrNotFound then Inl (AnswerNotFoundError (fst k) (snd k)) else Inl err
      | Inr s \<Rightarrow> Inr (State_Value s))"

section \<open>The bundle of managers and its builder\<close>

text \<open>Reading an environment may panic, and setting an output may never return; both are \<open>None\<close>.\<close>

record 'w metadata_managers =
  m_Connections :: "string \<Rightarrow> string \<Rightarrow> 'w \<Rightarrow> connection res \<times> 'w"
  m_Conditions :: "'w \<Rightarrow> condition res \<times> 'w"
  m_Events :: "gval gomap \<Rightarrow> string \<Rightarrow> 'w \<Rightarrow> event res \<times> 'w"
  m_Environment :: "'w \<Rightarrow> (environment res \<times> 'w) option"
  m_Parameters :: "string \<Rightarrow> 'w \<Rightarrow> parameter res \<times> 'w"
  m_Secrets :: "string \<Rightarrow> 'w \<Rightarrow> secret res \<times> 'w"
  m_Spec :: "'w \<Rightarrow> spec res \<times> 'w"
  m_State :: "string \<Rightarrow> 'w \<Rightarrow> state res \<times> 'w"
  m_OutputGet :: "string \<Rightarrow> string \<Rightarrow> 'w \<Rightarrow> step_output res \<times> 'w"
  m_OutputSet :: "string \<Rightarrow> gval \<Rightarrow> 'w \<Rightarrow> (step_output res \<times> 'w) option"

definition reject :: "'w \<Rightarrow> 'a res \<times> 'w" where
  "reject w = (Inl ErrRejected, w)"

definition reject_condition_Get :: "'w \<Rightarrow> condition res \<times> 'w" where "reject_condition_Get = reject"
definition reject_condition_Set :: "gval \<Rightarrow> 'w \<Rightarrow> condition res \<times> 'w" where "reject_condition_Set value = reject"
definition reject_connection_Get :: "string \<Rightarrow> string \<Rightarrow> 'w \<Rightarrow> connection res \<times> 'w" where "reject_connection_Get typ name = reject"
definition reject_environment_Get :: "'w \<Rightarrow> environment res \<times> 'w" where "reject_environment_Get = reject"
definition reject_environment_Set :: "gval gomap \<Rightarrow> 'w \<Rightarrow> environment res \<times> 'w" where "reject_environment_Set value = reject"
definition reject_event_Emit :: "gval gomap \<Rightarrow> string \<Rightarrow> 'w \<Rightarrow> event res \<times> 'w" where "reject_event_Emit data key = reject"
definition reject_parameter_Get :: "string \<Rightarrow> 'w \<Rightarrow> parameter res \<times> 'w" where "reject_parameter_Get name = reject"
definition reject_parameter_Set :: "string \<Rightarrow> gval \<Rightarrow> 'w \<Rightarrow> parameter res \<times> 'w" where "reject_parameter_Set name value = reject"
definition reject_secret_Get :: "string \<Rightarrow> 'w \<Rightarrow> secret res \<times> 'w" where "reject_secret_Get name = reject"
definition reject_spec_Get :: "'w \<Rightarrow> spec res \<times> 'w" where "reject_spec_Get = reject"
definition reject_spec_Set :: "gval gomap \<Rightarrow> 'w \<Rightarrow> spec res \<times> 'w" where "reject_spec_Set value = reject"
definition reject_state_Get :: "string \<Rightarrow> 'w \<Rightarrow> state res \<times> 'w" where "reject_state_Get name = reject"
definition reject_state_Set :: "string \<Rightarrow> gval \<Rightarrow> 'w \<Rightarrow> state res \<times> 'w" where "reject_state_Set name value = reject"
definition reject_stepOutput_Get :: "string \<Rightarrow> string \<Rightarrow> 'w \<Rightarrow> step_output res \<times> 'w" where "reject_stepOutput_Get stepName name = reject"
definition reject_stepOutput_Set :: "string \<Rightarrow> gval \<Rightarrow> 'w \<Rightarrow> step_output res \<times> 'w" where "reject_stepOutput_Set name value = reject"

lemmas reject_defs = reject_def reject_condition_Get_def reject_condition_Set_def reject_connection_Get_def
  reject_environment_Get_def reject_environment_Set_def reject_event_Emit_def reject_parameter_Get_def
  reject_parameter_Set_def reject_secret_Get_def reject_spec_Get_def reject_spec_Set_def reject_state_Get_def
  reject_state_Set_def reject_stepOutput_Get_def reject_stepOutput_Set_def

definition NewMetadataBuilder :: "'w metadata_managers" where
  "NewMetadataBuilder =
     \<lparr>m_Connections = reject_connection_Get, m_Conditions = reject_condition_Get, m_Events = reject_event_Emit,
      m_Environment = Some \<circ> reject_environment_Get, m_Parameters = reject_parameter_Get, m_Secrets = reject_secret_Get,
      m_Spec = reject_spec_Get, m_State = reject_state_Get,
      m_OutputGet = reject_stepOutput_Get, m_OutputSet = (\<lambda>name value. Some \<circ> reject_stepOutput_Set name value)\<rparr>"

text \<open>The setters of the builder, as the calls a client makes on it; \<open>Build\<close> copies the fields.\<close>

datatype 'w builder_call =
    SetConnections "string \<Rightarrow> string \<Rightarrow> 'w \<Rightarrow> connection res \<times> 'w"
  | SetConditions "'w \<Rightarrow> condition res \<times> 'w"
  | SetEvents "gval gomap \<Rightarrow> string \<Rightarrow> 'w \<Rightarrow> event res \<times> 'w"
  | SetEnvironment "'w \<Rightarrow> (environment res \<times> 'w) option"
  | SetParameters "string \<Rightarrow> 'w \<Rightarrow> parameter res \<times> 'w"
  | SetSecrets "string \<Rightarrow> 'w \<Rightarrow> secret res \<times> 'w"
  | SetSpec "'w \<Rightarrow> spec res \<times> 'w"
  | SetState "string \<Rightarrow> 'w \<Rightarrow> state res \<times> 'w"
  | SetStepOutputs "string \<Rightarrow> string \<Rightarrow> 'w \<Rightarrow> step_output res \<times> 'w" "string \<Rightarrow> gval \<Rightarrow> 'w \<Rightarrow> (step_output res \<times> 'w) option"

fun builder_step :: "'w builder_call \<Rightarrow> 'w metadata_managers \<Rightarrow> 'w metadata_managers" where
  "builder_step (SetConnections m) mb = mb\<lparr>m_Connections := m\<rparr>"
| "builder_step (SetConditions m) mb = mb\<lparr>m_Conditions := m\<rparr>"
| "builder_step (SetEvents m) mb = mb\<lparr>m_Events := m\<rparr>"
| "builder_step (SetEnvironment m) mb = mb\<lparr>m_Environment := m\<rparr>"
| "builder_step (SetParameters m) mb = mb\<lparr>m_Parameters := m\<rparr>"
| "builder_step (SetSecrets m) mb = mb\<lparr>m_Secrets := m\<rparr>"
| "builder_step (SetSpec m) mb = mb\<lparr>m_Spec := m\<rparr>"
| "builder_step (SetState m) mb = mb\<lparr>m_State := m\<rparr>"
| "builder_step (SetStepOutputs g s) mb = mb\<lparr>m_OutputGet := g, m_OutputSet := s\<rparr>"

definition Build :: "'w metadata_managers \<Rightarrow> 'w metadata_managers" where
  "Build mb = \<lparr>m_Connections = m_Connections mb, m_Conditions = m_Conditions mb, m_Events = m_Events mb,
     m_Environment = m_Environment mb, m_Parameters = m_Parameters mb, m_Secrets = m_Secrets mb,
     m_Spec = m_Spec mb, m_State = m_State mb, m_OutputGet = m_OutputGet mb, m_OutputSet = m_OutputSet mb\<rparr>"

end
