(* ===== verification/Configmap.thy ===== *)
theory Configmap
  imports Managers Transfer_Encoding
begin

text \<open>
  The managers that store their values in a Kubernetes ConfigMap, \<open>pkg/manager/configmap\<close>: the
  backends (\<open>configmap.go\<close>), the key-value layer (\<open>kv.go\<close>) and the managers for conditions,
  environments, parameters, specs, state and step outputs.

  A JSON text in \<open>Data\<close> is represented by the document it denotes, \<open>None\<close> standing for a text that
  is not JSON. Operations of a backend act on a world \<open>'w\<close>. The Kubernetes API itself is a
  parameter: what the code relies on is the locale \<open>optimistic_configmaps\<close>, which states the
  documented semantics of resource versions over the history of the object.
\<close>

section \<open>Backends (\<open>configmap.go\<close>)\<close>

record configmap =
  cm_Namespace :: string
  cm_Name :: string
  cm_UID :: string
  cm_ResourceVersion :: string
  cm_Data :: "json option gomap"

definition empty_configmap :: configmap where
  "empty_configmap = \<lparr>cm_Namespace = [], cm_Name = [], cm_UID = [], cm_ResourceVersion = [], cm_Data = []\<rparr>"

text \<open>\<open>errors.IsNotFound\<close>, \<open>errors.IsConflict\<close> of \<open>k8s.io/apimachinery\<close>.\<close>

fun reason_is :: "string \<Rightarrow> err \<Rightarrow> bool" where
  "reason_is reason (StatusError r m) \<longleftrightarrow> r = reason"
| "reason_is reason e \<longleftrightarrow> False"

definition IsNotFound :: "err \<Rightarrow> bool" where "IsNotFound = reason_is ''NotFound''"

definition IsConflict :: "err \<Rightarrow> bool" where "IsConflict = reason_is ''Conflict''"

record 'w configmap_backend =
  cmi_Get :: "'w \<Rightarrow> configmap res \<times> 'w"
  cmi_CreateOrUpdate :: "configmap \<Rightarrow> 'w \<Rightarrow> configmap res \<times> 'w"

text \<open>The Kubernetes client for one namespace and name.\<close>

record 'w configmap_client =
  cl_Get :: "'w \<Rightarrow> configmap res \<times> 'w"
  cl_Create :: "configmap \<Rightarrow> 'w \<Rightarrow> configmap res \<times> 'w"
  cl_Update :: "configmap \<Rightarrow> 'w \<Rightarrow> configmap res \<times> 'w"

definition ClientConfigMap :: "'w configmap_client \<Rightarrow> string \<Rightarrow> string \<Rightarrow> 'w configmap_backend" where
  "ClientConfigMap client namespace name =
     \<lparr>cmi_Get = cl_Get client,
      cmi_CreateOrUpdate = (\<lambda>cm.
        let cm' = cm\<lparr>cm_Namespace := namespace, cm_Name := name\<rparr>
        in if length (cm_UID cm') = 0 then cl_Create client cm' else cl_Update client cm')\<rparr>"

text \<open>The controller-runtime client writes what the server stored back into its argument.\<close>

definition ControllerRuntimeConfigMap :: "'w configmap_client \<Rightarrow> string \<times> string \<Rightarrow> 'w configmap_backend" where
  "ControllerRuntimeConfigMap client key =
     \<lparr>cmi_Get = (\<lambda>w. case cl_Get client w of (Inl err, w') \<Rightarrow> (Inl err, w') | (Inr cm, w') \<Rightarrow> (Inr cm, w')),
      cmi_CreateOrUpdate = (\<lambda>cm w.
        let cm' = cm\<lparr>cm_Namespace := fst key, cm_Name := snd key\<rparr>
        in if length (cm_UID cm') = 0
           then (case cl_Create client cm' w of (Inl err, w') \<Rightarrow> (Inl err, w') | (Inr stored, w') \<Rightarrow> (Inr stored, w'))
           else (case cl_Update client cm' w of (Inl err, w') \<Rightarrow> (Inl err, w') | (Inr stored, w') \<Rightarrow> (Inr stored, w')))\<rparr>"

text \<open>The world of a local ConfigMap is the object itself.\<close>

definition LocalConfigMap :: "configmap configmap_backend" where
  "LocalConfigMap = \<lparr>cmi_Get = (\<lambda>delegate. (Inr delegate, delegate)), cmi_CreateOrUpdate = (\<lambda>cm delegate. (Inr cm, cm))\<rparr>"

text \<open>The read-modify-write loop of \<open>MutateConfigMap\<close>: one pass through its body, which returns
  (\<open>Inl\<close>) or continues (\<open>Inr\<close>), and the loop, for which \<open>None\<close> is a run that never ends. A nil
  \<open>Data\<close> and an empty one are the same here.\<close>

definition mutate_round ::
    "'w configmap_backend \<Rightarrow> (configmap \<Rightarrow> configmap) \<Rightarrow> 'w \<Rightarrow> (configmap res \<times> 'w) + 'w" where
  "mutate_round cm fn w =
     (case cmi_Get cm w of (r, w1) \<Rightarrow>
       (case (case r of
                Inl err \<Rightarrow> if IsNotFound err then Inr empty_configmap else Inl err
              | Inr obj \<Rightarrow> Inr obj) of
          Inl err \<Rightarrow> Inl (Inl err, w1)
        | Inr obj \<Rightarrow>
            (case cmi_CreateOrUpdate cm (fn obj) w1 of
               (Inr obj', w2) \<Rightarrow> Inl (Inr obj', w2)
             | (Inl err, w2) \<Rightarrow> if IsConflict err \<or> IsNotFound err then Inr w2 else Inl (Inl err, w2))))"

partial_function (option) MutateConfigMap ::
    "'w configmap_backend \<Rightarrow> (configmap \<Rightarrow> configmap) \<Rightarrow> 'w \<Rightarrow> (configmap res \<times> 'w) option" where
  [code]: "MutateConfigMap cm fn w =
     (case mutate_round cm fn w of Inl r \<Rightarrow> Some r | Inr w' \<Rightarrow> MutateConfigMap cm fn w')"

section \<open>Key-value layer (\<open>kv.go\<close>)\<close>

definition KV_Get :: "'w configmap_backend \<Rightarrow> string \<Rightarrow> 'w \<Rightarrow> gval res \<times> 'w" where
  "KV_Get kcm key w =
     (case cmi_Get kcm w of
        (Inl err, w') \<Rightarrow> (if IsNotFound err then Inl ErrNotFound else Inl err, w')
      | (Inr cm, w') \<Rightarrow>
          (case map_of (cm_Data cm) key of
             None \<Rightarrow> (Inl ErrNotFound, w')
           | Some None \<Rightarrow> (Inl (OtherError ''invalid JSON text''), w')
           | Some (Some encoded) \<Rightarrow> (JSONInterface_Unmarshal encoded, w')))"

definition set_data :: "string \<Rightarrow> json \<Rightarrow> configmap \<Rightarrow> configmap" where
  "set_data key encoded cm = cm\<lparr>cm_Data := AList.update key (Some encoded) (cm_Data cm)\<rparr>"

definition KV_Set :: "'w configmap_backend \<Rightarrow> string \<Rightarrow> gval \<Rightarrow> 'w \<Rightarrow> (unit res \<times> 'w) option" where
  "KV_Set kcm key value w =
     (case JSONInterface_Marshal value of
        Inl err \<Rightarrow> Some (Inl err, w)
      | Inr encoded \<Rightarrow>
          (case MutateConfigMap kcm (set_data key encoded) w of
             None \<Rightarrow> None
           | Some (Inl err, w') \<Rightarrow> Some (Inl err, w')
           | Some (Inr _, w') \<Rightarrow> Some (Inr (), w')))"

section \<open>Managers\<close>

definition action_key :: "action \<Rightarrow> string \<Rightarrow> string" where
  "action_key a rest = Plural (Action_Type a) @ ''.'' @ HexEncoding (Action_Hash a) @ rest"

definition conditionKey :: "action \<Rightarrow> string" where
  "conditionKey a = action_key a ''.condition''"

definition environmentKey :: "action \<Rightarrow> string" where
  "environmentKey a = action_key a ''.environment''"

definition parameterKey :: "string \<Rightarrow> string" where
  "parameterKey name = ''parameters.'' @ name"

definition specKey :: "action \<Rightarrow> string" where
  "specKey a = action_key a ''.spec''"

definition stateKey :: "action \<Rightarrow> string \<Rightarrow> string" where
  "stateKey a name = action_key a (''.state.'' @ name)"

definition stepOutputKey :: "step \<Rightarrow> string \<Rightarrow> string" where
  "stepOutputKey s name = action_key (Step s) (''.output.'' @ name)"

text \<open>What the managers make of the outcome of the key-value layer.\<close>

definition after_get :: "('a \<Rightarrow> 'b) \<Rightarrow> 'a res \<times> 'w \<Rightarrow> 'b res \<times> 'w" where
  "after_get f r = (case r of (Inl err, w) \<Rightarrow> (Inl err, w) | (Inr value, w) \<Rightarrow> (Inr (f value), w))"

definition after_set :: "'b \<Rightarrow> (unit res \<times> 'w) option \<Rightarrow> ('b res \<times> 'w) option" where
  "after_set b r = (case r of None \<Rightarrow> None | Some (Inl err, w) \<Rightarrow> Some (Inl err, w) | Some (Inr _, w) \<Rightarrow> Some (Inr b, w))"

definition Condition_Get :: "'w configmap_backend \<Rightarrow> action \<Rightarrow> 'w \<Rightarrow> condition res \<times> 'w" where
  "Condition_Get cm me w = after_get (\<lambda>value. \<lparr>Condition_Tree = value\<rparr>) (KV_Get cm (conditionKey me) w)"

definition Condition_Set :: "'w configmap_backend \<Rightarrow> action \<Rightarrow> gval \<Rightarrow> 'w \<Rightarrow> (condition res \<times> 'w) option" where
  "Condition_Set cm me value w = after_set \<lparr>Condition_Tree = value\<rparr> (KV_Set cm (conditionKey me) value w)"

text \<open>Reading an environment asserts that the stored value is a map; anything else panics, which
  is the outcome \<open>None\<close>.\<close>

definition Environment_Get :: "'w configmap_backend \<Rightarrow> action \<Rightarrow> 'w \<Rightarrow> (environment res \<times> 'w) option" where
  "Environment_Get cm me w =
     (case KV_Get cm (environmentKey me) w of
        (Inl err, w') \<Rightarrow> Some (Inl err, w')
      | (Inr (GMap value), w') \<Rightarrow>
          Some (Inr \<lparr>Environment_Value = fold (\<lambda>(name, ev) evs. AList.update name ev evs) value []\<rparr>, w')
      | (Inr _, w') \<Rightarrow> None)"

definition Environment_Set :: "'w configmap_backend \<Rightarrow> action \<Rightarrow> gval gomap \<Rightarrow> 'w \<Rightarrow> (environment res \<times> 'w) option" where
  "Environment_Set cm me value w =
     after_set \<lparr>Environment_Value = fold (\<lambda>(name, ev) evs. AList.update name ev evs) value []\<rparr>
       (KV_Set cm (environmentKey me) (GMap value) w)"

definition Parameter_Get :: "'w configmap_backend \<Rightarrow> string \<Rightarrow> 'w \<Rightarrow> parameter res \<times> 'w" where
  "Parameter_Get cm name w =
     after_get (\<lambda>value. \<lparr>Parameter_Name = name, Parameter_Value = value\<rparr>) (KV_Get cm (parameterKey name) w)"

definition Parameter_Set :: "'w configmap_backend \<Rightarrow> string \<Rightarrow> gval \<Rightarrow> 'w \<Rightarrow> (parameter res \<times> 'w) option" where
  "Parameter_Set cm name value w =
     after_set \<lparr>Parameter_Name = name, Parameter_Value = value\<rparr> (KV_Set cm (parameterKey name) value w)"

definition Spec_Get :: "'w configmap_backend \<Rightarrow> action \<Rightarrow> 'w \<Rightarrow> spec res \<times> 'w" where
  "Spec_Get cm me w = after_get (\<lambda>value. \<lparr>Spec_Tree = value\<rparr>) (KV_Get cm (specKey me) w)"

definition Spec_Set :: "'w configmap_backend \<Rightarrow> action \<Rightarrow> gval gomap \<Rightarrow> 'w \<Rightarrow> (spec res \<times> 'w) option" where
  "Spec_Set cm me value w = after_set \<lparr>Spec_Tree = GMap value\<rparr> (KV_Set cm (specKey me) (GMap value) w)"

definition State_Get :: "'w configmap_backend \<Rightarrow> action \<Rightarrow> string \<Rightarrow> 'w \<Rightarrow> state res \<times> 'w" where
  "State_Get cm me name w =
     after_get (\<lambda>value. \<lparr>State_Name = name, State_Value = value\<rparr>) (KV_Get cm (stateKey me name) w)"

definition State_Set :: "'w configmap_backend \<Rightarrow> action \<Rightarrow> string \<Rightarrow> gval \<Rightarrow> 'w \<Rightarrow> (state res \<times> 'w) option" where
  "State_Set cm me name value w =
     after_set \<lparr>State_Name = name, State_Value = value\<rparr> (KV_Set cm (stateKey me name) value w)"

definition StepOutput_Get :: "'w configmap_backend \<Rightarrow> step \<Rightarrow> string \<Rightarrow> string \<Rightarrow> 'w \<Rightarrow> step_output res \<times> 'w" where
  "StepOutput_Get cm me stepName name w =
     (let st = \<lparr>Step_Run = Step_Run me, Step_Name = stepName\<rparr>
      in after_get (\<lambda>value. \<lparr>Output_Step = st, Output_Name = name, Output_Value = value\<rparr>)
           (KV_Get cm (stepOutputKey st name) w))"

definition StepOutput_Set :: "'w configmap_backend \<Rightarrow> step \<Rightarrow> string \<Rightarrow> gval \<Rightarrow> 'w \<Rightarrow> (step_output res \<times> 'w) option" where
  "StepOutput_Set cm me name value w =
     after_set \<lparr>Output_Step = me, Output_Name = name, Output_Value = value\<rparr> (KV_Set cm (stepOutputKey me name) value w)"

end
