(* ===== verification/Configmap_Props.thy ===== *)
theory Configmap_Props
  imports Configmap
begin

text \<open>
  The theorems on the ConfigMap managers: the local backend is a keyed store, the keys of
  different entries differ, and the read-modify-write loop is atomic and returns.
\<close>

section \<open>The loop\<close>

text \<open>Whatever the loop returns, its last round returned.\<close>

lemma Mutate_last_round: "MutateConfigMap cm fn w = Some r \<Longrightarrow> \<exists>w0. mutate_round cm fn w0 = Inl r"
  by (erule MutateConfigMap.raw_induct [rotated]) (auto split: sum.splits)

section \<open>The local backend\<close>

lemma Mutate_Local: "MutateConfigMap LocalConfigMap fn w = Some (Inr (fn w), fn w)"
  by (subst MutateConfigMap.simps) (simp add: LocalConfigMap_def mutate_round_def)

definition local_get :: "configmap \<Rightarrow> string \<Rightarrow> gval res" where
  "local_get w key = fst (KV_Get LocalConfigMap key w)"

text \<open>What a key of the data of a ConfigMap reads as.\<close>

definition data_get :: "json option gomap \<Rightarrow> string \<Rightarrow> gval res" where
  "data_get d key =
     (case map_of d key of
        None \<Rightarrow> Inl ErrNotFound | Some None \<Rightarrow> Inl (OtherError ''invalid JSON text'')
      | Some (Some j) \<Rightarrow> JSONInterface_Unmarshal j)"

definition local_put :: "configmap \<Rightarrow> string \<Rightarrow> gval \<Rightarrow> configmap" where
  "local_put w key value = (case KV_Set LocalConfigMap key value w of Some (_, w') \<Rightarrow> w' | None \<Rightarrow> w)"

lemma local_get_eq:
  "local_get w key = (case map_of (cm_Data w) key of
     None \<Rightarrow> Inl ErrNotFound | Some None \<Rightarrow> Inl (OtherError ''invalid JSON text'')
   | Some (Some j) \<Rightarrow> JSONInterface_Unmarshal j)"
  by (simp add: local_get_def KV_Get_def LocalConfigMap_def split: option.split)

lemma KV_Set_Local:
  "KV_Set LocalConfigMap key value w = Some (case JSONInterface_Marshal value of
     Inl err \<Rightarrow> (Inl err, w) | Inr j \<Rightarrow> (Inr (), set_data key j w))"
  by (simp add: KV_Set_def Mutate_Local split: sum.split)

lemma local_put_eq:
  "local_put w key value = (case JSONInterface_Marshal value of Inl err \<Rightarrow> w | Inr j \<Rightarrow> set_data key j w)"
  by (simp add: local_put_def KV_Set_Local split: sum.split)

interpretation local_kv: keyed_store local_get local_put transferable
proof
  fix v s k
  assume "transferable v"
  with transfer_roundtrip [OF this] show "local_get (local_put s k v) k = Inr v"
    by (auto simp: local_get_eq local_put_eq set_data_def JSONInterface_Unmarshal_def)
next
  fix k k' :: string and s v
  assume "k \<noteq> k'"
  then show "local_get (local_put s k v) k' = local_get s k'"
    by (simp add: local_get_eq local_put_eq set_data_def split: sum.split)
qed

interpretation parameter_view: keyed_view local_get local_put transferable parameterKey UNIV
  by unfold_locales (auto simp: inj_on_def parameterKey_def)

lemma data_get_other: "k \<noteq> k' \<Longrightarrow> data_get (AList.update k x d) k' = data_get d k'"
  by (simp add: data_get_def)

lemma data_get_transferred: "transferable v \<Longrightarrow> JSONInterface_Marshal v = Inr j \<Longrightarrow> data_get (AList.update k (Some j) d) k = Inr v"
  using transfer_roundtrip [of v] by (auto simp: data_get_def JSONInterface_Unmarshal_def)

section \<open>Keys\<close>

text \<open>Everything the managers of a run keep in one ConfigMap.\<close>

datatype slot =
    SCondition action
  | SEnvironment action
  | SParameter string
  | SSpec action
  | SState action string
  | SOutput step string

fun slot_key :: "slot \<Rightarrow> string" where
  "slot_key (SCondition a) = conditionKey a"
| "slot_key (SEnvironment a) = environmentKey a"
| "slot_key (SParameter name) = parameterKey name"
| "slot_key (SSpec a) = specKey a"
| "slot_key (SState a name) = stateKey a name"
| "slot_key (SOutput s name) = stepOutputKey s name"

fun slot_actions :: "slot \<Rightarrow> action set" where
  "slot_actions (SCondition a) = {a}"
| "slot_actions (SEnvironment a) = {a}"
| "slot_actions (SParameter name) = {}"
| "slot_actions (SSpec a) = {a}"
| "slot_actions (SState a name) = {a}"
| "slot_actions (SOutput s name) = {Step s}"

definition slots :: "action set \<Rightarrow> slot set" where
  "slots A = {x. slot_actions x \<subseteq> A \<and> (\<forall>a \<in> slot_actions x. clean_action a)}"

lemma plural_cases: "Plural (Action_Type a) = ''steps'' \<or> Plural (Action_Type a) = ''triggers''"
  by (cases a) (simp_all add: ActionTypeStep_def ActionTypeTrigger_def)

lemma length_HexEncoding: "length (HexEncoding (Action_Hash a)) = 40"
  by (cases a) (simp_all add: HexEncoding_def Step_Hash_def Trigger_Hash_def)

lemma action_key_inj:
  assumes "action_key a r = action_key b r'"
  shows "Action_Hash a = Action_Hash b \<and> r = r'"
proof -
  from assms have "HexEncoding (Action_Hash a) @ r = HexEncoding (Action_Hash b) @ r'"
    using plural_cases [of a] plural_cases [of b] by (auto simp: action_key_def)
  then have "HexEncoding (Action_Hash a) = HexEncoding (Action_Hash b) \<and> r = r'"
    by (simp add: length_HexEncoding)
  then show ?thesis by (auto simp: HexEncoding_def dest: hex_inj)
qed

lemma action_key_parameter: "action_key a r \<noteq> parameterKey name" "parameterKey name \<noteq> action_key a r"
  using plural_cases [of a] by (auto simp: action_key_def parameterKey_def)

lemma parameterKey_inj: "parameterKey n = parameterKey n' \<longleftrightarrow> n = n'"
  by (simp add: parameterKey_def)

lemma slot_key_inj:
  assumes "collision_free A" shows "inj_on slot_key (slots A)"
proof (rule inj_onI)
  fix x y
  assume xy: "x \<in> slots A" "y \<in> slots A" "slot_key x = slot_key y"
  note hash = Action_Hash_inj [OF assms]
  from xy show "x = y"
    by (cases x; cases y)
      (auto simp: slots_def conditionKey_def environmentKey_def specKey_def stateKey_def stepOutputKey_def
        action_key_parameter parameterKey_inj dest!: action_key_inj dest: hash)
qed

lemma slot_view: "collision_free A \<Longrightarrow> keyed_view local_get local_put transferable slot_key (slots A)"
  by unfold_locales (rule slot_key_inj)

section \<open>Atomic updates\<close>

text \<open>
  What the code relies on of the Kubernetes API for one object, over the history of the object
  (newest version first, \<open>None\<close> for deleted): reads return the current object, a creation finds no
  object, an update finds the version it names, every write is a new version, and other clients
  may write in between.
\<close>

definition current :: "configmap option list \<Rightarrow> configmap option" where
  "current h = (case h of [] \<Rightarrow> None | x # _ \<Rightarrow> x)"

locale optimistic_configmaps =
  fixes client :: "'w configmap_client" and hist :: "'w \<Rightarrow> configmap option list"
  assumes get_found: "cl_Get client w = (Inr cm, w') \<Longrightarrow> current (hist w') = Some cm \<and> cm_UID cm \<noteq> []"
    and get_missing: "cl_Get client w = (Inl e, w') \<Longrightarrow> IsNotFound e \<Longrightarrow> current (hist w') = None"
    and created: "cl_Create client cm w = (Inr cm', w') \<Longrightarrow>
      cm_Data cm' = cm_Data cm \<and> (\<exists>h. hist w' = Some cm' # h \<and> current h = None)"
    and updated: "cl_Update client cm w = (Inr cm', w') \<Longrightarrow>
      cm_Data cm' = cm_Data cm \<and> (\<exists>old h. hist w' = Some cm' # Some old # h \<and>
        cm_ResourceVersion old = cm_ResourceVersion cm)"
    and grows: "cl_Update client cm w = (r, w') \<Longrightarrow> suffix (hist w) (hist w')"
    and versions: "Some a \<in> set (hist w) \<Longrightarrow> Some b \<in> set (hist w) \<Longrightarrow>
      cm_ResourceVersion a = cm_ResourceVersion b \<Longrightarrow> cm_Data a = cm_Data b"
begin

lemma current_in: "current h = Some cm \<Longrightarrow> Some cm \<in> set h"
  by (cases h) (auto simp: current_def)

text \<open>One successful round of the loop.\<close>

lemma update_round:
  assumes "cl_Get client w = (Inr cm, w1)" and "cl_Update client (cm\<lparr>cm_Data := d, cm_Namespace := ns, cm_Name := n\<rparr>) w1 = (Inr obj, w')"
  shows "\<exists>h. hist w' = Some obj # h \<and> cm_Data obj = d \<and> (\<exists>old. current h = Some old \<and> cm_Data old = cm_Data cm)"
proof -
  from updated [OF assms(2)] obtain old h where h: "hist w' = Some obj # Some old # h" "cm_Data obj = d"
    "cm_ResourceVersion old = cm_ResourceVersion cm" by auto
  have "Some cm \<in> set (hist w')"
    using get_found [OF assms(1)] grows [OF assms(2)] current_in set_mono_suffix by blast
  moreover have "Some old \<in> set (hist w')" using h by simp
  ultimately have "cm_Data old = cm_Data cm" using h(3) versions by metis
  with h show ?thesis by (auto simp: current_def)
qed

lemma mutate_atomic:
  assumes "MutateConfigMap (ClientConfigMap client ns n) (\<lambda>cm. cm\<lparr>cm_Data := g (cm_Data cm)\<rparr>) w = Some (Inr obj, w')"
  shows "\<exists>h. hist w' = Some obj # h \<and> cm_Data obj = g (case current h of None \<Rightarrow> [] | Some old \<Rightarrow> cm_Data old)"
proof -
  from Mutate_last_round [OF assms] obtain w0 where
    round: "mutate_round (ClientConfigMap client ns n) (\<lambda>cm. cm\<lparr>cm_Data := g (cm_Data cm)\<rparr>) w0 = Inl (Inr obj, w')" ..
  obtain got w1 where get: "cl_Get client w0 = (got, w1)" by fastforce
  show ?thesis
  proof (cases got)
    case (Inr cm)
    with get get_found have "cm_UID cm \<noteq> []" by blast
    with round get Inr have "cl_Update client (cm\<lparr>cm_Data := g (cm_Data cm), cm_Namespace := ns, cm_Name := n\<rparr>) w1 = (Inr obj, w')"
      by (auto simp: mutate_round_def ClientConfigMap_def Let_def split: prod.splits sum.splits if_splits)
    from update_round [OF get [unfolded Inr] this] show ?thesis by auto
  next
    case (Inl err)
    with round get have "cl_Create client (empty_configmap\<lparr>cm_Data := g [], cm_Namespace := ns, cm_Name := n\<rparr>) w1 = (Inr obj, w')"
      by (auto simp: mutate_round_def ClientConfigMap_def Let_def empty_configmap_def split: prod.splits sum.splits if_splits)
    from created [OF this] show ?thesis by auto
  qed
qed

end

text \<open>
  What else the loop relies on to end. No version of the object is ever taken back; an update is refused as a conflict, or because there is
  no object, only if the object is not in the version it names any more; and the namespace of the object is there, so that a creation is
  not refused for the lack of it.
\<close>

locale available_configmaps = optimistic_configmaps client hist
  for client :: "'w configmap_client" and hist :: "'w \<Rightarrow> configmap option list" +
  assumes get_grows: "cl_Get client w = (r, w') \<Longrightarrow> suffix (hist w) (hist w')"
    and create_grows: "cl_Create client cm w = (r, w') \<Longrightarrow> suffix (hist w) (hist w')"
    and update_refused: "cl_Update client cm w = (Inl e, w') \<Longrightarrow> IsConflict e \<or> IsNotFound e \<Longrightarrow>
      current (hist w') = Some cur \<Longrightarrow> cm_ResourceVersion cur \<noteq> cm_ResourceVersion cm"
    and namespace_there: "cl_Create client cm w = (Inl e, w') \<Longrightarrow> \<not> IsConflict e \<and> \<not> IsNotFound e"

text \<open>The states that asking without effect leads through: requests that read, or are refused. Other clients may write meanwhile.\<close>

inductive asking :: "'w configmap_client \<Rightarrow> 'w \<Rightarrow> 'w \<Rightarrow> bool" for client where
  none: "asking client w w"
| get: "asking client w w1 \<Longrightarrow> cl_Get client w1 = (r, w2) \<Longrightarrow> asking client w w2"
| create_refused: "asking client w w1 \<Longrightarrow> cl_Create client cm w1 = (Inl e, w2) \<Longrightarrow> asking client w w2"
| update_refused: "asking client w w1 \<Longrightarrow> cl_Update client cm w1 = (Inl e, w2) \<Longrightarrow> asking client w w2"

text \<open>Other clients write only finitely often while this one asks.\<close>

definition others_stop :: "'w configmap_client \<Rightarrow> ('w \<Rightarrow> configmap option list) \<Rightarrow> 'w \<Rightarrow> bool" where
  "others_stop client hist w \<longleftrightarrow> (\<exists>N. \<forall>w'. asking client w w' \<longrightarrow> length (hist w') \<le> N)"

context available_configmaps
begin

text \<open>A round that does not return was refused because of a write of another client.\<close>

lemma round_overtaken:
  assumes "mutate_round (ClientConfigMap client ns n) (\<lambda>cm. cm\<lparr>cm_Data := g (cm_Data cm)\<rparr>) w = Inr w'" and "asking client w0 w"
  shows "asking client w0 w'" and "length (hist w) < length (hist w')"
proof -
  obtain got w1 where get: "cl_Get client w = (got, w1)" by fastforce
  have "asking client w0 w' \<and> length (hist w) < length (hist w')"
  proof (cases got)
    case (Inr cm)
    with get get_found have found: "cm_UID cm \<noteq> []" "current (hist w1) = Some cm" by blast+
    with assms(1) get Inr obtain e where upd: "cl_Update client (cm\<lparr>cm_Data := g (cm_Data cm), cm_Namespace := ns, cm_Name := n\<rparr>) w1 = (Inl e, w')"
      "IsConflict e \<or> IsNotFound e"
      by (auto simp: mutate_round_def ClientConfigMap_def Let_def split: prod.splits sum.splits if_splits)
    from update_refused [OF upd] found(2) have "hist w' \<noteq> hist w1" by fastforce
    with grows [OF upd(1)] have "length (hist w1) < length (hist w')"
      by (auto simp: suffix_def)
    moreover have "length (hist w) \<le> length (hist w1)" using get_grows [OF get] by (rule suffix_length_le)
    moreover have "asking client w0 w'" using asking.update_refused [OF asking.get [OF assms(2) get] upd(1)] .
    ultimately show ?thesis by linarith
  next
    case (Inl err)
    with assms(1) get obtain cm e where "cl_Create client cm w1 = (Inl e, w')" "IsConflict e \<or> IsNotFound e"
      by (auto simp: mutate_round_def ClientConfigMap_def Let_def empty_configmap_def split: prod.splits sum.splits if_splits)
    with namespace_there show ?thesis by blast
  qed
  then show "asking client w0 w'" "length (hist w) < length (hist w')" by simp_all
qed

lemma mutate_returns:
  assumes "others_stop client hist w"
  shows "\<exists>r. MutateConfigMap (ClientConfigMap client ns n) (\<lambda>cm. cm\<lparr>cm_Data := g (cm_Data cm)\<rparr>) w = Some r"
proof -
  from assms obtain N where N: "asking client w w' \<Longrightarrow> length (hist w') \<le> N" for w' by (auto simp: others_stop_def)
  have "asking client w w' \<Longrightarrow> \<exists>r. MutateConfigMap (ClientConfigMap client ns n) (\<lambda>cm. cm\<lparr>cm_Data := g (cm_Data cm)\<rparr>) w' = Some r" for w'
  proof (induction "N - length (hist w')" arbitrary: w' rule: less_induct)
    case less
    show ?case
    proof (cases "mutate_round (ClientConfigMap client ns n) (\<lambda>cm. cm\<lparr>cm_Data := g (cm_Data cm)\<rparr>) w'")
      case (Inl r)
      then show ?thesis by (subst MutateConfigMap.simps) simp
    next
      case (Inr w'')
      note next_round = round_overtaken [OF this less.prems]
      with N [OF next_round(1)] less.hyps [of w''] Inr show ?thesis by (subst MutateConfigMap.simps) simp
    qed
  qed
  from this [OF asking.none] show ?thesis .
qed

end

section \<open>An API server\<close>

text \<open>A server that satisfies the two contracts: the log of the contents of the object, and the writes
  of other clients, one of which is let in before each request.\<close>

record api_server =
  log :: "json option gomap option list"
  others :: "json option gomap option list"

definition object :: "nat \<Rightarrow> json option gomap \<Rightarrow> configmap" where
  "object version d = \<lparr>cm_Namespace = ''ns'', cm_Name = ''run'', cm_UID = ''uid'', cm_ResourceVersion = itoa version, cm_Data = d\<rparr>"

fun objects :: "json option gomap option list \<Rightarrow> configmap option list" where
  "objects [] = []"
| "objects (x # l) = map_option (object (length l)) x # objects l"

definition let_in :: "api_server \<Rightarrow> api_server" where
  "let_in w = (case others w of [] \<Rightarrow> w | x # xs \<Rightarrow> \<lparr>log = x # log w, others = xs\<rparr>)"

definition store :: "configmap \<Rightarrow> api_server \<Rightarrow> configmap res \<times> api_server" where
  "store cm w = (Inr (object (length (log w)) (cm_Data cm)), w\<lparr>log := Some (cm_Data cm) # log w\<rparr>)"

definition server :: "api_server configmap_client" where
  "server =
     \<lparr>cl_Get = (\<lambda>w. let w = let_in w in
        (case current (objects (log w)) of None \<Rightarrow> (Inl (StatusError ''NotFound'' ''not found''), w) | Some cm \<Rightarrow> (Inr cm, w))),
      cl_Create = (\<lambda>cm w. let w = let_in w in
        (case current (objects (log w)) of
           None \<Rightarrow> store cm w
         | Some _ \<Rightarrow> (Inl (StatusError ''AlreadyExists'' ''already exists''), w))),
      cl_Update = (\<lambda>cm w. let w = let_in w in
        (case current (objects (log w)) of
           None \<Rightarrow> (Inl (StatusError ''NotFound'' ''not found''), w)
         | Some cur \<Rightarrow>
             if cm_ResourceVersion cur = cm_ResourceVersion cm then store cm w
             else (Inl (StatusError ''Conflict'' ''conflict''), w)))\<rparr>"

lemma objects_versions: "Some a \<in> set (objects l) \<Longrightarrow> \<exists>n d. n < length l \<and> rev l ! n = Some d \<and> a = object n d"
proof (induction l)
  case (Cons x l)
  show ?case
  proof (cases "Some a \<in> set (objects l)")
    case True
    with Cons.IH obtain n d where "n < length l" "rev l ! n = Some d" "a = object n d" by blast
    then show ?thesis by (intro exI [of _ n] exI [of _ d]) (simp add: nth_append)
  next
    case False
    with Cons.prems obtain d where "x = Some d" "a = object (length l) d" by (cases x) auto
    then show ?thesis by (intro exI [of _ "length l"] exI [of _ d]) (simp add: nth_append)
  qed
qed simp

lemma suffix_let_in: "suffix (objects (log w)) (objects (log (let_in w)))"
  by (auto simp: let_in_def suffix_def split: list.split)

lemma current_objects: "current (objects l) = (case l of [] \<Rightarrow> None | x # xs \<Rightarrow> map_option (object (length xs)) x)"
  by (cases l) (simp_all add: current_def)

lemma let_in_budget: "length (others (let_in w)) \<le> length (others w)"
  by (simp add: let_in_def split: list.split)

lemma objects_current: "current (objects l) = Some cm \<Longrightarrow> \<exists>h. objects l = Some cm # h"
  by (cases l) (auto simp: current_def)

lemma current_UID: "current (objects l) = Some cm \<Longrightarrow> cm_UID cm \<noteq> []"
  using objects_versions [of cm l] by (auto simp: object_def dest!: objects_current)

interpretation api: optimistic_configmaps server "\<lambda>w. objects (log w)"
proof
  fix a b w
  assume "Some a \<in> set (objects (log w))" "Some b \<in> set (objects (log w))" "cm_ResourceVersion a = cm_ResourceVersion b"
  then show "cm_Data a = cm_Data b"
    by (auto simp: object_def itoa_eq_iff dest!: objects_versions)
next
  fix cm w r w'
  assume "cl_Update server cm w = (r, w')"
  then show "suffix (objects (log w)) (objects (log w'))"
    using suffix_let_in [of w]
    by (auto simp: server_def store_def Let_def suffix_ConsI split: option.splits if_splits)
next
  fix cm cm' w w'
  assume "cl_Update server cm w = (Inr cm', w')"
  then show "cm_Data cm' = cm_Data cm \<and> (\<exists>old h. objects (log w') = Some cm' # Some old # h \<and>
      cm_ResourceVersion old = cm_ResourceVersion cm)"
    by (auto simp: server_def store_def Let_def object_def split: option.splits if_splits dest!: objects_current)
next
  fix cm cm' w w'
  assume "cl_Create server cm w = (Inr cm', w')"
  then show "cm_Data cm' = cm_Data cm \<and> (\<exists>h. objects (log w') = Some cm' # h \<and> current h = None)"
    by (auto simp: server_def store_def Let_def object_def split: option.splits)
qed (auto simp: server_def Let_def split: option.splits dest: current_UID)

interpretation api: available_configmaps server "\<lambda>w. objects (log w)"
proof
  fix w w' r
  assume "cl_Get server w = (r, w')"
  then show "suffix (objects (log w)) (objects (log w'))"
    using suffix_let_in [of w] by (auto simp: server_def Let_def split: option.splits)
next
  fix w w' cm r
  assume "cl_Create server cm w = (r, w')"
  then show "suffix (objects (log w)) (objects (log w'))"
    using suffix_let_in [of w] by (auto simp: server_def store_def Let_def suffix_ConsI split: option.splits)
qed (auto simp: server_def Let_def store_def IsConflict_def IsNotFound_def split: option.splits if_splits)

lemma let_in_sum: "length (log (let_in w)) + length (others (let_in w)) = length (log w) + length (others w)"
  by (simp add: let_in_def split: list.split)

lemma length_objects: "length (objects l) = length l"
  by (induction l) simp_all

lemma server_settles: "others_stop server (\<lambda>w. objects (log w)) w"
proof -
  have "length (log w') + length (others w') = length (log w) + length (others w)" if "asking server w w'" for w'
    using that
    by induction (auto simp: server_def store_def Let_def let_in_sum split: option.splits if_splits)
  then have "length (objects (log w')) \<le> length (log w) + length (others w)" if "asking server w w'" for w'
    using that by (metis le_add1 length_objects)
  then show ?thesis unfolding others_stop_def by blast
qed

lemma client_set_data:
  assumes "optimistic_configmaps client hist" and "KV_Set (ClientConfigMap client ns n) key value w = Some (Inr (), w')"
  obtains j obj h where "JSONInterface_Marshal value = Inr j" "hist w' = Some obj # h"
    "cm_Data obj = AList.update key (Some j) (case current h of None \<Rightarrow> [] | Some old \<Rightarrow> cm_Data old)"
proof -
  from assms(2) obtain j obj where j: "JSONInterface_Marshal value = Inr j"
    "MutateConfigMap (ClientConfigMap client ns n) (\<lambda>cm. cm\<lparr>cm_Data := AList.update key (Some j) (cm_Data cm)\<rparr>) w = Some (Inr obj, w')"
    by (auto simp: KV_Set_def set_data_def [abs_def] split: sum.splits option.splits)
  from optimistic_configmaps.mutate_atomic [OF assms(1) j(2)] j(1) that show ?thesis by blast
qed

section \<open>Properties\<close>

text \<open>C4: Setting a key is atomic. When \<open>KVConfigMap.Set\<close> succeeds against the Kubernetes API, the
  stored object is the version right before it with just this key replaced: no write of another
  client in between is lost, however many rounds the loop took.\<close>

theorem kv_set_atomic:
  assumes "optimistic_configmaps client hist"
    and "KV_Set (ClientConfigMap client ns n) key value w = Some (Inr (), w')"
  shows "\<exists>j obj h. JSONInterface_Marshal value = Inr j \<and> hist w' = Some obj # h \<and>
    cm_Data obj = AList.update key (Some j) (case current h of None \<Rightarrow> [] | Some old \<Rightarrow> cm_Data old)"
  using client_set_data [OF assms] by metis

definition sample_server :: api_server where
  "sample_server = \<lparr>log = [], others = [None, Some [(''a'', Some JNull)], Some [(''b'', Some (JBool True))]]\<rparr>"

text \<open>In this run the loop is refused once (the object appears between its read and its write) and
  then in conflict once.\<close>

lemma sample_server_set:
  "KV_Set (ClientConfigMap server ''ns'' ''run'') ''k'' (GBool True) (sample_server\<lparr>others := [Some [(''a'', Some JNull)], Some [(''b'', Some JNull)]]\<rparr>) =
     Some (Inr (), \<lparr>log = [Some [(''b'', Some JNull), (''k'', Some (JBool True))], Some [(''b'', Some JNull)], Some [(''a'', Some JNull)]], others = []\<rparr>)"
  by code_simp

theorem kv_set_atomic_witness:
  "\<exists>j obj h. JSONInterface_Marshal (GBool True) = Inr j \<and>
    objects [Some [(''b'', Some JNull), (''k'', Some (JBool True))], Some [(''b'', Some JNull)], Some [(''a'', Some JNull)]] = Some obj # h \<and>
    cm_Data obj = AList.update ''k'' (Some j) (case current h of None \<Rightarrow> [] | Some old \<Rightarrow> cm_Data old)"
  using kv_set_atomic [OF api.optimistic_configmaps_axioms sample_server_set] by simp

text \<open>C24: The loop returns. When the namespace of the ConfigMap exists and other clients write to the object only finitely often while
  this one asks, \<open>KVConfigMap.Set\<close> ends with a result, whatever it is asked to store. Relied on is that the API server refuses an update
  as a conflict, or as not found, only if the object is not in the version that the update names.\<close>

theorem kv_set_returns:
  assumes "available_configmaps client hist" and "others_stop client hist w"
  shows "\<exists>r. KV_Set (ClientConfigMap client ns n) key value w = Some r"
proof (cases "JSONInterface_Marshal value")
  case (Inr j)
  from available_configmaps.mutate_returns [OF assms, of ns n "AList.update key (Some j)"]
  obtain r w' where "MutateConfigMap (ClientConfigMap client ns n) (set_data key j) w = Some (r, w')"
    by (auto simp: set_data_def [abs_def])
  with Inr show ?thesis by (cases r) (auto simp: KV_Set_def)
qed (simp add: KV_Set_def)

theorem kv_set_returns_witness:
  "\<exists>r. KV_Set (ClientConfigMap server ''ns'' ''run'') ''k'' (GStr ''v'') sample_server = Some r"
  by (rule kv_set_returns [OF api.available_configmaps_axioms server_settles])

text \<open>C36: The loop does not return when the namespace of the ConfigMap is missing: reading and
  creating then both answer "not found", which the loop takes for an object deleted from under it.\<close>

theorem mutate_missing_namespace:
  assumes "\<And>w. \<exists>w' m. cl_Get client w = (Inl (StatusError ''NotFound'' m), w')"
    and "\<And>cm w. \<exists>w' m. cl_Create client cm w = (Inl (StatusError ''NotFound'' m), w')"
    and "\<And>cm. cm_UID (fn cm) = cm_UID cm"
  shows "MutateConfigMap (ClientConfigMap client ns n) fn w = None"
proof -
  have "\<exists>w'. mutate_round (ClientConfigMap client ns n) fn w = Inr w'" for w
  proof -
    obtain w1 m where "cl_Get client w = (Inl (StatusError ''NotFound'' m), w1)" using assms(1) by blast
    moreover obtain w2 m' where "cl_Create client (fn empty_configmap\<lparr>cm_Namespace := ns, cm_Name := n\<rparr>) w1 = (Inl (StatusError ''NotFound'' m'), w2)"
      using assms(2) by blast
    ultimately show ?thesis
      by (simp add: mutate_round_def ClientConfigMap_def IsNotFound_def assms(3)) (simp add: empty_configmap_def IsNotFound_def)
  qed
  then have "\<nexists>w0 r. mutate_round (ClientConfigMap client ns n) fn w0 = Inl r" by (metis Inl_Inr_False)
  then show ?thesis using Mutate_last_round by (metis option.exhaust)
qed

definition gone :: "unit configmap_client" where
  "gone = \<lparr>cl_Get = (\<lambda>w. (Inl (StatusError ''NotFound'' ''namespaces not found''), w)),
     cl_Create = (\<lambda>cm w. (Inl (StatusError ''NotFound'' ''namespaces not found''), w)),
     cl_Update = (\<lambda>cm w. (Inl (StatusError ''NotFound'' ''namespaces not found''), w))\<rparr>"

theorem mutate_missing_namespace_witness: "MutateConfigMap (ClientConfigMap gone ''ns'' ''run'') (set_data ''k'' JNull) () = None"
  by (rule mutate_missing_namespace) (auto simp: gone_def set_data_def)

text \<open>C13: The managers of one run do not disturb each other, for actions whose names are path segments and whose paths do not collide
  under SHA-1. In the ConfigMap that the controller builds in memory, after any sequence of writes of conditions, environments, parameters,
  specs, state and step outputs, each entry reads back its last written value, if that is a value that JSON carries: of a type that JSON
  decodes to, with valid UTF-8 in its keys and without a map that has a string under \<open>$encoding\<close>; the values of the other entries do not
  matter. In the ConfigMap of the Kubernetes API, a write of one entry, against writers of other clients, leaves each other entry as it was in
  the version right before it, whatever is written, and reads back as its value if JSON carries it.\<close>

theorem run_entries_isolated:
  assumes keys: "collision_free A" "x \<in> slots A"
    and memory: "\<forall>(y, u) \<in> set ws. y \<in> slots A" "\<forall>u. (x, u) \<in> set ws \<longrightarrow> transferable u"
  shows "local_get (fold (\<lambda>(y, u) cm. local_put cm (slot_key y) u) ws cm) (slot_key x) =
      (case map_of (rev ws) x of Some u \<Rightarrow> Inr u | None \<Rightarrow> local_get cm (slot_key x)) \<and>
    (optimistic_configmaps client hist \<longrightarrow> y \<in> slots A \<longrightarrow>
      KV_Set (ClientConfigMap client ns n) (slot_key y) v w = Some (Inr (), w') \<longrightarrow>
      (\<exists>obj h. hist w' = Some obj # h \<and>
        (if x = y then transferable v \<longrightarrow> data_get (cm_Data obj) (slot_key x) = Inr v
         else data_get (cm_Data obj) (slot_key x) = data_get (case current h of None \<Rightarrow> [] | Some old \<Rightarrow> cm_Data old) (slot_key x))))"
proof (intro conjI impI)
  show "local_get (fold (\<lambda>(y, u) cm. local_put cm (slot_key y) u) ws cm) (slot_key x) =
      (case map_of (rev ws) x of Some u \<Rightarrow> Inr u | None \<Rightarrow> local_get cm (slot_key x))"
    using keyed_view.view_get_writes [OF slot_view [OF keys(1)] memory(1) keys(2) memory(2), of cm]
    by (simp add: local_kv.writes_def fold_map case_prod_unfold comp_def)
next
  assume api: "optimistic_configmaps client hist" "y \<in> slots A" "KV_Set (ClientConfigMap client ns n) (slot_key y) v w = Some (Inr (), w')"
  from client_set_data [OF api(1,3)] obtain j obj h where "JSONInterface_Marshal v = Inr j" "hist w' = Some obj # h"
    "cm_Data obj = AList.update (slot_key y) (Some j) (case current h of None \<Rightarrow> [] | Some old \<Rightarrow> cm_Data old)" by blast
  moreover have "slot_key y \<noteq> slot_key x" if "x \<noteq> y"
    using that keys api(2) inj_onD [OF slot_key_inj] by metis
  ultimately show "\<exists>obj h. hist w' = Some obj # h \<and>
        (if x = y then transferable v \<longrightarrow> data_get (cm_Data obj) (slot_key x) = Inr v
         else data_get (cm_Data obj) (slot_key x) = data_get (case current h of None \<Rightarrow> [] | Some old \<Rightarrow> cm_Data old) (slot_key x))"
    by (auto simp: data_get_other data_get_transferred)
qed

lemma sample_parameter_set:
  "KV_Set (ClientConfigMap server ''ns'' ''run'') (slot_key (SParameter ''q'')) (GBool True) (sample_server\<lparr>others := [Some [(''a'', Some JNull)], Some [(''b'', Some JNull)]]\<rparr>) =
     Some (Inr (), \<lparr>log = [Some [(''b'', Some JNull), (''parameters.q'', Some (JBool True))], Some [(''b'', Some JNull)], Some [(''a'', Some JNull)]], others = []\<rparr>)"
  by code_simp

theorem run_entries_isolated_witness:
  "local_get (fold (\<lambda>(x, v) cm. local_put cm (slot_key x) v)
      [(SParameter ''p'', GNil), (SOutput \<lparr>Step_Run = \<lparr>Run_ID = ''r''\<rparr>, Step_Name = ''s''\<rparr> ''o'', GBytes []), (SParameter ''p'', GBool False)]
      empty_configmap) (slot_key (SParameter ''p'')) = Inr (GBool False) \<and>
   (\<exists>obj h. objects [Some [(''b'', Some JNull), (''parameters.q'', Some (JBool True))], Some [(''b'', Some JNull)], Some [(''a'', Some JNull)]] = Some obj # h \<and>
      data_get (cm_Data obj) (slot_key (SParameter ''p'')) =
        data_get (case current h of None \<Rightarrow> [] | Some old \<Rightarrow> cm_Data old) (slot_key (SParameter ''p'')))"
proof -
  let ?s = "\<lparr>Step_Run = \<lparr>Run_ID = ''r''\<rparr>, Step_Name = ''s''\<rparr>"
  let ?ws = "[(SParameter ''p'', GNil), (SOutput ?s ''o'', GBytes []), (SParameter ''p'', GBool False)]"
  have "collision_free {Step ?s}" by (simp add: collision_free_def)
  moreover have "\<forall>(x, v) \<in> set ?ws. x \<in> slots {Step ?s}" "SParameter ''p'' \<in> slots {Step ?s}" "SParameter ''q'' \<in> slots {Step ?s}"
    "\<forall>v. (SParameter ''p'', v) \<in> set ?ws \<longrightarrow> transferable v"
    by (simp_all add: slots_def segment_def transferable_atom)
  ultimately show ?thesis
    using run_entries_isolated [of "{Step ?s}" "SParameter ''p''" ?ws empty_configmap server "\<lambda>w. objects (log w)" "SParameter ''q''"
        "''ns''" "''run''" "GBool True" "sample_server\<lparr>others := [Some [(''a'', Some JNull)], Some [(''b'', Some JNull)]]\<rparr>"
        "\<lparr>log = [Some [(''b'', Some JNull), (''parameters.q'', Some (JBool True))], Some [(''b'', Some JNull)], Some [(''a'', Some JNull)]], others = []\<rparr>"]
      api.optimistic_configmaps_axioms sample_parameter_set
    by simp
qed

text \<open>The versions of an object since an older one, each with one more write of an entry in \<open>K\<close>.\<close>

fun entries_written :: "slot set \<Rightarrow> configmap option list \<Rightarrow> configmap option list \<Rightarrow> bool" where
  "entries_written K [] h \<longleftrightarrow> True"
| "entries_written K (x # hs) h \<longleftrightarrow> entries_written K hs h \<and>
     (\<exists>obj old y u. x = Some obj \<and> current (hs @ h) = Some old \<and> y \<in> K \<and> cm_Data obj = AList.update (slot_key y) u (cm_Data old))"

lemma entries_written_keep:
  assumes "entries_written K hs h" "\<forall>y \<in> K. slot_key y \<noteq> k" "current h = Some before" "current (hs @ h) = Some after"
  shows "data_get (cm_Data after) k = data_get (cm_Data before) k"
  using assms
proof (induction hs arbitrary: after)
  case (Cons x hs)
  then obtain old y u where "current (hs @ h) = Some old" "y \<in> K" "cm_Data after = AList.update (slot_key y) u (cm_Data old)"
    by (auto simp: current_def)
  with Cons show ?case by (simp add: data_get_other)
qed simp

text \<open>C21: An output that a step sets is what every step of its run reads. After \<open>Set\<close> has succeeded against the Kubernetes API, \<open>Get\<close> of
  any step of the run with the name of the step and of the output returns the value, however many other entries of the run were written in
  between, outputs of the same name of other steps among them. The value has to be one that JSON carries (of a type that JSON decodes to,
  with valid UTF-8 in its keys and without a map that has a string under \<open>$encoding\<close>), the names of steps have to be path segments, and their
  paths must not collide under SHA-1.\<close>

theorem step_output_roundtrip:
  assumes "optimistic_configmaps client hist" and carried: "transferable v"
    and keys: "collision_free A" "SOutput me name \<in> slots A"
    and set: "StepOutput_Set (ClientConfigMap client ns n) me name v w = Some (Inr so, w1)"
    and since: "entries_written (slots A - {SOutput me name}) hs (hist w1)"
    and get: "cl_Get client w2 = (Inr cm, w3)" "hist w3 = hs @ hist w1"
    and run: "Step_Run other = Step_Run me"
  shows "so = \<lparr>Output_Step = me, Output_Name = name, Output_Value = v\<rparr> \<and>
    fst (StepOutput_Get (ClientConfigMap client ns n) other (Step_Name me) name w2) = Inr so"
proof -
  let ?k = "stepOutputKey me name"
  from set have kv: "KV_Set (ClientConfigMap client ns n) ?k v w = Some (Inr (), w1)"
    and so: "so = \<lparr>Output_Step = me, Output_Name = name, Output_Value = v\<rparr>"
    by (auto simp: StepOutput_Set_def after_set_def split: option.splits prod.splits sum.splits)
  from client_set_data [OF assms(1) kv] obtain j obj h where obj: "JSONInterface_Marshal v = Inr j" "hist w1 = Some obj # h"
    "cm_Data obj = AList.update ?k (Some j) (case current h of None \<Rightarrow> [] | Some old \<Rightarrow> cm_Data old)" by blast
  have "current (hist w3) = Some cm" using optimistic_configmaps.get_found [OF assms(1) get(1)] by blast
  moreover have "\<forall>y \<in> slots A - {SOutput me name}. slot_key y \<noteq> ?k"
    using inj_onD [OF slot_key_inj [OF keys(1)], of _ "SOutput me name"] keys(2) by auto
  ultimately have "data_get (cm_Data cm) ?k = data_get (cm_Data obj) ?k"
    using entries_written_keep [OF since, of ?k obj cm] get(2) obj(2) by (simp add: current_def)
  then have "data_get (cm_Data cm) ?k = Inr v" using data_get_transferred [OF carried obj(1)] obj(3) by simp
  then have "KV_Get (ClientConfigMap client ns n) ?k w2 = (Inr v, w3)"
    using get(1) by (auto simp: KV_Get_def ClientConfigMap_def data_get_def split: option.splits)
  moreover have "\<lparr>Step_Run = Step_Run other, Step_Name = Step_Name me\<rparr> = me" using run by simp
  ultimately show ?thesis by (simp add: StepOutput_Get_def Let_def after_get_def so)
qed

text \<open>A step that sets its output \<open>o\<close>; then another client sets the parameter \<open>p\<close>.\<close>

definition ex_output_step :: "string \<Rightarrow> step" where "ex_output_step name = \<lparr>Step_Run = \<lparr>Run_ID = ''r''\<rparr>, Step_Name = name\<rparr>"

definition ex_after_output :: "json option gomap list \<Rightarrow> api_server" where
  "ex_after_output ds = \<lparr>log = [Some [(stepOutputKey (ex_output_step ''s'') ''o'', Some (wire [CHR 0xFF]))]], others = map Some ds\<rparr>"

lemma ex_output_set:
  "StepOutput_Set (ClientConfigMap server ''ns'' ''run'') (ex_output_step ''s'') ''o'' (GStr [CHR 0xFF]) \<lparr>log = [], others = []\<rparr> =
     Some (Inr \<lparr>Output_Step = ex_output_step ''s'', Output_Name = ''o'', Output_Value = GStr [CHR 0xFF]\<rparr>, ex_after_output [])"
proof -
  have "MutateConfigMap (ClientConfigMap server ''ns'' ''run'') (set_data k j) \<lparr>log = [], others = []\<rparr> =
      Some (Inr (object 0 [(k, Some j)]), \<lparr>log = [Some [(k, Some j)]], others = []\<rparr>)" for k j
    by (subst MutateConfigMap.simps)
      (simp add: mutate_round_def ClientConfigMap_def server_def let_in_def current_def IsNotFound_def store_def set_data_def empty_configmap_def object_def)
  then show ?thesis
    unfolding StepOutput_Set_def KV_Set_def JSONInterface_Marshal_GStr by (simp add: after_set_def ex_after_output_def)
qed

theorem step_output_roundtrip_witness:
  "fst (StepOutput_Get (ClientConfigMap server ''ns'' ''run'') (ex_output_step ''t'') ''s'' ''o''
      (ex_after_output [[(stepOutputKey (ex_output_step ''s'') ''o'', Some (wire [CHR 0xFF])), (parameterKey ''p'', Some JNull)]])) =
     Inr \<lparr>Output_Step = ex_output_step ''s'', Output_Name = ''o'', Output_Value = GStr [CHR 0xFF]\<rparr>"
proof -
  let ?k = "stepOutputKey (ex_output_step ''s'') ''o''" and ?A = "{Step (ex_output_step ''s'')}"
  let ?d = "[(?k, Some (wire [CHR 0xFF])), (parameterKey ''p'', Some JNull)]"
  have other: "parameterKey ''p'' \<noteq> ?k" by (simp add: stepOutputKey_def action_key_parameter)
  have set: "StepOutput_Set (ClientConfigMap server ''ns'' ''run'') (ex_output_step ''s'') ''o'' (GStr [CHR 0xFF]) \<lparr>log = [], others = []\<rparr> =
     Some (Inr \<lparr>Output_Step = ex_output_step ''s'', Output_Name = ''o'', Output_Value = GStr [CHR 0xFF]\<rparr>, ex_after_output [])"
    by (rule ex_output_set)
  have slots: "SOutput (ex_output_step ''s'') ''o'' \<in> slots ?A" "SParameter ''p'' \<in> slots ?A - {SOutput (ex_output_step ''s'') ''o''}"
    by (simp_all add: slots_def ex_output_step_def segment_def)
  have "entries_written (slots ?A - {SOutput (ex_output_step ''s'') ''o''}) [Some (object 1 ?d)] (objects (log (ex_after_output [])))"
    using slots(2) other by (auto simp: ex_after_output_def current_def object_def intro!: bexI [of _ "SParameter ''p''"] exI [of _ "SParameter ''p''"] exI [of _ "Some JNull"])
  note read = step_output_roundtrip [OF api.optimistic_configmaps_axioms _ _ slots(1) set this,
      where cm = "object 1 ?d" and ?w2.0 = "ex_after_output [?d]" and ?w3.0 = "\<lparr>log = [Some ?d, hd (log (ex_after_output []))], others = []\<rparr>" and other = "ex_output_step ''t''"]
  have "Step_Name (ex_output_step ''s'') = ''s''" by (simp add: ex_output_step_def)
  with read show ?thesis
    by (simp add: transferable_atom collision_free_def server_def let_in_def ex_after_output_def current_def ex_output_step_def object_def)
qed

end
