(* ===== verification/Errmark.thy ===== *)
theory Errmark
  imports Go_Values
begin

text \<open>
  Error marking, \<open>pkg/errmark\<close>, and the reconciler filters of \<open>pkg/reconciler/filter\<close> that use it.

  A marked error delays its classification: \<open>MarkUser\<close> and \<open>MarkTransient\<close> prepend a function to
  \<open>Maps\<close>, \<open>Resolve\<close> applies them in order, through the wrappers already there. Errors are values
  here: \<open>Map\<close> and \<open>MapFirst\<close> return the changed error, which is what their callers use.
\<close>

section \<open>Errors and marks (\<open>errmark.go\<close>)\<close>

text \<open>Resolved errors: a plain error, or one of the two implementations of \<open>Marker\<close>.\<close>

datatype marked = Plain err | TransientError marked | UserError marked

datatype goerror = Unmarked marked | MarkedError (me_Delegate: marked) (me_Maps: "(marked \<Rightarrow> marked) list")

fun apply_map :: "(marked \<Rightarrow> marked) \<Rightarrow> marked \<Rightarrow> marked" where
  "apply_map m (TransientError d) = TransientError (m d)"
| "apply_map m (UserError d) = UserError (m d)"
| "apply_map m (Plain e) = m (Plain e)"

fun AsMarkedError :: "goerror \<Rightarrow> marked \<times> (marked \<Rightarrow> marked) list" where
  "AsMarkedError (MarkedError d ms) = (d, ms)"
| "AsMarkedError (Unmarked e) = (e, [])"

definition MapFirst :: "goerror \<Rightarrow> (marked \<Rightarrow> marked) \<Rightarrow> goerror" where
  "MapFirst err f = (case AsMarkedError err of (d, ms) \<Rightarrow> MarkedError d (f # ms))"

definition MapLast :: "goerror \<Rightarrow> (marked \<Rightarrow> marked) \<Rightarrow> goerror" where
  "MapLast err f = (case AsMarkedError err of (d, ms) \<Rightarrow> MarkedError d (ms @ [f]))"

definition Resolve :: "goerror \<Rightarrow> marked" where
  "Resolve err = (case AsMarkedError err of (d, ms) \<Rightarrow> fold apply_map ms d)"

text \<open>A condition passes an error on or not; \<open>IfAll\<close> runs the action when all pass it on.\<close>

type_synonym if_func = "marked \<Rightarrow> marked option"

definition IfAll :: "goerror \<Rightarrow> if_func list \<Rightarrow> (marked \<Rightarrow> 's \<Rightarrow> 's) \<Rightarrow> 's \<Rightarrow> 's" where
  "IfAll err conds fn =
     foldr (\<lambda>cond next e. case cond e of Some e' \<Rightarrow> next e' | None \<Rightarrow> (\<lambda>s. s)) conds fn (Resolve err)"

definition Is :: "goerror \<Rightarrow> marked \<Rightarrow> bool" where
  "Is candidate wanted \<longleftrightarrow> fst (AsMarkedError candidate) = wanted"

section \<open>Transient errors (\<open>transient.go\<close>)\<close>

type_synonym transient_rule = "marked \<Rightarrow> bool"

definition TransientRuleExact :: "marked \<Rightarrow> marked \<Rightarrow> bool" where
  "TransientRuleExact err want \<longleftrightarrow> err = want"

fun TransientAll :: "transient_rule list \<Rightarrow> transient_rule" where
  "TransientAll [] err = True"
| "TransientAll (rule # rules) err = (if \<not> rule err then False else TransientAll rules err)"

definition TransientAlways :: transient_rule where
  "TransientAlways = TransientAll []"

fun TransientAny :: "transient_rule list \<Rightarrow> transient_rule" where
  "TransientAny [] err = False"
| "TransientAny (rule # rules) err = (if rule err then True else TransientAny rules err)"

text \<open>\<open>errors.ReasonForError\<close> of \<open>k8s.io/apimachinery\<close> and the tests on it.\<close>

definition has_reason :: "string \<Rightarrow> marked \<Rightarrow> bool" where
  "has_reason reason e \<longleftrightarrow> (case e of Plain (StatusError r m) \<Rightarrow> r = reason | _ \<Rightarrow> False)"

definition TransientIfConflict :: transient_rule where
  "TransientIfConflict = TransientAny [has_reason ''Conflict'', has_reason ''AlreadyExists'']"

definition TransientIfTimeout :: transient_rule where
  "TransientIfTimeout = TransientAny [has_reason ''Timeout'', has_reason ''ServerTimeout'']"

definition TransientIfForbidden :: transient_rule where
  "TransientIfForbidden = has_reason ''Forbidden''"

definition TransientDefault :: transient_rule where
  "TransientDefault = TransientAny [TransientIfConflict, TransientIfTimeout]"

definition TransientPredicate :: "transient_rule \<Rightarrow> bool \<Rightarrow> transient_rule" where
  "TransientPredicate rule pred err = (if pred then rule err else False)"

definition mark_transient_map :: "transient_rule list \<Rightarrow> marked \<Rightarrow> marked" where
  "mark_transient_map rules err =
     (case err of
        TransientError _ \<Rightarrow> err
      | _ \<Rightarrow> if TransientAny rules err then TransientError err else err)"

definition MarkTransient :: "goerror \<Rightarrow> transient_rule list \<Rightarrow> goerror" where
  "MarkTransient err rules = MapFirst err (mark_transient_map rules)"

definition IfTransient :: if_func where
  "IfTransient err = (case err of TransientError d \<Rightarrow> Some d | _ \<Rightarrow> None)"

definition IfNotTransient :: if_func where
  "IfNotTransient err = (case err of TransientError _ \<Rightarrow> None | _ \<Rightarrow> Some err)"

section \<open>User errors (\<open>user.go\<close>)\<close>

definition MarkUser :: "goerror \<Rightarrow> goerror" where
  "MarkUser err = MapFirst err UserError"

definition IfUser :: if_func where
  "IfUser err = (case err of UserError d \<Rightarrow> Some d | _ \<Rightarrow> None)"

definition IfNotUser :: if_func where
  "IfNotUser err = (case err of UserError _ \<Rightarrow> None | _ \<Rightarrow> Some err)"

section \<open>Reconciler filters (\<open>pkg/reconciler/filter\<close>)\<close>

record request =
  Req_Namespace :: string
  Req_Name :: string

record reconcile_result =
  Requeue :: bool
  RequeueAfter :: int

text \<open>A reconciler runs in a world \<open>'w\<close>: the cluster, and the errors reported to the tracker.\<close>

type_synonym 'w reconciler = "request \<Rightarrow> 'w \<Rightarrow> (reconcile_result \<times> goerror option) \<times> 'w"

definition ChainRight :: "'w reconciler \<Rightarrow> ('w reconciler \<Rightarrow> 'w reconciler) list \<Rightarrow> 'w reconciler" where
  "ChainRight end_of links = foldr (\<lambda>link acc. link acc) links end_of"

definition NamespaceFilter_Reconcile :: "string \<Rightarrow> 'w reconciler \<Rightarrow> 'w reconciler" where
  "NamespaceFilter_Reconcile name delegate req w =
     (if name \<noteq> [] \<and> Req_Namespace req \<noteq> name then ((\<lparr>Requeue = False, RequeueAfter = 0\<rparr>, None), w)
      else delegate req w)"

definition ErrorCapture_Reconcile ::
    "(marked \<Rightarrow> 'w \<Rightarrow> 'w) \<Rightarrow> transient_rule list \<Rightarrow> 'w reconciler \<Rightarrow> 'w reconciler" where
  "ErrorCapture_Reconcile capture transientRules delegate req w =
     (case delegate req w of
        ((result, None), w') \<Rightarrow> ((result, None), w')
      | ((result, Some err), w') \<Rightarrow>
          (let err' = Unmarked (Resolve (MarkTransient err transientRules))
           in ((result, Some err'), IfAll err' [IfNotTransient, IfNotUser] capture w')))"

definition NewErrorCaptureReconciler ::
    "(marked \<Rightarrow> 'w \<Rightarrow> 'w) \<Rightarrow> 'w reconciler \<Rightarrow> (transient_rule list \<Rightarrow> transient_rule list) list \<Rightarrow> 'w reconciler" where
  "NewErrorCaptureReconciler capture delegate opts =
     ErrorCapture_Reconcile capture (fold (\<lambda>opt rules. opt rules) opts [TransientDefault]) delegate"

definition ErrorCaptureReconcilerWithAdditionalTransientRule :: "transient_rule \<Rightarrow> transient_rule list \<Rightarrow> transient_rule list" where
  "ErrorCaptureReconcilerWithAdditionalTransientRule rule rules = rules @ [rule]"

section \<open>Classification\<close>

lemma TransientAny_iff: "TransientAny rules err \<longleftrightarrow> (\<exists>rule \<in> set rules. rule err)"
  by (induction rules) auto

lemma TransientAll_iff: "TransientAll rules err \<longleftrightarrow> (\<forall>rule \<in> set rules. rule err)"
  by (induction rules) auto

fun is_plain :: "marked \<Rightarrow> bool" where
  "is_plain (Plain e) = True"
| "is_plain _ = False"

lemma apply_map_not_plain: "\<not> is_plain e \<Longrightarrow> \<not> is_plain (apply_map m e)"
  by (cases e) auto

lemma fold_apply_map_not_plain: "\<not> is_plain e \<Longrightarrow> \<not> is_plain (fold apply_map ms e)"
  by (induction ms arbitrary: e) (auto dest: apply_map_not_plain)

text \<open>What clients do to an error on its way up: mark it, or rewrite it with a function that keeps
  plain errors plain.\<close>

datatype mark = User_Mark | Transient_Mark "transient_rule list" | Rewrite "err \<Rightarrow> err"

fun add_mark :: "mark \<Rightarrow> goerror \<Rightarrow> goerror" where
  "add_mark User_Mark err = MarkUser err"
| "add_mark (Transient_Mark rules) err = MarkTransient err rules"
| "add_mark (Rewrite f) err = MapLast err (\<lambda>e. case e of Plain x \<Rightarrow> Plain (f x) | _ \<Rightarrow> e)"

fun is_rewrite :: "mark \<Rightarrow> bool" where
  "is_rewrite (Rewrite _) = True"
| "is_rewrite _ = False"

fun mark_map :: "mark \<Rightarrow> marked \<Rightarrow> marked" where
  "mark_map User_Mark = UserError"
| "mark_map (Transient_Mark rules) = mark_transient_map rules"
| "mark_map (Rewrite f) = (\<lambda>e. case e of Plain x \<Rightarrow> Plain (f x) | _ \<Rightarrow> e)"

text \<open>The marks of an error in the order of their application: the last mark first, then the
  rewrites as they were added.\<close>

lemma marks_maps:
  "AsMarkedError (fold add_mark ms (Unmarked (Plain e))) =
     (Plain e, map mark_map (rev (filter (Not \<circ> is_rewrite) ms) @ filter is_rewrite ms))"
proof -
  have "AsMarkedError err = (d, map mark_map (as @ bs)) \<Longrightarrow>
      AsMarkedError (fold add_mark ms err) =
      (d, map mark_map (rev (filter (Not \<circ> is_rewrite) ms) @ as @ bs @ filter is_rewrite ms))" for err d as bs
  proof (induction ms arbitrary: err as bs)
    case (Cons m ms)
    show ?case
    proof (cases "is_rewrite m")
      case True
      with Cons.prems have "AsMarkedError (add_mark m err) = (d, map mark_map (as @ (bs @ [m])))"
        by (cases m) (auto simp: MapLast_def)
      from Cons.IH [OF this] True show ?thesis by simp
    next
      case False
      with Cons.prems have "AsMarkedError (add_mark m err) = (d, map mark_map ((m # as) @ bs))"
        by (cases m) (auto simp: MapFirst_def MarkUser_def MarkTransient_def)
      from Cons.IH [OF this] False show ?thesis by simp
    qed
  qed simp
  from this [of "Unmarked (Plain e)" "Plain e" "[]" "[]"] show ?thesis by simp
qed

fun marks_error :: "err \<Rightarrow> mark \<Rightarrow> bool" where
  "marks_error e User_Mark = True"
| "marks_error e (Transient_Mark rules) = (\<exists>rule \<in> set rules. rule (Plain e))"
| "marks_error e (Rewrite f) = False"

lemma fold_marks_plain:
  "\<forall>m \<in> set ms. \<not> is_rewrite m \<Longrightarrow>
   is_plain (fold apply_map (map mark_map ms) (Plain e)) \<longleftrightarrow> (\<forall>m \<in> set ms. \<not> marks_error e m)"
proof (induction ms)
  case (Cons m ms)
  then show ?case
    using fold_apply_map_not_plain [of "UserError (Plain e)"] fold_apply_map_not_plain [of "TransientError (Plain e)"]
    by (cases m) (auto simp: mark_transient_map_def TransientAny_iff)
qed simp

lemma fold_rewrites_plain:
  "\<forall>m \<in> set ms. is_rewrite m \<Longrightarrow> is_plain (fold apply_map (map mark_map ms) x) = is_plain x"
proof (induction ms arbitrary: x)
  case (Cons m ms)
  then obtain f where "m = Rewrite f" by (cases m) auto
  with Cons show ?case by (cases x) auto
qed simp

lemma resolved_plain_iff:
  "is_plain (Resolve (fold add_mark ms (Unmarked (Plain e)))) \<longleftrightarrow> (\<forall>m \<in> set ms. \<not> marks_error e m)"
proof -
  let ?marks = "rev (filter (Not \<circ> is_rewrite) ms)"
  have "is_plain (fold apply_map (map mark_map (filter is_rewrite ms)) (fold apply_map (map mark_map ?marks) (Plain e))) \<longleftrightarrow>
      (\<forall>m \<in> set ?marks. \<not> marks_error e m)"
    by (simp add: fold_rewrites_plain fold_marks_plain)
  moreover have "marks_error e m \<Longrightarrow> \<not> is_rewrite m" for m by (cases m) auto
  ultimately show ?thesis by (auto simp: Resolve_def marks_maps)
qed

lemma IfAll_capture:
  "IfAll (Unmarked x) [IfNotTransient, IfNotUser] fn s = (if is_plain x then fn x s else s)"
  by (cases x) (simp_all add: IfAll_def Resolve_def IfNotTransient_def IfNotUser_def)

text \<open>C25: The error-capturing reconciler reports an error to the tracker exactly when nobody on
  its way up marked it as the user's and no transient rule (of a mark or of the reconciler) holds
  for it, in whatever order marks and rewrites were added.\<close>

theorem error_captured_iff:
  assumes "delegate req w = ((result, Some (fold add_mark ms (Unmarked (Plain e)))), w')"
  shows "ErrorCapture_Reconcile (\<lambda>x (w, n). (w, n + 1)) rules (\<lambda>req (w, n). case delegate req w of (r, w') \<Rightarrow> (r, w', n)) req (w, n) =
    ((result, Some (Unmarked (Resolve (fold add_mark (ms @ [Transient_Mark rules]) (Unmarked (Plain e)))))), w',
      if (\<exists>m \<in> set ms. marks_error e m) \<or> (\<exists>rule \<in> set rules. rule (Plain e)) then n else n + (1 :: nat))"
proof -
  let ?x = "Resolve (fold add_mark (ms @ [Transient_Mark rules]) (Unmarked (Plain e)))"
  have "is_plain ?x \<longleftrightarrow> (\<forall>m \<in> set (ms @ [Transient_Mark rules]). \<not> marks_error e m)"
    by (rule resolved_plain_iff)
  with assms show ?thesis by (auto simp: ErrorCapture_Reconcile_def IfAll_capture Let_def)
qed

theorem error_captured_iff_witness:
  "ErrorCapture_Reconcile (\<lambda>x (w, n). (w, n + 1)) [TransientDefault]
     (\<lambda>req (w, n). case ((\<lparr>Requeue = False, RequeueAfter = 0\<rparr>,
        Some (fold add_mark [User_Mark, Rewrite (\<lambda>e. e)] (Unmarked (Plain ErrNotFound)))), ()) of (r, w') \<Rightarrow> (r, w', n))
     \<lparr>Req_Namespace = ''ns'', Req_Name = ''run''\<rparr> ((), 0) =
   ((\<lparr>Requeue = False, RequeueAfter = 0\<rparr>, Some (Unmarked (UserError (Plain ErrNotFound)))), (), 0 :: nat)"
  using error_captured_iff [of "\<lambda>req w. ((\<lparr>Requeue = False, RequeueAfter = 0\<rparr>,
      Some (fold add_mark [User_Mark, Rewrite (\<lambda>e. e)] (Unmarked (Plain ErrNotFound)))), ())"
    "\<lparr>Req_Namespace = ''ns'', Req_Name = ''run''\<rparr>" "()" _ "[User_Mark, Rewrite (\<lambda>e. e)]" ErrNotFound "()" "[TransientDefault]" 0]
  by (simp add: Resolve_def MarkTransient_def MarkUser_def MapFirst_def MapLast_def mark_transient_map_def TransientAny_iff
      TransientDefault_def TransientIfConflict_def TransientIfTimeout_def has_reason_def)

end
