(* ===== verification/Go_Net.thy ===== *)
theory Go_Net
  imports Go_Stdlib
begin

text \<open>
  The parts of Go's package \<open>net\<close> that the metadata API uses to find out who is calling:
  \<open>ParseIP\<close>, \<open>IP.String\<close> and \<open>SplitHostPort\<close>. An address is its eight 16-bit groups; an IPv4 address is
  the mapped IPv6 address, as in Go.
\<close>

type_synonym ip = "nat list"

section \<open>Numbers\<close>

definition digit_of :: "nat \<Rightarrow> char \<Rightarrow> nat option" where
  "digit_of base c =
     (let n = (of_char c :: nat) in
      if 48 \<le> n \<and> n \<le> 57 then Some (n - 48)
      else if base = 16 \<and> 97 \<le> n \<and> n \<le> 102 then Some (n - 87)
      else if base = 16 \<and> 65 \<le> n \<and> n \<le> 70 then Some (n - 55)
      else None)"

text \<open>\<open>dtoi\<close> and \<open>xtoi\<close>: the number at the start of the string and what follows it.\<close>

fun number :: "nat \<Rightarrow> bool \<Rightarrow> nat \<Rightarrow> string \<Rightarrow> (nat \<times> string) option" where
  "number base started n [] = (if started then Some (n, []) else None)"
| "number base started n (c # s) =
     (case digit_of base c of
        None \<Rightarrow> if started then Some (n, c # s) else None
      | Some d \<Rightarrow> if base * n + d \<ge> 0xFFFFFF then None else number base True (base * n + d) s)"

definition dtoi :: "string \<Rightarrow> (nat \<times> string) option" where "dtoi s = number 10 False 0 s"

definition xtoi :: "string \<Rightarrow> (nat \<times> string) option" where "xtoi s = number 16 False 0 s"

section \<open>Addresses\<close>

fun v4_parts :: "nat \<Rightarrow> string \<Rightarrow> nat list option" where
  "v4_parts 0 s = (if s = [] then Some [] else None)"
| "v4_parts (Suc k) s =
     (case dtoi s of
        None \<Rightarrow> None
      | Some (n, t) \<Rightarrow>
          if n > 255 then None
          else if k = 0 then map_option (Cons n) (v4_parts 0 t)
          else (case t of c # t' \<Rightarrow> if c = CHR ''.'' then map_option (Cons n) (v4_parts k t') else None | [] \<Rightarrow> None))"

definition v4_groups :: "string \<Rightarrow> nat list option" where
  "v4_groups s = (case v4_parts 4 s of Some [a, b, c, d] \<Rightarrow> Some [256 * a + b, 256 * c + d] | _ \<Rightarrow> None)"

definition parseIPv4 :: "string \<Rightarrow> ip option" where
  "parseIPv4 s = map_option (\<lambda>gs. [0, 0, 0, 0, 0, 0xFFFF] @ gs) (v4_groups s)"

text \<open>The groups read so far, the position of the ellipsis and the rest of the string.\<close>

fun v6_loop :: "nat \<Rightarrow> nat list \<Rightarrow> nat option \<Rightarrow> string \<Rightarrow> (nat list \<times> nat option \<times> string) option" where
  "v6_loop 0 gs ellipsis s = Some (gs, ellipsis, s)"
| "v6_loop (Suc k) gs ellipsis s =
     (case xtoi s of
        None \<Rightarrow> None
      | Some (n, t) \<Rightarrow>
          if n > 0xFFFF then None
          else if has_prefix t ''.'' then
            (if ellipsis = None \<and> length gs \<noteq> 6 \<or> length gs + 2 > 8 then None
             else map_option (\<lambda>v4. (gs @ v4, ellipsis, [])) (v4_groups s))
          else
            (case t of
               [] \<Rightarrow> Some (gs @ [n], ellipsis, [])
             | [c] \<Rightarrow> None
             | c # d # u \<Rightarrow>
                 if c \<noteq> CHR '':'' then None
                 else if d = CHR '':'' then
                   (if ellipsis \<noteq> None then None
                    else if u = [] then Some (gs @ [n], Some (length gs + 1), [])
                    else v6_loop k (gs @ [n]) (Some (length gs + 1)) u)
                 else v6_loop k (gs @ [n]) ellipsis (d # u)))"

definition v6_fill :: "(nat list \<times> nat option \<times> string) option \<Rightarrow> ip option" where
  "v6_fill r =
     (case r of
        Some (gs, None, []) \<Rightarrow> if length gs = 8 then Some gs else None
      | Some (gs, Some e, []) \<Rightarrow>
          if length gs < 8 then Some (take e gs @ replicate (8 - length gs) 0 @ drop e gs) else None
      | _ \<Rightarrow> None)"

definition parseIPv6 :: "string \<Rightarrow> ip option" where
  "parseIPv6 s =
     (if has_prefix s ''::'' then
        (if drop 2 s = [] then Some (replicate 8 0) else v6_fill (v6_loop 8 [] (Some 0) (drop 2 s)))
      else v6_fill (v6_loop 8 [] None s))"

definition net_ParseIP :: "string \<Rightarrow> ip option" where
  "net_ParseIP s =
     (case dropWhile (\<lambda>c. c \<noteq> CHR ''.'' \<and> c \<noteq> CHR '':'') s of
        [] \<Rightarrow> None
      | c # _ \<Rightarrow> if c = CHR ''.'' then parseIPv4 s else parseIPv6 s)"

definition IsUnspecified :: "ip \<Rightarrow> bool" where
  "IsUnspecified ip \<longleftrightarrow> ip = replicate 8 0 \<or> ip = [0, 0, 0, 0, 0, 0xFFFF, 0, 0]"

section \<open>Printing\<close>

fun hex_nat :: "nat \<Rightarrow> string" where
  "hex_nat n = (if n < 16 then [hex_digit n] else hex_nat (n div 16) @ [hex_digit (n mod 16)])"

text \<open>The first of the longest runs of two or more zero groups: its start and length.\<close>

fun zero_run :: "nat \<Rightarrow> nat \<times> nat \<Rightarrow> nat list \<Rightarrow> nat \<times> nat" where
  "zero_run i best [] = best"
| "zero_run i best (g # gs) =
     (let n = length (takeWhile (\<lambda>g. g = 0) (g # gs))
      in zero_run (Suc i) (if n > snd best then (i, n) else best) gs)"

definition IP_String :: "ip \<Rightarrow> string" where
  "IP_String ip =
     (if take 6 ip = [0, 0, 0, 0, 0, 0xFFFF] then
        join ''.'' (map itoa (concat (map (\<lambda>g. [g div 256, g mod 256]) (drop 6 ip))))
      else
        (case zero_run 0 (0, 0) ip of (e, n) \<Rightarrow>
           if n < 2 then join '':'' (map hex_nat ip)
           else join '':'' (map hex_nat (take e ip)) @ ''::'' @ join '':'' (map hex_nat (drop (e + n) ip))))"

section \<open>Hosts and ports\<close>

text \<open>The host of \<open>SplitHostPort\<close>, \<open>None\<close> for an error.\<close>

definition bracket_open :: char where "bracket_open = CHR ''[''"

definition bracket_close :: char where "bracket_close = CHR '']''"

definition SplitHost :: "string \<Rightarrow> string option" where
  "SplitHost hp =
     (let after = takeWhile (\<lambda>c. c \<noteq> CHR '':'') (rev hp);
          front = butlast (take (length hp - length after) hp) in
      if CHR '':'' \<notin> set hp then None
      else if has_prefix hp [bracket_open] then
        (let host = takeWhile (\<lambda>c. c \<noteq> bracket_close) (tl hp) in
         if front \<noteq> bracket_open # host @ [bracket_close] then None
         else if bracket_open \<in> set (tl hp) \<or> bracket_close \<in> set after then None
         else Some host)
      else if CHR '':'' \<in> set front \<or> bracket_open \<in> set hp \<or> bracket_close \<in> set hp then None
      else Some front)"

end
