(* ===== verification/Authenticate.thy ===== *)
theory Authenticate
  imports Model Transfer_Encoding Go_Net
begin

text \<open>
  Client authentication, \<open>pkg/authenticate\<close>: an intermediary finds a token, a resolver turns it into
  claims, validators check the claims and injectors hand them on.

  All of them run in a world \<open>'w\<close> (the cluster, Vault, what the injectors fill in) that is passed
  along. \<open>None\<close> as the outcome of an operation is a panic; it arises where the embedded pointer
  \<open>*jwt.Claims\<close> of a token without any registered claim is dereferenced. A nil \<open>net.IP\<close> is
  \<open>None\<close>. The JOSE library, the Kubernetes client and the Vault client are
  parameters.
\<close>

section \<open>Claims (\<open>claim.go\<close>) and errors (\<open>errors.go\<close>)\<close>

text \<open>The registered claims, and \<open>Validate\<close> of the JOSE library (\<open>jwt/validation.go\<close>). A \<open>NumericDate\<close>
  counts seconds, a time nanoseconds; the zero time of an expectation is \<open>None\<close>.\<close>

record jwt_claims =
  jwt_Issuer :: string
  jwt_Subject :: string
  jwt_Audience :: "string list"
  jwt_ID :: string
  jwt_Expiry :: "int option"
  jwt_NotBefore :: "int option"
  jwt_IssuedAt :: "int option"

record jwt_expected =
  e_Issuer :: string
  e_Subject :: string
  e_Audience :: "string list"
  e_ID :: string
  e_Time :: "int option"

definition DefaultLeeway :: int where "DefaultLeeway = 60 * 10 ^ 9"

definition jose_validation :: string where "jose_validation = ''square/go-jose/jwt: validation ''"

definition before :: "int \<Rightarrow> int option \<Rightarrow> bool" where
  "before t d = (case d of None \<Rightarrow> False | Some n \<Rightarrow> t < n * 10 ^ 9)"

definition after :: "int \<Rightarrow> int option \<Rightarrow> bool" where
  "after t d = (case d of None \<Rightarrow> False | Some n \<Rightarrow> t > n * 10 ^ 9)"

definition ValidateWithLeeway :: "jwt_claims \<Rightarrow> jwt_expected \<Rightarrow> int \<Rightarrow> err option" where
  "ValidateWithLeeway c e leeway =
     (if e_Issuer e \<noteq> [] \<and> e_Issuer e \<noteq> jwt_Issuer c then Some (OtherError (jose_validation @ ''failed, invalid issuer claim (iss)''))
      else if e_Subject e \<noteq> [] \<and> e_Subject e \<noteq> jwt_Subject c then Some (OtherError (jose_validation @ ''failed, invalid subject claim (sub)''))
      else if e_ID e \<noteq> [] \<and> e_ID e \<noteq> jwt_ID c then Some (OtherError (jose_validation @ ''failed, invalid ID claim (jti)''))
      else if list_ex (\<lambda>v. \<not> List.member (jwt_Audience c) v) (e_Audience e) then Some (OtherError (jose_validation @ ''failed, invalid audience claim (aud)''))
      else case e_Time e of
        None \<Rightarrow> None
      | Some t \<Rightarrow>
          if before (t + leeway) (jwt_NotBefore c) then Some (OtherError (jose_validation @ ''failed, token not valid yet (nbf)''))
          else if after (t - leeway) (jwt_Expiry c) then Some (OtherError (jose_validation @ ''failed, token is expired (exp)''))
          else if before (t + leeway) (jwt_IssuedAt c) then Some (OtherError (jose_validation @ ''field, token issued in the future (iat)''))
          else None)"

definition jwt_Validate :: "jwt_claims \<Rightarrow> jwt_expected \<Rightarrow> err option" where
  "jwt_Validate c e = ValidateWithLeeway c e DefaultLeeway"

record claims =
  jwt_Claims :: "jwt_claims option"
  KubernetesNamespaceName :: string
  KubernetesNamespaceUID :: string
  KubernetesServiceAccountToken :: string
  RelayDomainID :: string
  RelayTenantID :: string
  RelayRunID :: string
  RelayName :: string
  RelayKubernetesImmutableConfigMapName :: string
  RelayKubernetesMutableConfigMapName :: string
  RelayVaultEnginePath :: string
  RelayVaultSecretPath :: string
  RelayVaultConnectionPath :: string
  RelayEventAPIURL :: "string option"
  RelayEventAPIToken :: string

definition candidate_action :: "string \<Rightarrow> claims \<Rightarrow> action option" where
  "candidate_action kind c =
     (if kind = Plural ActionTypeStep then
        (if RelayRunID c = [] \<or> RelayName c = [] then None
         else Some (Step \<lparr>Step_Run = \<lparr>Run_ID = RelayRunID c\<rparr>, Step_Name = RelayName c\<rparr>))
      else if kind = Plural ActionTypeTrigger then
        (if RelayName c = [] then None else Some (Trigger \<lparr>Trigger_Name = RelayName c\<rparr>))
      else None)"

text \<open>\<open>Claims.Action\<close>: a panic, no action, or the action the claims name.\<close>

definition Claims_Action :: "claims \<Rightarrow> action option option" where
  "Claims_Action c =
     (case jwt_Claims c of
        None \<Rightarrow> None
      | Some j \<Rightarrow>
          (case split_n2 (CHR ''/'') (jwt_Subject j) of
             [kind, h] \<Rightarrow>
               (case candidate_action kind c of
                  None \<Rightarrow> Some None
                | Some a \<Rightarrow> if HexEncoding (Action_Hash a) \<noteq> h then Some None else Some (Some a))
           | _ \<Rightarrow> Some None))"

datatype auth_error = NotFoundError (nf_Reason: string) (nf_Causes: "auth_error list") | OtherAuthError err

definition is_NotFoundError :: "auth_error \<Rightarrow> bool" where
  "is_NotFoundError e = (case e of NotFoundError _ _ \<Rightarrow> True | _ \<Rightarrow> False)"

fun auth_error_string :: "auth_error \<Rightarrow> string" where
  "auth_error_string (NotFoundError reason cs) =
     ''authenticate: '' @ (if reason = [] then ''not found'' else reason) @
     (case cs of
        [] \<Rightarrow> []
      | [c] \<Rightarrow> '': '' @ auth_error_string c
      | _ \<Rightarrow> '':'' @ concat (map (\<lambda>c. newline @ ''* '' @ auth_error_string c) cs))"
| "auth_error_string (OtherAuthError e) = error_string e"

text \<open>Who issues tokens, and for whom (\<open>issuer.go\<close>).\<close>

definition ControllerIssuer :: string where "ControllerIssuer = ''controller.k8s.relay.sh''"

definition MetadataAPIAudienceV1 :: string where "MetadataAPIAudienceV1 = ''k8s.relay.sh/metadata-api/v1''"

section \<open>The state of an authentication (\<open>authenticate.go\<close>)\<close>

type_synonym raw = string

type_synonym 'w validator = "claims \<Rightarrow> 'w \<Rightarrow> (auth_error + bool) option \<times> 'w"

type_synonym 'w injector = "claims \<Rightarrow> 'w \<Rightarrow> auth_error option option \<times> 'w"

record 'w authentication =
  validators :: "'w validator list"
  injectors :: "'w injector list"

definition AddValidator :: "'w validator \<Rightarrow> 'w authentication \<Rightarrow> 'w authentication" where
  "AddValidator v a = a\<lparr>validators := validators a @ [v]\<rparr>"

definition AddInjector :: "'w injector \<Rightarrow> 'w authentication \<Rightarrow> 'w authentication" where
  "AddInjector i a = a\<lparr>injectors := injectors a @ [i]\<rparr>"

definition NewAuthentication :: "'w authentication" where
  "NewAuthentication = \<lparr>validators = [], injectors = []\<rparr>"

type_synonym 'w intermediary = "'w authentication \<Rightarrow> 'w \<Rightarrow> ((auth_error + raw) \<times> 'w authentication) option \<times> 'w"

type_synonym 'w resolver = "'w authentication \<Rightarrow> raw \<Rightarrow> 'w \<Rightarrow> ((auth_error + claims) \<times> 'w authentication) option \<times> 'w"

record 'w authenticator =
  a_intermediary :: "'w intermediary"
  a_resolver :: "'w resolver"
  a_validators :: "'w validator list"
  a_injectors :: "'w injector list"

fun run_validators :: "'w validator list \<Rightarrow> claims \<Rightarrow> 'w \<Rightarrow> (auth_error + bool) option \<times> 'w" where
  "run_validators [] c w = (Some (Inr True), w)"
| "run_validators (v # vs) c w =
     (case v c w of
        (Some (Inr True), w') \<Rightarrow> run_validators vs c w'
      | (r, w') \<Rightarrow> (r, w'))"

fun run_injectors :: "'w injector list \<Rightarrow> claims \<Rightarrow> 'w \<Rightarrow> auth_error option option \<times> 'w" where
  "run_injectors [] c w = (Some None, w)"
| "run_injectors (i # is) c w =
     (case i c w of
        (Some None, w') \<Rightarrow> run_injectors is c w'
      | (r, w') \<Rightarrow> (r, w'))"

definition Authenticate :: "'w authenticator \<Rightarrow> 'w \<Rightarrow> (auth_error + bool) option \<times> 'w" where
  "Authenticate a w =
     (case a_intermediary a \<lparr>validators = a_validators a, injectors = a_injectors a\<rparr> w of
        (None, w1) \<Rightarrow> (None, w1)
      | (Some (Inl err, st), w1) \<Rightarrow> (Some (if is_NotFoundError err then Inr False else Inl err), w1)
      | (Some (Inr raw, st), w1) \<Rightarrow>
          (case a_resolver a st raw w1 of
             (None, w2) \<Rightarrow> (None, w2)
           | (Some (Inl err, st'), w2) \<Rightarrow> (Some (if is_NotFoundError err then Inr False else Inl err), w2)
           | (Some (Inr c, st'), w2) \<Rightarrow>
               (case Claims_Action c of
                  None \<Rightarrow> (None, w2)
                | Some None \<Rightarrow> (Some (Inr False), w2)
                | Some (Some _) \<Rightarrow>
                    (case run_validators (validators st') c w2 of
                       (Some (Inr True), w3) \<Rightarrow>
                         (case run_injectors (injectors st') c w3 of
                            (None, w4) \<Rightarrow> (None, w4)
                          | (Some (Some err), w4) \<Rightarrow> (Some (Inl err), w4)
                          | (Some None, w4) \<Rightarrow> (Some (Inr True), w4))
                     | (r, w3) \<Rightarrow> (r, w3)))))"

type_synonym 'w authenticator_option = "'w authenticator \<Rightarrow> 'w authenticator"

definition AuthenticatorWithValidator :: "'w validator \<Rightarrow> 'w authenticator_option" where
  "AuthenticatorWithValidator v a = a\<lparr>a_validators := a_validators a @ [v]\<rparr>"

definition AuthenticatorWithInjector :: "'w injector \<Rightarrow> 'w authenticator_option" where
  "AuthenticatorWithInjector i a = a\<lparr>a_injectors := a_injectors a @ [i]\<rparr>"

definition NewAuthenticator :: "'w intermediary \<Rightarrow> 'w resolver \<Rightarrow> 'w authenticator_option list \<Rightarrow> 'w authenticator" where
  "NewAuthenticator i r opts = fold (\<lambda>opt a. opt a) opts
     \<lparr>a_intermediary = i, a_resolver = r, a_validators = [], a_injectors = []\<rparr>"

section \<open>Intermediaries (\<open>intermediary.go\<close>, \<open>http.go\<close>)\<close>

definition Raw_Next :: "raw \<Rightarrow> 'w intermediary" where
  "Raw_Next r st w = (Some (Inr r, st), w)"

type_synonym 'w chain_func = "raw \<Rightarrow> 'w \<Rightarrow> (auth_error + 'w intermediary) \<times> 'w"

fun chain_next :: "'w chain_func list \<Rightarrow> raw \<Rightarrow> 'w intermediary" where
  "chain_next [] raw st w = (Some (Inr raw, st), w)"
| "chain_next (fn # fns) raw st w =
     (case fn raw w of
        (Inl err, w1) \<Rightarrow> (Some (Inl err, st), w1)
      | (Inr next, w1) \<Rightarrow>
          (case next st w1 of
             (Some (Inr raw', st'), w2) \<Rightarrow> chain_next fns raw' st' w2
           | (r, w2) \<Rightarrow> (r, w2)))"

definition ChainIntermediary_Next :: "'w intermediary \<Rightarrow> 'w chain_func list \<Rightarrow> 'w intermediary" where
  "ChainIntermediary_Next initial fns st w =
     (case initial st w of
        (Some (Inr raw, st'), w1) \<Rightarrow> chain_next fns raw st' w1
      | (r, w1) \<Rightarrow> (r, w1))"

text \<open>\<open>strings.EqualFold\<close> against a prefix of ASCII letters.\<close>

definition to_lower :: "char \<Rightarrow> char" where
  "to_lower c = (let n = (of_char c :: nat) in if 65 \<le> n \<and> n \<le> 90 then char_of (n + 32) else c)"

definition EqualFold :: "string \<Rightarrow> string \<Rightarrow> bool" where
  "EqualFold s t \<longleftrightarrow> map to_lower s = map to_lower t"

definition parseBearerAuth :: "string \<Rightarrow> string option" where
  "parseBearerAuth auth =
     (let prefix = ''Bearer '' in
      if length auth < length prefix \<or> \<not> EqualFold (take (length prefix) auth) prefix then None
      else Some (drop (length prefix) auth))"

text \<open>\<open>(*http.Request).BasicAuth\<close>.\<close>

definition parseBasicAuth :: "string \<Rightarrow> (string \<times> string) option" where
  "parseBasicAuth auth =
     (let prefix = ''Basic '' in
      if length auth < length prefix \<or> \<not> EqualFold (take (length prefix) auth) prefix then None
      else (case b64_decode (drop (length prefix) auth) of
          Inl _ \<Rightarrow> None
        | Inr c \<Rightarrow> (case split_n2 (CHR '':'') c of [username, password] \<Rightarrow> Some (username, password) | _ \<Rightarrow> None)))"

definition HTTPAuthorizationHeaderIntermediary_Next :: "string \<Rightarrow> 'w intermediary" where
  "HTTPAuthorizationHeaderIntermediary_Next header st w =
     (case (if header = [] then None else parseBasicAuth header) of
        Some (username, password) \<Rightarrow>
          (if username \<noteq> [] then (Some (Inl (NotFoundError ''http: username not empty'' []), st), w)
           else (Some (Inr password, st), w))
      | None \<Rightarrow>
          (case parseBearerAuth header of
             Some token \<Rightarrow> (Some (Inr token, st), w)
           | None \<Rightarrow> (Some (Inl (NotFoundError ''http: neither Basic nor Bearer authentication present'' []), st), w)))"

section \<open>Pods (\<open>kubernetes.go\<close>)\<close>

definition KubernetesTokenAnnotation :: string where "KubernetesTokenAnnotation = ''relay.sh/token''"

definition KubernetesSubjectAnnotation :: string where "KubernetesSubjectAnnotation = ''relay.sh/subject''"

record pod =
  pod_Namespace :: string
  pod_Annotations :: "string gomap"
  pod_Labels :: "string gomap"

record namespace =
  ns_Name :: string
  ns_UID :: string

text \<open>The calls made on the Kubernetes and Tekton clients: the running pods with an IP, a namespace,
  and the annotations of a Tekton condition.\<close>

record 'w kubernetes_interface =
  k_running_pods :: "string \<Rightarrow> 'w \<Rightarrow> pod list res \<times> 'w"
  k_namespace :: "string \<Rightarrow> 'w \<Rightarrow> namespace res \<times> 'w"
  k_condition :: "string \<Rightarrow> string \<Rightarrow> 'w \<Rightarrow> string gomap res \<times> 'w"

definition is_not_found :: "err \<Rightarrow> bool" where
  "is_not_found e \<longleftrightarrow> (case e of StatusError r m \<Rightarrow> r = ''NotFound'' | _ \<Rightarrow> False)"

definition lookup_str :: "string gomap \<Rightarrow> string \<Rightarrow> string" where
  "lookup_str m k = (case map_of m k of None \<Rightarrow> [] | Some v \<Rightarrow> v)"

definition validate_namespace :: "string \<Rightarrow> 'w validator" where
  "validate_namespace uid c w =
     (if KubernetesNamespaceUID c = [] then (Some (Inr False), w)
      else (Some (Inr (uid = KubernetesNamespaceUID c)), w))"

definition validate_subject :: "string \<Rightarrow> 'w validator" where
  "validate_subject subject c w =
     (case jwt_Claims c of
        None \<Rightarrow> (None, w)
      | Some j \<Rightarrow>
          if jwt_Subject j = [] then (Some (Inr False), w)
          else (Some (Inr (subject = jwt_Subject j)), w))"

text \<open>The subject and token of a pod, or of the Tekton condition it runs for.\<close>

definition pod_credentials :: "'w kubernetes_interface \<Rightarrow> pod \<Rightarrow> namespace \<Rightarrow> 'w \<Rightarrow> (auth_error + string \<times> raw) \<times> 'w" where
  "pod_credentials client pod ns w =
     (let tok = lookup_str (pod_Annotations pod) KubernetesTokenAnnotation in
      if tok \<noteq> [] then (Inr (lookup_str (pod_Annotations pod) KubernetesSubjectAnnotation, tok), w)
      else
        (case k_condition client (ns_Name ns) (lookup_str (pod_Labels pod) ''tekton.dev/pipelineTask'') w of
           (Inl err, w') \<Rightarrow>
             (Inl (if is_not_found err then NotFoundError ''kubernetes: Tekton condition of requesting pod does not exist'' []
                   else OtherAuthError err), w')
         | (Inr annotations, w') \<Rightarrow>
             (let tok = lookup_str annotations KubernetesTokenAnnotation in
              if tok = [] then
                (Inl (NotFoundError ''kubernetes: subject and token annotation not present on pod or Tekton condition'' []), w')
              else (Inr (lookup_str annotations KubernetesSubjectAnnotation, tok), w'))))"

definition KubernetesIntermediary_next ::
    "'w kubernetes_interface \<Rightarrow> ip option \<Rightarrow> 'w authentication \<Rightarrow> 'w \<Rightarrow> ((auth_error + raw \<times> string) \<times> 'w authentication) \<times> 'w" where
  "KubernetesIntermediary_next client addr st w =
     (if addr = None \<or> IsUnspecified (the addr) then ((Inl (NotFoundError ''kubernetes: no IP address to look up'' []), st), w)
      else
        (let ip = IP_String (the addr) in case k_running_pods client ip w of
           (Inl err, w1) \<Rightarrow> ((Inl (OtherAuthError err), st), w1)
         | (Inr [], w1) \<Rightarrow> ((Inl (NotFoundError (''kubernetes: no pod found with IP '' @ ip) []), st), w1)
         | (Inr [pod], w1) \<Rightarrow>
             (case k_namespace client (pod_Namespace pod) w1 of
                (Inl err, w2) \<Rightarrow>
                  ((Inl (if is_not_found err then NotFoundError ''kubernetes: namespace of requesting pod no longer exists'' []
                         else OtherAuthError err), st), w2)
              | (Inr ns, w2) \<Rightarrow>
                  (case pod_credentials client pod ns w2 of
                     (Inl err, w3) \<Rightarrow> ((Inl err, st), w3)
                   | (Inr (subject, tok), w3) \<Rightarrow>
                       ((Inr (tok, ns_UID ns),
                         AddValidator (validate_subject subject) (AddValidator (validate_namespace (ns_UID ns)) st)), w3)))
         | (Inr (_ # _ # _), w1) \<Rightarrow>
             ((Inl (NotFoundError (''kubernetes: multiple pods found with IP '' @ ip @ '' (bug?)'') []), st), w1)))"

definition KubernetesIntermediary_Chain ::
    "'w kubernetes_interface \<Rightarrow> ip option \<Rightarrow> (raw \<Rightarrow> string \<Rightarrow> 'w \<Rightarrow> (auth_error + 'w intermediary) \<times> 'w) \<Rightarrow> 'w intermediary" where
  "KubernetesIntermediary_Chain client ip fn st w =
     (case KubernetesIntermediary_next client ip st w of
        ((Inl err, st'), w1) \<Rightarrow> (Some (Inl err, st'), w1)
      | ((Inr (raw, md), st'), w1) \<Rightarrow>
          (case fn raw md w1 of
             (Inl err, w2) \<Rightarrow> (Some (Inl err, st'), w2)
           | (Inr next, w2) \<Rightarrow> next st' w2))"

definition KubernetesIntermediary_Next :: "'w kubernetes_interface \<Rightarrow> ip option \<Rightarrow> 'w intermediary" where
  "KubernetesIntermediary_Next client ip st w =
     (case KubernetesIntermediary_next client ip st w of
        ((Inl err, st'), w1) \<Rightarrow> (Some (Inl err, st'), w1)
      | ((Inr (raw, md), st'), w1) \<Rightarrow> (Some (Inr raw, st'), w1))"

section \<open>Resolvers (\<open>resolver.go\<close>, \<open>key.go\<close>)\<close>

fun any_loop :: "nat \<Rightarrow> auth_error list \<Rightarrow> 'w resolver list \<Rightarrow> 'w resolver" where
  "any_loop n causes [] st raw w =
     (Some (Inl (NotFoundError (''none of the '' @ itoa n @ '' available resolvers authenticated this token'') causes), st), w)"
| "any_loop n causes (delegate # delegates) st raw w =
     (case delegate NewAuthentication raw w of
        (None, w') \<Rightarrow> (None, w')
      | (Some (Inl err, ts), w') \<Rightarrow>
          (if is_NotFoundError err then any_loop n (causes @ [err]) delegates st raw w' else (Some (Inl err, st), w'))
      | (Some (Inr c, ts), w') \<Rightarrow>
          (Some (Inr c, fold AddInjector (injectors ts) (fold AddValidator (validators ts) st)), w'))"

definition AnyResolver_Resolve :: "'w resolver list \<Rightarrow> 'w resolver" where
  "AnyResolver_Resolve delegates st raw w =
     (case delegates of
        [delegate] \<Rightarrow> delegate st raw w
      | _ \<Rightarrow> any_loop (length delegates) [] delegates st raw w)"

text \<open>The JOSE library, for keys \<open>'k\<close> and parsed tokens \<open>'t\<close>: parsing a compact token, reading its
  claims after checking the signature with a key, and reading them without.\<close>

record ('k, 't) jose =
  ParseSigned :: "string \<Rightarrow> 't res"
  Token_Claims :: "'k \<Rightarrow> 't \<Rightarrow> claims res"
  UnsafeClaims :: "'t \<Rightarrow> claims res"

definition KeyResolver_Resolve :: "('k, 't) jose \<Rightarrow> 'k \<Rightarrow> jwt_expected \<Rightarrow> 'w resolver" where
  "KeyResolver_Resolve j key expectation st raw w =
     (case ParseSigned j raw of
        Inl err \<Rightarrow> (Some (Inl (NotFoundError ''key: JWT parse error'' [OtherAuthError err]), st), w)
      | Inr tok \<Rightarrow>
          (case Token_Claims j key tok of
             Inl err \<Rightarrow> (Some (Inl (NotFoundError ''key: could not validate JWT signature'' [OtherAuthError err]), st), w)
           | Inr c \<Rightarrow>
               (case jwt_Claims c of
                  None \<Rightarrow> (None, w)
                | Some registered \<Rightarrow>
                    (case jwt_Validate registered expectation of
                       Some err \<Rightarrow> (Some (Inl (NotFoundError ''key: could not validate JWT claims'' [OtherAuthError err]), st), w)
                     | None \<Rightarrow> (Some (Inr c, st), w)))))"

text \<open>\<open>KeyResolverWithExpectation\<close> and \<open>NewKeyResolver\<close>: without an option nothing is expected.\<close>

definition no_expectation :: jwt_expected where
  "no_expectation = \<lparr>e_Issuer = [], e_Subject = [], e_Audience = [], e_ID = [], e_Time = None\<rparr>"

definition KeyResolverWithExpectation :: "jwt_expected \<Rightarrow> jwt_expected \<Rightarrow> jwt_expected" where
  "KeyResolverWithExpectation e kr = e"

definition NewKeyResolver :: "('k, 't) jose \<Rightarrow> 'k \<Rightarrow> (jwt_expected \<Rightarrow> jwt_expected) list \<Rightarrow> 'w resolver" where
  "NewKeyResolver j key opts = KeyResolver_Resolve j key (fold (\<lambda>opt kr. opt kr) opts no_expectation)"

definition KeySignerIssuer_Issue :: "(claims \<Rightarrow> 'w \<Rightarrow> raw res \<times> 'w) \<Rightarrow> claims \<Rightarrow> 'w \<Rightarrow> raw res \<times> 'w" where
  "KeySignerIssuer_Issue sign c w = (case sign c w of (Inl err, w') \<Rightarrow> (Inl err, w') | (Inr tok, w') \<Rightarrow> (Inr tok, w'))"

section \<open>Wrappers (\<open>wrapper.go\<close>)\<close>

type_synonym 'w wrapper = "raw \<Rightarrow> 'w \<Rightarrow> raw res \<times> 'w"

fun ChainWrapper_Wrap :: "'w wrapper list \<Rightarrow> 'w wrapper" where
  "ChainWrapper_Wrap [] raw w = (Inr raw, w)"
| "ChainWrapper_Wrap (d # ds) raw w =
     (case d raw w of
        (Inl err, w') \<Rightarrow> (Inl err, w')
      | (Inr raw', w') \<Rightarrow> ChainWrapper_Wrap ds raw' w')"

definition WrappedIssuer_Issue :: "(claims \<Rightarrow> 'w \<Rightarrow> raw res \<times> 'w) \<Rightarrow> 'w wrapper \<Rightarrow> claims \<Rightarrow> 'w \<Rightarrow> raw res \<times> 'w" where
  "WrappedIssuer_Issue issue wrapper c w =
     (case issue c w of
        (Inl err, w') \<Rightarrow> (Inl err, w')
      | (Inr raw, w') \<Rightarrow> wrapper raw w')"

section \<open>Vault (\<open>vault.go\<close>)\<close>

text \<open>What a write to Vault returns: the data of a secret, and the client token of a login.\<close>

record vault_secret =
  vs_Data :: "gval gomap"
  vs_ClientToken :: "string option"

type_synonym 'w vault_write = "string \<Rightarrow> gval gomap \<Rightarrow> 'w \<Rightarrow> vault_secret option res \<times> 'w"

definition VaultTransitNamespaceContext :: "string \<Rightarrow> string" where
  "VaultTransitNamespaceContext ns = ''k8s.io/namespaces/'' @ ns"

definition vaultTransitDecryptPath :: "string \<Rightarrow> string \<Rightarrow> string" where
  "vaultTransitDecryptPath root key = path_Join [root, ''decrypt'', key]"

definition vaultTransitEncryptPath :: "string \<Rightarrow> string \<Rightarrow> string" where
  "vaultTransitEncryptPath root key = path_Join [root, ''encrypt'', key]"

definition transit_data :: "string \<Rightarrow> string \<Rightarrow> string \<Rightarrow> gval gomap" where
  "transit_data field value context =
     (if context \<noteq> [] then [(field, GStr value), (''context'', GStr (b64_encode context))] else [(field, GStr value)])"

definition VaultTransitIntermediary_Next :: "'w vault_write \<Rightarrow> string \<Rightarrow> string \<Rightarrow> string \<Rightarrow> string \<Rightarrow> 'w intermediary" where
  "VaultTransitIntermediary_Next write path key context ciphertext st w =
     (case write (vaultTransitDecryptPath path key) (transit_data ''ciphertext'' ciphertext context) w of
        (Inl err, w') \<Rightarrow> (Some (Inl (OtherAuthError err), st), w')
      | (Inr None, w') \<Rightarrow> (Some (Inl (NotFoundError ''vault: transit: no secret data in response (bug?)'' []), st), w')
      | (Inr (Some secret), w') \<Rightarrow>
          (case get_string (vs_Data secret) ''plaintext'' of
             None \<Rightarrow> (Some (Inl (NotFoundError ''vault: transit: plaintext missing from secret data (bug?)'' []), st), w')
           | Some encoded \<Rightarrow>
               (case b64_decode encoded of
                  Inl err \<Rightarrow> (Some (Inl (OtherAuthError err), st), w')
                | Inr plaintext \<Rightarrow> (Some (Inr plaintext, st), w'))))"

definition ChainVaultTransitIntermediary :: "'w vault_write \<Rightarrow> string \<Rightarrow> string \<Rightarrow> string \<Rightarrow> 'w chain_func" where
  "ChainVaultTransitIntermediary write path key context raw w =
     (Inr (VaultTransitIntermediary_Next write path key context raw), w)"

definition no_key_material :: err where
  "no_key_material = OtherError ''authenticate: Vault failed to return key material''"

definition VaultTransitWrapper_Wrap :: "'w vault_write \<Rightarrow> string \<Rightarrow> string \<Rightarrow> string \<Rightarrow> 'w wrapper" where
  "VaultTransitWrapper_Wrap write path key context raw w =
     (case write (vaultTransitEncryptPath path key) (transit_data ''plaintext'' (b64_encode raw) context) w of
        (Inl err, w') \<Rightarrow> (Inl err, w')
      | (Inr None, w') \<Rightarrow> (Inl no_key_material, w')
      | (Inr (Some secret), w') \<Rightarrow>
          (case get_string (vs_Data secret) ''ciphertext'' of
             None \<Rightarrow> (Inl no_key_material, w')
           | Some ciphertext \<Rightarrow> (Inr ciphertext, w')))"

text \<open>A client for the token Vault issued is identified by that token.\<close>

type_synonym 'w vault_injector = "claims \<Rightarrow> string \<Rightarrow> 'w \<Rightarrow> auth_error option option \<times> 'w"

definition login_data :: "raw \<Rightarrow> string \<Rightarrow> gval gomap" where
  "login_data raw role =
     (if role \<noteq> [] then [(''jwt'', GStr raw), (''role'', GStr role)] else [(''jwt'', GStr raw)])"

text \<open>\<open>vaultapi.NewClient\<close> may fail; the client it makes starts without a token.\<close>

definition VaultResolver_Resolve ::
    "('k, 't) jose \<Rightarrow> 'w vault_write res \<Rightarrow> string \<Rightarrow> string \<Rightarrow> 'w vault_injector list \<Rightarrow> 'w resolver" where
  "VaultResolver_Resolve j new_client path role vinjectors st raw w =
     (case new_client of
        Inl err \<Rightarrow> (Some (Inl (OtherAuthError err), st), w)
      | Inr write \<Rightarrow>
     (case write (path_Join [path, ''login'']) (login_data raw role) w of
        (Inl err, w') \<Rightarrow> (Some (Inl (OtherAuthError err), st), w')
      | (Inr None, w') \<Rightarrow> (Some (Inl (NotFoundError ''vault: resolver: no authentication information in response'' []), st), w')
      | (Inr (Some secret), w') \<Rightarrow>
          (case vs_ClientToken secret of
             None \<Rightarrow> (Some (Inl (NotFoundError ''vault: resolver: no authentication information in response'' []), st), w')
           | Some client \<Rightarrow>
               (case ParseSigned j raw of
                  Inl err \<Rightarrow> (Some (Inl (OtherAuthError err), st), w')
                | Inr tok \<Rightarrow>
                    (case UnsafeClaims j tok of
                       Inl err \<Rightarrow> (Some (Inl (OtherAuthError err), st), w')
                     | Inr c \<Rightarrow> (Some (Inr c, fold (\<lambda>vi. AddInjector (\<lambda>c. vi c client)) vinjectors st), w'))))))"

end
