(* ===== verification/Remote_Managers.thy ===== *)
theory Remote_Managers
  imports Managers Authenticate
begin

text \<open>
  The managers that talk to other services: connections and secrets in a Vault KV version 2 engine
  (\<open>pkg/manager/vault\<close>) and events posted to the Relay API (\<open>pkg/manager/api\<close>). The services are
  parameters: two operations of the Vault client, and the HTTP client.
\<close>

section \<open>Vault (\<open>kvv2.go\<close>)\<close>

record 'w kvv2_client =
  kv_Read :: "string \<Rightarrow> 'w \<Rightarrow> vault_secret option res \<times> 'w"
  kv_List :: "string \<Rightarrow> 'w \<Rightarrow> vault_secret option res \<times> 'w"
  kv_enginePath :: string
  kv_path :: string

definition KVV2Client_In :: "'w kvv2_client \<Rightarrow> string list \<Rightarrow> 'w kvv2_client" where
  "KVV2Client_In c sub = c\<lparr>kv_path := path_Join [kv_path c, path_Join sub]\<rparr>"

definition dataPath :: "'w kvv2_client \<Rightarrow> string" where
  "dataPath c = path_Join [kv_enginePath c, ''data'', kv_path c]"

definition metadataPath :: "'w kvv2_client \<Rightarrow> string" where
  "metadataPath c = path_Join [kv_enginePath c, ''metadata'', kv_path c]"

definition KVV2Client_Read :: "'w kvv2_client \<Rightarrow> 'w \<Rightarrow> gval res \<times> 'w" where
  "KVV2Client_Read c w =
     (case kv_Read c (dataPath c) w of
        (Inl err, w') \<Rightarrow> (Inl err, w')
      | (Inr None, w') \<Rightarrow> (Inl ErrNotFound, w')
      | (Inr (Some sec), w') \<Rightarrow>
          (case map_of (vs_Data sec) ''data'' of
             Some (GMap data) \<Rightarrow>
               (case map_of data ''value'' of None \<Rightarrow> (Inl ErrNotFound, w') | Some value \<Rightarrow> (Inr value, w'))
           | _ \<Rightarrow> (Inl ErrNotFound, w')))"

definition KVV2Client_ReadString :: "'w kvv2_client \<Rightarrow> 'w \<Rightarrow> string res \<times> 'w" where
  "KVV2Client_ReadString c w =
     (case KVV2Client_Read c w of
        (Inl err, w') \<Rightarrow> (Inl err, w')
      | (Inr (GStr encoded), w') \<Rightarrow>
          (case DecodeFromTransfer encoded of Inl err \<Rightarrow> (Inl err, w') | Inr b \<Rightarrow> (Inr b, w'))
      | (Inr _, w') \<Rightarrow> (Inl ErrNotFound, w'))"

definition key_string :: "gval \<Rightarrow> string res" where
  "key_string k = (case k of GStr s \<Rightarrow> Inr s | _ \<Rightarrow> Inl ErrNotFound)"

definition KVV2Client_List :: "'w kvv2_client \<Rightarrow> 'w \<Rightarrow> string list res \<times> 'w" where
  "KVV2Client_List c w =
     (case kv_List c (metadataPath c) w of
        (Inl err, w') \<Rightarrow> (Inl err, w')
      | (Inr None, w') \<Rightarrow> (Inl ErrNotFound, w')
      | (Inr (Some ls), w') \<Rightarrow>
          (case map_of (vs_Data ls) ''keys'' of
             Some (GList ki) \<Rightarrow> (traverse key_string ki, w')
           | _ \<Rightarrow> (Inl ErrNotFound, w')))"

definition NewKVV2Client ::
    "(string \<Rightarrow> 'w \<Rightarrow> vault_secret option res \<times> 'w) \<Rightarrow> (string \<Rightarrow> 'w \<Rightarrow> vault_secret option res \<times> 'w) \<Rightarrow>
     string \<Rightarrow> 'w kvv2_client" where
  "NewKVV2Client read ls enginePath =
     \<lparr>kv_Read = read, kv_List = ls, kv_enginePath = enginePath, kv_path = []\<rparr>"

section \<open>Connections and secrets\<close>

fun read_attributes :: "'w kvv2_client \<Rightarrow> string \<Rightarrow> string list \<Rightarrow> gval gomap \<Rightarrow> 'w \<Rightarrow> gval gomap res \<times> 'w" where
  "read_attributes c connectionID [] attrs w = (Inr attrs, w)"
| "read_attributes c connectionID (key # keys) attrs w =
     (case KVV2Client_ReadString (KVV2Client_In c [connectionID, key]) w of
        (Inl err, w') \<Rightarrow>
          (if err = ErrNotFound then read_attributes c connectionID keys attrs w' else (Inl err, w'))
      | (Inr value, w') \<Rightarrow> read_attributes c connectionID keys (AList.update key (GStr value) attrs) w')"

definition vault_Connection_Get :: "'w kvv2_client \<Rightarrow> string \<Rightarrow> string \<Rightarrow> 'w \<Rightarrow> connection res \<times> 'w" where
  "vault_Connection_Get c typ name w =
     (case KVV2Client_ReadString (KVV2Client_In c [typ, name]) w of
        (Inl err, w1) \<Rightarrow> (Inl err, w1)
      | (Inr connectionID, w1) \<Rightarrow>
          (case KVV2Client_List (KVV2Client_In c [connectionID]) w1 of
             (Inl err, w2) \<Rightarrow> (Inl err, w2)
           | (Inr keys, w2) \<Rightarrow>
               (case read_attributes c connectionID keys [] w2 of
                  (Inl err, w3) \<Rightarrow> (Inl err, w3)
                | (Inr attrs, w3) \<Rightarrow>
                    (Inr \<lparr>Connection_Type = typ, Connection_Name = name, Attributes = attrs\<rparr>, w3))))"

definition vault_Secret_Get :: "'w kvv2_client \<Rightarrow> string \<Rightarrow> 'w \<Rightarrow> secret res \<times> 'w" where
  "vault_Secret_Get c name w =
     (case KVV2Client_ReadString (KVV2Client_In c [name]) w of
        (Inl err, w') \<Rightarrow> (Inl err, w')
      | (Inr value, w') \<Rightarrow> (Inr \<lparr>Secret_Name = name, Secret_Value = value\<rparr>, w'))"

section \<open>Events (\<open>event.go\<close>)\<close>

text \<open>A POST of a JSON document with a bearer token yields the status code of the response and the
  error found in its body, if any.\<close>

type_synonym 'w http_post = "string \<Rightarrow> string \<Rightarrow> json \<Rightarrow> 'w \<Rightarrow> (nat \<times> string option) res \<times> 'w"

definition UnexpectedResponseError :: "nat \<Rightarrow> string option \<Rightarrow> err" where
  "UnexpectedResponseError code cause =
     OtherError (''received HTTP '' @ itoa code @ '' from API: '' @ (case cause of None \<Rightarrow> ''<nil>'' | Some c \<Rightarrow> c))"

definition marshal_members :: "gval gomap \<Rightarrow> (string \<times> json) list res" where
  "marshal_members data =
     traverse (\<lambda>(k, v). case JSONInterface_Marshal v of Inl e \<Rightarrow> Inl e | Inr j \<Rightarrow> Inr (utf8_coerce k, j)) data"

definition post_event_envelope :: "trigger \<Rightarrow> gval gomap \<Rightarrow> string \<Rightarrow> json res" where
  "post_event_envelope t data key =
     (case marshal_members data of
        Inl err \<Rightarrow> Inl err
      | Inr encoded \<Rightarrow>
          Inr (JObj ([(''source'', JObj [(''type'', JStr ''trigger''),
                                         (''trigger'', JObj [(''name'', JStr (utf8_coerce (Trigger_Name t)))])]),
                      (''data'', JObj encoded)] @
                     (if key = [] then [] else [(''key'', JStr (utf8_coerce key))]))))"

definition api_Event_Emit :: "'w http_post \<Rightarrow> action \<Rightarrow> string \<Rightarrow> string \<Rightarrow> gval gomap \<Rightarrow> string \<Rightarrow> 'w \<Rightarrow> event res \<times> 'w" where
  "api_Event_Emit post me url token data key w =
     (case me of
        Trigger t \<Rightarrow>
          (case post_event_envelope t data key of
             Inl err \<Rightarrow> (Inl err, w)
           | Inr env \<Rightarrow>
               (case post url token env w of
                  (Inl err, w') \<Rightarrow> (Inl err, w')
                | (Inr (code, cause), w') \<Rightarrow>
                    if code < 200 \<or> code \<ge> 300 then (Inl (UnexpectedResponseError code cause), w')
                    else (Inr \<lparr>Event_Data = data, Event_Key = key\<rparr>, w')))
      | _ \<Rightarrow> (Inl ErrRejected, w))"

end
