(* ===== verification/Metadata_Auth.thy ===== *)
theory Metadata_Auth
  imports Configmap Remote_Managers
begin

text \<open>
  Who calls the metadata API, \<open>pkg/metadataapi/server/middleware\<close>: the address of the client behind
  trusted proxies (\<open>proxy.go\<close>), the authenticator that maps a request to a credential (\<open>auth.go\<close>) and
  the managers of a request (\<open>model.go\<close>).

  A session is what one authentication works on: the environment \<open>'e\<close> (cluster, Vault, API), the
  builder its injectors fill, and the tags. The clients act on the environment only.
\<close>

section \<open>Requests and the address of the client (\<open>proxy.go\<close>)\<close>

record request =
  RemoteAddr :: string
  XForwardedFor :: "string list"
  Authorization :: string

text \<open>\<open>strings.TrimSpace\<close>: the white space of Unicode in UTF-8, which takes one, two or three bytes, is cut from the front and, reading the
  bytes backwards, from the end.\<close>

definition is_space :: "char \<Rightarrow> bool" where
  "is_space c \<longleftrightarrow> c = CHR '' '' \<or> (9 \<le> (of_char c :: nat) \<and> (of_char c :: nat) \<le> 13)"

definition is_space2 :: "char \<Rightarrow> char \<Rightarrow> bool" where
  "is_space2 a b \<longleftrightarrow> a = CHR 0xC2 \<and> (b = CHR 0x85 \<or> b = CHR 0xA0)"

definition is_space3 :: "char \<Rightarrow> char \<Rightarrow> char \<Rightarrow> bool" where
  "is_space3 a b c \<longleftrightarrow>
     a = CHR 0xE1 \<and> b = CHR 0x9A \<and> c = CHR 0x80 \<or>
     a = CHR 0xE2 \<and> b = CHR 0x80 \<and> (0x80 \<le> (of_char c :: nat) \<and> (of_char c :: nat) \<le> 0x8A \<or> c = CHR 0xA8 \<or> c = CHR 0xA9 \<or> c = CHR 0xAF) \<or>
     a = CHR 0xE2 \<and> b = CHR 0x81 \<and> c = CHR 0x9F \<or>
     a = CHR 0xE3 \<and> b = CHR 0x80 \<and> c = CHR 0x80"

fun trim_spaces :: "(char \<Rightarrow> char \<Rightarrow> bool) \<Rightarrow> (char \<Rightarrow> char \<Rightarrow> char \<Rightarrow> bool) \<Rightarrow> string \<Rightarrow> string" where
  "trim_spaces two three (a # b # c # s) =
     (if is_space a then trim_spaces two three (b # c # s)
      else if two a b then trim_spaces two three (c # s)
      else if three a b c then trim_spaces two three s
      else a # b # c # s)"
| "trim_spaces two three [a, b] = (if is_space a then trim_spaces two three [b] else if two a b then [] else [a, b])"
| "trim_spaces two three [a] = (if is_space a then [] else [a])"
| "trim_spaces two three [] = []"

definition TrimSpace :: "string \<Rightarrow> string" where
  "TrimSpace s = rev (trim_spaces (\<lambda>b a. is_space2 a b) (\<lambda>c b a. is_space3 a b c) (rev (trim_spaces is_space2 is_space3 s)))"

definition forwarded_hops :: "string list \<Rightarrow> string list" where
  "forwarded_hops hdrs = concat (map (split_all (CHR '','')) hdrs)"

text \<open>The loop over the last \<open>n\<close> hops, from the last one backwards.\<close>

fun follow_hops :: "string list \<Rightarrow> string \<Rightarrow> string" where
  "follow_hops [] addr = addr"
| "follow_hops (hop # hops) addr =
     (case net_ParseIP (TrimSpace hop) of
        None \<Rightarrow> addr
      | Some ip \<Rightarrow> follow_hops hops (IP_String ip))"

definition WithTrustedProxyHops :: "nat \<Rightarrow> request \<Rightarrow> request" where
  "WithTrustedProxyHops n r =
     r\<lparr>RemoteAddr := follow_hops (take n (rev (forwarded_hops (XForwardedFor r)))) (RemoteAddr r)\<rparr>"

section \<open>Sessions\<close>

record 'e session =
  s_env :: 'e
  s_mgrs :: "'e metadata_managers"
  s_tags :: "(string \<times> string) list"

definition on_env :: "('e \<Rightarrow> 'a \<times> 'e) \<Rightarrow> 'e session \<Rightarrow> 'a \<times> 'e session" where
  "on_env f s = (case f (s_env s) of (r, e) \<Rightarrow> (r, s\<lparr>s_env := e\<rparr>))"

definition session_kubernetes :: "'e kubernetes_interface \<Rightarrow> 'e session kubernetes_interface" where
  "session_kubernetes k =
     \<lparr>k_running_pods = (\<lambda>ip. on_env (k_running_pods k ip)), k_namespace = (\<lambda>n. on_env (k_namespace k n)),
      k_condition = (\<lambda>ns n. on_env (k_condition k ns n))\<rparr>"

definition session_vault :: "'e vault_write \<Rightarrow> 'e session vault_write" where
  "session_vault wr path data = on_env (wr path data)"

definition add_manager :: "'e builder_call \<Rightarrow> 'e session \<Rightarrow> 'e session" where
  "add_manager call s = s\<lparr>s_mgrs := builder_step call (s_mgrs s)\<rparr>"

section \<open>The authenticator (\<open>auth.go\<close>)\<close>

record 'e credential =
  Cred_Managers :: "'e metadata_managers"
  Cred_Tags :: "(string \<times> string) list"

text \<open>The libraries: JOSE, the Vault client for an address (a login without a token, and reading and
  listing with one), and HTTP.\<close>

record 'e vault_api =
  va_Write :: "'e vault_write"
  va_Read :: "string \<Rightarrow> string \<Rightarrow> 'e \<Rightarrow> vault_secret option res \<times> 'e"
  va_List :: "string \<Rightarrow> string \<Rightarrow> 'e \<Rightarrow> vault_secret option res \<times> 'e"

record ('k, 't, 'e) libraries =
  lib_jose :: "('k, 't) jose"
  lib_vault :: "string \<Rightarrow> 'e vault_api res"
  lib_http :: "'e http_post"

record ('k, 'e) kubernetes_authenticator =
  ka_factory :: "string \<Rightarrow> (string \<Rightarrow> string \<Rightarrow> 'e configmap_client) res"
  ka_kubernetesClient :: "'e kubernetes_interface option"
  ka_vaultClient :: "'e vault_write option"
  ka_vaultTransitPath :: string
  ka_vaultTransitKey :: string
  ka_vaultJWTAuthAddr :: string
  ka_vaultJWTAuthPath :: string
  ka_vaultJWTAuthRole :: string
  ka_keys :: "'k list"

definition request_host :: "request \<Rightarrow> string" where
  "request_host r = (case SplitHost (RemoteAddr r) of None \<Rightarrow> RemoteAddr r | Some host \<Rightarrow> host)"

definition ka_intermediary :: "('k, 'e) kubernetes_authenticator \<Rightarrow> request \<Rightarrow> 'e session intermediary" where
  "ka_intermediary ka r =
     (case ka_kubernetesClient ka of
        None \<Rightarrow> HTTPAuthorizationHeaderIntermediary_Next (Authorization r)
      | Some client \<Rightarrow>
          (let ip = net_ParseIP (request_host r) in
           case ka_vaultClient ka of
             None \<Rightarrow> KubernetesIntermediary_Next (session_kubernetes client) ip
           | Some wr \<Rightarrow>
               KubernetesIntermediary_Chain (session_kubernetes client) ip
                 (\<lambda>raw uid w. (Inr (VaultTransitIntermediary_Next (session_vault wr) (ka_vaultTransitPath ka)
                    (ka_vaultTransitKey ka) (VaultTransitNamespaceContext uid) raw), w))))"

text \<open>The injector that gives a client logged in to Vault its connections and secrets.\<close>

definition vault_managers_injector :: "'e vault_api \<Rightarrow> 'e session vault_injector" where
  "vault_managers_injector va c token s =
     (if RelayVaultEnginePath c = [] then (Some None, s)
      else
        (let base = NewKVV2Client (va_Read va token) (va_List va token) (RelayVaultEnginePath c);
             s1 = (if RelayVaultConnectionPath c \<noteq> []
                   then add_manager (SetConnections (vault_Connection_Get (KVV2Client_In base [RelayVaultConnectionPath c]))) s
                   else s);
             s2 = (if RelayVaultSecretPath c \<noteq> []
                   then add_manager (SetSecrets (vault_Secret_Get (KVV2Client_In base [RelayVaultSecretPath c]))) s1
                   else s1)
         in (Some None, s2)))"

definition ka_resolver :: "('k, 't, 'e) libraries \<Rightarrow> ('k, 'e) kubernetes_authenticator \<Rightarrow> 'e session resolver" where
  "ka_resolver lib ka =
     AnyResolver_Resolve
       ((if ka_vaultJWTAuthAddr ka \<noteq> []
         then (let new_client = lib_vault lib (ka_vaultJWTAuthAddr ka) in
               [VaultResolver_Resolve (lib_jose lib) (map_sum id (session_vault \<circ> va_Write) new_client)
                  (ka_vaultJWTAuthPath ka) (ka_vaultJWTAuthRole ka)
                  (case new_client of Inl _ \<Rightarrow> [] | Inr va \<Rightarrow> [vault_managers_injector va])])
         else []) @
        map (\<lambda>key. NewKeyResolver (lib_jose lib) key []) (ka_keys ka))"

definition claim_tags :: "claims \<Rightarrow> action \<Rightarrow> (string \<times> string) list" where
  "claim_tags c a =
     filter (\<lambda>(k, v). v \<noteq> [])
       [(''relay.domain.id'', RelayDomainID c), (''relay.tenant.id'', RelayTenantID c), (''relay.run.id'', RelayRunID c),
        (''relay.action.type'', Singular (Action_Type a)), (''relay.action.name'', RelayName c)]"

text \<open>The calls the injector makes on the builder, in order.\<close>

definition manager_calls ::
    "'e http_post \<Rightarrow> (string \<Rightarrow> string \<Rightarrow> 'e configmap_client) \<Rightarrow> claims \<Rightarrow> action \<Rightarrow> 'e builder_call list" where
  "manager_calls post client c action =
     (let at = (\<lambda>name. ClientConfigMap (client (KubernetesNamespaceName c) name) (KubernetesNamespaceName c) name);
          immutableMap = at (RelayKubernetesImmutableConfigMapName c);
          mutableMap = at (RelayKubernetesMutableConfigMapName c) in
      (case action of
         Step step \<Rightarrow>
           [SetParameters (Parameter_Get immutableMap),
            SetStepOutputs (StepOutput_Get mutableMap step) (StepOutput_Set mutableMap step)]
       | _ \<Rightarrow> []) @
      (case RelayEventAPIURL c of
         None \<Rightarrow> []
       | Some url \<Rightarrow> [SetEvents (api_Event_Emit post action url (RelayEventAPIToken c))]) @
      [SetConditions (Condition_Get immutableMap action),
       SetEnvironment (Environment_Get immutableMap action),
       SetSpec (Spec_Get immutableMap action),
       SetState (State_Get mutableMap action)])"

text \<open>The injector is only reached with claims that name an action; without one it panics.\<close>

definition ka_injector :: "('k, 't, 'e) libraries \<Rightarrow> ('k, 'e) kubernetes_authenticator \<Rightarrow> 'e session injector" where
  "ka_injector lib ka c s =
     (case ka_factory ka (KubernetesServiceAccountToken c) of
        Inl err \<Rightarrow> (Some (Some (OtherAuthError err)), s)
      | Inr client \<Rightarrow>
          (case Claims_Action c of
             Some (Some action) \<Rightarrow>
               (Some None, (fold add_manager (manager_calls (lib_http lib) client c action) s)
                  \<lparr>s_tags := s_tags s @ claim_tags c action\<rparr>)
           | _ \<Rightarrow> (None, s)))"

definition KubernetesAuthenticator_Authenticate ::
    "('k, 't, 'e) libraries \<Rightarrow> ('k, 'e) kubernetes_authenticator \<Rightarrow> request \<Rightarrow> 'e \<Rightarrow>
     (auth_error + 'e credential option) option \<times> 'e" where
  "KubernetesAuthenticator_Authenticate lib ka r e =
     (let auth = NewAuthenticator (ka_intermediary ka r) (ka_resolver lib ka)
            [AuthenticatorWithInjector (ka_injector lib ka)] in
      case Authenticate auth \<lparr>s_env = e, s_mgrs = NewMetadataBuilder, s_tags = []\<rparr> of
        (None, s) \<Rightarrow> (None, s_env s)
      | (Some (Inl err), s) \<Rightarrow> (Some (Inl err), s_env s)
      | (Some (Inr False), s) \<Rightarrow> (Some (Inr None), s_env s)
      | (Some (Inr True), s) \<Rightarrow>
          (Some (Inr (Some \<lparr>Cred_Managers = Build (s_mgrs s), Cred_Tags = s_tags s\<rparr>)), s_env s))"

type_synonym ('k, 'e) ka_option = "('k, 'e) kubernetes_authenticator \<Rightarrow> ('k, 'e) kubernetes_authenticator"

definition KubernetesAuthenticatorWithKubernetesIntermediary :: "'e kubernetes_interface \<Rightarrow> ('k, 'e) ka_option" where
  "KubernetesAuthenticatorWithKubernetesIntermediary client ka = ka\<lparr>ka_kubernetesClient := Some client\<rparr>"

definition KubernetesAuthenticatorWithChainToVaultTransitIntermediary ::
    "'e vault_write \<Rightarrow> string \<Rightarrow> string \<Rightarrow> ('k, 'e) ka_option" where
  "KubernetesAuthenticatorWithChainToVaultTransitIntermediary client path key ka =
     ka\<lparr>ka_vaultClient := Some client, ka_vaultTransitPath := path, ka_vaultTransitKey := key\<rparr>"

definition KubernetesAuthenticatorWithVaultResolver :: "string \<Rightarrow> string \<Rightarrow> string \<Rightarrow> ('k, 'e) ka_option" where
  "KubernetesAuthenticatorWithVaultResolver addr path role ka =
     ka\<lparr>ka_vaultJWTAuthAddr := addr, ka_vaultJWTAuthPath := path, ka_vaultJWTAuthRole := role\<rparr>"

definition KubernetesAuthenticatorWithKeyResolver :: "'k \<Rightarrow> ('k, 'e) ka_option" where
  "KubernetesAuthenticatorWithKeyResolver key ka = ka\<lparr>ka_keys := ka_keys ka @ [key]\<rparr>"

definition NewKubernetesAuthenticator ::
    "(string \<Rightarrow> (string \<Rightarrow> string \<Rightarrow> 'e configmap_client) res) \<Rightarrow> ('k, 'e) ka_option list \<Rightarrow> ('k, 'e) kubernetes_authenticator" where
  "NewKubernetesAuthenticator factory opts = fold (\<lambda>opt ka. opt ka) opts
     \<lparr>ka_factory = factory, ka_kubernetesClient = None, ka_vaultClient = None, ka_vaultTransitPath = [],
      ka_vaultTransitKey = [], ka_vaultJWTAuthAddr = [], ka_vaultJWTAuthPath = [], ka_vaultJWTAuthRole = [], ka_keys = []\<rparr>"

section \<open>The managers of a request\<close>

text \<open>A handler runs with the managers of the request's context; a request without any gets the
  builder's defaults (\<open>model.go\<close>). The responses of \<open>WithAuthentication\<close> to a request that is not
  let through are plain texts.\<close>

definition Managers :: "'e metadata_managers option \<Rightarrow> 'e metadata_managers" where
  "Managers ctx = (case ctx of None \<Rightarrow> Build NewMetadataBuilder | Some mgrs \<Rightarrow> mgrs)"

datatype 'r outcome = Panicked | Refused nat string | Handled 'r

definition WithAuthentication ::
    "(request \<Rightarrow> 'e \<Rightarrow> (auth_error + 'e credential option) option \<times> 'e) \<Rightarrow>
     ('e metadata_managers option \<Rightarrow> request \<Rightarrow> 'e \<Rightarrow> 'r \<times> 'e) \<Rightarrow> request \<Rightarrow> 'e \<Rightarrow> 'r outcome \<times> 'e" where
  "WithAuthentication authenticate handler r e =
     (case authenticate r e of
        (None, e') \<Rightarrow> (Panicked, e')
      | (Some (Inl err), e') \<Rightarrow> (Refused 500 ''500 internal server error'', e')
      | (Some (Inr None), e') \<Rightarrow> (Refused 401 ''401 unauthorized'', e')
      | (Some (Inr (Some cred)), e') \<Rightarrow>
          (case handler (Some (Cred_Managers cred)) r e' of (resp, e'') \<Rightarrow> (Handled resp, e'')))"

end
