(* ===== verification/Metadata_Api.thy ===== *)
theory Metadata_Api
  imports Metadata_Auth Evaluate
begin

text \<open>
  The handlers of the metadata API, \<open>pkg/metadataapi/server/api\<close>.

  A handler gets the managers of the request and writes responses; the list of what it wrote is
  its result, as a handler may write more than once. \<open>None\<close> is a handler that does not return (a
  panic of a manager, or a write that never ends). Bodies are JSON documents. Evaluation reads from
  the managers in the state the world has when the evaluation starts. The query languages behind
  \<open>EvaluateQuery\<close> (gval and JSONPath with the selectors of \<open>pkg/expr/evaluate\<close>) are a parameter.
\<close>

section \<open>Errors and responses\<close>

datatype api_error =
    APIMalformedRequestError
  | APIUnknownRequestMediaTypeError string
  | APIResourceSerializationError err
  | ConditionTypeError string
  | ExpressionEvaluationError string
  | ExpressionUnresolvableError "string list"
  | ExpressionUnsupportedLanguageError string
  | ModelAuthorizationError
  | ModelNotFoundError
  | ModelReadError err
  | ModelWriteError err

text \<open>The status of an error (\<open>errors.yaml\<close>), 500 where none is given.\<close>

fun error_status :: "api_error \<Rightarrow> nat" where
  "error_status APIMalformedRequestError = 422"
| "error_status (APIUnknownRequestMediaTypeError _) = 422"
| "error_status (APIResourceSerializationError _) = 500"
| "error_status (ConditionTypeError _) = 500"
| "error_status (ExpressionEvaluationError _) = 422"
| "error_status (ExpressionUnresolvableError _) = 422"
| "error_status (ExpressionUnsupportedLanguageError _) = 422"
| "error_status ModelAuthorizationError = 403"
| "error_status ModelNotFoundError = 404"
| "error_status (ModelReadError _) = 500"
| "error_status (ModelWriteError _) = 500"

datatype response = Wrote_Object nat json | Wrote_Error api_error | Wrote_Status nat

fun response_status :: "response \<Rightarrow> nat" where
  "response_status (Wrote_Object n _) = n"
| "response_status (Wrote_Error err) = error_status err"
| "response_status (Wrote_Status n) = n"

definition WriteObjectOK :: "json res \<Rightarrow> response list" where
  "WriteObjectOK object =
     (case object of Inl err \<Rightarrow> [Wrote_Error (APIResourceSerializationError err)] | Inr b \<Rightarrow> [Wrote_Object 200 b])"

definition ModelReadError_of :: "err \<Rightarrow> api_error" where
  "ModelReadError_of err =
     (if err = ErrNotFound then ModelNotFoundError else if err = ErrRejected then ModelAuthorizationError else ModelReadError err)"

definition ModelWriteError_of :: "err \<Rightarrow> api_error" where
  "ModelWriteError_of err =
     (if err = ErrNotFound then ModelNotFoundError else if err = ErrRejected then ModelAuthorizationError else ModelWriteError err)"

type_synonym 'e handled = "(response list) option \<times> 'e"

section \<open>Evaluating with the managers of a request\<close>

definition parameters_of :: "'e metadata_managers \<Rightarrow> 'e \<Rightarrow> evaluator_option" where
  "parameters_of m e = WithParameterTypeResolver (ParameterTypeResolver (\<lambda>n. fst (m_Parameters m n e)))"

definition secrets_of :: "'e metadata_managers \<Rightarrow> 'e \<Rightarrow> evaluator_option" where
  "secrets_of m e = WithSecretTypeResolver (SecretTypeResolver (\<lambda>n. fst (m_Secrets m n e)))"

definition outputs_of :: "'e metadata_managers \<Rightarrow> 'e \<Rightarrow> evaluator_option" where
  "outputs_of m e = WithOutputTypeResolver (OutputTypeResolver (\<lambda>s n. fst (m_OutputGet m s n e)))"

definition connections_of :: "'e metadata_managers \<Rightarrow> 'e \<Rightarrow> evaluator_option" where
  "connections_of m e = WithConnectionTypeResolver (ConnectionTypeResolver (\<lambda>t n. fst (m_Connections m t n e)))"

definition answers_of :: "'e metadata_managers \<Rightarrow> 'e \<Rightarrow> evaluator_option" where
  "answers_of m e = WithAnswerTypeResolver (AnswerTypeResolver (\<lambda>n. fst (m_State m n e)))"

section \<open>Conditions (\<open>conditions.go\<close>)\<close>

text \<open>The outcome of the \<open>check\<close> loop over a list: the error to write, or whether a condition failed.\<close>

fun check_list :: "bool \<Rightarrow> gval list \<Rightarrow> api_error + bool" where
  "check_list complete [] = Inr False"
| "check_list complete (cond # conds) =
     (case cond of
        GBool result \<Rightarrow> if \<not> result then Inr True else check_list complete conds
      | _ \<Rightarrow> if complete then Inl (ConditionTypeError (fmt_T cond)) else check_list complete conds)"

definition check_conditions :: "result \<Rightarrow> api_error + bool" where
  "check_conditions rv =
     (case Value rv of
        GBool vt \<Rightarrow> Inr (\<not> vt)
      | GList vt \<Rightarrow> check_list (Complete rv) vt
      | v \<Rightarrow> Inl (ConditionTypeError (fmt_T v)))"

definition conditions_envelope :: "bool \<Rightarrow> string \<Rightarrow> json" where
  "conditions_envelope success message = JObj [(''success'', JBool success), (''message'', JStr message)]"

definition conditions_response :: "result res \<Rightarrow> response list" where
  "conditions_response r =
     (case r of
        Inl rerr \<Rightarrow> [Wrote_Error (ExpressionEvaluationError (error_string rerr))]
      | Inr rv \<Rightarrow>
          (case check_conditions rv of
             Inl err \<Rightarrow> [Wrote_Error err]
           | Inr True \<Rightarrow> [Wrote_Object 200 (conditions_envelope False ''one or more conditions failed'')]
           | Inr False \<Rightarrow>
               if \<not> Complete rv then [Wrote_Error (ExpressionUnresolvableError (map error_string (as_causes (Unresolvable rv))))]
               else [Wrote_Object 200 (conditions_envelope True ''all checks passed'')]))"

definition GetConditions :: "golib \<Rightarrow> 'e metadata_managers \<Rightarrow> 'e \<Rightarrow> 'e handled" where
  "GetConditions lib m e =
     (case m_Conditions m e of
        (Inl err, e') \<Rightarrow> (Some [Wrote_Error (ModelReadError_of err)], e')
      | (Inr cond, e') \<Rightarrow>
          (let ev = NewEvaluator lib [parameters_of m e', secrets_of m e', outputs_of m e', answers_of m e']
           in (Some (conditions_response (EvaluateAll ev (Condition_Tree cond))), e')))"

section \<open>Specs (\<open>spec.go\<close>)\<close>

definition envelope_json :: "json_result_envelope \<Rightarrow> json res" where
  "envelope_json env =
     (let names = (\<lambda>field xs. if xs = [] then [] else [(field, JArr (map (\<lambda>n. JObj [(''name'', JStr (utf8_coerce n))]) xs))]);
          pairs = (\<lambda>field k xs. if xs = [] then []
             else [(field, JArr (map (\<lambda>(a, n). JObj [(k, JStr (utf8_coerce a)), (''name'', JStr (utf8_coerce n))]) xs))]) in
      case JSONInterface_Marshal (env_Value env) of
        Inl err \<Rightarrow> Inl err
      | Inr v \<Rightarrow>
          Inr (JObj [(''value'', v),
            (''unresolvable'', case env_Unresolvable env of
               None \<Rightarrow> JNull
             | Some u \<Rightarrow> JObj (names ''secrets'' (env_Secrets u) @ pairs ''connections'' ''type'' (env_Connections u) @
                 pairs ''outputs'' ''from'' (env_Outputs u) @ names ''parameters'' (env_Parameters u) @
                 pairs ''answers'' ''askRef'' (env_Answers u) @ names ''invocations'' (env_Invocations u))),
            (''complete'', JBool (env_Complete env))]))"

text \<open>A compiled query yields a value and what could not be resolved on the way to it.\<close>

type_synonym path_language = "language \<Rightarrow> evaluator \<Rightarrow> string \<Rightarrow> (gval \<Rightarrow> (gval \<times> unresolvable) res) res"

definition EvaluateQuery :: "path_language \<Rightarrow> evaluator \<Rightarrow> gval \<Rightarrow> string \<Rightarrow> result res" where
  "EvaluateQuery pl e t query =
     (if lang e \<notin> {LanguagePath, LanguageJSONPath, LanguageJSONPathTemplate} then Inl ErrUnsupportedLanguage
      else (case pl (lang e) e query of
          Inl err \<Rightarrow> Inl err
        | Inr path \<Rightarrow>
            (case path t of
               Inl err \<Rightarrow> Inl err
             | Inr (v, u) \<Rightarrow>
                 (case evaluate e v (-1) of
                    Inl err \<Rightarrow> Inl err
                  | Inr er \<Rightarrow> resultMapper e (Result_extends er \<lparr>Value = GNil, Unresolvable = u\<rparr>)))))"

text \<open>An unknown language is answered with an error, and the handler goes on with the default.\<close>

definition spec_language :: "string \<Rightarrow> language \<times> response list" where
  "spec_language q =
     (if q = ''jsonpath-template'' then (LanguageJSONPathTemplate, [])
      else if q = ''jsonpath'' then (LanguageJSONPath, [])
      else if q = [] \<or> q = ''path'' then (LanguagePath, [])
      else (LanguagePath, [Wrote_Error (ExpressionUnsupportedLanguageError q)]))"

definition GetSpec :: "golib \<Rightarrow> path_language \<Rightarrow> string \<Rightarrow> string \<Rightarrow> 'e metadata_managers \<Rightarrow> 'e \<Rightarrow> 'e handled" where
  "GetSpec lib pl lang_param q_param m e =
     (case m_Spec m e of
        (Inl err, e') \<Rightarrow> (Some [Wrote_Error (ModelReadError_of err)], e')
      | (Inr spec, e') \<Rightarrow>
          (case spec_language lang_param of (language, written) \<Rightarrow>
             (let ev = NewEvaluator lib [WithLanguage language, connections_of m e', parameters_of m e', outputs_of m e', secrets_of m e'];
                  r = (if q_param \<noteq> [] then EvaluateQuery pl ev (Spec_Tree spec) q_param else EvaluateAll ev (Spec_Tree spec))
              in (Some (written @
                   (case r of
                      Inl rerr \<Rightarrow> [Wrote_Error (ExpressionEvaluationError (error_string rerr))]
                    | Inr rv \<Rightarrow> WriteObjectOK (envelope_json (NewJSONResultEnvelope rv)))), e'))))"

section \<open>Environment (\<open>environment.go\<close>)\<close>

definition env_evaluator :: "golib \<Rightarrow> 'e metadata_managers \<Rightarrow> 'e \<Rightarrow> evaluator" where
  "env_evaluator lib m e = NewEvaluator lib [parameters_of m e, outputs_of m e, secrets_of m e]"

text \<open>The loop over the variables: the first evaluation error, or the values and whether all are
  complete.\<close>

fun eval_environment :: "evaluator \<Rightarrow> (string \<times> gval) list \<Rightarrow> bool \<Rightarrow> gval gomap \<Rightarrow> (bool \<times> gval gomap) res" where
  "eval_environment ev [] complete evs = Inr (complete, evs)"
| "eval_environment ev ((name, v) # rest) complete evs =
     (case EvaluateAll ev v of
        Inl rerr \<Rightarrow> Inl rerr
      | Inr rv \<Rightarrow> eval_environment ev rest (complete \<and> Complete rv) (AList.update name (Value rv) evs))"

definition GetEnvironment :: "golib \<Rightarrow> 'e metadata_managers \<Rightarrow> 'e \<Rightarrow> 'e handled" where
  "GetEnvironment lib m e =
     (case m_Environment m e of
        None \<Rightarrow> (None, e)
      | Some (Inl err, e') \<Rightarrow> (Some [Wrote_Error (ModelReadError_of err)], e')
      | Some (Inr env, e') \<Rightarrow>
          (case eval_environment (env_evaluator lib m e') (Environment_Value env) True [] of
             Inl rerr \<Rightarrow> (Some [Wrote_Error (ExpressionEvaluationError (error_string rerr))], e')
           | Inr (complete, evs) \<Rightarrow>
               (Some (WriteObjectOK (envelope_json \<lparr>env_Value = GMap evs, env_Unresolvable = None, env_Complete = complete\<rparr>)), e')))"

text \<open>A single variable is written as the bare result, its fields under their Go names. How the cause
  of an unresolved invocation is written depends on the fields of its error and is a parameter.\<close>

definition list_field :: "string \<Rightarrow> ('a \<Rightarrow> json) \<Rightarrow> 'a list \<Rightarrow> string \<times> json" where
  "list_field f g xs = (f, if xs = [] then JNull else JArr (map g xs))"

definition raw_result_json :: "(err \<Rightarrow> json) \<Rightarrow> result \<Rightarrow> json res" where
  "raw_result_json cause_json rv =
     (let name = (\<lambda>n. (''Name'', JStr (utf8_coerce n)));
          u = Unresolvable rv in
      case json_marshal (Value rv) of
        Inl err \<Rightarrow> Inl err
      | Inr v \<Rightarrow>
          Inr (JObj [(''Value'', v),
            (''Unresolvable'', JObj
               [list_field ''Data'' (\<lambda>d. JObj [(''Query'', JStr (utf8_coerce (ud_Query d)))]) (Data u),
                list_field ''Secrets'' (\<lambda>s. JObj [name (us_Name s)]) (Secrets u),
                list_field ''Connections'' (\<lambda>c. JObj [(''Type'', JStr (utf8_coerce (uc_Type c))), name (uc_Name c)]) (Connections u),
                list_field ''Outputs'' (\<lambda>c. JObj [(''From'', JStr (utf8_coerce (uo_From c))), name (uo_Name c)]) (Outputs u),
                list_field ''Parameters'' (\<lambda>p. JObj [name (up_Name p)]) (Parameters u),
                list_field ''Answers'' (\<lambda>a. JObj [(''AskRef'', JStr (utf8_coerce (ua_AskRef a))), name (ua_Name a)]) (Answers u),
                list_field ''Invocations'' (\<lambda>i. JObj [name (ui_Name i), (''Cause'', cause_json (ui_Cause i))]) (Invocations u)])]))"

definition GetEnvironmentVariable :: "golib \<Rightarrow> (err \<Rightarrow> json) \<Rightarrow> string \<Rightarrow> 'e metadata_managers \<Rightarrow> 'e \<Rightarrow> 'e handled" where
  "GetEnvironmentVariable lib cause_json name m e =
     (case m_Environment m e of
        None \<Rightarrow> (None, e)
      | Some (Inl err, e') \<Rightarrow> (Some [Wrote_Error (ModelReadError_of err)], e')
      | Some (Inr env, e') \<Rightarrow>
          (case map_of (Environment_Value env) name of
             None \<Rightarrow> (Some [Wrote_Error ModelNotFoundError], e')
           | Some v \<Rightarrow>
               (case EvaluateAll (env_evaluator lib m e') v of
                  Inl rerr \<Rightarrow> (Some [Wrote_Error (ExpressionEvaluationError (error_string rerr))], e')
                | Inr rv \<Rightarrow> (Some (WriteObjectOK (raw_result_json cause_json rv)), e'))))"

section \<open>Outputs, secrets, state, events\<close>

definition GetOutput :: "string \<Rightarrow> string \<Rightarrow> 'e metadata_managers \<Rightarrow> 'e \<Rightarrow> 'e handled" where
  "GetOutput stepName name m e =
     (case m_OutputGet m stepName name e of
        (Inl err, e') \<Rightarrow> (Some [Wrote_Error (ModelReadError_of err)], e')
      | (Inr out, e') \<Rightarrow>
          (Some (WriteObjectOK
             (case JSONInterface_Marshal (Output_Value out) of
                Inl err \<Rightarrow> Inl err
              | Inr v \<Rightarrow> Inr (JObj [(''task_name'', JStr (utf8_coerce (Step_Name (Output_Step out)))),
                  (''key'', JStr (utf8_coerce (Output_Name out))), (''value'', v)]))), e'))"

text \<open>The body of a request: what decoding it as JSON gives, and its bytes; either may fail.\<close>

record body =
  body_json :: "json res"
  body_bytes :: "string res"

definition put_value :: "string \<Rightarrow> body \<Rightarrow> api_error + gval" where
  "put_value content_type b =
     (if content_type = ''application/json'' then
        (case body_json b of Inl err \<Rightarrow> Inl APIMalformedRequestError | Inr j \<Rightarrow> Inr (json_unmarshal j))
      else if content_type = ''text/plain'' \<or> content_type = ''application/octet-stream'' \<or> content_type = [] then
        (case body_bytes b of Inl err \<Rightarrow> Inl APIMalformedRequestError | Inr s \<Rightarrow> Inr (GStr s))
      else Inl (APIUnknownRequestMediaTypeError content_type))"

definition PutOutput :: "string \<Rightarrow> string \<Rightarrow> body \<Rightarrow> 'e metadata_managers \<Rightarrow> 'e \<Rightarrow> 'e handled" where
  "PutOutput name content_type b m e =
     (case put_value content_type b of
        Inl err \<Rightarrow> (Some [Wrote_Error err], e)
      | Inr v \<Rightarrow>
          (case m_OutputSet m name v e of
             None \<Rightarrow> (None, e)
           | Some (Inl err, e') \<Rightarrow> (Some [Wrote_Error (ModelWriteError_of err)], e')
           | Some (Inr _, e') \<Rightarrow> (Some [Wrote_Status 201], e')))"

definition GetSecret :: "string \<Rightarrow> 'e metadata_managers \<Rightarrow> 'e \<Rightarrow> 'e handled" where
  "GetSecret name m e =
     (case m_Secrets m name e of
        (Inl err, e') \<Rightarrow> (Some [Wrote_Error (ModelReadError_of err)], e')
      | (Inr sec, e') \<Rightarrow>
          (case EncodeJSON (Secret_Value sec) of
             Inl verr \<Rightarrow> (Some [Wrote_Error (ModelReadError verr)], e')
           | Inr (t, d) \<Rightarrow>
               (Some (WriteObjectOK
                  (case json_marshal (GJSONOrStr t d) of
                     Inl err \<Rightarrow> Inl err
                   | Inr v \<Rightarrow> Inr (JObj [(''key'', JStr (utf8_coerce (Secret_Name sec))), (''value'', v)]))), e')))"

definition GetState :: "string \<Rightarrow> 'e metadata_managers \<Rightarrow> 'e \<Rightarrow> 'e handled" where
  "GetState name m e =
     (case m_State m name e of
        (Inl err, e') \<Rightarrow> (Some [Wrote_Error (ModelReadError_of err)], e')
      | (Inr st, e') \<Rightarrow>
          (Some (WriteObjectOK
             (case JSONInterface_Marshal (State_Value st) of
                Inl err \<Rightarrow> Inl err
              | Inr v \<Rightarrow> Inr (JObj [(''key'', JStr (utf8_coerce (State_Name st))), (''value'', v)]))), e'))"

text \<open>The decoded envelope of an event: its data, each member as a \<open>JSONInterface\<close>, and its key.\<close>

definition PostEvent :: "(gval gomap \<times> string) res \<Rightarrow> 'e metadata_managers \<Rightarrow> 'e \<Rightarrow> 'e handled" where
  "PostEvent envelope m e =
     (case envelope of
        Inl err \<Rightarrow> (Some [Wrote_Error APIMalformedRequestError], e)
      | Inr (data, key) \<Rightarrow>
          (case m_Events m data key e of
             (Inl err, e') \<Rightarrow> (Some [Wrote_Error (ModelWriteError_of err)], e')
           | (Inr _, e') \<Rightarrow> (Some [Wrote_Status 202], e')))"

end
