(* ===== verification/Obj_Util.thy ===== *)
theory Obj_Util
  imports Configmap
begin

text \<open>
  Working with Kubernetes objects, \<open>pkg/obj\<close>: metadata, ownership and finalizers (\<open>util.go\<close>,
  \<open>finalizer.go\<close>), and the combinators for loading and persisting (\<open>obj.go\<close>).

  The client of the Kubernetes API acts on a world \<open>'w\<close>; it is a parameter. A nil map and an empty
  one are the same here. What the operations do to the object a pointer refers to is returned.
\<close>

section \<open>Objects\<close>

record object_key =
  key_Namespace :: string
  key_Name :: string

record owner_reference =
  or_APIVersion :: string
  or_Kind :: string
  or_Name :: string
  or_UID :: string
  or_Controller :: "bool option"
  or_BlockOwnerDeletion :: "bool option"

record object_meta =
  om_Namespace :: string
  om_Name :: string
  om_UID :: string
  om_Annotations :: "string gomap"
  om_Labels :: "string gomap"
  om_Finalizers :: "string list"
  om_OwnerReferences :: "owner_reference list"
  om_Deleting :: bool

record 'a object =
  o_Meta :: object_meta
  o_Body :: 'a

record ('a, 'w) object_client =
  oc_Get :: "object_key \<Rightarrow> 'w \<Rightarrow> 'a object res \<times> 'w"
  oc_Create :: "'a object \<Rightarrow> 'w \<Rightarrow> 'a object res \<times> 'w"
  oc_Update :: "'a object \<Rightarrow> 'w \<Rightarrow> 'a object res \<times> 'w"
  oc_Delete :: "'a object \<Rightarrow> 'w \<Rightarrow> unit res \<times> 'w"

definition at_key :: "object_key \<Rightarrow> 'a object \<Rightarrow> 'a object" where
  "at_key key obj = obj\<lparr>o_Meta := (o_Meta obj)\<lparr>om_Namespace := key_Namespace key, om_Name := key_Name key\<rparr>\<rparr>"

definition obj_Exists :: "object_key \<Rightarrow> 'a object \<Rightarrow> bool \<times> 'a object" where
  "obj_Exists key obj = (let obj' = at_key key obj in (length (om_UID (o_Meta obj')) > 0, obj'))"

definition stored_object :: "'a object \<Rightarrow> 'a object res \<times> 'w \<Rightarrow> (unit res \<times> 'a object) \<times> 'w" where
  "stored_object obj r = (case r of (Inl err, w) \<Rightarrow> ((Inl err, obj), w) | (Inr obj', w) \<Rightarrow> ((Inr (), obj'), w))"

definition CreateOrUpdate ::
    "('a, 'w) object_client \<Rightarrow> object_key \<Rightarrow> 'a object \<Rightarrow> 'w \<Rightarrow> (unit res \<times> 'a object) \<times> 'w" where
  "CreateOrUpdate cl key obj w =
     (case obj_Exists key obj of (exists, obj') \<Rightarrow>
        if exists then stored_object obj' (oc_Update cl obj' w) else stored_object obj' (oc_Create cl obj' w))"

definition GetIgnoreNotFound ::
    "('a, 'w) object_client \<Rightarrow> object_key \<Rightarrow> 'a object \<Rightarrow> 'w \<Rightarrow> (bool res \<times> 'a object) \<times> 'w" where
  "GetIgnoreNotFound cl key obj w =
     (case oc_Get cl key w of
        (Inl err, w') \<Rightarrow> if IsNotFound err then ((Inr False, at_key key obj), w') else ((Inl err, obj), w')
      | (Inr obj', w') \<Rightarrow> ((Inr True, obj'), w'))"

definition DeleteIgnoreNotFound :: "('a, 'w) object_client \<Rightarrow> 'a object \<Rightarrow> 'w \<Rightarrow> bool res \<times> 'w" where
  "DeleteIgnoreNotFound cl obj w =
     (case oc_Delete cl obj w of
        (Inl err, w') \<Rightarrow> if IsNotFound err then (Inr False, w') else (Inl err, w')
      | (Inr _, w') \<Rightarrow> (Inr True, w'))"

section \<open>Annotations, labels, finalizers\<close>

definition Annotate :: "string \<Rightarrow> string \<Rightarrow> object_meta \<Rightarrow> bool \<times> object_meta" where
  "Annotate name value target =
     (if map_of (om_Annotations target) name = Some value then (False, target)
      else (True, target\<lparr>om_Annotations := AList.update name value (om_Annotations target)\<rparr>))"

definition obj_Label :: "string \<Rightarrow> string \<Rightarrow> object_meta \<Rightarrow> bool \<times> object_meta" where
  "obj_Label name value target =
     (if map_of (om_Labels target) name = Some value then (False, target)
      else (True, target\<lparr>om_Labels := AList.update name value (om_Labels target)\<rparr>))"

definition CopyLabelsAndAnnotations :: "object_meta \<Rightarrow> object_meta \<Rightarrow> object_meta" where
  "CopyLabelsAndAnnotations src target =
     fold (\<lambda>(name, value) t. snd (obj_Label name value t)) (om_Labels src)
       (fold (\<lambda>(name, value) t. snd (Annotate name value t)) (om_Annotations src) target)"

definition AddFinalizer :: "string \<Rightarrow> object_meta \<Rightarrow> bool \<times> object_meta" where
  "AddFinalizer name target =
     (if List.member (om_Finalizers target) name then (False, target)
      else (True, target\<lparr>om_Finalizers := om_Finalizers target @ [name]\<rparr>))"

text \<open>The first occurrence is overwritten with the last element, which is then cut off.\<close>

fun index_of :: "string \<Rightarrow> string list \<Rightarrow> nat option" where
  "index_of name [] = None"
| "index_of name (f # fs) = (if f = name then Some 0 else map_option Suc (index_of name fs))"

definition RemoveFinalizer :: "string \<Rightarrow> object_meta \<Rightarrow> bool \<times> object_meta" where
  "RemoveFinalizer name target =
     (case index_of name (om_Finalizers target) of
        None \<Rightarrow> (False, target)
      | Some i \<Rightarrow>
          (let fs = om_Finalizers target
           in (True, target\<lparr>om_Finalizers := butlast (fs[i := last fs])\<rparr>)))"

text \<open>\<open>Finalize\<close>, with the finalizer's own work and the persisting of the object as operations on the
  world.\<close>

definition Finalize ::
    "string \<Rightarrow> ('w \<Rightarrow> unit res \<times> 'w) \<Rightarrow> ('a object \<Rightarrow> 'w \<Rightarrow> (unit res \<times> 'a object) \<times> 'w) \<Rightarrow>
     'a object \<Rightarrow> 'w \<Rightarrow> (bool res \<times> 'a object) \<times> 'w" where
  "Finalize name run persist obj w =
     (if om_Deleting (o_Meta obj) then
        (case run w of
           (Inl err, w1) \<Rightarrow> ((Inl err, obj), w1)
         | (Inr _, w1) \<Rightarrow>
             (let obj1 = obj\<lparr>o_Meta := snd (RemoveFinalizer name (o_Meta obj))\<rparr> in
              case persist obj1 w1 of
                ((Inl err, obj2), w2) \<Rightarrow> ((Inl err, obj2), w2)
              | ((Inr _, obj2), w2) \<Rightarrow> ((Inr True, obj2), w2)))
      else
        (case AddFinalizer name (o_Meta obj) of
           (True, m) \<Rightarrow>
             (case persist (obj\<lparr>o_Meta := m\<rparr>) w of
                ((Inl err, obj2), w2) \<Rightarrow> ((Inl err, obj2), w2)
              | ((Inr _, obj2), w2) \<Rightarrow> ((Inr False, obj2), w2))
         | (False, m) \<Rightarrow> ((Inr False, obj\<lparr>o_Meta := m\<rparr>), w)))"

section \<open>Ownership\<close>

record group_version_kind =
  gvk_Group :: string
  gvk_Version :: string
  gvk_Kind :: string

definition GroupVersion_String :: "group_version_kind \<Rightarrow> string" where
  "GroupVersion_String gvk =
     (if length (gvk_Group gvk) > 0 then gvk_Group gvk @ ''/'' @ gvk_Version gvk else gvk_Version gvk)"

definition NewControllerRef :: "object_meta \<Rightarrow> group_version_kind \<Rightarrow> owner_reference" where
  "NewControllerRef owner gvk =
     \<lparr>or_APIVersion = GroupVersion_String gvk, or_Kind = gvk_Kind gvk, or_Name = om_Name owner, or_UID = om_UID owner,
      or_Controller = Some True, or_BlockOwnerDeletion = Some True\<rparr>"

definition ManagedByLabelValue :: string where "ManagedByLabelValue = ''relay.sh''"

fun own_references :: "owner_reference \<Rightarrow> owner_reference list \<Rightarrow> owner_reference list" where
  "own_references ref [] = [ref]"
| "own_references ref (c # cs) =
     (if c = ref then c # cs
      else if or_Controller c = Some True then c\<lparr>or_Controller := Some False\<rparr> # own_references ref cs
      else c # own_references ref cs)"

definition Own :: "group_version_kind \<Rightarrow> object_meta \<Rightarrow> object_meta \<Rightarrow> unit res \<times> object_meta" where
  "Own gvk owner target =
     (if om_Namespace target \<noteq> om_Namespace owner then
        (Inl (OtherError (''obj: owner '' @ om_Namespace owner @ ''/'' @ om_Name owner @ '' is in a different namespace than '' @
           om_Namespace target @ ''/'' @ om_Name target)), target)
      else
        (Inr (), target\<lparr>om_Labels := AList.update ''app.kubernetes.io/managed-by'' ManagedByLabelValue (om_Labels target),
           om_OwnerReferences := own_references (NewControllerRef owner gvk) (om_OwnerReferences target)\<rparr>))"

section \<open>Loading and persisting (\<open>obj.go\<close>)\<close>

text \<open>A loader says whether its object was found; \<open>None\<close> is a nil loader.\<close>

type_synonym 'w loader = "'w \<Rightarrow> bool res \<times> 'w"

type_synonym 'w persister = "'w \<Rightarrow> unit res \<times> 'w"

definition ErrRequired :: err where "ErrRequired = OtherError ''obj: required''"

definition TransientIfRequired :: "err \<Rightarrow> bool" where "TransientIfRequired err \<longleftrightarrow> err = ErrRequired"

definition IgnoreNilPersister_Persist :: "'w persister option \<Rightarrow> 'w persister" where
  "IgnoreNilPersister_Persist p w = (case p of None \<Rightarrow> (Inr (), w) | Some p \<Rightarrow> p w)"

definition IgnoreNilLoader_Load :: "'w loader option \<Rightarrow> 'w loader" where
  "IgnoreNilLoader_Load l w = (case l of None \<Rightarrow> (Inr True, w) | Some l \<Rightarrow> l w)"

definition RequiredLoader_Load :: "'w loader \<Rightarrow> 'w loader" where
  "RequiredLoader_Load l w =
     (case l w of
        (Inl err, w') \<Rightarrow> (Inl err, w')
      | (Inr ok, w') \<Rightarrow> if \<not> ok then (Inl ErrRequired, w') else (Inr True, w'))"

fun load_all :: "bool \<Rightarrow> 'w loader list \<Rightarrow> 'w loader" where
  "load_all all [] w = (Inr all, w)"
| "load_all all (l # ls) w =
     (case l w of
        (Inl err, w') \<Rightarrow> (Inl err, w')
      | (Inr ok, w') \<Rightarrow> load_all (all \<and> ok) ls w')"

definition Loaders_Load :: "'w loader list \<Rightarrow> 'w loader" where
  "Loaders_Load ls = load_all True ls"

fun persist_all :: "'w persister list \<Rightarrow> 'w persister" where
  "persist_all [] w = (Inr (), w)"
| "persist_all (p # ps) w =
     (case p w of
        (Inl err, w') \<Rightarrow> (Inl err, w')
      | (Inr _, w') \<Rightarrow> persist_all ps w')"

section \<open>Names\<close>

definition SuffixObjectKey :: "object_key \<Rightarrow> string \<Rightarrow> object_key" where
  "SuffixObjectKey key sfx = \<lparr>key_Namespace = key_Namespace key, key_Name = key_Name key @ ''-'' @ sfx\<rparr>"

definition ModelStepObjectKey :: "object_key \<Rightarrow> step \<Rightarrow> object_key" where
  "ModelStepObjectKey key ms = \<lparr>key_Namespace = key_Namespace key, key_Name = HexEncoding (Step_Hash ms)\<rparr>"

end
