(* ===== verification/Tokens.thy ===== *)
theory Tokens
  imports Obj_Util Authenticate
begin

text \<open>
  The tokens the controller issues for the steps of a run: \<open>AnnotateStepToken\<close> of
  \<open>pkg/obj/workflowrundeps.go\<close>, the issuer of \<open>pkg/reconciler/workflow\<close>, and the service account token
  they carry (\<open>pkg/obj/secret.go\<close>). Signing (JOSE) and encrypting (Vault) are parameters.
\<close>

section \<open>Annotation names (\<open>pkg/model/model.go\<close>)\<close>

definition RelayDomainIDAnnotation :: string where "RelayDomainIDAnnotation = ''relay.sh/domain-id''"
definition RelayTenantIDAnnotation :: string where "RelayTenantIDAnnotation = ''relay.sh/tenant-id''"
definition RelayVaultEngineMountAnnotation :: string where "RelayVaultEngineMountAnnotation = ''relay.sh/vault-engine-mount''"
definition RelayVaultSecretPathAnnotation :: string where "RelayVaultSecretPathAnnotation = ''relay.sh/vault-secret-path''"
definition RelayVaultConnectionPathAnnotation :: string where
  "RelayVaultConnectionPathAnnotation = ''relay.sh/vault-connection-path''"

section \<open>Dependencies of a run\<close>

text \<open>What \<open>AnnotateStepToken\<close> reads: the run's name and annotations, its namespace, the data of the
  metadata API's service account token, and the keys of the two ConfigMaps.\<close>

record workflow_run_deps =
  wrd_RunName :: string
  wrd_Annotations :: "string gomap"
  wrd_NamespaceName :: string
  wrd_NamespaceUID :: string
  wrd_TokenData :: "string gomap"
  wrd_ImmutableConfigMap :: object_key
  wrd_MutableConfigMap :: object_key

definition ModelStepFromName :: "workflow_run_deps \<Rightarrow> string \<Rightarrow> step" where
  "ModelStepFromName wrd stepName = \<lparr>Step_Run = \<lparr>Run_ID = wrd_RunName wrd\<rparr>, Step_Name = stepName\<rparr>"

definition ErrServiceAccountTokenMissingData :: err where
  "ErrServiceAccountTokenMissingData = OtherError ''obj: service account token secret has no token data''"

definition ServiceAccountTokenSecret_Token :: "string gomap \<Rightarrow> string res" where
  "ServiceAccountTokenSecret_Token data =
     (let tok = lookup_str data ''token'' in if tok = [] then Inl ErrServiceAccountTokenMissingData else Inr tok)"

text \<open>Times are nanoseconds; a numeric date drops the fraction of a second.\<close>

definition NewNumericDate :: "int \<Rightarrow> int option" where
  "NewNumericDate t = Some (t div 10 ^ 9)"

definition step_claims :: "workflow_run_deps \<Rightarrow> int \<Rightarrow> string \<Rightarrow> step \<Rightarrow> claims" where
  "step_claims wrd now sat ms =
     \<lparr>jwt_Claims = Some
        \<lparr>jwt_Issuer = ControllerIssuer,
         jwt_Subject = path_Join [Plural ActionTypeStep, HexEncoding (Step_Hash ms)],
         jwt_Audience = [MetadataAPIAudienceV1],
         jwt_ID = [],
         jwt_Expiry = NewNumericDate (now + (60 * 60 + 5 * 60) * 10 ^ 9),
         jwt_NotBefore = NewNumericDate now,
         jwt_IssuedAt = NewNumericDate now\<rparr>,
      KubernetesNamespaceName = wrd_NamespaceName wrd,
      KubernetesNamespaceUID = wrd_NamespaceUID wrd,
      KubernetesServiceAccountToken = sat,
      RelayDomainID = lookup_str (wrd_Annotations wrd) RelayDomainIDAnnotation,
      RelayTenantID = lookup_str (wrd_Annotations wrd) RelayTenantIDAnnotation,
      RelayRunID = Run_ID (Step_Run ms),
      RelayName = Step_Name ms,
      RelayKubernetesImmutableConfigMapName = key_Name (wrd_ImmutableConfigMap wrd),
      RelayKubernetesMutableConfigMapName = key_Name (wrd_MutableConfigMap wrd),
      RelayVaultEnginePath = lookup_str (wrd_Annotations wrd) RelayVaultEngineMountAnnotation,
      RelayVaultSecretPath = lookup_str (wrd_Annotations wrd) RelayVaultSecretPathAnnotation,
      RelayVaultConnectionPath = lookup_str (wrd_Annotations wrd) RelayVaultConnectionPathAnnotation,
      RelayEventAPIURL = None,
      RelayEventAPIToken = []\<rparr>"

definition AnnotateStepToken ::
    "(claims \<Rightarrow> 'w \<Rightarrow> raw res \<times> 'w) \<Rightarrow> workflow_run_deps \<Rightarrow> int \<Rightarrow> string \<Rightarrow> object_meta \<Rightarrow> 'w \<Rightarrow>
     (unit res \<times> object_meta) \<times> 'w" where
  "AnnotateStepToken issue wrd now stepName target w =
     (if map_of (om_Annotations target) KubernetesTokenAnnotation \<noteq> None then ((Inr (), target), w)
      else
        (case ServiceAccountTokenSecret_Token (wrd_TokenData wrd) of
           Inl err \<Rightarrow> ((Inl err, target), w)
         | Inr sat \<Rightarrow>
             (let c = step_claims wrd now sat (ModelStepFromName wrd stepName) in
              case issue c w of
                (Inl err, w') \<Rightarrow> ((Inl err, target), w')
              | (Inr tok, w') \<Rightarrow>
                  (let t1 = snd (Annotate KubernetesTokenAnnotation tok target);
                       t2 = snd (Annotate KubernetesSubjectAnnotation (jwt_Subject (the (jwt_Claims c))) t1)
                   in ((Inr (), t2), w')))))"

text \<open>The issuer of the reconciler: sign, then encrypt for the namespace of the claims.\<close>

definition controller_issuer :: "(claims \<Rightarrow> 'w \<Rightarrow> raw res \<times> 'w) \<Rightarrow> 'w vault_write \<Rightarrow> string \<Rightarrow> string \<Rightarrow> claims \<Rightarrow> 'w \<Rightarrow> raw res \<times> 'w" where
  "controller_issuer sign wr path key c w =
     (case KeySignerIssuer_Issue sign c w of
        (Inl err, w') \<Rightarrow> (Inl err, w')
      | (Inr raw, w') \<Rightarrow>
          VaultTransitWrapper_Wrap wr path key (VaultTransitNamespaceContext (KubernetesNamespaceUID c)) raw w')"

end
