(* ===== verification/Authenticate_Props.thy ===== *)
theory Authenticate_Props
  imports Authenticate
begin

text \<open>
  What an accepted request has passed: the claims name an action and every validator accepted them,
  those of the configuration and those that intermediaries and resolvers added. Resolvers keep what
  is in the state (locale \<open>extending_resolver\<close>, interpreted on all resolvers of the package).
\<close>

section \<open>Accepted requests\<close>

definition extends :: "'w authentication \<Rightarrow> 'w authentication \<Rightarrow> bool" where
  "extends st st' \<longleftrightarrow> (\<exists>vs is. validators st' = validators st @ vs \<and> injectors st' = injectors st @ is)"

lemma extends_refl [simp, intro]: "extends st st"
  by (simp add: extends_def)

lemma extends_trans [trans]: "extends st st' \<Longrightarrow> extends st' st'' \<Longrightarrow> extends st st''"
  by (force simp: extends_def)

lemma extends_AddInjector [intro]: "extends st (AddInjector i st)"
  by (simp add: extends_def AddInjector_def)

lemma validators_AddValidator [simp]: "validators (AddValidator v st) = validators st @ [v]"
  "injectors (AddValidator v st) = injectors st"
  by (simp_all add: AddValidator_def)

lemma injectors_AddInjector [simp]: "injectors (AddInjector v st) = injectors st @ [v]"
  "validators (AddInjector v st) = validators st"
  by (simp_all add: AddInjector_def)

lemma fold_AddValidator [simp]: "validators (fold AddValidator vs st) = validators st @ vs"
  "injectors (fold AddValidator vs st) = injectors st"
  by (induction vs arbitrary: st) simp_all

lemma fold_AddInjector [simp]: "injectors (fold AddInjector is st) = injectors st @ is"
  "validators (fold AddInjector is st) = validators st"
  by (induction "is" arbitrary: st) simp_all

lemma fold_AddInjector_map: "fold (\<lambda>x. AddInjector (f x)) xs st = fold AddInjector (map f xs) st"
  by (induction xs arbitrary: st) simp_all

lemma extends_fold_AddInjector [intro]: "extends st (fold (\<lambda>x. AddInjector (f x)) xs st)"
  by (subst fold_AddInjector_map) (simp add: extends_def)

lemma extendsD: "extends st st' \<Longrightarrow> set (validators st) \<subseteq> set (validators st')"
  by (auto simp: extends_def)

text \<open>A validator accepted the claims in some state of the world.\<close>

definition accepts :: "'w validator \<Rightarrow> claims \<Rightarrow> bool" where
  "accepts v c \<longleftrightarrow> (\<exists>w w'. v c w = (Some (Inr True), w'))"

lemma run_validators_accepts:
  "run_validators vs c w = (Some (Inr True), w') \<Longrightarrow> v \<in> set vs \<Longrightarrow> accepts v c"
proof (induction vs arbitrary: w)
  case (Cons u vs)
  then show ?case
    by (auto simp: accepts_def split: prod.splits option.splits sum.splits bool.splits)
qed simp

lemma Authenticate_accepted:
  assumes "Authenticate a w = (Some (Inr True), w')"
  obtains raw st w1 c st' w2 act w3 where
    "a_intermediary a \<lparr>validators = a_validators a, injectors = a_injectors a\<rparr> w = (Some (Inr raw, st), w1)"
    "a_resolver a st raw w1 = (Some (Inr c, st'), w2)" "Claims_Action c = Some (Some act)"
    "run_validators (validators st') c w2 = (Some (Inr True), w3)"
    "run_injectors (injectors st') c w3 = (Some None, w')"
  using assms unfolding Authenticate_def
  by (auto split: prod.splits option.splits sum.splits if_splits bool.splits)

lemma Authenticate_accepts:
  assumes "a_intermediary a \<lparr>validators = a_validators a, injectors = a_injectors a\<rparr> w = (Some (Inr raw, st), w1)"
    "a_resolver a st raw w1 = (Some (Inr c, st'), w2)" "Claims_Action c = Some (Some act)"
    "run_validators (validators st') c w2 = (Some (Inr True), w3)"
    "run_injectors (injectors st') c w3 = (Some None, w4)"
  shows "Authenticate a w = (Some (Inr True), w4)"
  using assms by (simp add: Authenticate_def)

section \<open>Resolvers only add to the state\<close>

locale extending_resolver =
  fixes resolve :: "'w resolver"
  assumes resolve_extends: "resolve st raw w = (Some (r, st'), w') \<Longrightarrow> extends st st'"
begin

text \<open>Claims that are accepted in the end passed every validator present when the resolver ran.\<close>

lemma accepted_validated:
  assumes "Authenticate a w = (Some (Inr True), w')" "a_resolver a = resolve"
  obtains raw st w1 c st' w2 w3 where
    "a_intermediary a \<lparr>validators = a_validators a, injectors = a_injectors a\<rparr> w = (Some (Inr raw, st), w1)"
    "resolve st raw w1 = (Some (Inr c, st'), w2)" "extends st st'"
    "\<forall>v \<in> set (validators st). accepts v c" "\<exists>act. Claims_Action c = Some (Some act)"
    "run_injectors (injectors st') c w3 = (Some None, w')"
  using assms
proof (elim Authenticate_accepted)
  fix raw st w1 c st' w2 act w3
  assume "a_resolver a st raw w1 = (Some (Inr c, st'), w2)"
    and "run_validators (validators st') c w2 = (Some (Inr True), w3)"
  moreover from this assms(2) have "extends st st'" by (auto intro: resolve_extends)
  ultimately have "\<forall>v \<in> set (validators st). accepts v c"
    by (auto dest: extendsD intro: run_validators_accepts)
  then show "a_intermediary a \<lparr>validators = a_validators a, injectors = a_injectors a\<rparr> w = (Some (Inr raw, st), w1) \<Longrightarrow>
      a_resolver a st raw w1 = (Some (Inr c, st'), w2) \<Longrightarrow> Claims_Action c = Some (Some act) \<Longrightarrow>
      run_injectors (injectors st') c w3 = (Some None, w') \<Longrightarrow> thesis"
    using that \<open>extends st st'\<close> assms(2) by auto
qed

end

lemma KeyResolver_extends: "KeyResolver_Resolve j key e st raw w = (Some (r, st'), w') \<Longrightarrow> st' = st"
  by (auto simp: KeyResolver_Resolve_def split: sum.splits option.splits)

interpretation key: extending_resolver "KeyResolver_Resolve j key e" for j key e
  by unfold_locales (auto dest: KeyResolver_extends)

lemma VaultResolver_extends:
  "VaultResolver_Resolve j new_client p role vis st raw w = (Some (r, st'), w') \<Longrightarrow> extends st st'"
proof (cases new_client)
  case (Inr wr)
  then show "VaultResolver_Resolve j new_client p role vis st raw w = (Some (r, st'), w') \<Longrightarrow> ?thesis"
    by (cases "wr (path_Join [p, ''login'']) (login_data raw role) w")
      (auto simp: VaultResolver_Resolve_def split: sum.splits option.splits)
qed (simp add: VaultResolver_Resolve_def)

interpretation vault: extending_resolver "VaultResolver_Resolve j new_client p role vis"
  for j new_client p role vis
  by unfold_locales (rule VaultResolver_extends)

lemma any_loop_extends: "any_loop n cs ds st raw w = (Some (r, st'), w') \<Longrightarrow> extends st st'"
proof (induction ds arbitrary: cs w)
  case (Cons d ds)
  then show ?case
    by (auto simp: extends_def split: prod.splits option.splits sum.splits if_splits)
qed simp

lemma AnyResolver_extends:
  assumes "\<forall>d \<in> set ds. extending_resolver d"
  shows "extending_resolver (AnyResolver_Resolve ds)"
proof
  fix st raw w r st' w'
  assume "AnyResolver_Resolve ds st raw w = (Some (r, st'), w')"
  then consider d where "ds = [d]" "d st raw w = (Some (r, st'), w')"
    | "any_loop (length ds) [] ds st raw w = (Some (r, st'), w')"
    unfolding AnyResolver_Resolve_def by (auto split: list.splits simp del: any_loop.simps)
  then show "extends st st'"
  proof cases
    case 1
    with assms show ?thesis by (auto intro: extending_resolver.resolve_extends)
  next
    case 2
    then show ?thesis by (rule any_loop_extends)
  qed
qed

section \<open>Claims and actions\<close>

text \<open>The subject the controller puts on the tokens of an action.\<close>

definition action_subject :: "action \<Rightarrow> string" where
  "action_subject a = path_Join [Plural (Action_Type a), HexEncoding (Action_Hash a)]"

fun named_by :: "claims \<Rightarrow> action \<Rightarrow> bool" where
  "named_by c (Step s) \<longleftrightarrow> RelayRunID c = Run_ID (Step_Run s) \<and> RelayName c = Step_Name s \<and>
     RelayRunID c \<noteq> [] \<and> RelayName c \<noteq> []"
| "named_by c (Trigger t) \<longleftrightarrow> RelayName c = Trigger_Name t \<and> RelayName c \<noteq> []"

lemma Action_Hash_nonempty [simp]: "Action_Hash a \<noteq> []"
  by (metis Action_Hash_path length_sha1_Sum list.size(3) zero_neq_numeral)

lemma action_subject_eq: "action_subject a = Plural (Action_Type a) @ ''/'' @ HexEncoding (Action_Hash a)"
proof -
  have "segment (Plural (Action_Type a))"
    by (cases a) (auto simp: ActionTypeStep_def ActionTypeTrigger_def segment_def)
  then show ?thesis
    by (simp add: action_subject_def path_Join_segments segment_hex HexEncoding_def)
qed

lemma candidate_action_named:
  "candidate_action kind c = Some a \<longleftrightarrow> kind = Plural (Action_Type a) \<and> named_by c a"
  by (cases a) (auto simp: candidate_action_def ActionTypeStep_def ActionTypeTrigger_def)

lemma Claims_Action_iff:
  "Claims_Action c = Some (Some a) \<longleftrightarrow>
     (\<exists>j. jwt_Claims c = Some j \<and> jwt_Subject j = action_subject a \<and> named_by c a)"
proof (cases "jwt_Claims c")
  case (Some j)
  have slash: "CHR ''/'' \<notin> set (Plural (Action_Type a))"
    by (cases a) (auto simp: ActionTypeStep_def ActionTypeTrigger_def)
  have "Claims_Action c = Some (Some a) \<longleftrightarrow>
      split_n2 (CHR ''/'') (jwt_Subject j) = [Plural (Action_Type a), HexEncoding (Action_Hash a)] \<and> named_by c a"
    using Some candidate_action_named [of "Plural (Action_Type a)" c a]
    by (auto simp: Claims_Action_def candidate_action_named [THEN iffD1] split: list.splits option.splits if_splits)
  with Some slash show ?thesis
    by (auto simp: action_subject_eq split_n2_append dest: split_n2_join)
qed (simp add: Claims_Action_def)

text \<open>C26: \<open>Claims.Action\<close> returns an action exactly when the subject of the token is the subject the
  controller gives that action (its plural type name, a slash and the hexadecimal hash) and the
  run and name in the claims are the action's. No other claims name an action, and a run or name
  that does not match the hash is refused.\<close>

theorem claims_action_exact:
  "Claims_Action c = Some (Some a) \<longleftrightarrow>
     (\<exists>j. jwt_Claims c = Some j \<and> jwt_Subject j = action_subject a \<and> named_by c a)"
  by (rule Claims_Action_iff)

section \<open>Trying several resolvers\<close>

text \<open>The delegates are asked in order, each with a state of its own, and all decline: what they gave
  as reasons, and the world after them.\<close>

fun all_decline :: "'w resolver list \<Rightarrow> raw \<Rightarrow> 'w \<Rightarrow> (auth_error list \<times> 'w) option" where
  "all_decline [] raw w = Some ([], w)"
| "all_decline (d # ds) raw w =
     (case d NewAuthentication raw w of
        (Some (Inl err, ts), w1) \<Rightarrow>
          (if is_NotFoundError err
           then (case all_decline ds raw w1 of None \<Rightarrow> None | Some (cs, w2) \<Rightarrow> Some (err # cs, w2))
           else None)
      | _ \<Rightarrow> None)"

lemma any_loop_declined:
  "all_decline pre raw w = Some (cs', w1) \<Longrightarrow>
   any_loop n cs (pre @ rest) st raw w = any_loop n (cs @ cs') rest st raw w1"
proof (induction pre arbitrary: cs cs' w)
  case (Cons d pre)
  then show ?case
    by (auto split: prod.splits option.splits sum.splits if_splits)
qed simp

text \<open>Of several resolvers the first one that does not decline decides. Whatever the declining ones
  before it added to their state is dropped: on success the validators and injectors of the
  deciding resolver follow those already present, on an error the state is unchanged. If all
  decline, the answer is one refusal that lists their reasons in order.\<close>

theorem any_resolver_first_decides:
  assumes "length ds \<noteq> 1" "ds = pre @ rest" "all_decline pre raw w = Some (cs, w1)"
    and "\<forall>d ds'. rest = d # ds' \<longrightarrow> all_decline [d] raw w1 = None"
  shows "AnyResolver_Resolve ds st raw w =
    (case rest of
       [] \<Rightarrow> (Some (Inl (NotFoundError (''none of the '' @ itoa (length ds) @ '' available resolvers authenticated this token'') cs), st), w1)
     | d # _ \<Rightarrow>
         (case d NewAuthentication raw w1 of
            (None, w2) \<Rightarrow> (None, w2)
          | (Some (Inl err, _), w2) \<Rightarrow> (Some (Inl err, st), w2)
          | (Some (Inr c, ts), w2) \<Rightarrow>
              (Some (Inr c, \<lparr>validators = validators st @ validators ts, injectors = injectors st @ injectors ts\<rparr>), w2)))"
proof -
  have "AnyResolver_Resolve ds st raw w = any_loop (length ds) [] ds st raw w"
    using assms(1) unfolding AnyResolver_Resolve_def by (auto split: list.split simp del: any_loop.simps)
  also have "\<dots> = any_loop (length ds) cs rest st raw w1"
    using any_loop_declined [OF assms(3)] assms(2) by simp
  also have "\<dots> = (case rest of
       [] \<Rightarrow> (Some (Inl (NotFoundError (''none of the '' @ itoa (length ds) @ '' available resolvers authenticated this token'') cs), st), w1)
     | d # _ \<Rightarrow>
         (case d NewAuthentication raw w1 of
            (None, w2) \<Rightarrow> (None, w2)
          | (Some (Inl err, _), w2) \<Rightarrow> (Some (Inl err, st), w2)
          | (Some (Inr c, ts), w2) \<Rightarrow>
              (Some (Inr c, \<lparr>validators = validators st @ validators ts, injectors = injectors st @ injectors ts\<rparr>), w2)))"
    using assms(4)
    by (cases rest) (auto split: prod.splits option.splits sum.splits if_splits intro!: authentication.equality)
  finally show ?thesis .
qed

theorem any_resolver_first_decides_witness:
  "AnyResolver_Resolve [\<lambda>st raw w. (Some (Inl (NotFoundError ''a'' []), AddValidator (validate_namespace ''x'') st), w),
       \<lambda>st raw w. (Some (Inl (OtherAuthError ErrRejected), st), w)] NewAuthentication ''tok'' () =
     (Some (Inl (OtherAuthError ErrRejected), NewAuthentication), ())"
proof -
  let ?d = "(\<lambda>st raw w. (Some (Inl (NotFoundError ''a'' []), AddValidator (validate_namespace ''x'') st), w)) :: unit resolver"
  let ?e = "(\<lambda>st raw w. (Some (Inl (OtherAuthError ErrRejected), st), w)) :: unit resolver"
  have d: "all_decline [?d] ''tok'' () = Some ([NotFoundError ''a'' []], ())" by (simp add: is_NotFoundError_def)
  have e: "\<forall>d ds'. [?e] = d # ds' \<longrightarrow> all_decline [d] ''tok'' () = None" by (auto simp: is_NotFoundError_def)
  show ?thesis by (rule trans [OF any_resolver_first_decides [OF _ _ d e]]) simp_all
qed

section \<open>Wrapping a token with Vault\<close>

text \<open>What the transit engine promises: a ciphertext it returned decrypts to the plaintext it was made
  from, under the same key and context, in every later state (\<open>later\<close>).\<close>

definition transit_engine :: "('w \<Rightarrow> 'w \<Rightarrow> bool) \<Rightarrow> 'w vault_write \<Rightarrow> string \<Rightarrow> string \<Rightarrow> bool" where
  "transit_engine later wr path key \<longleftrightarrow>
     (\<forall>context plaintext w s w1 ct w2.
        wr (vaultTransitEncryptPath path key) (transit_data ''plaintext'' plaintext context) w = (Inr (Some s), w1) \<longrightarrow>
        get_string (vs_Data s) ''ciphertext'' = Some ct \<longrightarrow> later w1 w2 \<longrightarrow>
        (\<exists>s' w3. wr (vaultTransitDecryptPath path key) (transit_data ''ciphertext'' ct context) w2 = (Inr (Some s'), w3) \<and>
           get_string (vs_Data s') ''plaintext'' = Some plaintext \<and> later w2 w3))"

lemma transit_roundtrip:
  assumes "transit_engine later wr path key" "VaultTransitWrapper_Wrap wr path key context raw w = (Inr ct, w1)" "later w1 w2"
  shows "\<exists>w3 p d. VaultTransitIntermediary_Next wr path key context ct st w2 = (Some (Inr raw, st), w3) \<and> later w2 w3 \<and> w3 = snd (wr p d w2)"
proof -
  from assms(2) obtain s where
    "wr (vaultTransitEncryptPath path key) (transit_data ''plaintext'' (b64_encode raw) context) w = (Inr (Some s), w1)"
    "get_string (vs_Data s) ''ciphertext'' = Some ct"
    by (auto simp: VaultTransitWrapper_Wrap_def split: prod.splits sum.splits option.splits)
  with assms(1,3) obtain s' w3 where
    dec: "wr (vaultTransitDecryptPath path key) (transit_data ''ciphertext'' ct context) w2 = (Inr (Some s'), w3)"
    "get_string (vs_Data s') ''plaintext'' = Some (b64_encode raw)" "later w2 w3"
    unfolding transit_engine_def by blast
  then have "w3 = snd (wr (vaultTransitDecryptPath path key) (transit_data ''ciphertext'' ct context) w2)" by simp
  moreover from dec have "VaultTransitIntermediary_Next wr path key context ct st w2 = (Some (Inr raw, st), w3)"
    by (simp add: VaultTransitIntermediary_Next_def)
  ultimately show ?thesis using dec(3) by blast
qed

end
