(* ===== verification/Remote_Props.thy ===== *)
theory Remote_Props
  imports Remote_Managers Authenticate_Props
begin

text \<open>Properties of the managers backed by Vault and by the Relay API.\<close>

section \<open>Which path of the engine is read\<close>

definition clean_path :: "string \<Rightarrow> string list \<Rightarrow> bool" where
  "clean_path p ss \<longleftrightarrow> p = join ''/'' ss \<and> ss \<noteq> [] \<and> (\<forall>s \<in> set ss. segment s)"

lemma clean_path_Join:
  "clean_path p ss \<Longrightarrow> clean_path q ts \<Longrightarrow> clean_path (path_Join [p, q]) (ss @ ts)"
  using path_Join_joined [of "[ss, ts]"] by (auto simp: clean_path_def)

lemma clean_path_segments: "ns \<noteq> [] \<Longrightarrow> \<forall>n \<in> set ns. segment n \<Longrightarrow> clean_path (path_Join ns) ns"
  by (simp add: clean_path_def path_Join_segments)

lemma dataPath_clean:
  assumes "clean_path (kv_enginePath c) es" "clean_path (kv_path c) bs"
  shows "dataPath c = join ''/'' (es @ ''data'' # bs)"
  using path_Join_joined [of "[es, [''data''], bs]"] assms
  by (auto simp: dataPath_def clean_path_def segment_def)

lemma join_segments_inj:
  "ss \<noteq> [] \<Longrightarrow> ts \<noteq> [] \<Longrightarrow> \<forall>s \<in> set ss. segment s \<Longrightarrow> \<forall>t \<in> set ts. segment t \<Longrightarrow>
   join ''/'' ss = join ''/'' ts \<longleftrightarrow> ss = ts"
  using path_Join_inj [of ss ts] by (auto simp: path_Join_segments)

lemma dataPath_granted:
  assumes "clean_path engine es" "clean_path base bs" "ns \<noteq> []" "\<forall>n \<in> set ns. segment n"
  shows "dataPath (KVV2Client_In (KVV2Client_In (NewKVV2Client rd ls engine) [base]) ns) =
    join ''/'' (es @ ''data'' # bs @ ns)"
proof (rule dataPath_clean)
  have "path_Join [[], path_Join [base]] = base"
  proof -
    have "path_Join [base] = base" using path_Join_joined [of "[bs]"] assms(2) by (auto simp: clean_path_def)
    then show ?thesis by (simp add: path_Join_def)
  qed
  with assms show "clean_path (kv_path (KVV2Client_In (KVV2Client_In (NewKVV2Client rd ls engine) [base]) ns)) (bs @ ns)"
    by (simp add: KVV2Client_In_def NewKVV2Client_def clean_path_Join clean_path_segments)
qed (use assms in \<open>simp add: KVV2Client_In_def NewKVV2Client_def\<close>)

text \<open>C34: The client that the claims give an action reads, for a secret (or a connection) whose name
  consists of single path segments, the entry of exactly that name below the path the claims
  grant, in the data part of the engine the claims name: among names of the same number of segments, names
  and granted paths correspond one to one to the paths read, so one name never reads what another name or grant denotes.\<close>

theorem vault_path_confined:
  assumes "clean_path engine es" "clean_path base bs" "ns \<noteq> []" "\<forall>n \<in> set ns. segment n"
    and "\<exists>bs'. clean_path base' bs'" "ns' \<noteq> []" "\<forall>n \<in> set ns'. segment n" "length ns = length ns'"
  shows "dataPath (KVV2Client_In (KVV2Client_In (NewKVV2Client rd ls engine) [base]) ns) =
      join ''/'' (es @ ''data'' # bs @ ns) \<and>
    (dataPath (KVV2Client_In (KVV2Client_In (NewKVV2Client rd ls engine) [base]) ns) =
      dataPath (KVV2Client_In (KVV2Client_In (NewKVV2Client rd ls engine) [base']) ns') \<longleftrightarrow> base = base' \<and> ns = ns')"
proof -
  from assms(5) obtain bs' where base': "clean_path base' bs'" ..
  have "segment ''data''" by (simp add: segment_def)
  with assms base' have "\<forall>s \<in> set (es @ ''data'' # bs @ ns). segment s" "\<forall>s \<in> set (es @ ''data'' # bs' @ ns'). segment s"
    unfolding clean_path_def by auto
  then have "join ''/'' (es @ ''data'' # bs @ ns) = join ''/'' (es @ ''data'' # bs' @ ns') \<longleftrightarrow> bs @ ns = bs' @ ns'"
    using join_segments_inj [of "es @ ''data'' # bs @ ns" "es @ ''data'' # bs' @ ns'"] by simp
  moreover have "base = base' \<longleftrightarrow> bs = bs'"
    using assms(2) base' join_segments_inj [of bs bs'] unfolding clean_path_def by blast
  ultimately show ?thesis
    unfolding dataPath_granted [OF assms(1-4)] dataPath_granted [OF assms(1) base' assms(6,7)]
    using assms(8) by auto
qed

theorem vault_path_confined_witness:
  "dataPath (KVV2Client_In (KVV2Client_In (NewKVV2Client (\<lambda>p w. (Inr None, w)) (\<lambda>p w. (Inr None, w :: unit)) ''customers'')
       [''workflows/7'']) [''token'']) = ''customers/data/workflows/7/token''"
proof -
  have "clean_path ''customers'' [''customers'']" "clean_path ''workflows/7'' [''workflows'', ''7'']"
    "clean_path ''workflows/8'' [''workflows'', ''8'']" "\<forall>n \<in> set [''token'']. segment n"
    by (simp_all add: clean_path_def segment_def)
  then show ?thesis
    using vault_path_confined [of "''customers''" "[''customers'']" "''workflows/7''" "[''workflows'', ''7'']"
        "[''token'']" "''workflows/8''" "[''token'']" "\<lambda>p w. (Inr None, w)" "\<lambda>p w. (Inr None, w)"] by auto
qed

text \<open>A name with parent references leaves the granted path; nothing in the client prevents it.\<close>

lemma vault_path_escapes:
  "dataPath (KVV2Client_In (KVV2Client_In (NewKVV2Client rd ls ''customers'') [''workflows/7'']) [''../8/token'']) =
   ''customers/data/workflows/8/token''"
proof -
  have "path_Join [''customers'', ''data'', path_Join [path_Join [[], path_Join [''workflows/7'']], path_Join [''../8/token'']]] =
      ''customers/data/workflows/8/token''" by code_simp
  then show ?thesis by (simp add: dataPath_def KVV2Client_In_def NewKVV2Client_def)
qed

section \<open>Connections\<close>

text \<open>A Vault whose contents do not change while a connection is read.\<close>

definition quiescent :: "'w kvv2_client \<Rightarrow> 'w \<Rightarrow> bool" where
  "quiescent c w \<longleftrightarrow> (\<forall>p. snd (kv_Read c p w) = w \<and> snd (kv_List c p w) = w)"

lemma ReadString_quiescent: "quiescent c w \<Longrightarrow> snd (KVV2Client_ReadString (KVV2Client_In c ss) w) = w"
proof -
  assume q: "quiescent c w"
  let ?c = "KVV2Client_In c ss"
  have "kv_Read ?c = kv_Read c" by (simp add: KVV2Client_In_def)
  with q have read: "snd (kv_Read ?c (dataPath ?c) w) = w" by (simp add: quiescent_def)
  then have "snd (KVV2Client_Read ?c w) = w"
    by (auto simp: KVV2Client_Read_def split: prod.splits sum.splits option.splits gval.splits)
  then show ?thesis
    by (auto simp: KVV2Client_ReadString_def split: prod.splits sum.splits option.splits gval.splits)
qed

lemma List_quiescent: "quiescent c w \<Longrightarrow> snd (KVV2Client_List (KVV2Client_In c ss) w) = w"
proof -
  assume q: "quiescent c w"
  let ?c = "KVV2Client_In c ss"
  have "kv_List ?c = kv_List c" by (simp add: KVV2Client_In_def)
  with q have "snd (kv_List ?c (metadataPath ?c) w) = w" by (simp add: quiescent_def)
  then show ?thesis
    by (auto simp: KVV2Client_List_def split: prod.splits sum.splits option.splits gval.splits)
qed

lemma read_attributes_lookup:
  assumes "quiescent c w" "read_attributes c i keys attrs w = (Inr attrs', w')"
  shows "map_of attrs' k =
    (if k \<in> set keys
     then (case fst (KVV2Client_ReadString (KVV2Client_In c [i, k]) w) of
             Inr v \<Rightarrow> Some (GStr v) | Inl _ \<Rightarrow> map_of attrs k)
     else map_of attrs k)"
  using assms(2)
proof (induction keys arbitrary: attrs)
  case (Cons key keys)
  obtain r where r: "KVV2Client_ReadString (KVV2Client_In c [i, key]) w = (r, w)"
    using ReadString_quiescent [OF assms(1)] by (metis prod.collapse)
  show ?case
  proof (cases r)
    case (Inl err)
    with Cons r show ?thesis by (auto split: if_splits sum.splits)
  next
    case (Inr val)
    with Cons.prems r have "read_attributes c i keys (AList.update key (GStr val) attrs) w = (Inr attrs', w')" by simp
    from Cons.IH [OF this] r Inr show ?thesis
      by (auto split: sum.splits)
  qed
qed simp

text \<open>A connection read from Vault has exactly the attributes stored below the identifier that its
  type and name point to: an attribute is present if and only if its key is listed there and its
  value can still be read, and it has the decoded value; a key deleted between the listing and the
  reading is left out.\<close>

theorem vault_connection_attributes:
  assumes "quiescent c w" "vault_Connection_Get c typ name w = (Inr conn, w')"
  shows "\<exists>i keys. fst (KVV2Client_ReadString (KVV2Client_In c [typ, name]) w) = Inr i \<and>
    fst (KVV2Client_List (KVV2Client_In c [i]) w) = Inr keys \<and>
    (\<forall>k v. map_of (Attributes conn) k = Some v \<longleftrightarrow>
       k \<in> set keys \<and> (\<exists>s. v = GStr s \<and> fst (KVV2Client_ReadString (KVV2Client_In c [i, k]) w) = Inr s))"
proof -
  obtain r where r: "KVV2Client_ReadString (KVV2Client_In c [typ, name]) w = (r, w)"
    using ReadString_quiescent [OF assms(1)] by (metis prod.collapse)
  with assms(2) obtain i where i: "r = Inr i" by (cases r) (auto simp: vault_Connection_Get_def)
  obtain l where l: "KVV2Client_List (KVV2Client_In c [i]) w = (l, w)"
    using List_quiescent [OF assms(1)] by (metis prod.collapse)
  with assms(2) r i obtain keys where keys: "l = Inr keys" by (cases l) (auto simp: vault_Connection_Get_def)
  with assms(2) r i l obtain attrs where "read_attributes c i keys [] w = (Inr attrs, w')" "Attributes conn = attrs"
    by (auto simp: vault_Connection_Get_def split: prod.splits sum.splits)
  with r i l keys show ?thesis
    using read_attributes_lookup [OF assms(1)] by (auto split: sum.splits if_splits)
qed

text \<open>A store for the examples: an entry per path, and the keys below a path.\<close>

definition stored :: "string gomap \<Rightarrow> string list gomap \<Rightarrow> unit kvv2_client" where
  "stored m d = NewKVV2Client
     (\<lambda>p w. (Inr (map_option (\<lambda>v. \<lparr>vs_Data = [(''data'', GMap [(''value'', GStr v)])], vs_ClientToken = None\<rparr>) (map_of m p)), w))
     (\<lambda>p w. (Inr (map_option (\<lambda>ks. \<lparr>vs_Data = [(''keys'', GList (map GStr ks))], vs_ClientToken = None\<rparr>) (map_of d p)), w))
     ''e''"

theorem vault_connection_attributes_witness:
  "\<exists>conn. vault_Connection_Get (stored [(''e/data/t/n'', ''7''), (''e/data/7/a'', ''x'')] [(''e/metadata/7'', [''a'', ''b''])])
      ''t'' ''n'' () = (Inr conn, ()) \<and> map_of (Attributes conn) ''a'' = Some (GStr ''x'') \<and> map_of (Attributes conn) ''b'' = None"
proof -
  let ?c = "stored [(''e/data/t/n'', ''7''), (''e/data/7/a'', ''x'')] [(''e/metadata/7'', [''a'', ''b''])]"
  let ?conn = "\<lparr>Connection_Type = ''t'', Connection_Name = ''n'', Attributes = [(''a'', GStr ''x'')]\<rparr>"
  have get: "vault_Connection_Get ?c ''t'' ''n'' () = (Inr ?conn, ())" by code_simp
  have "quiescent ?c ()" by (simp add: quiescent_def)
  from vault_connection_attributes [OF this get] get show ?thesis by auto
qed

section \<open>Events\<close>

text \<open>Only triggers emit events: for a step the event manager rejects the event and sends nothing.
  For a trigger that can be encoded, exactly one request goes to the configured URL with the
  configured token, and the event is returned if and only if the response is a success.\<close>

theorem event_emitted_by_trigger:
  "api_Event_Emit post (Step s) url token data key w = (Inl ErrRejected, w) \<and>
   (\<forall>env. post_event_envelope t data key = Inr env \<longrightarrow>
      snd (api_Event_Emit post (Trigger t) url token data key w) = snd (post url token env w) \<and>
      (fst (api_Event_Emit post (Trigger t) url token data key w) = Inr \<lparr>Event_Data = data, Event_Key = key\<rparr> \<longleftrightarrow>
         (\<exists>code cause. fst (post url token env w) = Inr (code, cause) \<and> 200 \<le> code \<and> code < 300)))"
  by (auto simp: api_Event_Emit_def split: prod.split sum.split)

theorem event_emitted_by_trigger_witness:
  "fst (api_Event_Emit (\<lambda>u t e w. (Inr (202, None), w)) (Trigger \<lparr>Trigger_Name = ''t''\<rparr>) ''http://api'' ''tok''
     [(''a'', GBool True)] ''k'' ()) = Inr \<lparr>Event_Data = [(''a'', GBool True)], Event_Key = ''k''\<rparr>"
proof -
  have "post_event_envelope \<lparr>Trigger_Name = ''t''\<rparr> [(''a'', GBool True)] ''k'' =
    Inr (JObj [(''source'', JObj [(''type'', JStr ''trigger''), (''trigger'', JObj [(''name'', JStr ''t'')])]),
      (''data'', JObj [(''a'', JBool True)]), (''key'', JStr ''k'')])" by code_simp
  with event_emitted_by_trigger [of "\<lambda>u t e w. (Inr (202, None), w)" _ "''http://api''" "''tok''" "[(''a'', GBool True)]" "''k''" "()"
      "\<lparr>Trigger_Name = ''t''\<rparr>"]
  show ?thesis by auto
qed

end
