(* ===== verification/Metadata_Auth_Props.thy ===== *)
theory Metadata_Auth_Props
  imports Metadata_Auth Authenticate_Props Remote_Props Configmap_Props
begin

text \<open>
  What a credential of the metadata API stands for: which pod made the request, which action it is
  bound to, and which managers it gives access to. Resolvers of the authenticator leave the
  session's managers alone and add nothing but the Vault injector (locale \<open>session_resolver\<close>).
\<close>

section \<open>Proxies\<close>

lemma follow_hops_spec:
  "follow_hops hops addr =
     (case takeWhile (\<lambda>h. net_ParseIP (TrimSpace h) \<noteq> None) hops of
        [] \<Rightarrow> addr
      | valid \<Rightarrow> IP_String (the (net_ParseIP (TrimSpace (last valid)))))"
  by (induction hops arbitrary: addr) (auto split: option.splits list.splits)

text \<open>C35: With \<open>n\<close> trusted proxies the client's address is the one that the outermost of them reported:
  of the last \<open>n\<close> forwarded hops (all of them if there are fewer), read from the nearest one
  outwards up to the first that is not an address, the last. Hops further out, which a client can
  forge, are never used; without a usable hop the peer's own address stays.\<close>

theorem trusted_proxy_address:
  "RemoteAddr (WithTrustedProxyHops n r) =
     (case takeWhile (\<lambda>h. net_ParseIP (TrimSpace h) \<noteq> None)
             (rev (drop (length (forwarded_hops (XForwardedFor r)) - n) (forwarded_hops (XForwardedFor r)))) of
        [] \<Rightarrow> RemoteAddr r
      | valid \<Rightarrow> IP_String (the (net_ParseIP (TrimSpace (last valid)))))"
  by (simp add: WithTrustedProxyHops_def follow_hops_spec take_rev)

section \<open>Sessions\<close>

lemma on_env_eq: "on_env f s = (fst (f (s_env s)), s\<lparr>s_env := snd (f (s_env s))\<rparr>)"
  by (simp add: on_env_def split: prod.split)

text \<open>Everything up to the injectors only touches the environment.\<close>

definition same_managers :: "'e session \<Rightarrow> 'e session \<Rightarrow> bool" where
  "same_managers s s' \<longleftrightarrow> s_mgrs s' = s_mgrs s \<and> s_tags s' = s_tags s"

lemma same_managers_refl [simp]: "same_managers s s"
  and same_managers_env [simp]: "same_managers s (s\<lparr>s_env := e\<rparr>)"
  by (simp_all add: same_managers_def)

lemma same_managers_trans [trans]: "same_managers s s' \<Longrightarrow> same_managers s' s'' \<Longrightarrow> same_managers s s''"
  by (simp add: same_managers_def)

lemma session_vault_same: "session_vault wr path data s = (r, s') \<Longrightarrow> same_managers s s'"
  by (auto simp: session_vault_def on_env_eq)

definition vault_injectors :: "'e session injector set" where
  "vault_injectors = {i. \<exists>va token. i = (\<lambda>c. vault_managers_injector va c token)}"

lemma vault_injectorsI [simp]: "(\<lambda>c. vault_managers_injector va c token) \<in> vault_injectors"
  unfolding vault_injectors_def by blast

locale session_resolver =
  fixes resolve :: "'e session resolver"
  assumes keeps: "resolve st raw s = (Some (r, st'), s') \<Longrightarrow> same_managers s s'"
    and adds: "resolve st raw s = (Some (Inr c, st'), s') \<Longrightarrow>
      validators st' = validators st \<and> (\<exists>is. injectors st' = injectors st @ is \<and> set is \<subseteq> vault_injectors)"

lemma NewKeyResolver_result: "NewKeyResolver j key opts st raw s = (Some (r, st'), s') \<Longrightarrow> st' = st \<and> s' = s"
  by (auto simp: NewKeyResolver_def KeyResolver_Resolve_def split: sum.splits option.splits)

interpretation session_key: session_resolver "NewKeyResolver j key opts" for j key opts
  by unfold_locales (auto dest: NewKeyResolver_result)

lemma ka_VaultResolver_session: "session_resolver
  (VaultResolver_Resolve j (map_sum id (session_vault \<circ> va_Write) nc) path role
     (case nc of Inl _ \<Rightarrow> [] | Inr va \<Rightarrow> [vault_managers_injector va]))"
proof (cases nc)
  case (Inl err)
  then show ?thesis by unfold_locales (auto simp: VaultResolver_Resolve_def)
next
  case (Inr va)
  have "same_managers s s' \<and> (\<forall>c. r = Inr c \<longrightarrow> validators st' = validators st \<and>
      (\<exists>i \<in> vault_injectors. injectors st' = injectors st @ [i]))"
    if "VaultResolver_Resolve j (Inr (session_vault (va_Write va))) path role [vault_managers_injector va] st raw s =
      (Some (r, st'), s')" for st raw s r st' s'
  proof -
    obtain x s1 where x: "session_vault (va_Write va) (path_Join [path, ''login'']) (login_data raw role) s = (x, s1)"
      by fastforce
    with that show ?thesis
      using session_vault_same [OF x]
      by (auto simp: VaultResolver_Resolve_def split: sum.splits option.splits)
  qed
  with Inr show ?thesis by unfold_locales fastforce+
qed

interpretation session_login: session_resolver
  "VaultResolver_Resolve j (map_sum id (session_vault \<circ> va_Write) nc) path role
     (case nc of Inl _ \<Rightarrow> [] | Inr va \<Rightarrow> [vault_managers_injector va])" for j nc path role
  by (rule ka_VaultResolver_session)

lemma any_loop_session:
  assumes "\<forall>d \<in> set ds. session_resolver d" "any_loop n cs ds st raw s = (Some (r, st'), s')"
  shows "same_managers s s' \<and> (\<forall>c. r = Inr c \<longrightarrow> validators st' = validators st \<and>
    (\<exists>is. injectors st' = injectors st @ is \<and> set is \<subseteq> vault_injectors))"
  using assms
proof (induction ds arbitrary: cs s)
  case (Cons d ds)
  obtain x s1 where x: "d NewAuthentication raw s = (x, s1)" by fastforce
  with Cons.prems(2) obtain q ts where q: "x = Some (q, ts)" by (cases x) auto
  from Cons.prems(1) have d: "session_resolver d" by simp
  from session_resolver.keeps [OF d] x q have same: "same_managers s s1" by blast
  show ?case
  proof (cases q)
    case (Inl err)
    show ?thesis
    proof (cases "is_NotFoundError err")
      case True
      with Cons.prems x q Inl have "any_loop n (cs @ [err]) ds st raw s1 = (Some (r, st'), s')" by simp
      with Cons.IH Cons.prems(1) have "same_managers s1 s' \<and> (\<forall>c. r = Inr c \<longrightarrow> validators st' = validators st \<and>
          (\<exists>is. injectors st' = injectors st @ is \<and> set is \<subseteq> vault_injectors))" by simp
      with same show ?thesis using same_managers_trans by blast
    next
      case False
      with Cons.prems x q Inl same show ?thesis by auto
    qed
  next
    case (Inr c)
    from session_resolver.adds [OF d] x q Inr
    have "validators ts = validators NewAuthentication \<and>
        (\<exists>is. injectors ts = injectors NewAuthentication @ is \<and> set is \<subseteq> vault_injectors)" by blast
    with Cons.prems x q Inr same show ?thesis by (auto simp: NewAuthentication_def)
  qed
qed simp

lemma AnyResolver_session:
  assumes "\<forall>d \<in> set ds. session_resolver d"
  shows "session_resolver (AnyResolver_Resolve ds)"
proof -
  have "AnyResolver_Resolve ds = (if length ds = 1 then hd ds else any_loop (length ds) [] ds)"
    by (rule ext)+ (auto simp: AnyResolver_Resolve_def simp del: any_loop.simps split: list.split)
  moreover have "session_resolver (any_loop (length ds) [] ds)"
    by unfold_locales (use any_loop_session [OF assms] in blast)+
  moreover have "length ds = 1 \<Longrightarrow> session_resolver (hd ds)" using assms by (cases ds) auto
  ultimately show ?thesis by simp
qed

lemma ka_resolver_session: "session_resolver (ka_resolver lib ka)"
  unfolding ka_resolver_def
  by (rule AnyResolver_session) (auto simp: Let_def session_key.session_resolver_axioms ka_VaultResolver_session)

interpretation api_resolver: session_resolver "ka_resolver lib ka" for lib ka
  by (rule ka_resolver_session)

section \<open>The intermediary\<close>

lemma session_kubernetes_sel [simp]:
  "k_running_pods (session_kubernetes client) ip s =
     (fst (k_running_pods client ip (s_env s)), s\<lparr>s_env := snd (k_running_pods client ip (s_env s))\<rparr>)"
  "k_namespace (session_kubernetes client) n s =
     (fst (k_namespace client n (s_env s)), s\<lparr>s_env := snd (k_namespace client n (s_env s))\<rparr>)"
  "k_condition (session_kubernetes client) ns n s =
     (fst (k_condition client ns n (s_env s)), s\<lparr>s_env := snd (k_condition client ns n (s_env s))\<rparr>)"
  by (simp_all add: session_kubernetes_def on_env_eq)

lemma pod_credentials_session:
  "pod_credentials (session_kubernetes client) pod ns s =
     (fst (pod_credentials client pod ns (s_env s)), s\<lparr>s_env := snd (pod_credentials client pod ns (s_env s))\<rparr>)"
  by (auto simp: pod_credentials_def Let_def split: prod.splits sum.splits)

text \<open>The pod behind an address: the only running one, its namespace, subject and token annotations.\<close>

definition identified ::
    "'e kubernetes_interface \<Rightarrow> ip option \<Rightarrow> 'e \<Rightarrow> pod \<Rightarrow> namespace \<Rightarrow> string \<Rightarrow> raw \<Rightarrow> 'e \<Rightarrow> bool" where
  "identified client addr e pod ns subject tok e' \<longleftrightarrow>
     (\<exists>ip e1 e2. addr = Some ip \<and> \<not> IsUnspecified ip \<and> k_running_pods client (IP_String ip) e = (Inr [pod], e1) \<and>
        k_namespace client (pod_Namespace pod) e1 = (Inr ns, e2) \<and>
        pod_credentials client pod ns e2 = (Inr (subject, tok), e'))"

lemma KubernetesIntermediary_next_identified:
  "KubernetesIntermediary_next (session_kubernetes client) addr st s = ((Inr (tok, uid), st'), s') \<longleftrightarrow>
     (\<exists>pod ns subject. identified client addr (s_env s) pod ns subject tok (s_env s') \<and> uid = ns_UID ns \<and>
        st' = AddValidator (validate_subject subject) (AddValidator (validate_namespace (ns_UID ns)) st) \<and> same_managers s s')"
proof
  assume nxt: "KubernetesIntermediary_next (session_kubernetes client) addr st s = ((Inr (tok, uid), st'), s')"
  then obtain ip where ip: "addr = Some ip" "\<not> IsUnspecified ip"
    by (cases addr) (auto simp: KubernetesIntermediary_next_def split: if_splits)
  obtain x e1 where x: "k_running_pods client (IP_String ip) (s_env s) = (x, e1)" by fastforce
  from nxt ip x obtain pod where pod: "x = Inr [pod]"
    by (auto simp: KubernetesIntermediary_next_def Let_def split: sum.splits list.splits)
  obtain y e2 where y: "k_namespace client (pod_Namespace pod) e1 = (y, e2)" by fastforce
  from nxt ip x pod y obtain ns where ns: "y = Inr ns"
    by (auto simp: KubernetesIntermediary_next_def Let_def split: sum.splits)
  obtain z e3 where z: "pod_credentials client pod ns e2 = (z, e3)" by fastforce
  from nxt ip x pod y ns z obtain subject where "z = Inr (subject, tok)" "uid = ns_UID ns" "s' = s\<lparr>s_env := e3\<rparr>"
    "st' = AddValidator (validate_subject subject) (AddValidator (validate_namespace (ns_UID ns)) st)"
    by (auto simp: KubernetesIntermediary_next_def pod_credentials_session Let_def split: sum.splits)
  with ip x pod y ns z show "\<exists>pod ns subject. identified client addr (s_env s) pod ns subject tok (s_env s') \<and> uid = ns_UID ns \<and>
        st' = AddValidator (validate_subject subject) (AddValidator (validate_namespace (ns_UID ns)) st) \<and> same_managers s s'"
    by (auto simp: identified_def)
next
  show "\<exists>pod ns subject. identified client addr (s_env s) pod ns subject tok (s_env s') \<and> uid = ns_UID ns \<and>
        st' = AddValidator (validate_subject subject) (AddValidator (validate_namespace (ns_UID ns)) st) \<and> same_managers s s' \<Longrightarrow>
     KubernetesIntermediary_next (session_kubernetes client) addr st s = ((Inr (tok, uid), st'), s')"
    by (auto simp: identified_def KubernetesIntermediary_next_def pod_credentials_session Let_def same_managers_def)
qed

text \<open>With the Kubernetes intermediary every token comes from a pod, and the two validators follow.\<close>

lemma ka_intermediary_pod:
  assumes "ka_kubernetesClient ka = Some client" "ka_intermediary ka r st s = (Some (Inr raw, st'), s')"
  shows "\<exists>pod ns subject tok e'. identified client (net_ParseIP (request_host r)) (s_env s) pod ns subject tok e' \<and>
    st' = AddValidator (validate_subject subject) (AddValidator (validate_namespace (ns_UID ns)) st) \<and> same_managers s s'"
proof (cases "ka_vaultClient ka")
  case None
  with assms show ?thesis
    unfolding ka_intermediary_def KubernetesIntermediary_Next_def
    by (auto simp: KubernetesIntermediary_next_identified split: prod.splits sum.splits) blast
next
  case (Some wr)
  with assms obtain tok uid st1 s1 where
    "KubernetesIntermediary_next (session_kubernetes client) (net_ParseIP (request_host r)) st s = ((Inr (tok, uid), st1), s1)"
    and unwrap: "VaultTransitIntermediary_Next (session_vault wr) (ka_vaultTransitPath ka) (ka_vaultTransitKey ka)
      (VaultTransitNamespaceContext uid) tok st1 s1 = (Some (Inr raw, st'), s')"
    unfolding ka_intermediary_def KubernetesIntermediary_Chain_def by (auto split: prod.splits sum.splits)
  moreover from unwrap have "st' = st1 \<and> same_managers s1 s'"
    unfolding VaultTransitIntermediary_Next_def
    by (auto dest: session_vault_same split: prod.splits sum.splits option.splits)
  ultimately show ?thesis
    using same_managers_trans unfolding KubernetesIntermediary_next_identified by blast
qed

section \<open>Credentials\<close>

text \<open>The managers that are bound to an action of some claims: everything that is kept in the two
  ConfigMaps the claims name is the action's own, a trigger has neither parameters nor outputs, and
  events go where the claims say.\<close>

definition bound_to ::
    "'e http_post \<Rightarrow> (string \<Rightarrow> string \<Rightarrow> 'e configmap_client) \<Rightarrow> claims \<Rightarrow> action \<Rightarrow> 'e metadata_managers \<Rightarrow> bool" where
  "bound_to post client c a m \<longleftrightarrow>
     (let at = (\<lambda>name. ClientConfigMap (client (KubernetesNamespaceName c) name) (KubernetesNamespaceName c) name);
          imm = at (RelayKubernetesImmutableConfigMapName c);
          mut = at (RelayKubernetesMutableConfigMapName c) in
      m_Conditions m = Condition_Get imm a \<and> m_Environment m = Environment_Get imm a \<and>
      m_Spec m = Spec_Get imm a \<and> m_State m = State_Get mut a \<and>
      (case a of
         Step s \<Rightarrow> m_Parameters m = Parameter_Get imm \<and> m_OutputGet m = StepOutput_Get mut s \<and> m_OutputSet m = StepOutput_Set mut s
       | Trigger t \<Rightarrow> m_Parameters m = reject_parameter_Get \<and> m_OutputGet m = reject_stepOutput_Get \<and>
           m_OutputSet m = (\<lambda>name value. Some \<circ> reject_stepOutput_Set name value)) \<and>
      m_Events m = (case RelayEventAPIURL c of None \<Rightarrow> reject_event_Emit
        | Some url \<Rightarrow> api_Event_Emit post a url (RelayEventAPIToken c)))"

lemma add_manager_sel [simp]: "s_mgrs (add_manager call s) = builder_step call (s_mgrs s)" "s_tags (add_manager call s) = s_tags s"
  by (simp_all add: add_manager_def)

lemma ka_injector_bound:
  assumes "ka_injector lib ka c s = (Some None, s')" "s_mgrs s = NewMetadataBuilder" "Claims_Action c = Some (Some a)"
  shows "\<exists>client. ka_factory ka (KubernetesServiceAccountToken c) = Inr client \<and>
    bound_to (lib_http lib) client c a (s_mgrs s') \<and> s_tags s' = s_tags s @ claim_tags c a"
proof -
  from assms obtain client where client: "ka_factory ka (KubernetesServiceAccountToken c) = Inr client"
    by (auto simp: ka_injector_def split: sum.splits)
  with assms have "s' = (fold add_manager (manager_calls (lib_http lib) client c a) s)\<lparr>s_tags := s_tags s @ claim_tags c a\<rparr>"
    by (simp add: ka_injector_def)
  then have "bound_to (lib_http lib) client c a (s_mgrs s') \<and> s_tags s' = s_tags s @ claim_tags c a"
    using assms(2)
    by (cases a; cases "RelayEventAPIURL c")
      (simp_all add: manager_calls_def bound_to_def Let_def NewMetadataBuilder_def)
  with client show ?thesis by blast
qed

text \<open>The Vault injectors that run after it touch connections and secrets only.\<close>

lemma bound_to_vault [simp]:
  "bound_to post client c a (m\<lparr>m_Connections := x\<rparr>) = bound_to post client c a m"
  "bound_to post client c a (m\<lparr>m_Secrets := y\<rparr>) = bound_to post client c a m"
  by (cases a; simp add: bound_to_def Let_def)+

lemma vault_injector_bound:
  assumes "i \<in> vault_injectors" "i c s = (q, s')" "bound_to post client c' a (s_mgrs s)"
  shows "bound_to post client c' a (s_mgrs s') \<and> s_tags s' = s_tags s"
  using assms
  by (auto simp: vault_injectors_def vault_managers_injector_def Let_def split: if_splits)

lemma run_vault_injectors_bound:
  assumes "set is \<subseteq> vault_injectors" "run_injectors is c s = (q, s')" "bound_to post client c' a (s_mgrs s)"
  shows "bound_to post client c' a (s_mgrs s') \<and> s_tags s' = s_tags s"
  using assms
proof (induction "is" arbitrary: s)
  case (Cons i "is")
  obtain x s1 where x: "i c s = (x, s1)" by fastforce
  with Cons.prems have 1: "bound_to post client c' a (s_mgrs s1) \<and> s_tags s1 = s_tags s"
    using vault_injector_bound by (metis insert_subset list.simps(15))
  show ?case
  proof (cases "x = Some None")
    case True
    with Cons x 1 show ?thesis by simp
  next
    case False
    with Cons.prems x have "s' = s1" by (auto split: option.splits)
    with 1 show ?thesis by simp
  qed
qed simp

lemma bound_to_Build [simp]: "Build m = m"
  by (simp add: Build_def)

lemma run_pod_validators:
  assumes "run_validators [validate_namespace uid, validate_subject subject] c s = (Some (Inr True), s')"
  shows "s' = s \<and> KubernetesNamespaceUID c = uid \<and> uid \<noteq> [] \<and> (\<exists>j. jwt_Claims c = Some j \<and> jwt_Subject j = subject)"
  using assms by (auto simp: validate_namespace_def validate_subject_def split: if_splits option.splits bool.splits)

lemma HTTP_intermediary_result:
  "HTTPAuthorizationHeaderIntermediary_Next h st s = (Some (Inr raw, st'), s') \<Longrightarrow> st' = st \<and> s' = s"
  unfolding HTTPAuthorizationHeaderIntermediary_Next_def by (auto split: option.splits if_splits prod.splits)

text \<open>The states an accepted request goes through.\<close>

lemma credential_run:
  assumes "KubernetesAuthenticator_Authenticate lib ka r e = (Some (Inr (Some cred)), e')"
  obtains raw st s1 c st' s2 a s3 s4 where
    "ka_intermediary ka r \<lparr>validators = [], injectors = [ka_injector lib ka]\<rparr>
       \<lparr>s_env = e, s_mgrs = NewMetadataBuilder, s_tags = []\<rparr> = (Some (Inr raw, st), s1)"
    "ka_resolver lib ka st raw s1 = (Some (Inr c, st'), s2)" "Claims_Action c = Some (Some a)"
    "run_validators (validators st') c s2 = (Some (Inr True), s3)" "run_injectors (injectors st') c s3 = (Some None, s4)"
    "cred = \<lparr>Cred_Managers = s_mgrs s4, Cred_Tags = s_tags s4\<rparr>"
proof -
  let ?auth = "NewAuthenticator (ka_intermediary ka r) (ka_resolver lib ka) [AuthenticatorWithInjector (ka_injector lib ka)]"
  let ?s = "\<lparr>s_env = e, s_mgrs = NewMetadataBuilder, s_tags = []\<rparr>"
  from assms obtain s4 where acc: "Authenticate ?auth ?s = (Some (Inr True), s4)"
    and cred: "cred = \<lparr>Cred_Managers = s_mgrs s4, Cred_Tags = s_tags s4\<rparr>"
    unfolding KubernetesAuthenticator_Authenticate_def Let_def
    by (auto split: prod.splits option.splits sum.splits bool.splits)
  from acc show ?thesis
    by (rule Authenticate_accepted) (simp add: NewAuthenticator_def AuthenticatorWithInjector_def that cred)
qed

text \<open>The managers of a credential, whatever the way the token came in.\<close>

lemma credential_bound:
  assumes "injectors st = [ka_injector lib ka]" "same_managers \<lparr>s_env = e, s_mgrs = NewMetadataBuilder, s_tags = []\<rparr> s1"
    "ka_resolver lib ka st raw s1 = (Some (Inr c, st'), s2)" "Claims_Action c = Some (Some a)"
    "same_managers s2 s3" "run_injectors (injectors st') c s3 = (Some None, s4)"
  shows "\<exists>client. ka_factory ka (KubernetesServiceAccountToken c) = Inr client \<and>
    bound_to (lib_http lib) client c a (s_mgrs s4) \<and> s_tags s4 = claim_tags c a"
proof -
  from api_resolver.adds [OF assms(3)] assms(1) obtain "is" where
    inj: "injectors st' = ka_injector lib ka # is" "set is \<subseteq> vault_injectors" by auto
  have "same_managers \<lparr>s_env = e, s_mgrs = NewMetadataBuilder, s_tags = []\<rparr> s3"
    using assms(2) api_resolver.keeps [OF assms(3)] assms(5) same_managers_trans by blast
  then have s3: "s_mgrs s3 = NewMetadataBuilder" "s_tags s3 = []" by (simp_all add: same_managers_def)
  from assms(6) inj obtain s' where s': "ka_injector lib ka c s3 = (Some None, s')" "run_injectors is c s' = (Some None, s4)"
    by (auto split: prod.splits option.splits)
  from ka_injector_bound [OF s'(1) s3(1) assms(4)] s3(2) obtain client where
    "ka_factory ka (KubernetesServiceAccountToken c) = Inr client" "bound_to (lib_http lib) client c a (s_mgrs s')"
    "s_tags s' = claim_tags c a" by auto
  with run_vault_injectors_bound [OF inj(2) s'(2)] show ?thesis by auto
qed

lemma pod_bound:
  assumes "KubernetesAuthenticator_Authenticate lib ka r e = (Some (Inr (Some cred)), e')"
    and "ka_kubernetesClient ka = Some client"
  shows "\<exists>pod ns tok e1 c a cms.
    identified client (net_ParseIP (request_host r)) e pod ns (action_subject a) tok e1 \<and>
    (\<exists>st raw s st' s'. ka_resolver lib ka st raw s = (Some (Inr c, st'), s')) \<and>
    Claims_Action c = Some (Some a) \<and> KubernetesNamespaceUID c = ns_UID ns \<and>
    ka_factory ka (KubernetesServiceAccountToken c) = Inr cms \<and>
    bound_to (lib_http lib) cms c a (Cred_Managers cred) \<and> Cred_Tags cred = claim_tags c a"
  using assms(1)
proof (rule credential_run)
  fix raw st s1 c st' s2 a s3 s4
  let ?st = "\<lparr>validators = [], injectors = [ka_injector lib ka]\<rparr>"
  let ?s = "\<lparr>s_env = e, s_mgrs = NewMetadataBuilder, s_tags = []\<rparr>"
  assume i: "ka_intermediary ka r ?st ?s = (Some (Inr raw, st), s1)"
    and res: "ka_resolver lib ka st raw s1 = (Some (Inr c, st'), s2)" and act: "Claims_Action c = Some (Some a)"
    and val: "run_validators (validators st') c s2 = (Some (Inr True), s3)"
    and inj: "run_injectors (injectors st') c s3 = (Some None, s4)"
    and cred: "cred = \<lparr>Cred_Managers = s_mgrs s4, Cred_Tags = s_tags s4\<rparr>"
  from ka_intermediary_pod [OF assms(2) i] obtain pod ns subject tok e1 where
    id: "identified client (net_ParseIP (request_host r)) e pod ns subject tok e1" and
    st: "st = AddValidator (validate_subject subject) (AddValidator (validate_namespace (ns_UID ns)) ?st)" and
    same: "same_managers ?s s1" by auto
  from api_resolver.adds [OF res] st have "validators st' = [validate_namespace (ns_UID ns), validate_subject subject]" by simp
  with val have v: "s3 = s2" "KubernetesNamespaceUID c = ns_UID ns" "\<exists>j. jwt_Claims c = Some j \<and> jwt_Subject j = subject"
    using run_pod_validators by metis+
  from act v(3) have "subject = action_subject a" by (auto simp: Claims_Action_iff)
  moreover from st have "injectors st = [ka_injector lib ka]" by simp
  from credential_bound [OF this same res act _ inj] v(1) obtain cms where
    "ka_factory ka (KubernetesServiceAccountToken c) = Inr cms" "bound_to (lib_http lib) cms c a (s_mgrs s4)"
    "s_tags s4 = claim_tags c a" by auto
  ultimately show ?thesis using id res act v(2) cred by fastforce
qed

text \<open>C3: When the metadata API takes its tokens from pods, every credential it hands out is tied to the
  pod that made the request: exactly one running pod has the client's address, its namespace still
  exists, the resolver accepted the claims of the token, the claims name the very namespace of the
  pod by its UID, and the subject annotated on the pod (or on its Tekton condition) is the subject
  of the action in the claims. The managers and tags of the credential are those of that action
  and of the ConfigMaps the claims name, and a trigger gets neither parameters nor outputs.\<close>

theorem pod_credential_bound:
  assumes "KubernetesAuthenticator_Authenticate lib ka r e = (Some (Inr (Some cred)), e')"
    and "ka_kubernetesClient ka = Some client"
  shows "\<exists>pod ns tok e1 c a cms.
    identified client (net_ParseIP (request_host r)) e pod ns (action_subject a) tok e1 \<and>
    (\<exists>st raw s st' s'. ka_resolver lib ka st raw s = (Some (Inr c, st'), s')) \<and>
    Claims_Action c = Some (Some a) \<and> KubernetesNamespaceUID c = ns_UID ns \<and>
    ka_factory ka (KubernetesServiceAccountToken c) = Inr cms \<and>
    bound_to (lib_http lib) cms c a (Cred_Managers cred) \<and> Cred_Tags cred = claim_tags c a"
  by (rule pod_bound [OF assms])

end
