(* ===== verification/Token_Props.thy ===== *)
theory Token_Props
  imports Tokens Metadata_Auth_Props
begin

text \<open>
  The way of a token from the controller to the metadata API: issued for a step, annotated on a
  pod, looked up by the caller's address, decrypted, checked and turned into a credential.
\<close>

section \<open>Accepting the token of a pod\<close>

lemma session_transit:
  assumes "VaultTransitIntermediary_Next wr path key context ct NewAuthentication (s_env s) = (Some (Inr raw, NewAuthentication), e)"
  shows "VaultTransitIntermediary_Next (session_vault wr) path key context ct st s = (Some (Inr raw, st), s\<lparr>s_env := e\<rparr>)"
  using assms
  by (auto simp: VaultTransitIntermediary_Next_def session_vault_def on_env_def split: prod.splits sum.splits option.splits)

lemma session_login_accepts:
  assumes "lib_vault lib (ka_vaultJWTAuthAddr ka) = Inr va" "ka_vaultJWTAuthAddr ka \<noteq> []" "ka_keys ka = []"
    "va_Write va (path_Join [ka_vaultJWTAuthPath ka, ''login'']) (login_data raw (ka_vaultJWTAuthRole ka)) (s_env s) = (Inr (Some sec), e)"
    "vs_ClientToken sec = Some vt" "ParseSigned (lib_jose lib) raw = Inr t" "UnsafeClaims (lib_jose lib) t = Inr c"
  shows "ka_resolver lib ka st raw s = (Some (Inr c, AddInjector (\<lambda>c. vault_managers_injector va c vt) st), s\<lparr>s_env := e\<rparr>)"
  using assms
  by (simp add: ka_resolver_def AnyResolver_Resolve_def VaultResolver_Resolve_def session_vault_def on_env_def)

lemma run_injectors_ok:
  assumes "ka_factory ka (KubernetesServiceAccountToken c) = Inr cms" "Claims_Action c = Some (Some a)"
  obtains s' where "run_injectors [ka_injector lib ka, \<lambda>c. vault_managers_injector va c vt] c s = (Some None, s')" "s_env s' = s_env s"
proof -
  have env: "s_env (fold add_manager calls s0) = s_env s0" for calls and s0 :: "'a session"
    by (induction calls arbitrary: s0) (simp_all add: add_manager_def)
  obtain s1 where s1: "ka_injector lib ka c s = (Some None, s1)" "s_env s1 = s_env s"
    using assms env by (simp add: ka_injector_def)
  have "fst (vault_managers_injector va c vt s1) = Some None \<and> s_env (snd (vault_managers_injector va c vt s1)) = s_env s1"
    by (simp add: vault_managers_injector_def Let_def add_manager_def)
  then obtain s2 where "vault_managers_injector va c vt s1 = (Some None, s2)" "s_env s2 = s_env s1"
    by (metis prod.collapse)
  with s1 show ?thesis by (intro that [of s2]) simp_all
qed

lemma pod_token_reached:
  assumes ka: "ka_kubernetesClient ka = Some client" "ka_vaultClient ka = Some wr"
    and id: "identified client (net_ParseIP (request_host r)) e pod ns subject tok e1"
    and unwraps: "VaultTransitIntermediary_Next wr (ka_vaultTransitPath ka) (ka_vaultTransitKey ka)
      (VaultTransitNamespaceContext (ns_UID ns)) tok NewAuthentication e1 = (Some (Inr raw, NewAuthentication), e2)"
  shows "ka_intermediary ka r st (s\<lparr>s_env := e\<rparr>) =
    (Some (Inr raw, AddValidator (validate_subject subject) (AddValidator (validate_namespace (ns_UID ns)) st)), s\<lparr>s_env := e2\<rparr>)"
proof -
  have "KubernetesIntermediary_next (session_kubernetes client) (net_ParseIP (request_host r)) st (s\<lparr>s_env := e\<rparr>) =
      ((Inr (tok, ns_UID ns), AddValidator (validate_subject subject) (AddValidator (validate_namespace (ns_UID ns)) st)), s\<lparr>s_env := e1\<rparr>)"
    using id unfolding KubernetesIntermediary_next_identified by (auto simp: same_managers_def)
  then show ?thesis
    using session_transit [of wr _ _ _ tok "s\<lparr>s_env := e1\<rparr>", OF _] unwraps ka
    by (simp add: ka_intermediary_def KubernetesIntermediary_Chain_def)
qed

lemma accepts_pod_token:
  assumes ka: "ka_kubernetesClient ka = Some client" "ka_vaultClient ka = Some wr"
    and id: "identified client (net_ParseIP (request_host r)) e pod ns (action_subject a) tok e1"
    and unwraps: "VaultTransitIntermediary_Next wr (ka_vaultTransitPath ka) (ka_vaultTransitKey ka)
      (VaultTransitNamespaceContext (ns_UID ns)) tok NewAuthentication e1 = (Some (Inr raw, NewAuthentication), e2)"
    and login: "lib_vault lib (ka_vaultJWTAuthAddr ka) = Inr va" "ka_vaultJWTAuthAddr ka \<noteq> []" "ka_keys ka = []"
      "va_Write va (path_Join [ka_vaultJWTAuthPath ka, ''login'']) (login_data raw (ka_vaultJWTAuthRole ka)) e2 = (Inr (Some sec), e3)"
      "vs_ClientToken sec = Some vt" "ParseSigned (lib_jose lib) raw = Inr t" "UnsafeClaims (lib_jose lib) t = Inr c"
    and c: "Claims_Action c = Some (Some a)" "KubernetesNamespaceUID c = ns_UID ns" "ns_UID ns \<noteq> []"
      "ka_factory ka (KubernetesServiceAccountToken c) = Inr cms"
  shows "\<exists>cred. KubernetesAuthenticator_Authenticate lib ka r e = (Some (Inr (Some cred)), e3) \<and>
    bound_to (lib_http lib) cms c a (Cred_Managers cred) \<and> Cred_Tags cred = claim_tags c a"
proof -
  let ?auth = "NewAuthenticator (ka_intermediary ka r) (ka_resolver lib ka) [AuthenticatorWithInjector (ka_injector lib ka)]"
  let ?s = "\<lparr>s_env = e, s_mgrs = NewMetadataBuilder, s_tags = []\<rparr>"
  let ?st = "\<lparr>validators = [], injectors = [ka_injector lib ka]\<rparr>"
  let ?st1 = "AddValidator (validate_subject (action_subject a)) (AddValidator (validate_namespace (ns_UID ns)) ?st)"
  let ?st2 = "AddInjector (\<lambda>c. vault_managers_injector va c vt) ?st1"
  have i: "ka_intermediary ka r ?st ?s = (Some (Inr raw, ?st1), ?s\<lparr>s_env := e2\<rparr>)"
    using pod_token_reached [OF ka id unwraps, of ?st ?s] by simp
  have res: "ka_resolver lib ka ?st1 raw (?s\<lparr>s_env := e2\<rparr>) = (Some (Inr c, ?st2), ?s\<lparr>s_env := e3\<rparr>)"
    using session_login_accepts [where s = "?s\<lparr>s_env := e2\<rparr>"] login by simp
  from c(1) obtain j where j: "jwt_Claims c = Some j" "jwt_Subject j = action_subject a" by (auto simp: Claims_Action_iff)
  have "action_subject a \<noteq> []" by (simp add: action_subject_eq)
  with j c have val: "run_validators (validators ?st2) c (?s\<lparr>s_env := e3\<rparr>) = (Some (Inr True), ?s\<lparr>s_env := e3\<rparr>)"
    by (simp add: validate_namespace_def validate_subject_def)
  obtain s4 where inj: "run_injectors (injectors ?st2) c (?s\<lparr>s_env := e3\<rparr>) = (Some None, s4)" "s_env s4 = e3"
    using run_injectors_ok [OF c(4,1)] by (metis append_Cons append_Nil authentication.select_convs(2)
        injectors_AddInjector(1) session.select_convs(1) session.update_convs(1) validators_AddValidator(2))
  from i have "Authenticate ?auth ?s = (Some (Inr True), s4)"
    by (intro Authenticate_accepts [OF _ _ c(1) val inj(1)])
      (use res in \<open>simp_all add: NewAuthenticator_def AuthenticatorWithInjector_def\<close>)
  then have "KubernetesAuthenticator_Authenticate lib ka r e =
      (Some (Inr (Some \<lparr>Cred_Managers = s_mgrs s4, Cred_Tags = s_tags s4\<rparr>)), e3)"
    using inj(2) by (simp add: KubernetesAuthenticator_Authenticate_def)
  moreover have "bound_to (lib_http lib) cms c a (s_mgrs s4) \<and> s_tags s4 = claim_tags c a"
    using credential_bound [OF _ _ res c(1) _ inj(1), of e] c(4) by (auto simp: same_managers_def)
  ultimately show ?thesis by auto
qed

text \<open>A token that Vault refuses is an error of the authentication.\<close>

lemma refuses_pod_token:
  assumes ka: "ka_kubernetesClient ka = Some client" "ka_vaultClient ka = Some wr"
    and id: "identified client (net_ParseIP (request_host r)) e pod ns subject tok e1"
    and unwraps: "VaultTransitIntermediary_Next wr (ka_vaultTransitPath ka) (ka_vaultTransitKey ka)
      (VaultTransitNamespaceContext (ns_UID ns)) tok NewAuthentication e1 = (Some (Inr raw, NewAuthentication), e2)"
    and login: "lib_vault lib (ka_vaultJWTAuthAddr ka) = Inr va" "ka_vaultJWTAuthAddr ka \<noteq> []" "ka_keys ka = []"
      "va_Write va (path_Join [ka_vaultJWTAuthPath ka, ''login'']) (login_data raw (ka_vaultJWTAuthRole ka)) e2 = (Inl err, e3)"
  shows "KubernetesAuthenticator_Authenticate lib ka r e = (Some (Inl (OtherAuthError err)), e3)"
proof -
  let ?st = "\<lparr>validators = [], injectors = [ka_injector lib ka]\<rparr>" and ?s = "\<lparr>s_env = e, s_mgrs = NewMetadataBuilder, s_tags = []\<rparr>"
  have i: "ka_intermediary ka r ?st ?s =
      (Some (Inr raw, AddValidator (validate_subject subject) (AddValidator (validate_namespace (ns_UID ns)) ?st)), ?s\<lparr>s_env := e2\<rparr>)"
    using pod_token_reached [OF ka id unwraps, of ?st ?s] by simp
  have "ka_resolver lib ka st raw (?s\<lparr>s_env := e2\<rparr>) = (Some (Inl (OtherAuthError err), st), ?s\<lparr>s_env := e3\<rparr>)" for st
    using login by (simp add: ka_resolver_def AnyResolver_Resolve_def VaultResolver_Resolve_def session_vault_def on_env_def)
  with i show ?thesis
    by (simp add: KubernetesAuthenticator_Authenticate_def Authenticate_def NewAuthenticator_def AuthenticatorWithInjector_def
        Authenticate.is_NotFoundError_def)
qed

section \<open>Issuing\<close>

lemma Annotate_map: "map_of (om_Annotations (snd (Annotate n v m))) = (map_of (om_Annotations m))(n \<mapsto> v)"
  by (auto simp: Annotate_def)

lemma step_claims_subject: "jwt_Subject (the (jwt_Claims (step_claims wrd now sat ms))) = action_subject (Step ms)"
  by (simp add: step_claims_def action_subject_def)

lemma step_claims_action:
  assumes "wrd_RunName wrd \<noteq> []" "n \<noteq> []"
  shows "Claims_Action (step_claims wrd now sat (ModelStepFromName wrd n)) = Some (Some (Step (ModelStepFromName wrd n)))"
  using assms by (simp add: Claims_Action_iff step_claims_def action_subject_def ModelStepFromName_def)

lemma AnnotateStepToken_issued:
  assumes "AnnotateStepToken issue wrd now n target w = ((Inr (), target'), w')"
    and "map_of (om_Annotations target) KubernetesTokenAnnotation = None"
  obtains sat tok where "ServiceAccountTokenSecret_Token (wrd_TokenData wrd) = Inr sat"
    "issue (step_claims wrd now sat (ModelStepFromName wrd n)) w = (Inr tok, w')"
    "lookup_str (om_Annotations target') KubernetesTokenAnnotation = tok"
    "lookup_str (om_Annotations target') KubernetesSubjectAnnotation = action_subject (Step (ModelStepFromName wrd n))"
proof -
  from assms obtain sat where sat: "ServiceAccountTokenSecret_Token (wrd_TokenData wrd) = Inr sat"
    by (auto simp: AnnotateStepToken_def split: sum.splits)
  obtain x w1 where x: "issue (step_claims wrd now sat (ModelStepFromName wrd n)) w = (x, w1)" by fastforce
  with assms sat obtain tok where "x = Inr tok" "w1 = w'" and
    "target' = snd (Annotate KubernetesSubjectAnnotation (action_subject (Step (ModelStepFromName wrd n)))
       (snd (Annotate KubernetesTokenAnnotation tok target)))"
    by (cases x) (auto simp: AnnotateStepToken_def Let_def step_claims_subject)
  with sat x show ?thesis
    by (intro that [of sat tok])
      (simp_all add: lookup_str_def Annotate_map KubernetesTokenAnnotation_def KubernetesSubjectAnnotation_def)
qed

text \<open>A target that has a token already keeps it, and nothing is issued for it again.\<close>

lemma AnnotateStepToken_once:
  "map_of (om_Annotations target) KubernetesTokenAnnotation \<noteq> None \<Longrightarrow>
   AnnotateStepToken issue wrd now n target w = ((Inr (), target), w)"
  by (simp add: AnnotateStepToken_def)

text \<open>What is assumed of the services. The JOSE library reads from a token it signed the claims that
  were signed. Vault's JWT authentication method checks the claims of a signed token as its documentation and its plugin
  (\<open>path_login.go\<close> of \<open>vault-plugin-auth-jwt\<close>) say: an issuer bound in its configuration is the token's, one of the audiences
  bound to the role is the token's, and the time is between not-before and expiry, with a leeway of one minute for the clock.
  A date of 0 is a missing date; a missing expiry is 150 seconds after the token starts. The pod of the step carries the
  annotations that were put on its target.\<close>

definition signs :: "('k, 't) jose \<Rightarrow> (claims \<Rightarrow> 'e \<Rightarrow> raw res \<times> 'e) \<Rightarrow> claims \<Rightarrow> bool" where
  "signs j sign c \<longleftrightarrow> (\<forall>e raw e'. sign c e = (Inr raw, e') \<longrightarrow> (\<exists>t. ParseSigned j raw = Inr t \<and> UnsafeClaims j t = Inr c))"

record jwt_role =
  jr_BoundIssuer :: string
  jr_BoundAudiences :: "string list"

definition claim_date :: "int option \<Rightarrow> int" where
  "claim_date d = (case d of None \<Rightarrow> 0 | Some t \<Rightarrow> t)"

definition token_valid :: "jwt_role \<Rightarrow> int \<Rightarrow> claims \<Rightarrow> bool" where
  "token_valid jr time c \<longleftrightarrow>
     (case jwt_Claims c of
        None \<Rightarrow> False
      | Some j \<Rightarrow>
          let iat = claim_date (jwt_IssuedAt j); nbf = claim_date (jwt_NotBefore j); exp = claim_date (jwt_Expiry j);
              expiry = (if exp = 0 then max iat nbf + 150 else exp);
              start = (if nbf = 0 then (if iat \<noteq> 0 then iat else expiry - 150) else nbf)
          in \<not> (iat = 0 \<and> exp = 0 \<and> nbf = 0) \<and>
             (jr_BoundIssuer jr = [] \<or> jr_BoundIssuer jr = jwt_Issuer j) \<and>
             (if jr_BoundAudiences jr = [] then jwt_Audience j = [] else list_ex (\<lambda>a. a \<in> set (jwt_Audience j)) (jr_BoundAudiences jr)) \<and>
             start * 10 ^ 9 \<le> time + 60 * 10 ^ 9 \<and> time - 60 * 10 ^ 9 \<le> expiry * 10 ^ 9 \<and> iat * 10 ^ 9 \<le> time + 60 * 10 ^ 9)"

definition logs_in :: "('e \<Rightarrow> 'e \<Rightarrow> bool) \<Rightarrow> ('e \<Rightarrow> int) \<Rightarrow> jwt_role \<Rightarrow> (claims \<Rightarrow> 'e \<Rightarrow> raw res \<times> 'e) \<Rightarrow> claims \<Rightarrow> 'e vault_write \<Rightarrow>
    string \<Rightarrow> string \<Rightarrow> bool" where
  "logs_in later clock jr sign c wr path role \<longleftrightarrow>
     (\<forall>e raw e1 e2. sign c e = (Inr raw, e1) \<longrightarrow> later e1 e2 \<longrightarrow>
        (if token_valid jr (clock e2) c
         then \<exists>sec vt e3. wr (path_Join [path, ''login'']) (login_data raw role) e2 = (Inr (Some sec), e3) \<and> vs_ClientToken sec = Some vt
         else \<exists>err e3. wr (path_Join [path, ''login'']) (login_data raw role) e2 = (Inl err, e3)))"

text \<open>Time goes on, and Vault answers within the delay.\<close>

definition timely :: "('e \<Rightarrow> 'e \<Rightarrow> bool) \<Rightarrow> ('e \<Rightarrow> int) \<Rightarrow> int \<Rightarrow> 'e vault_write \<Rightarrow> bool" where
  "timely later clock delay wr \<longleftrightarrow>
     transp later \<and> (\<forall>e e'. later e e' \<longrightarrow> clock e \<le> clock e') \<and>
     (\<forall>path data e. later e (snd (wr path data e)) \<and> clock (snd (wr path data e)) \<le> clock e + delay)"

definition annotated_pod :: "object_meta \<Rightarrow> pod \<Rightarrow> bool" where
  "annotated_pod target pod \<longleftrightarrow>
     lookup_str (pod_Annotations pod) KubernetesTokenAnnotation = lookup_str (om_Annotations target) KubernetesTokenAnnotation \<and>
     lookup_str (pod_Annotations pod) KubernetesSubjectAnnotation = lookup_str (om_Annotations target) KubernetesSubjectAnnotation \<and>
     lookup_str (pod_Annotations pod) KubernetesTokenAnnotation \<noteq> []"

text \<open>Claims that the controller's issuer signed and encrypted for the namespace of a pod that carries the token are accepted
  while they are valid, and refused otherwise.\<close>

lemma issued_claims_authenticate:
  assumes ka: "ka = NewKubernetesAuthenticator factory
      [KubernetesAuthenticatorWithKubernetesIntermediary client,
       KubernetesAuthenticatorWithChainToVaultTransitIntermediary wr tpath tkey,
       KubernetesAuthenticatorWithVaultResolver addr vpath role]" "addr \<noteq> []" "lib_vault lib addr = Inr va"
    and issue: "controller_issuer sign wr tpath tkey c e0 = (Inr tok, e1)"
      "lookup_str (om_Annotations target) KubernetesTokenAnnotation = tok"
      "lookup_str (om_Annotations target) KubernetesSubjectAnnotation = action_subject a"
    and c: "Claims_Action c = Some (Some a)" "KubernetesNamespaceUID c \<noteq> []"
    and services: "timely later clock delay wr" "transit_engine later wr tpath tkey"
      "signs (lib_jose lib) sign c" "logs_in later clock jr sign c (va_Write va) vpath role" "\<And>sat. \<exists>cms. factory sat = Inr cms"
    and pod: "net_ParseIP (request_host r) = Some ip" "\<not> IsUnspecified ip"
      "k_running_pods client (IP_String ip) e = (Inr [pod], e2)" "k_namespace client (pod_Namespace pod) e2 = (Inr ns, e3)"
      "annotated_pod target pod" "ns_UID ns = KubernetesNamespaceUID c" "later e1 e3"
  shows "\<exists>time. clock e3 \<le> time \<and> time \<le> clock e3 + delay \<and> clock e1 \<le> time \<and>
    (if token_valid jr time c
     then \<exists>cred e4 cms. KubernetesAuthenticator_Authenticate lib ka r e = (Some (Inr (Some cred)), e4) \<and>
       bound_to (lib_http lib) cms c a (Cred_Managers cred)
     else \<exists>err e4. KubernetesAuthenticator_Authenticate lib ka r e = (Some (Inl err), e4))"
proof -
  note time = services(1) [unfolded timely_def]
  from issue(1) obtain raw e' where signed: "sign c e0 = (Inr raw, e')"
    and wrapped: "VaultTransitWrapper_Wrap wr tpath tkey (VaultTransitNamespaceContext (ns_UID ns)) raw e' = (Inr tok, e1)"
    using pod(6) by (auto simp: controller_issuer_def KeySignerIssuer_Issue_def split: prod.splits sum.splits)
  from transit_roundtrip [OF services(2) wrapped pod(7)] obtain e5 path data where
    unwraps: "VaultTransitIntermediary_Next wr tpath tkey (VaultTransitNamespaceContext (ns_UID ns)) tok NewAuthentication e3 =
      (Some (Inr raw, NewAuthentication), e5)" and later: "later e3 e5" and e5: "e5 = snd (wr path data e3)" by blast
  have "later e' e1"
    using wrapped time by (auto simp: VaultTransitWrapper_Wrap_def split: prod.splits sum.splits option.splits) (metis snd_conv)+
  with pod(7) later time have "later e' e5" and between: "clock e3 \<le> clock e5" "clock e5 \<le> clock e3 + delay" "clock e1 \<le> clock e5"
    by (meson transpE, blast, simp add: e5, meson order_trans)
  with services(4) signed have vault: "if token_valid jr (clock e5) c
      then \<exists>sec vt e6. va_Write va (path_Join [vpath, ''login'']) (login_data raw role) e5 = (Inr (Some sec), e6) \<and> vs_ClientToken sec = Some vt
      else \<exists>err e6. va_Write va (path_Join [vpath, ''login'']) (login_data raw role) e5 = (Inl err, e6)"
    unfolding logs_in_def by blast
  from services(3) signed obtain t where t: "ParseSigned (lib_jose lib) raw = Inr t" "UnsafeClaims (lib_jose lib) t = Inr c"
    unfolding signs_def by blast
  obtain cms where cms: "factory (KubernetesServiceAccountToken c) = Inr cms" using services(5) by blast
  have id: "identified client (net_ParseIP (request_host r)) e pod ns (action_subject a) tok e3"
    using pod issue by (auto simp: identified_def annotated_pod_def pod_credentials_def Let_def)
  have config: "ka_kubernetesClient ka = Some client" "ka_vaultClient ka = Some wr" "ka_vaultTransitPath ka = tpath" "ka_vaultTransitKey ka = tkey"
    "ka_vaultJWTAuthAddr ka = addr" "ka_vaultJWTAuthPath ka = vpath" "ka_vaultJWTAuthRole ka = role" "ka_keys ka = []" "ka_factory ka = factory"
    by (simp_all add: ka NewKubernetesAuthenticator_def KubernetesAuthenticatorWithKubernetesIntermediary_def
        KubernetesAuthenticatorWithChainToVaultTransitIntermediary_def KubernetesAuthenticatorWithVaultResolver_def)
  note unwraps = unwraps [folded config(3,4)]
  have "if token_valid jr (clock e5) c
     then \<exists>cred e4 cms. KubernetesAuthenticator_Authenticate lib ka r e = (Some (Inr (Some cred)), e4) \<and>
       bound_to (lib_http lib) cms c a (Cred_Managers cred)
     else \<exists>err e4. KubernetesAuthenticator_Authenticate lib ka r e = (Some (Inl err), e4)"
  proof (cases "token_valid jr (clock e5) c")
    case True
    with vault obtain sec vt e6 where login:
      "va_Write va (path_Join [vpath, ''login'']) (login_data raw role) e5 = (Inr (Some sec), e6)" "vs_ClientToken sec = Some vt" by auto
    have "\<exists>cred. KubernetesAuthenticator_Authenticate lib ka r e = (Some (Inr (Some cred)), e6) \<and>
        bound_to (lib_http lib) cms c a (Cred_Managers cred) \<and> Cred_Tags cred = claim_tags c a"
      by (rule accepts_pod_token [OF config(1,2) id unwraps _ _ config(8) _ login(2) t c(1)])
        (use config login ka(2,3) pod(6) c(2) cms in simp_all)
    with True show ?thesis by auto
  next
    case False
    with vault obtain err e6 where "va_Write va (path_Join [vpath, ''login'']) (login_data raw role) e5 = (Inl err, e6)" by auto
    then have "KubernetesAuthenticator_Authenticate lib ka r e = (Some (Inl (OtherAuthError err)), e6)"
      by (intro refuses_pod_token [OF config(1,2) id unwraps _ _ config(8)]) (use config ka(2,3) in simp_all)
    with False show ?thesis by auto
  qed
  with between show ?thesis by blast
qed

text \<open>How long the token of a step is valid: from a minute before it was issued to a minute after it expires.\<close>

lemma step_token_valid:
  assumes "jr_BoundIssuer jr \<in> {[], ControllerIssuer}" "MetadataAPIAudienceV1 \<in> set (jr_BoundAudiences jr)" "10 ^ 9 \<le> now"
  shows "now \<le> time + 60 * 10 ^ 9 \<Longrightarrow> time \<le> now + (65 * 60 + 59) * 10 ^ 9 \<Longrightarrow> token_valid jr time (step_claims wrd now sat ms)"
    and "now + (65 * 60 + 60) * 10 ^ 9 < time \<Longrightarrow> \<not> token_valid jr time (step_claims wrd now sat ms)"
proof -
  have "1 \<le> now div 10 ^ 9" using zdiv_mono1 [OF assms(3), of "10 ^ 9"] by simp
  moreover have "now div 10 ^ 9 * 10 ^ 9 \<le> now" "now < now div 10 ^ 9 * 10 ^ 9 + 10 ^ 9"
    using mult_div_mod_eq [of "10 ^ 9" now] pos_mod_bound [of "10 ^ 9" now] pos_mod_sign [of "10 ^ 9" now] by (simp_all add: algebra_simps)
  moreover have "(now + (60 * 60 + 5 * 60) * 10 ^ 9) div 10 ^ 9 = now div 10 ^ 9 + 3900"
    by (subst div_mult_self1) simp_all
  moreover have "jr_BoundAudiences jr \<noteq> []" "list_ex (\<lambda>a. a \<in> set [MetadataAPIAudienceV1]) (jr_BoundAudiences jr)"
    using assms(2) by (auto simp: list_ex_iff)
  ultimately show "now \<le> time + 60 * 10 ^ 9 \<Longrightarrow> time \<le> now + (65 * 60 + 59) * 10 ^ 9 \<Longrightarrow> token_valid jr time (step_claims wrd now sat ms)"
    "now + (65 * 60 + 60) * 10 ^ 9 < time \<Longrightarrow> \<not> token_valid jr time (step_claims wrd now sat ms)"
    using assms(1) by (auto simp: token_valid_def step_claims_def NewNumericDate_def claim_date_def Let_def)
qed

text \<open>C6: A token the controller issues for a step is accepted by the metadata API as that step for as long as it lives, and not
  longer: once the controller has signed the claims, encrypted the token for the run's namespace and annotated the pod's template, a
  request from the only running pod with the caller's address, in that namespace, is given a credential if it comes within 65 minutes
  and 59 seconds of issuing (65 minutes, and the minute that Vault allows for clocks, less a second for rounding), and an error if it
  comes after 66 minutes. The managers of the credential are the step's own, in the namespace and the two ConfigMaps of the run.
  Assumed is the documented behaviour of the services: what Vault encrypted it decrypts later; a signed token is read back as it was
  signed; Vault logs in the bearer of a signed token if and only if its issuer, audience and dates are valid for its role, which is
  bound to the audience of the metadata API and to the controller as issuer or to no issuer; Vault's clock goes on, is at most a minute
  behind the controller's, and Vault decrypts within the delay; and a Kubernetes client can be made for every service account token.\<close>

theorem issued_token_authenticates:
  assumes ka: "ka = NewKubernetesAuthenticator factory
      [KubernetesAuthenticatorWithKubernetesIntermediary client,
       KubernetesAuthenticatorWithChainToVaultTransitIntermediary wr tpath tkey,
       KubernetesAuthenticatorWithVaultResolver addr vpath role]" "addr \<noteq> []" "lib_vault lib addr = Inr va"
    and issue: "AnnotateStepToken (controller_issuer sign wr tpath tkey) wrd now n target e0 = ((Inr (), target'), e1)"
      "map_of (om_Annotations target) KubernetesTokenAnnotation = None"
    and names: "wrd_RunName wrd \<noteq> []" "n \<noteq> []" "wrd_NamespaceUID wrd \<noteq> []"
    and services: "timely later clock delay wr" "transit_engine later wr tpath tkey"
      "\<And>sat. ServiceAccountTokenSecret_Token (wrd_TokenData wrd) = Inr sat \<Longrightarrow>
        signs (lib_jose lib) sign (step_claims wrd now sat (ModelStepFromName wrd n)) \<and>
        logs_in later clock jr sign (step_claims wrd now sat (ModelStepFromName wrd n)) (va_Write va) vpath role"
      "\<And>sat. \<exists>cms. factory sat = Inr cms"
    and vault: "jr_BoundIssuer jr \<in> {[], ControllerIssuer}" "MetadataAPIAudienceV1 \<in> set (jr_BoundAudiences jr)"
    and clocks: "10 ^ 9 \<le> now" "now \<le> clock e1 + 60 * 10 ^ 9"
    and pod: "net_ParseIP (request_host r) = Some ip" "\<not> IsUnspecified ip"
      "k_running_pods client (IP_String ip) e = (Inr [pod], e2)" "k_namespace client (pod_Namespace pod) e2 = (Inr ns, e3)"
      "annotated_pod target' pod" "ns_UID ns = wrd_NamespaceUID wrd" "later e1 e3"
  shows "(clock e3 + delay \<le> now + (65 * 60 + 59) * 10 ^ 9 \<longrightarrow>
      (\<exists>cred e4 c cms. KubernetesAuthenticator_Authenticate lib ka r e = (Some (Inr (Some cred)), e4) \<and>
        bound_to (lib_http lib) cms c (Step (ModelStepFromName wrd n)) (Cred_Managers cred) \<and>
        KubernetesNamespaceName c = wrd_NamespaceName wrd \<and>
        RelayKubernetesImmutableConfigMapName c = key_Name (wrd_ImmutableConfigMap wrd) \<and>
        RelayKubernetesMutableConfigMapName c = key_Name (wrd_MutableConfigMap wrd))) \<and>
    (now + (65 * 60 + 60) * 10 ^ 9 < clock e3 \<longrightarrow>
      (\<exists>err e4. KubernetesAuthenticator_Authenticate lib ka r e = (Some (Inl err), e4)))"
proof -
  let ?a = "Step (ModelStepFromName wrd n)"
  from issue obtain sat tok where sat: "ServiceAccountTokenSecret_Token (wrd_TokenData wrd) = Inr sat"
    and tok: "controller_issuer sign wr tpath tkey (step_claims wrd now sat (ModelStepFromName wrd n)) e0 = (Inr tok, e1)"
      "lookup_str (om_Annotations target') KubernetesTokenAnnotation = tok"
      "lookup_str (om_Annotations target') KubernetesSubjectAnnotation = action_subject ?a"
    by (rule AnnotateStepToken_issued)
  let ?c = "step_claims wrd now sat (ModelStepFromName wrd n)"
  have c: "KubernetesNamespaceUID ?c = wrd_NamespaceUID wrd" "KubernetesNamespaceName ?c = wrd_NamespaceName wrd"
    "RelayKubernetesImmutableConfigMapName ?c = key_Name (wrd_ImmutableConfigMap wrd)"
    "RelayKubernetesMutableConfigMapName ?c = key_Name (wrd_MutableConfigMap wrd)"
    by (simp_all add: step_claims_def)
  have action: "Claims_Action ?c = Some (Some ?a)" using names by (intro step_claims_action)
  obtain time where time: "clock e3 \<le> time" "time \<le> clock e3 + delay" "clock e1 \<le> time" and
    auth: "if token_valid jr time ?c
     then \<exists>cred e4 cms. KubernetesAuthenticator_Authenticate lib ka r e = (Some (Inr (Some cred)), e4) \<and> bound_to (lib_http lib) cms ?c ?a (Cred_Managers cred)
     else \<exists>err e4. KubernetesAuthenticator_Authenticate lib ka r e = (Some (Inl err), e4)"
    using issued_claims_authenticate [OF ka tok action _ services(1,2) services(3) [OF sat, THEN conjunct1] services(3) [OF sat, THEN conjunct2]
        services(4) pod(1-5) _ pod(7)] names(3) pod(6) c(1) by auto
  have "token_valid jr time ?c" if "clock e3 + delay \<le> now + (65 * 60 + 59) * 10 ^ 9"
    using that time clocks by (intro step_token_valid(1) [OF vault clocks(1)]) linarith+
  moreover have "\<not> token_valid jr time ?c" if "now + (65 * 60 + 60) * 10 ^ 9 < clock e3"
    using that time by (intro step_token_valid(2) [OF vault clocks(1)]) linarith
  ultimately show ?thesis using auth c(2-4) by meson
qed

section \<open>An example\<close>

text \<open>A run with one step, a Vault that encrypts by doing nothing, and a signer of one token.\<close>

definition ex_wrd :: workflow_run_deps where
  "ex_wrd = \<lparr>wrd_RunName = ''run'', wrd_Annotations = [], wrd_NamespaceName = ''ns'', wrd_NamespaceUID = ''uid'',
     wrd_TokenData = [(''token'', ''sat'')], wrd_ImmutableConfigMap = \<lparr>key_Namespace = ''ns'', key_Name = ''run-immutable''\<rparr>,
     wrd_MutableConfigMap = \<lparr>key_Namespace = ''ns'', key_Name = ''run-mutable''\<rparr>\<rparr>"

definition ex_now :: int where "ex_now = 1600000000 * 10 ^ 9"

definition ex_step :: step where "ex_step = ModelStepFromName ex_wrd ''build''"

definition ex_write :: "unit vault_write" where
  "ex_write p d w =
     (let x = (case get_string d ''plaintext'' of Some s \<Rightarrow> s | None \<Rightarrow> (case get_string d ''ciphertext'' of Some s \<Rightarrow> s | None \<Rightarrow> []))
      in (Inr (Some \<lparr>vs_Data = [(''plaintext'', GStr x), (''ciphertext'', GStr x)], vs_ClientToken = Some ''vt''\<rparr>), w))"

definition ex_sign :: "claims \<Rightarrow> unit \<Rightarrow> raw res \<times> unit" where "ex_sign c w = (Inr ''jwt'', w)"

definition ex_lib :: "(unit, unit, unit) libraries" where
  "ex_lib = \<lparr>lib_jose = \<lparr>ParseSigned = (\<lambda>_. Inr ()), Token_Claims = (\<lambda>_ _. Inl ErrRejected),
       UnsafeClaims = (\<lambda>_. Inr (step_claims ex_wrd ex_now ''sat'' ex_step))\<rparr>,
     lib_vault = (\<lambda>_. Inr \<lparr>va_Write = ex_write, va_Read = (\<lambda>_ _ w. (Inr None, w)), va_List = (\<lambda>_ _ w. (Inr None, w))\<rparr>),
     lib_http = (\<lambda>_ _ _ w. (Inr (200, None), w))\<rparr>"

definition ex_target :: object_meta where
  "ex_target = \<lparr>om_Namespace = ''ns'', om_Name = ''run'', om_UID = [],
     om_Annotations = [(KubernetesTokenAnnotation, b64_encode ''jwt''), (KubernetesSubjectAnnotation, action_subject (Step ex_step))],
     om_Labels = [], om_Finalizers = [], om_OwnerReferences = [], om_Deleting = False\<rparr>"

definition ex_pod :: pod where
  "ex_pod = \<lparr>pod_Namespace = ''ns'', pod_Annotations = om_Annotations ex_target, pod_Labels = []\<rparr>"

definition ex_client :: "unit kubernetes_interface" where
  "ex_client = \<lparr>k_running_pods = (\<lambda>_ w. (Inr [ex_pod], w)), k_namespace = (\<lambda>_ w. (Inr \<lparr>ns_Name = ''ns'', ns_UID = ''uid''\<rparr>, w)),
     k_condition = (\<lambda>_ _ w. (Inl ErrRejected, w))\<rparr>"

definition ex_ka :: "(unit, unit) kubernetes_authenticator" where
  "ex_ka = NewKubernetesAuthenticator
     (\<lambda>_. Inr (\<lambda>_ _. \<lparr>cl_Get = (\<lambda>w. (Inl ErrRejected, w)), cl_Create = (\<lambda>_ w. (Inl ErrRejected, w)), cl_Update = (\<lambda>_ w. (Inl ErrRejected, w))\<rparr>))
     [KubernetesAuthenticatorWithKubernetesIntermediary ex_client,
      KubernetesAuthenticatorWithChainToVaultTransitIntermediary ex_write ''transit'' ''key'',
      KubernetesAuthenticatorWithVaultResolver ''http://vault'' ''auth/jwt'' ''role'']"

definition ex_request :: request where
  "ex_request = \<lparr>RemoteAddr = ''10.0.0.7:1234'', XForwardedFor = [], Authorization = []\<rparr>"

lemma ex_ip: "net_ParseIP (request_host ex_request) = Some [0, 0, 0, 0, 0, 0xFFFF, 2560, 7]"
proof -
  have "SplitHost ''10.0.0.7:1234'' = Some ''10.0.0.7''" by code_simp
  moreover have "dtoi ''10.0.0.7'' = Some (10, ''.0.0.7'')" "dtoi ''0.0.7'' = Some (0, ''.0.7'')"
    "dtoi ''0.7'' = Some (0, ''.7'')" "dtoi ''7'' = Some (7, [])"
    by (simp_all add: dtoi_def digit_of_def)
  moreover have "v4_groups s = (case v4_parts (Suc (Suc (Suc (Suc 0)))) s of
      Some [a, b, c, d] \<Rightarrow> Some [256 * a + b, 256 * c + d] | _ \<Rightarrow> None)" for s
    unfolding v4_groups_def by (rule arg_cong [of _ _ "\<lambda>n. case v4_parts n s of
      Some [a, b, c, d] \<Rightarrow> Some [256 * a + b, 256 * c + d] | _ \<Rightarrow> None"]) simp
  ultimately have "v4_groups ''10.0.0.7'' = Some [2560, 7]" by simp
  with \<open>SplitHost ''10.0.0.7:1234'' = _\<close> show ?thesis
    by (simp add: request_host_def ex_request_def net_ParseIP_def parseIPv4_def)
qed

lemma ex_specified: "\<not> IsUnspecified [0, 0, 0, 0, 0, 0xFFFF, 2560, 7]"
  unfolding IsUnspecified_def using nth_replicate [of 7 8 "0 :: nat"] by (auto dest: arg_cong [of _ _ "\<lambda>xs. xs ! 7"])

lemma ex_write_eqs:
  "ex_write p (transit_data ''plaintext'' x c) w =
     (Inr (Some \<lparr>vs_Data = [(''plaintext'', GStr x), (''ciphertext'', GStr x)], vs_ClientToken = Some ''vt''\<rparr>), w)"
  "ex_write p (transit_data ''ciphertext'' x c) w =
     (Inr (Some \<lparr>vs_Data = [(''plaintext'', GStr x), (''ciphertext'', GStr x)], vs_ClientToken = Some ''vt''\<rparr>), w)"
  "get_string [(''plaintext'', GStr x), (''ciphertext'', GStr x)] ''ciphertext'' = Some x"
  "get_string [(''plaintext'', GStr x), (''ciphertext'', GStr x)] ''plaintext'' = Some x"
  by (simp_all add: ex_write_def transit_data_def get_string_def)

lemma ex_transit: "transit_engine (\<lambda>_ _. True) ex_write path key"
  unfolding transit_engine_def by (simp add: ex_write_eqs)

lemma ex_issue:
  "AnnotateStepToken (controller_issuer ex_sign ex_write ''transit'' ''key'') ex_wrd ex_now ''build'' (ex_target\<lparr>om_Annotations := []\<rparr>) () =
     ((Inr (), ex_target), ())"
proof -
  have "AnnotateStepToken (controller_issuer ex_sign ex_write ''transit'' ''key'') ex_wrd ex_now ''build'' (ex_target\<lparr>om_Annotations := []\<rparr>) () =
      ((Inr (), snd (Annotate KubernetesSubjectAnnotation (action_subject (Step ex_step))
         (snd (Annotate KubernetesTokenAnnotation (b64_encode ''jwt'') (ex_target\<lparr>om_Annotations := []\<rparr>))))), ())"
    by (simp add: AnnotateStepToken_def controller_issuer_def KeySignerIssuer_Issue_def VaultTransitWrapper_Wrap_def
        ex_sign_def ex_write_eqs ServiceAccountTokenSecret_Token_def ex_wrd_def
        lookup_str_def Let_def step_claims_subject ex_step_def)
  also have "\<dots> = ((Inr (), ex_target), ())"
    by (simp add: Annotate_def ex_target_def KubernetesSubjectAnnotation_def KubernetesTokenAnnotation_def)
  finally show ?thesis .
qed

lemmas ex_config = ex_ka_def NewKubernetesAuthenticator_def KubernetesAuthenticatorWithKubernetesIntermediary_def
  KubernetesAuthenticatorWithChainToVaultTransitIntermediary_def KubernetesAuthenticatorWithVaultResolver_def

lemma ex_annotated: "annotated_pod ex_target ex_pod"
proof -
  have "b64_encode ''jwt'' \<noteq> []" by code_simp
  then show ?thesis by (simp add: annotated_pod_def ex_pod_def ex_target_def lookup_str_def)
qed

definition ex_role :: jwt_role where
  "ex_role = \<lparr>jr_BoundIssuer = [], jr_BoundAudiences = [''k8s.relay.sh/metadata-api/v1'']\<rparr>"

lemma ex_bound: "jr_BoundIssuer ex_role \<in> {[], ControllerIssuer}" "MetadataAPIAudienceV1 \<in> set (jr_BoundAudiences ex_role)"
  by (simp_all add: ex_role_def MetadataAPIAudienceV1_def)

lemma ex_timely: "timely (\<lambda>_ _. True) (\<lambda>_. t) 0 ex_write"
  by (simp add: timely_def transp_def)

lemma ex_login:
  assumes "token_valid ex_role t c"
  shows "logs_in (\<lambda>_ _. True) (\<lambda>_. t) ex_role ex_sign c ex_write path role"
  using assms by (simp add: logs_in_def ex_write_def Let_def)

theorem issued_token_authenticates_witness:
  "\<exists>cred e4. KubernetesAuthenticator_Authenticate ex_lib ex_ka ex_request () = (Some (Inr (Some cred)), e4)"
proof -
  have "lib_vault ex_lib ''http://vault'' = Inr \<lparr>va_Write = ex_write, va_Read = (\<lambda>_ _ w. (Inr None, w)), va_List = (\<lambda>_ _ w. (Inr None, w))\<rparr>"
    by (simp add: ex_lib_def)
  note accepted = issued_token_authenticates [OF ex_ka_def _ this ex_issue _ _ _ _ ex_timely [of "ex_now + 600 * 10 ^ 9"] ex_transit _ _ ex_bound _ _ ex_ip,
      where pod = ex_pod and ns = "\<lparr>ns_Name = ''ns'', ns_UID = ''uid''\<rparr>" and e = "()" and ?e2.0 = "()" and ?e3.0 = "()"]
  have valid: "token_valid ex_role (ex_now + 600 * 10 ^ 9) (step_claims ex_wrd ex_now sat ms)" for sat ms
    by (rule step_token_valid(1) [OF ex_bound]) (simp_all add: ex_now_def)
  have "ex_now + 600 * 10 ^ 9 + 0 \<le> ex_now + (65 * 60 + 59) * 10 ^ 9 \<longrightarrow>
      (\<exists>cred e4 c cms. KubernetesAuthenticator_Authenticate ex_lib ex_ka ex_request () = (Some (Inr (Some cred)), e4) \<and>
        bound_to (lib_http ex_lib) cms c (Step (ModelStepFromName ex_wrd ''build'')) (Cred_Managers cred) \<and>
        KubernetesNamespaceName c = wrd_NamespaceName ex_wrd \<and>
        RelayKubernetesImmutableConfigMapName c = key_Name (wrd_ImmutableConfigMap ex_wrd) \<and>
        RelayKubernetesMutableConfigMapName c = key_Name (wrd_MutableConfigMap ex_wrd))"
  proof (rule conjunct1, rule accepted)
    show "signs (lib_jose ex_lib) ex_sign (step_claims ex_wrd ex_now sat (ModelStepFromName ex_wrd ''build'')) \<and>
        logs_in (\<lambda>_ _. True) (\<lambda>_. ex_now + 600 * 10 ^ 9) ex_role ex_sign (step_claims ex_wrd ex_now sat (ModelStepFromName ex_wrd ''build''))
          (va_Write \<lparr>va_Write = ex_write, va_Read = (\<lambda>_ _ w. (Inr None, w)), va_List = (\<lambda>_ _ w. (Inr None, w))\<rparr>) ''auth/jwt'' ''role''"
      if "ServiceAccountTokenSecret_Token (wrd_TokenData ex_wrd) = Inr sat" for sat
      using that ex_login [OF valid, of sat "ModelStepFromName ex_wrd ''build''" "''auth/jwt''" "''role''"]
      by (simp add: signs_def ex_lib_def ex_step_def ServiceAccountTokenSecret_Token_def ex_wrd_def lookup_str_def)
  qed (use ex_annotated ex_specified in \<open>simp_all add: ex_wrd_def ex_client_def ex_now_def\<close>)
  then show ?thesis by auto
qed

text \<open>The example request is also one for which the binding of credentials to pods can be observed.\<close>

lemma ex_accepted: "\<exists>cred e4. KubernetesAuthenticator_Authenticate ex_lib ex_ka ex_request () = (Some (Inr (Some cred)), e4)"
proof -
  let ?c = "step_claims ex_wrd ex_now ''sat'' ex_step"
  have id: "identified ex_client (net_ParseIP (request_host ex_request)) () ex_pod \<lparr>ns_Name = ''ns'', ns_UID = ''uid''\<rparr>
      (action_subject (Step ex_step)) (b64_encode ''jwt'') ()"
    using ex_annotated ex_ip ex_specified
    by (simp add: identified_def ex_client_def ex_pod_def ex_target_def pod_credentials_def annotated_pod_def
        lookup_str_def KubernetesSubjectAnnotation_def KubernetesTokenAnnotation_def Let_def)
  have "Claims_Action ?c = Some (Some (Step ex_step))"
    unfolding ex_step_def by (rule step_claims_action) (simp_all add: ex_wrd_def)
  note accepted = accepts_pod_token [OF _ _ id _ _ _ _ _ _ _ _ this, where ka = ex_ka and wr = ex_write and lib = ex_lib
      and raw = "''jwt''" and va = "\<lparr>va_Write = ex_write, va_Read = (\<lambda>_ _ w. (Inr None, w)), va_List = (\<lambda>_ _ w. (Inr None, w))\<rparr>"
      and cms = "\<lambda>_ _. \<lparr>cl_Get = (\<lambda>w. (Inl ErrRejected, w)), cl_Create = (\<lambda>_ w. (Inl ErrRejected, w)), cl_Update = (\<lambda>_ w. (Inl ErrRejected, w))\<rparr>"
      and sec = "the (projr (fst (ex_write (path_Join [''auth/jwt'', ''login'']) (login_data ''jwt'' ''role'') ())))"
      and vt = "''vt''" and ?e2.0 = "()" and ?e3.0 = "()" and t = "()"]
  have unwraps: "VaultTransitIntermediary_Next ex_write p k ctx (b64_encode s) NewAuthentication () = (Some (Inr s, NewAuthentication), ())"
    for p k ctx s by (simp add: VaultTransitIntermediary_Next_def ex_write_eqs)
  have "\<exists>cred. KubernetesAuthenticator_Authenticate ex_lib ex_ka ex_request () = (Some (Inr (Some cred)), ()) \<and>
      bound_to (lib_http ex_lib) (\<lambda>_ _. \<lparr>cl_Get = (\<lambda>w. (Inl ErrRejected, w)), cl_Create = (\<lambda>_ w. (Inl ErrRejected, w)), cl_Update = (\<lambda>_ w. (Inl ErrRejected, w))\<rparr>)
        ?c (Step ex_step) (Cred_Managers cred) \<and> Cred_Tags cred = claim_tags ?c (Step ex_step)"
    by (rule accepted)
      (simp_all add: ex_config unwraps ex_lib_def ex_write_def Let_def step_claims_def ex_wrd_def del: b64_encode.simps)
  then show ?thesis by blast
qed

theorem pod_credential_bound_witness:
  "\<exists>cred a tok. KubernetesAuthenticator_Authenticate ex_lib ex_ka ex_request () = (Some (Inr (Some cred)), ()) \<and>
     identified ex_client (net_ParseIP (request_host ex_request)) () ex_pod \<lparr>ns_Name = ''ns'', ns_UID = ''uid''\<rparr> (action_subject a) tok ()"
proof -
  from ex_accepted obtain cred e4 where auth: "KubernetesAuthenticator_Authenticate ex_lib ex_ka ex_request () = (Some (Inr (Some cred)), e4)"
    by blast
  have client: "ka_kubernetesClient ex_ka = Some ex_client" by (simp add: ex_config)
  from pod_credential_bound [OF auth client] obtain pod ns tok e1 a where
    "identified ex_client (net_ParseIP (request_host ex_request)) () pod ns (action_subject a) tok e1" by blast
  moreover from this have "pod = ex_pod" "ns = \<lparr>ns_Name = ''ns'', ns_UID = ''uid''\<rparr>"
    by (auto simp: identified_def ex_client_def)
  ultimately show ?thesis using auth by auto
qed

end
