(* ===== verification/Metadata_Api_Props.thy ===== *)
theory Metadata_Api_Props
  imports Metadata_Api Token_Props Evaluate_Props
begin

text \<open>Properties of the handlers of the metadata API, and of handlers behind authentication.\<close>

section \<open>Conditions\<close>

definition holds :: "gval \<Rightarrow> bool" where
  "holds v \<longleftrightarrow> (case v of GBool b \<Rightarrow> b | GList cs \<Rightarrow> (\<forall>c \<in> set cs. c = GBool True) | _ \<Rightarrow> False)"

lemma check_list_passed: "check_list True cs = Inr False \<longleftrightarrow> (\<forall>c \<in> set cs. c = GBool True)"
  by (induction cs) (auto split: gval.splits)

lemma check_list_failed: "check_list complete cs = Inr True \<Longrightarrow> GBool False \<in> set cs"
  by (induction cs) (auto split: gval.splits if_splits)

lemma check_list_false: "GBool False \<in> set cs \<Longrightarrow> check_list complete cs \<noteq> Inr False"
  by (induction cs) (auto split: gval.splits)

lemma check_list_incomplete: "\<exists>b. check_list False cs = Inr b"
  by (induction cs) (auto split: gval.splits)

lemma conditions_response_passed:
  "conditions_response (Inr rv) = [Wrote_Object 200 (conditions_envelope True ''all checks passed'')] \<longleftrightarrow>
     check_conditions rv = Inr False \<and> Complete rv"
  by (auto simp: conditions_response_def conditions_envelope_def split: sum.splits bool.splits)

text \<open>C5: The conditions of a step pass exactly when their expression evaluates completely to true or to
  a list of nothing but true, and they are reported as failed only if one of them evaluated to
  false. While a list is not completely resolved, it fails exactly if one of its conditions is
  already false; otherwise the answer is an error that lists what is missing, never success, so
  that the caller asks again.\<close>

theorem conditions_decision:
  assumes "m_Conditions m e = (Inr cond, e')"
    and "EvaluateAll (NewEvaluator lib [parameters_of m e', secrets_of m e', outputs_of m e', answers_of m e']) (Condition_Tree cond) = Inr rv"
  shows "(fst (GetConditions lib m e) = Some [Wrote_Object 200 (conditions_envelope True ''all checks passed'')] \<longleftrightarrow>
      Complete rv \<and> holds (Value rv)) \<and>
    (fst (GetConditions lib m e) = Some [Wrote_Object 200 (conditions_envelope False ''one or more conditions failed'')] \<longrightarrow>
      Value rv = GBool False \<or> (\<exists>cs. Value rv = GList cs \<and> GBool False \<in> set cs)) \<and>
    (\<not> Complete rv \<longrightarrow> (\<exists>cs. Value rv = GList cs) \<longrightarrow>
      fst (GetConditions lib m e) =
        Some [if \<exists>cs. Value rv = GList cs \<and> GBool False \<in> set cs
              then Wrote_Object 200 (conditions_envelope False ''one or more conditions failed'')
              else Wrote_Error (ExpressionUnresolvableError (map error_string (as_causes (Unresolvable rv))))])"
proof -
  have get: "fst (GetConditions lib m e) = Some (conditions_response (Inr rv))"
    using assms by (simp add: GetConditions_def)
  note conditions_response_passed [of rv]
  moreover have "Complete rv \<Longrightarrow> check_conditions rv = Inr False \<longleftrightarrow> holds (Value rv)"
    by (cases "Value rv") (auto simp: check_conditions_def holds_def check_list_passed)
  moreover have "conditions_response (Inr rv) = [Wrote_Object 200 (conditions_envelope False ''one or more conditions failed'')] \<longleftrightarrow>
      check_conditions rv = Inr True"
    by (auto simp: conditions_response_def conditions_envelope_def split: sum.splits bool.splits)
  moreover have "check_conditions rv = Inr True \<Longrightarrow> Value rv = GBool False \<or> (\<exists>cs. Value rv = GList cs \<and> GBool False \<in> set cs)"
    by (cases "Value rv") (auto simp: check_conditions_def dest: check_list_failed)
  moreover have "conditions_response (Inr rv) = [if GBool False \<in> set cs
      then Wrote_Object 200 (conditions_envelope False ''one or more conditions failed'')
      else Wrote_Error (ExpressionUnresolvableError (map error_string (as_causes (Unresolvable rv))))]"
    if "\<not> Complete rv" "Value rv = GList cs" for cs
  proof -
    obtain b where b: "check_list False cs = Inr b" using check_list_incomplete by blast
    then have "b \<longleftrightarrow> GBool False \<in> set cs"
      using check_list_failed [of False cs] check_list_false [of cs False] by (cases b) auto
    with that b show ?thesis by (simp add: conditions_response_def check_conditions_def)
  qed
  ultimately show ?thesis using get by auto
qed

definition ex_golib :: golib where
  "ex_golib = \<lparr>render_html = (\<lambda>s. s), render_jira = (\<lambda>s. s), json_text = (\<lambda>s. Inr (GStr s))\<rparr>"

definition ex_managers :: "unit metadata_managers" where
  "ex_managers = NewMetadataBuilder
     \<lparr>m_Conditions := (\<lambda>e. (Inr \<lparr>Condition_Tree = GList [GBool True, GMap [(''$type'', GStr ''Parameter''), (''name'', GStr ''p'')]]\<rparr>, e)),
      m_Parameters := (\<lambda>n e. (Inr \<lparr>Parameter_Name = n, Parameter_Value = GBool True\<rparr>, e))\<rparr>"

theorem conditions_decision_witness:
  "fst (GetConditions ex_golib ex_managers ()) = Some [Wrote_Object 200 (conditions_envelope True ''all checks passed'')]"
proof -
  have "EvaluateAll (NewEvaluator ex_golib [parameters_of ex_managers (), secrets_of ex_managers (), outputs_of ex_managers (), answers_of ex_managers ()])
      (Condition_Tree \<lparr>Condition_Tree = GList [GBool True, GMap [(''$type'', GStr ''Parameter''), (''name'', GStr ''p'')]]\<rparr>) =
      Inr \<lparr>Value = GList [GBool True, GBool True], Unresolvable = no_unresolvable\<rparr>" by code_simp
  moreover have "m_Conditions ex_managers () =
      (Inr \<lparr>Condition_Tree = GList [GBool True, GMap [(''$type'', GStr ''Parameter''), (''name'', GStr ''p'')]]\<rparr>, ())"
    by (simp add: ex_managers_def)
  moreover have "Complete \<lparr>Value = GList [GBool True, GBool True], Unresolvable = no_unresolvable\<rparr>" by code_simp
  ultimately show ?thesis using conditions_decision [of ex_managers "()"] by (simp add: holds_def)
qed

section \<open>How often a handler answers\<close>

definition answers_once :: "'e handled \<Rightarrow> bool" where
  "answers_once r \<longleftrightarrow> (\<forall>ws. fst r = Some ws \<longrightarrow> length ws = 1)"

lemma WriteObjectOK_once [simp]: "length (WriteObjectOK j) = 1"
  by (simp add: WriteObjectOK_def split: sum.split)

lemma conditions_response_once [simp]: "length (conditions_response r) = 1"
  by (auto simp: conditions_response_def split: sum.split bool.split)

lemma GetSpec_written:
  assumes "m_Spec m e = (Inr sp, e')"
  shows "\<exists>ws. length ws = 1 \<and> fst (GetSpec lib pl l q m e) = Some (snd (spec_language l) @ ws)"
proof -
  have "length (case r of Inl rerr \<Rightarrow> [Wrote_Error (ExpressionEvaluationError (error_string rerr))]
      | Inr rv \<Rightarrow> WriteObjectOK (envelope_json (NewJSONResultEnvelope rv))) = 1" for r
    by (simp split: sum.split)
  then show ?thesis using assms by (auto simp: GetSpec_def Let_def split: prod.split)
qed

lemma spec_language_written:
  "length (snd (spec_language l)) = (if l \<in> {[], ''path'', ''jsonpath'', ''jsonpath-template''} then 0 else 1)"
  by (auto simp: spec_language_def)

text \<open>C33: Every handler that returns has written exactly one response, with one exception: a request
  for the spec in an unknown query language is answered twice, first with the error and then with
  the result of evaluating it in the default language.\<close>

theorem api_single_response:
  "answers_once (GetConditions lib m e) \<and> answers_once (GetEnvironment lib m e) \<and>
   answers_once (GetEnvironmentVariable lib cause_json name m e) \<and> answers_once (GetOutput stepName name m e) \<and>
   answers_once (PutOutput name ct b m e) \<and> answers_once (GetSecret name m e) \<and> answers_once (GetState name m e) \<and>
   answers_once (PostEvent envelope m e) \<and>
   (answers_once (GetSpec lib pl l q m e) \<longleftrightarrow>
      fst (m_Spec m e) \<in> range Inl \<or> l \<in> {[], ''path'', ''jsonpath'', ''jsonpath-template''})"
proof -
  have 1: "answers_once (GetConditions lib m e)"
    by (auto simp: answers_once_def GetConditions_def Let_def split: prod.split sum.split)
  have 2: "answers_once (GetEnvironment lib m e)"
    by (auto simp: answers_once_def GetEnvironment_def split: option.split prod.split sum.split)
  have 3: "answers_once (GetEnvironmentVariable lib cause_json name m e)"
    by (auto simp: answers_once_def GetEnvironmentVariable_def split: option.split prod.split sum.split)
  have 4: "answers_once (GetOutput stepName name m e)" "answers_once (GetSecret name m e)" "answers_once (GetState name m e)"
    by (auto simp: answers_once_def GetOutput_def GetSecret_def GetState_def split: prod.split sum.split)
  have 5: "answers_once (PutOutput name ct b m e)" "answers_once (PostEvent envelope m e)"
    by (auto simp: answers_once_def PutOutput_def PostEvent_def split: option.split prod.split sum.split)
  have 6: "answers_once (GetSpec lib pl l q m e) \<longleftrightarrow>
      fst (m_Spec m e) \<in> range Inl \<or> l \<in> {[], ''path'', ''jsonpath'', ''jsonpath-template''}"
  proof (cases "m_Spec m e")
    case (Pair x e')
    show ?thesis
    proof (cases x)
      case (Inl err)
      with Pair show ?thesis by (auto simp: answers_once_def GetSpec_def)
    next
      case (Inr sp)
      with Pair GetSpec_written [of m e sp e' lib pl l q] show ?thesis
        by (auto simp: answers_once_def spec_language_written split: if_splits)
    qed
  qed
  from 1 2 3 4 5 6 show ?thesis by blast
qed

section \<open>Environment\<close>

lemma eval_environment_spec:
  assumes "eval_environment ev env complete evs = Inr (complete', evs')" "wf_gomap env"
  shows "(complete' \<longleftrightarrow> complete \<and> (\<forall>(n, v) \<in> set env. \<exists>rv. EvaluateAll ev v = Inr rv \<and> Complete rv)) \<and>
    (\<forall>n. map_of evs' n = (case map_of env n of
        Some v \<Rightarrow> (case EvaluateAll ev v of Inr rv \<Rightarrow> Some (Value rv) | Inl _ \<Rightarrow> None) | None \<Rightarrow> map_of evs n))"
  using assms
proof (induction env arbitrary: complete evs)
  case (Cons b env)
  obtain name v where b: "b = (name, v)" by fastforce
  with Cons.prems(1) obtain rv where rv: "EvaluateAll ev v = Inr rv"
    "eval_environment ev env (complete \<and> Complete rv) (AList.update name (Value rv) evs) = Inr (complete', evs')"
    by (auto split: sum.splits)
  from Cons.prems(2) b have wf: "wf_gomap env" "map_of env name = None" by (auto simp: map_of_None_fst)
  from Cons.IH [OF rv(2) wf(1)] b rv(1) wf(2) show ?case
    by (auto split: option.splits)
qed simp

text \<open>C31: The environment of an action is answered with the value of every variable, evaluated with the
  action's parameters, outputs and secrets, and as complete exactly if every single variable is;
  a variable that cannot be evaluated makes the whole answer an error.\<close>

theorem environment_evaluated:
  assumes "m_Environment m e = Some (Inr env, e')" "wf_gomap (Environment_Value env)"
  shows "(\<exists>(n, v) \<in> set (Environment_Value env). \<exists>rerr. EvaluateAll (env_evaluator lib m e') v = Inl rerr \<and>
        fst (GetEnvironment lib m e) = Some [Wrote_Error (ExpressionEvaluationError (error_string rerr))]) \<or>
    (\<exists>complete evs. fst (GetEnvironment lib m e) =
          Some (WriteObjectOK (envelope_json \<lparr>env_Value = GMap evs, env_Unresolvable = None, env_Complete = complete\<rparr>)) \<and>
        (complete \<longleftrightarrow> (\<forall>(n, v) \<in> set (Environment_Value env). \<exists>rv. EvaluateAll (env_evaluator lib m e') v = Inr rv \<and> Complete rv)) \<and>
        (\<forall>n. map_of evs n = (case map_of (Environment_Value env) n of
           Some v \<Rightarrow> (case EvaluateAll (env_evaluator lib m e') v of Inr rv \<Rightarrow> Some (Value rv) | Inl _ \<Rightarrow> None) | None \<Rightarrow> None)))"
proof -
  let ?ev = "env_evaluator lib m e'"
  have err: "\<exists>(n, v) \<in> set env'. EvaluateAll ?ev v = Inl rerr" if "eval_environment ?ev env' complete evs = Inl rerr" for env' complete evs rerr
    using that by (induction env' arbitrary: complete evs) (auto split: sum.splits)
  show ?thesis
  proof (cases "eval_environment ?ev (Environment_Value env) True []")
    case (Inl rerr)
    with assms err [OF Inl] show ?thesis by (auto simp: GetEnvironment_def)
  next
    case (Inr r)
    obtain complete evs where r: "r = (complete, evs)" by fastforce
    have get: "fst (GetEnvironment lib m e) =
        Some (WriteObjectOK (envelope_json \<lparr>env_Value = GMap evs, env_Unresolvable = None, env_Complete = complete\<rparr>))"
      using assms(1) Inr r by (simp add: GetEnvironment_def)
    from eval_environment_spec [OF Inr [unfolded r] assms(2), unfolded map_of.simps(1)] get show ?thesis by blast
  qed
qed

theorem environment_evaluated_witness:
  "\<exists>complete evs. fst (GetEnvironment ex_golib (ex_managers\<lparr>m_Environment := (\<lambda>e. Some (Inr \<lparr>Environment_Value = [(''A'', GStr ''x'')]\<rparr>, e))\<rparr>) ()) =
     Some (WriteObjectOK (envelope_json \<lparr>env_Value = GMap evs, env_Unresolvable = None, env_Complete = complete\<rparr>)) \<and> complete \<and>
     map_of evs ''A'' = Some (GStr ''x'')"
proof -
  let ?m = "ex_managers\<lparr>m_Environment := (\<lambda>e. Some (Inr \<lparr>Environment_Value = [(''A'', GStr ''x'')]\<rparr>, e))\<rparr>"
  have x: "EvaluateAll (env_evaluator ex_golib ?m ()) (GStr ''x'') = Inr (value_result (GStr ''x''))"
    and c: "Complete (value_result (GStr ''x''))" by code_simp+
  have v: "Value (value_result (GStr ''x'')) = GStr ''x''" by (simp add: value_result_def)
  have "m_Environment ?m () = Some (Inr \<lparr>Environment_Value = [(''A'', GStr ''x'')]\<rparr>, ())"
    "wf_gomap (Environment_Value \<lparr>Environment_Value = [(''A'', GStr ''x'')]\<rparr>)" by simp_all
  from environment_evaluated [OF this, of ex_golib] obtain complete evs where
    "fst (GetEnvironment ex_golib ?m ()) =
       Some (WriteObjectOK (envelope_json \<lparr>env_Value = GMap evs, env_Unresolvable = None, env_Complete = complete\<rparr>))"
    "complete" "map_of evs ''A'' = Some (GStr ''x'')"
    using x c v by (auto simp del: metadata_managers.simps)
  then show ?thesis by blast
qed

section \<open>Secrets\<close>

text \<open>C32: A secret reaches the client byte for byte: decoding the value of the answer, as every client
  of the API does, gives the secret's value, be it text or binary; and nothing else is revealed
  when the secret is missing or access to it rejected.\<close>

theorem secret_delivered:
  "(\<forall>sec e'. m_Secrets m name e = (Inr sec, e') \<longrightarrow>
      (\<exists>v. GetSecret name m e = (Some [Wrote_Object 200 (JObj [(''key'', JStr (utf8_coerce (Secret_Name sec))), (''value'', v)])], e') \<and>
         JSONInterface_Unmarshal v = Inr (GStr (Secret_Value sec)))) \<and>
   (\<forall>err e'. m_Secrets m name e = (Inl err, e') \<longrightarrow>
      (\<exists>r. GetSecret name m e = (Some [Wrote_Error r], e') \<and>
         error_status r = (if err = ErrNotFound then 404 else if err = ErrRejected then 403 else 500)))"
proof -
  have wire: "\<exists>t d. EncodeJSON s = Inr (t, d) \<and> json_marshal (GJSONOrStr t d) = Inr (wire s)" for s
    using JSONInterface_Marshal_GStr [of s] unfolding JSONInterface_Marshal_simps EncodeJSON_total by (auto split: if_splits)
  have "JSONInterface_Unmarshal (wire s) = Inr (GStr s)" for s
    by (simp add: JSONInterface_Unmarshal_def decode_wire)
  moreover obtain t d where "EncodeJSON s = Inr (t s, d s)" "json_marshal (GJSONOrStr (t s) (d s)) = Inr (wire s)" for s
    using wire by metis
  ultimately show ?thesis by (simp add: GetSecret_def WriteObjectOK_def ModelReadError_of_def del: json_marshal.simps)
qed

theorem secret_delivered_witness:
  "\<exists>v. fst (GetSecret ''s'' (ex_managers\<lparr>m_Secrets := (\<lambda>n e. (Inr \<lparr>Secret_Name = n, Secret_Value = [CHR 0xFF]\<rparr>, e))\<rparr>) ()) =
       Some [Wrote_Object 200 (JObj [(''key'', JStr (utf8_coerce ''s'')), (''value'', v)])] \<and>
     JSONInterface_Unmarshal v = Inr (GStr [CHR 0xFF])"
  using secret_delivered [of "ex_managers\<lparr>m_Secrets := (\<lambda>n e. (Inr \<lparr>Secret_Name = n, Secret_Value = [CHR 0xFF]\<rparr>, e))\<rparr>" "''s''" "()"]
  by auto

section \<open>Handlers behind authentication\<close>

lemma credential_any:
  assumes "KubernetesAuthenticator_Authenticate lib ka r e = (Some (Inr (Some cred)), e')"
  shows "\<exists>c a cms. Claims_Action c = Some (Some a) \<and> bound_to (lib_http lib) cms c a (Cred_Managers cred) \<and>
    Cred_Tags cred = claim_tags c a"
proof (cases "ka_kubernetesClient ka")
  case (Some client)
  with pod_bound [OF assms] show ?thesis by blast
next
  case None
  from assms show ?thesis
  proof (rule credential_run)
    fix raw st s1 c st' s2 a s3 s4
    let ?st = "\<lparr>validators = [], injectors = [ka_injector lib ka]\<rparr>"
    let ?s = "\<lparr>s_env = e, s_mgrs = NewMetadataBuilder, s_tags = []\<rparr>"
    assume i: "ka_intermediary ka r ?st ?s = (Some (Inr raw, st), s1)"
      and res: "ka_resolver lib ka st raw s1 = (Some (Inr c, st'), s2)" and act: "Claims_Action c = Some (Some a)"
      and val: "run_validators (validators st') c s2 = (Some (Inr True), s3)"
      and inj: "run_injectors (injectors st') c s3 = (Some None, s4)"
      and cred: "cred = \<lparr>Cred_Managers = s_mgrs s4, Cred_Tags = s_tags s4\<rparr>"
    from i None have st: "st = ?st" "s1 = ?s" by (auto simp: ka_intermediary_def dest: HTTP_intermediary_result)
    with api_resolver.adds [OF res] val have "s3 = s2" by simp
    with credential_bound [OF _ _ res act _ inj, of e] st have "\<exists>cms. bound_to (lib_http lib) cms c a (s_mgrs s4) \<and> s_tags s4 = claim_tags c a"
      by auto
    with act cred show ?thesis by auto
  qed
qed

text \<open>C12: The credential of a trigger opens nothing that belongs to the steps of a run: reading an output
  and writing one are refused with 403 and leave the world as it was, and every parameter lookup
  is rejected. This holds for every way a token can reach the API.\<close>

theorem trigger_has_no_step_data:
  assumes "KubernetesAuthenticator_Authenticate lib ka r e = (Some (Inr (Some cred)), e')"
    and "(''relay.action.type'', ''trigger'') \<in> set (Cred_Tags cred)"
  shows "GetOutput stepName name (Cred_Managers cred) w = (Some [Wrote_Error ModelAuthorizationError], w) \<and>
    (\<forall>v. put_value ct b = Inr v \<longrightarrow> PutOutput name ct b (Cred_Managers cred) w = (Some [Wrote_Error ModelAuthorizationError], w)) \<and>
    m_Parameters (Cred_Managers cred) name w = (Inl ErrRejected, w)"
proof -
  from credential_any [OF assms(1)] obtain c a cms where
    bound: "bound_to (lib_http lib) cms c a (Cred_Managers cred)" and tags: "Cred_Tags cred = claim_tags c a" by blast
  from assms(2) tags obtain t where "a = Trigger t"
    by (cases a) (auto simp: claim_tags_def ActionTypeStep_def split: if_splits)
  with bound show ?thesis
    by (simp add: bound_to_def Let_def GetOutput_def PutOutput_def ModelReadError_of_def ModelWriteError_of_def reject_defs)
qed

definition ex_trigger_claims :: claims where
  "ex_trigger_claims = (step_claims ex_wrd 0 ''sat'' ex_step)
     \<lparr>jwt_Claims := Some \<lparr>jwt_Issuer = [], jwt_Subject = action_subject (Trigger \<lparr>Trigger_Name = ''build''\<rparr>), jwt_Audience = [],
        jwt_ID = [], jwt_Expiry = None, jwt_NotBefore = None, jwt_IssuedAt = None\<rparr>\<rparr>"

definition ex_trigger_ka :: "(unit, unit) kubernetes_authenticator" where
  "ex_trigger_ka = NewKubernetesAuthenticator
     (\<lambda>_. Inr (\<lambda>_ _. \<lparr>cl_Get = (\<lambda>w. (Inl ErrRejected, w)), cl_Create = (\<lambda>_ w. (Inl ErrRejected, w)), cl_Update = (\<lambda>_ w. (Inl ErrRejected, w))\<rparr>))
     [KubernetesAuthenticatorWithKeyResolver ()]"

definition ex_trigger_lib :: "(unit, unit, unit) libraries" where
  "ex_trigger_lib = ex_lib\<lparr>lib_jose := \<lparr>ParseSigned = (\<lambda>_. Inr ()), Token_Claims = (\<lambda>_ _. Inr ex_trigger_claims),
     UnsafeClaims = (\<lambda>_. Inl ErrRejected)\<rparr>\<rparr>"

lemma ex_trigger_accepted:
  "\<exists>cred. KubernetesAuthenticator_Authenticate ex_trigger_lib ex_trigger_ka (ex_request\<lparr>Authorization := ''Bearer tok''\<rparr>) () =
     (Some (Inr (Some cred)), ()) \<and> (''relay.action.type'', ''trigger'') \<in> set (Cred_Tags cred)"
proof -
  have act: "Claims_Action ex_trigger_claims = Some (Some (Trigger \<lparr>Trigger_Name = ''build''\<rparr>))"
    by (simp add: Claims_Action_iff ex_trigger_claims_def step_claims_def ex_step_def ModelStepFromName_def)
  have i: "HTTPAuthorizationHeaderIntermediary_Next ''Bearer tok'' st (w :: unit session) = (Some (Inr ''tok'', st), w)" for st w
  proof -
    have "parseBasicAuth ''Bearer tok'' = None" "parseBearerAuth ''Bearer tok'' = Some ''tok''" by code_simp+
    then show ?thesis by (simp add: HTTPAuthorizationHeaderIntermediary_Next_def)
  qed
  have res: "ka_resolver ex_trigger_lib ex_trigger_ka st raw w = (Some (Inr ex_trigger_claims, st), w)" for st raw w
    by (simp add: ka_resolver_def AnyResolver_Resolve_def NewKeyResolver_def KeyResolver_Resolve_def ex_trigger_lib_def
        ex_trigger_claims_def ex_trigger_ka_def NewKubernetesAuthenticator_def KubernetesAuthenticatorWithKeyResolver_def
        jwt_Validate_def ValidateWithLeeway_def no_expectation_def)
  have ka: "ka_kubernetesClient ex_trigger_ka = None"
    "ka_factory ex_trigger_ka sat = Inr (\<lambda>_ _. \<lparr>cl_Get = (\<lambda>w. (Inl ErrRejected, w)), cl_Create = (\<lambda>_ w. (Inl ErrRejected, w)),
       cl_Update = (\<lambda>_ w. (Inl ErrRejected, w))\<rparr>)" for sat
    by (simp_all add: ex_trigger_ka_def NewKubernetesAuthenticator_def KubernetesAuthenticatorWithKeyResolver_def)
  have tags: "(''relay.action.type'', ''trigger'') \<in> set (claim_tags c (Trigger t))" for c t
    by (simp add: claim_tags_def ActionTypeTrigger_def)
  show ?thesis
    unfolding KubernetesAuthenticator_Authenticate_def Authenticate_def NewAuthenticator_def
    by (simp add: AuthenticatorWithInjector_def res act ka_injector_def ka_intermediary_def i ka ex_request_def tags)
qed

theorem trigger_has_no_step_data_witness:
  "\<exists>cred. KubernetesAuthenticator_Authenticate ex_trigger_lib ex_trigger_ka (ex_request\<lparr>Authorization := ''Bearer tok''\<rparr>) () =
     (Some (Inr (Some cred)), ()) \<and> GetOutput ''s'' ''o'' (Cred_Managers cred) () = (Some [Wrote_Error ModelAuthorizationError], ())"
proof -
  from ex_trigger_accepted obtain cred where
    auth: "KubernetesAuthenticator_Authenticate ex_trigger_lib ex_trigger_ka (ex_request\<lparr>Authorization := ''Bearer tok''\<rparr>) () =
      (Some (Inr (Some cred)), ())" and tag: "(''relay.action.type'', ''trigger'') \<in> set (Cred_Tags cred)" by blast
  from trigger_has_no_step_data [OF auth tag] auth show ?thesis by blast
qed

end
