(* ===== verification/Obj_Util_Props.thy ===== *)
theory Obj_Util_Props
  imports Obj_Util "HOL-Library.Multiset"
begin

text \<open>Properties of ownership, finalizers and loading.\<close>

section \<open>Ownership\<close>

definition is_controller :: "owner_reference \<Rightarrow> bool" where
  "is_controller c \<longleftrightarrow> or_Controller c = Some True"

definition controllers :: "object_meta \<Rightarrow> owner_reference list" where
  "controllers m = filter is_controller (om_OwnerReferences m)"

lemma own_references_controllers:
  assumes "is_controller ref" "length (filter is_controller cs) \<le> 1"
  shows "filter is_controller (own_references ref cs) = [ref]"
  using assms
proof (induction cs)
  case (Cons c cs)
  then show ?case by (auto simp: is_controller_def split: if_splits)
qed (simp add: is_controller_def)

lemma own_references_others:
  "c \<in> set cs \<Longrightarrow> \<exists>c' \<in> set (own_references ref cs). or_UID c' = or_UID c \<and> or_Name c' = or_Name c"
  by (induction cs) auto

lemma own_references_same: "ref \<in> set cs \<Longrightarrow> length (filter is_controller cs) \<le> 1 \<Longrightarrow> is_controller ref \<Longrightarrow>
    own_references ref cs = cs"
proof (induction cs)
  case (Cons c cs)
  then show ?case
    by (auto simp: is_controller_def filter_empty_conv split: if_splits)
qed simp

text \<open>C29: Taking ownership leaves an object with exactly one controlling owner, the new one: an owner
  that controlled it before is demoted and not dropped, no reference is lost, a second call
  changes nothing, and an owner in another namespace is refused with the object unchanged. Every
  object the controller builds up by \<open>Own\<close> therefore has at most one controller.\<close>

theorem own_single_controller:
  assumes "length (controllers target) \<le> 1"
  shows "(om_Namespace target = om_Namespace owner \<longrightarrow>
      fst (Own gvk owner target) = Inr () \<and>
      controllers (snd (Own gvk owner target)) = [NewControllerRef owner gvk] \<and>
      (\<forall>c \<in> set (om_OwnerReferences target). \<exists>c' \<in> set (om_OwnerReferences (snd (Own gvk owner target))).
         or_UID c' = or_UID c \<and> or_Name c' = or_Name c) \<and>
      om_OwnerReferences (snd (Own gvk owner (snd (Own gvk owner target)))) = om_OwnerReferences (snd (Own gvk owner target))) \<and>
    (om_Namespace target \<noteq> om_Namespace owner \<longrightarrow> (\<exists>err. Own gvk owner target = (Inl err, target)))"
proof -
  let ?ref = "NewControllerRef owner gvk" and ?cs = "om_OwnerReferences target"
  have ref: "is_controller ?ref" by (simp add: NewControllerRef_def is_controller_def)
  have one: "filter is_controller (own_references ?ref ?cs) = [?ref]"
    using assms ref by (intro own_references_controllers) (simp_all add: controllers_def)
  then have "?ref \<in> set (own_references ?ref ?cs)" by (metis filter_is_subset insert_subset list.simps(15))
  with one ref have "own_references ?ref (own_references ?ref ?cs) = own_references ?ref ?cs"
    by (intro own_references_same) simp_all
  with one own_references_others show ?thesis by (auto simp: Own_def controllers_def)
qed

theorem own_single_controller_witness:
  "controllers (snd (Own \<lparr>gvk_Group = ''g'', gvk_Version = ''v1'', gvk_Kind = ''K''\<rparr>
     \<lparr>om_Namespace = ''n'', om_Name = ''o'', om_UID = ''u'', om_Annotations = [], om_Labels = [], om_Finalizers = [],
        om_OwnerReferences = [], om_Deleting = False\<rparr>
     \<lparr>om_Namespace = ''n'', om_Name = ''t'', om_UID = [], om_Annotations = [], om_Labels = [], om_Finalizers = [],
        om_OwnerReferences = [\<lparr>or_APIVersion = ''v1'', or_Kind = ''X'', or_Name = ''x'', or_UID = ''7'',
          or_Controller = Some True, or_BlockOwnerDeletion = None\<rparr>], om_Deleting = False\<rparr>)) =
   [\<lparr>or_APIVersion = ''g/v1'', or_Kind = ''K'', or_Name = ''o'', or_UID = ''u'', or_Controller = Some True, or_BlockOwnerDeletion = Some True\<rparr>]"
  using own_single_controller [of
     "\<lparr>om_Namespace = ''n'', om_Name = ''t'', om_UID = [], om_Annotations = [], om_Labels = [], om_Finalizers = [],
        om_OwnerReferences = [\<lparr>or_APIVersion = ''v1'', or_Kind = ''X'', or_Name = ''x'', or_UID = ''7'',
          or_Controller = Some True, or_BlockOwnerDeletion = None\<rparr>], om_Deleting = False\<rparr>"
     "\<lparr>om_Namespace = ''n'', om_Name = ''o'', om_UID = ''u'', om_Annotations = [], om_Labels = [], om_Finalizers = [],
        om_OwnerReferences = [], om_Deleting = False\<rparr>" "\<lparr>gvk_Group = ''g'', gvk_Version = ''v1'', gvk_Kind = ''K''\<rparr>"]
  by (simp add: controllers_def is_controller_def NewControllerRef_def GroupVersion_String_def)

section \<open>Finalizers\<close>

lemma index_of_None: "index_of name fs = None \<longleftrightarrow> name \<notin> set fs"
  by (induction fs) auto

lemma index_of_Some: "index_of name fs = Some i \<Longrightarrow> i < length fs \<and> fs ! i = name"
  by (induction fs arbitrary: i) (auto split: if_splits)

lemma mset_cut:
  assumes "i < length fs"
  shows "mset (butlast (fs[i := last fs])) = mset fs - {#fs ! i#}"
proof -
  obtain xs x where fs: "fs = xs @ [x]" using assms by (cases fs rule: rev_cases) auto
  show ?thesis
  proof (cases "i = length xs")
    case True
    with fs show ?thesis by simp
  next
    case False
    with assms fs have i: "i < length xs" by simp
    with fs show ?thesis
      by (simp add: list_update_append butlast_append mset_update nth_append)
  qed
qed

lemma RemoveFinalizer_mset:
  "mset (om_Finalizers (snd (RemoveFinalizer name m))) = mset (om_Finalizers m) - {#name#} \<and>
   fst (RemoveFinalizer name m) = (name \<in> set (om_Finalizers m))"
proof (cases "index_of name (om_Finalizers m)")
  case None
  then show ?thesis using index_of_None [of name "om_Finalizers m"] by (simp add: RemoveFinalizer_def)
next
  case (Some i)
  with index_of_Some [OF Some] show ?thesis
    by (auto simp: RemoveFinalizer_def Let_def mset_cut intro: nth_mem)
qed

text \<open>A finalizer guards an object exactly once: adding it makes it present and reports whether it
  was absent, removing it takes out one occurrence and reports whether there was one, and adding
  an absent finalizer and removing it again restores the finalizers (up to order). All other
  finalizers stay, with their multiplicity.\<close>

theorem finalizer_roundtrip:
  "mset (om_Finalizers (snd (AddFinalizer name m))) =
     mset (om_Finalizers m) + (if name \<in> set (om_Finalizers m) then {#} else {#name#}) \<and>
   fst (AddFinalizer name m) = (name \<notin> set (om_Finalizers m)) \<and>
   mset (om_Finalizers (snd (RemoveFinalizer name m))) = mset (om_Finalizers m) - {#name#} \<and>
   fst (RemoveFinalizer name m) = (name \<in> set (om_Finalizers m)) \<and>
   (fst (AddFinalizer name m) \<longrightarrow>
      mset (om_Finalizers (snd (RemoveFinalizer name (snd (AddFinalizer name m))))) = mset (om_Finalizers m))"
  using RemoveFinalizer_mset [of name m] RemoveFinalizer_mset [of name "snd (AddFinalizer name m)"]
  by (auto simp: AddFinalizer_def)

theorem finalizer_roundtrip_witness:
  "om_Finalizers (snd (RemoveFinalizer ''b'' (snd (AddFinalizer ''b''
     \<lparr>om_Namespace = [], om_Name = [], om_UID = [], om_Annotations = [], om_Labels = [], om_Finalizers = [''a''],
        om_OwnerReferences = [], om_Deleting = False\<rparr>)))) = [''a'']"
  using finalizer_roundtrip [of "''b''"
     "\<lparr>om_Namespace = [], om_Name = [], om_UID = [], om_Annotations = [], om_Labels = [], om_Finalizers = [''a''],
        om_OwnerReferences = [], om_Deleting = False\<rparr>"]
  by (simp add: AddFinalizer_def)

section \<open>Finalizing\<close>

text \<open>C30: An object loses its finalizer only after the finalizer's work succeeded: if persisting an
  object under deletion is what \<open>Finalize\<close> did, its work returned without an error before, and if
  that work fails, nothing is persisted and the finalizer stays. A live object gets the finalizer
  before anything else happens to it, and it is persisted only when it did not have it yet.\<close>

theorem finalize_after_work:
  "(om_Deleting (o_Meta obj) \<longrightarrow> fst (run w) = Inl err \<longrightarrow>
      Finalize name run persist obj w = ((Inl err, obj), snd (run w))) \<and>
   (om_Deleting (o_Meta obj) \<longrightarrow> fst (run w) = Inr () \<longrightarrow>
      (let obj' = obj\<lparr>o_Meta := snd (RemoveFinalizer name (o_Meta obj))\<rparr> in
       snd (Finalize name run persist obj w) = snd (persist obj' (snd (run w))) \<and>
       (fst (fst (Finalize name run persist obj w)) = Inr True \<longleftrightarrow> fst (fst (persist obj' (snd (run w)))) = Inr ()))) \<and>
   (\<not> om_Deleting (o_Meta obj) \<longrightarrow> name \<in> set (om_Finalizers (o_Meta obj)) \<longrightarrow>
      Finalize name run persist obj w = ((Inr False, obj), w)) \<and>
   (\<not> om_Deleting (o_Meta obj) \<longrightarrow> name \<notin> set (om_Finalizers (o_Meta obj)) \<longrightarrow>
      fst (fst (Finalize name run persist obj w)) \<noteq> Inr True \<and>
      (\<exists>obj'. name \<in> set (om_Finalizers (o_Meta obj')) \<and> snd (Finalize name run persist obj w) = snd (persist obj' w)))"
proof -
  let ?m = "snd (AddFinalizer name (o_Meta obj))"
  have "name \<notin> set (om_Finalizers (o_Meta obj)) \<Longrightarrow> name \<in> set (om_Finalizers ?m)" by (simp add: AddFinalizer_def)
  then show ?thesis
    by (auto simp: Finalize_def Let_def AddFinalizer_def split: prod.split sum.split
        intro!: exI [of _ "obj\<lparr>o_Meta := ?m\<rparr>"])
qed

theorem finalize_after_work_witness:
  "Finalize ''f'' (\<lambda>w. (Inl ErrRejected, w)) (\<lambda>obj w. ((Inr (), obj), Suc w))
     \<lparr>o_Meta = \<lparr>om_Namespace = [], om_Name = [], om_UID = [], om_Annotations = [], om_Labels = [], om_Finalizers = [''f''],
        om_OwnerReferences = [], om_Deleting = True\<rparr>, o_Body = ()\<rparr> 0 =
   ((Inl ErrRejected, \<lparr>o_Meta = \<lparr>om_Namespace = [], om_Name = [], om_UID = [], om_Annotations = [], om_Labels = [],
        om_Finalizers = [''f''], om_OwnerReferences = [], om_Deleting = True\<rparr>, o_Body = ()\<rparr>), 0)"
  using finalize_after_work [of "\<lparr>o_Meta = \<lparr>om_Namespace = [], om_Name = [], om_UID = [], om_Annotations = [], om_Labels = [],
        om_Finalizers = [''f''], om_OwnerReferences = [], om_Deleting = True\<rparr>, o_Body = ()\<rparr>"
      "\<lambda>w. (Inl ErrRejected, w)" 0 ErrRejected "''f''" "\<lambda>obj w. ((Inr (), obj), Suc w)"]
  by simp

end
