(* ===== verification/Graph.thy ===== *)
theory Graph
  imports Go_Values
begin

text \<open>
  The simple directed graphs of horsehead (\<open>vendor/github.com/puppetlabs/horsehead/v2/graph\<close>) with
  deterministic iteration, and their traversal in topological order: the part of the library that
  \<open>pkg/obj/workflowrun.go\<close> uses.

  The vertex storage and the edge sets are linked hash tables, that is lists in the order of
  insertion. The code identifies an edge by a unique object; since there is at most one edge between
  two vertices, the pair of its ends identifies it as well.
\<close>

section \<open>Graphs (\<open>base.go\<close>, \<open>directed.go\<close>)\<close>

record 'v graph =
  g_vertices :: "'v list"
  g_edges :: "('v \<times> 'v) list"

datatype 'v graph_error = ErrEdgeAlreadyInGraph | VertexNotFoundError 'v | ErrWouldCreateLoop | ErrCyclicGraph

definition NewSimpleDirectedGraph :: "'v graph" where
  "NewSimpleDirectedGraph = \<lparr>g_vertices = [], g_edges = []\<rparr>"

definition ContainsVertex :: "'v graph \<Rightarrow> 'v \<Rightarrow> bool" where
  "ContainsVertex g v = List.member (g_vertices g) v"

definition AddVertex :: "'v \<Rightarrow> 'v graph \<Rightarrow> 'v graph" where
  "AddVertex v g = (if ContainsVertex g v then g else g\<lparr>g_vertices := g_vertices g @ [v]\<rparr>)"

definition OutgoingEdgesOf :: "'v graph \<Rightarrow> 'v \<Rightarrow> ('v \<times> 'v) list" where
  "OutgoingEdgesOf g v = filter (\<lambda>e. fst e = v) (g_edges g)"

definition IncomingEdgesOf :: "'v graph \<Rightarrow> 'v \<Rightarrow> ('v \<times> 'v) list" where
  "IncomingEdgesOf g v = filter (\<lambda>e. snd e = v) (g_edges g)"

definition InDegreeOf :: "'v graph \<Rightarrow> 'v \<Rightarrow> nat" where
  "InDegreeOf g v = length (IncomingEdgesOf g v)"

definition ContainsEdgeBetween :: "'v graph \<Rightarrow> 'v \<Rightarrow> 'v \<Rightarrow> bool" where
  "ContainsEdgeBetween g src tgt \<longleftrightarrow>
     ContainsVertex g src \<and> ContainsVertex g tgt \<and> list_ex (\<lambda>e. snd e = tgt) (OutgoingEdgesOf g src)"

definition Connect :: "'v \<Rightarrow> 'v \<Rightarrow> 'v graph \<Rightarrow> 'v graph_error option \<times> 'v graph" where
  "Connect src tgt g =
     (if \<not> ContainsVertex g src then (Some (VertexNotFoundError src), g)
      else if \<not> ContainsVertex g tgt then (Some (VertexNotFoundError tgt), g)
      else if ContainsEdgeBetween g src tgt then (Some ErrEdgeAlreadyInGraph, g)
      else if src = tgt then (Some ErrWouldCreateLoop, g)
      else (None, g\<lparr>g_edges := g_edges g @ [(src, tgt)]\<rparr>))"

definition OppositeVertexOf :: "'v \<times> 'v \<Rightarrow> 'v \<Rightarrow> 'v" where
  "OppositeVertexOf e v = (if fst e \<noteq> v then fst e else snd e)"

section \<open>Topological order (\<open>traverse/topological_order.go\<close>)\<close>

text \<open>The iteration over the outgoing edges of the current vertex: every target has one edge less to
  wait for, and is queued with its last one.\<close>

fun release :: "('v \<times> 'v) list \<Rightarrow> 'v list \<Rightarrow> ('v \<Rightarrow> nat) \<Rightarrow> 'v list \<times> ('v \<Rightarrow> nat)" where
  "release [] queue remaining = (queue, remaining)"
| "release (e # es) queue remaining =
     (let v = snd e in
      if remaining v > 0 then
        (let remaining' = remaining(v := remaining v - 1)
         in release es (if remaining' v = 0 then queue @ [v] else queue) remaining')
      else release es queue remaining)"

lemma release_sum:
  assumes "finite T" "snd ` set es \<subseteq> T" "release es queue remaining = (queue', remaining')"
  shows "length queue' + sum remaining' T \<le> length queue + sum remaining T"
  using assms(2,3)
proof (induction es arbitrary: queue remaining)
  case (Cons e es)
  let ?v = "snd e"
  show ?case
  proof (cases "remaining ?v > 0")
    case True
    define rem where "rem = remaining(?v := remaining ?v - 1)"
    have "sum remaining T = remaining ?v + sum remaining (T - {?v})" "sum rem T = rem ?v + sum rem (T - {?v})"
      using assms(1) Cons.prems(1) by (auto intro: sum.remove)
    moreover have "sum rem (T - {?v}) = sum remaining (T - {?v})"
      by (rule sum.cong) (auto simp: rem_def)
    ultimately have less: "Suc (sum rem T) = sum remaining T" using True by (simp add: rem_def)
    have "release es (if rem ?v = 0 then queue @ [?v] else queue) rem = (queue', remaining')"
      using Cons.prems(2) True by (simp add: rem_def Let_def)
    from Cons.IH [OF _ this] Cons.prems(1) less show ?thesis by (simp split: if_splits)
  qed (use Cons in \<open>simp\<close>)
qed simp

lemma release_measure:
  assumes "(queue', remaining') = release (OutgoingEdgesOf g cur) queue remaining"
  shows "length queue' + (\<Sum>v \<in> snd ` set (g_edges g). remaining' v) < length (cur # queue) + (\<Sum>v \<in> snd ` set (g_edges g). remaining v)"
proof -
  have "snd ` set (OutgoingEdgesOf g cur) \<subseteq> snd ` set (g_edges g)" by (auto simp: OutgoingEdgesOf_def)
  from release_sum [OF _ this assms [symmetric]] show ?thesis by simp
qed

function traverse_queue ::
    "'v graph \<Rightarrow> ('v \<Rightarrow> 's \<Rightarrow> 'e option \<times> 's) \<Rightarrow> 'v list \<Rightarrow> ('v \<Rightarrow> nat) \<Rightarrow> 's \<Rightarrow> 'e option \<times> 's" where
  "traverse_queue g fn [] remaining st = (None, st)"
| "traverse_queue g fn (cur # queue) remaining st =
     (case fn cur st of
        (Some err, st') \<Rightarrow> (Some err, st')
      | (None, st') \<Rightarrow>
          (case release (OutgoingEdgesOf g cur) queue remaining of
             (queue', remaining') \<Rightarrow> traverse_queue g fn queue' remaining' st'))"
  by pat_completeness auto
termination
  by (relation "measure (\<lambda>(g, fn, queue, remaining, st). length queue + (\<Sum>v \<in> snd ` set (g_edges g). remaining v))")
    (use release_measure in \<open>fastforce+\<close>)

definition TopologicalOrderTraverser_ForEach ::
    "'v graph \<Rightarrow> ('v \<Rightarrow> 's \<Rightarrow> 'v graph_error option \<times> 's) \<Rightarrow> 's \<Rightarrow> 'v graph_error option \<times> 's" where
  "TopologicalOrderTraverser_ForEach g fn st =
     (if length (g_vertices g) = 0 then (None, st)
      else
        (let queue = filter (\<lambda>v. InDegreeOf g v = 0) (g_vertices g);
             remaining = (\<lambda>v. if ContainsVertex g v then InDegreeOf g v else 0)
         in if length queue = 0 then (Some ErrCyclicGraph, st) else traverse_queue g fn queue remaining st))"

section \<open>Well-formed graphs\<close>

definition wf_graph :: "'v graph \<Rightarrow> bool" where
  "wf_graph g \<longleftrightarrow> distinct (g_vertices g) \<and> distinct (g_edges g) \<and>
     (\<forall>(u, v) \<in> set (g_edges g). u \<in> set (g_vertices g) \<and> v \<in> set (g_vertices g) \<and> u \<noteq> v)"

lemma wf_NewSimpleDirectedGraph [simp]: "wf_graph NewSimpleDirectedGraph"
  by (simp add: wf_graph_def NewSimpleDirectedGraph_def)

lemma ContainsVertex_iff [simp]: "ContainsVertex g v \<longleftrightarrow> v \<in> set (g_vertices g)"
  by (simp add: ContainsVertex_def)

lemma set_OutgoingEdgesOf [simp]: "set (OutgoingEdgesOf g v) = {e \<in> set (g_edges g). fst e = v}"
  by (simp add: OutgoingEdgesOf_def)

lemma set_IncomingEdgesOf [simp]: "set (IncomingEdgesOf g v) = {e \<in> set (g_edges g). snd e = v}"
  by (simp add: IncomingEdgesOf_def)

lemma wf_AddVertex [simp]: "wf_graph g \<Longrightarrow> wf_graph (AddVertex v g)"
  by (auto simp: wf_graph_def AddVertex_def)

lemma ContainsEdgeBetween_iff:
  "wf_graph g \<Longrightarrow> ContainsEdgeBetween g u v \<longleftrightarrow> (u, v) \<in> set (g_edges g)"
  by (force simp: ContainsEdgeBetween_def wf_graph_def list_ex_iff)

lemma wf_Connect [simp]: "wf_graph g \<Longrightarrow> wf_graph (snd (Connect u v g))"
  using ContainsEdgeBetween_iff [of g u v] by (auto simp: Connect_def) (auto simp: wf_graph_def)

lemma vertices_AddVertex [simp]: "set (g_vertices (AddVertex v g)) = insert v (set (g_vertices g))"
  by (auto simp: AddVertex_def)

lemma edges_AddVertex [simp]: "g_edges (AddVertex v g) = g_edges g"
  by (simp add: AddVertex_def)

lemma vertices_Connect [simp]: "g_vertices (snd (Connect u v g)) = g_vertices g"
  by (simp add: Connect_def)

lemma edges_Connect:
  assumes "wf_graph g" "u \<in> set (g_vertices g)" "v \<in> set (g_vertices g)"
  shows "set (g_edges (snd (Connect u v g))) = set (g_edges g) \<union> (if u = v then {} else {(u, v)})"
  using assms ContainsEdgeBetween_iff [OF assms(1), of u v] by (auto simp: Connect_def)

section \<open>The order of the traversal\<close>

lemma release_distinct:
  assumes "distinct (map snd es)"
  shows "release es queue remaining =
    (queue @ filter (\<lambda>v. remaining v = 1) (map snd es), \<lambda>v. if v \<in> snd ` set es then remaining v - 1 else remaining v)"
  using assms
proof (induction es arbitrary: queue remaining)
  case (Cons e es)
  have same: "filter (\<lambda>v. (remaining(snd e := k)) v = 1) (map snd es) = filter (\<lambda>v. remaining v = 1) (map snd es)" for k
    using Cons.prems by (intro filter_cong refl) (simp, metis)
  show ?case
    using Cons.prems same [of "remaining (snd e) - 1"] by (auto simp: Cons.IH Let_def fun_eq_iff)
qed simp

function visit :: "'v graph \<Rightarrow> 'v list \<Rightarrow> ('v \<Rightarrow> nat) \<Rightarrow> 'v list" where
  "visit g [] remaining = []"
| "visit g (cur # queue) remaining =
     cur # (case release (OutgoingEdgesOf g cur) queue remaining of (queue', remaining') \<Rightarrow> visit g queue' remaining')"
  by pat_completeness auto
termination
  by (relation "measure (\<lambda>(g, queue, remaining). length queue + (\<Sum>v \<in> snd ` set (g_edges g). remaining v))")
    (use release_measure in \<open>fastforce simp del: release.simps split: prod.splits\<close>)+

lemma traverse_queue_fold:
  "traverse_queue g (\<lambda>v st. (None, f v st)) queue remaining st = (None, fold f (visit g queue remaining) st)"
  by (induction g "\<lambda>v st. (None :: 'e option, f v st)" queue remaining st rule: traverse_queue.induct)
    (simp_all split: prod.splits)

definition pending_edges :: "'v graph \<Rightarrow> 'v set \<Rightarrow> 'v \<Rightarrow> nat" where
  "pending_edges g D v = card {e \<in> set (g_edges g). snd e = v \<and> fst e \<notin> D}"

text \<open>The invariant of the loop, with the set \<open>D\<close> of the vertices that have been visited.\<close>

definition queue_inv :: "'v graph \<Rightarrow> 'v set \<Rightarrow> 'v list \<Rightarrow> ('v \<Rightarrow> nat) \<Rightarrow> bool" where
  "queue_inv g D queue remaining \<longleftrightarrow> distinct queue \<and> remaining = pending_edges g D \<and> D \<subseteq> set (g_vertices g) \<and>
     (\<forall>v \<in> D. pending_edges g D v = 0) \<and>
     set queue = {v \<in> set (g_vertices g). v \<notin> D \<and> pending_edges g D v = 0}"

lemma pending_edges_0: "pending_edges g D v = 0 \<longleftrightarrow> (\<forall>u. (u, v) \<in> set (g_edges g) \<longrightarrow> u \<in> D)"
  by (force simp: pending_edges_def)

lemma pending_edges_insert:
  assumes "wf_graph g" "cur \<notin> D"
  shows "pending_edges g (insert cur D) v = (if (cur, v) \<in> set (g_edges g) then pending_edges g D v - 1 else pending_edges g D v)"
proof (cases "(cur, v) \<in> set (g_edges g)")
  case True
  then have "{e \<in> set (g_edges g). snd e = v \<and> fst e \<notin> D} = insert (cur, v) {e \<in> set (g_edges g). snd e = v \<and> fst e \<notin> insert cur D}"
    using assms by (auto simp: prod_eq_iff)
  with True show ?thesis by (simp add: pending_edges_def)
next
  case False
  then have "{e \<in> set (g_edges g). snd e = v \<and> fst e \<notin> D} = {e \<in> set (g_edges g). snd e = v \<and> fst e \<notin> insert cur D}"
    by (auto simp: prod_eq_iff)
  with False show ?thesis by (simp add: pending_edges_def)
qed

lemma distinct_targets: "wf_graph g \<Longrightarrow> distinct (map snd (OutgoingEdgesOf g cur))"
  by (auto simp: wf_graph_def OutgoingEdgesOf_def distinct_map inj_on_def prod_eq_iff)

lemma targets_iff: "v \<in> snd ` set (OutgoingEdgesOf g cur) \<longleftrightarrow> (cur, v) \<in> set (g_edges g)"
  by force

lemma queue_inv_step:
  assumes "wf_graph g" "queue_inv g D (cur # queue) remaining"
    and "release (OutgoingEdgesOf g cur) queue remaining = (queue', remaining')"
  shows "queue_inv g (insert cur D) queue' remaining'"
proof -
  have rem: "remaining = pending_edges g D" and new: "cur \<notin> D" "cur \<notin> set queue" "distinct queue"
    and sub: "D \<subseteq> set (g_vertices g)" and closed: "\<And>v. v \<in> D \<Longrightarrow> pending_edges g D v = 0"
    and qs: "insert cur (set queue) = {v \<in> set (g_vertices g). v \<notin> D \<and> pending_edges g D v = 0}"
    using assms(2) by (auto simp: queue_inv_def)
  have q': "queue' = queue @ filter (\<lambda>v. remaining v = 1) (map snd (OutgoingEdgesOf g cur))"
    and rem': "remaining' = pending_edges g (insert cur D)"
    using assms(3) unfolding release_distinct [OF distinct_targets [OF assms(1)]] targets_iff rem
    by (auto simp: pending_edges_insert [OF assms(1) new(1)])
  have loop: "(cur, cur) \<notin> set (g_edges g)" and ends: "(u, v) \<in> set (g_edges g) \<Longrightarrow> v \<in> set (g_vertices g)" for u v
    using assms(1) by (auto simp: wf_graph_def)
  have set_new: "set queue' = set queue \<union> {v. (cur, v) \<in> set (g_edges g) \<and> pending_edges g D v = 1}"
    unfolding q' rem targets_iff [symmetric] by auto
  have qmem: "v \<in> set (g_vertices g) \<and> v \<notin> D \<and> pending_edges g D v = 0 \<longleftrightarrow> v = cur \<or> v \<in> set queue" for v
    using eqset_imp_iff [OF qs, of v] by simp
  have fresh: "v \<notin> D \<and> v \<noteq> cur \<and> v \<notin> set queue" if "(cur, v) \<in> set (g_edges g)" for v
  proof -
    have "pending_edges g D v \<noteq> 0" using that new(1) by (auto simp: pending_edges_0)
    moreover have "w \<in> set queue \<Longrightarrow> pending_edges g D w = 0" for w using qs by auto
    ultimately show ?thesis using that loop closed by metis
  qed
  have "distinct queue'"
  proof -
    have "set queue \<inter> set (filter (\<lambda>v. remaining v = 1) (map snd (OutgoingEdgesOf g cur))) = {}"
      using fresh targets_iff [of _ g cur] by fastforce
    moreover have "distinct (filter (\<lambda>v. remaining v = 1) (map snd (OutgoingEdgesOf g cur)))"
      using distinct_targets [OF assms(1), of cur] by (rule distinct_filter)
    ultimately show ?thesis unfolding q' distinct_append using new(3) by blast
  qed
  moreover have "set queue' = {v \<in> set (g_vertices g). v \<notin> insert cur D \<and> pending_edges g (insert cur D) v = 0}" (is "_ = ?R")
  proof (rule set_eqI)
    fix v
    show "v \<in> set queue' \<longleftrightarrow> v \<in> ?R"
      using qmem [of v] fresh [of v] new ends [of cur v] unfolding set_new pending_edges_insert [OF assms(1) new(1)]
      by (cases "(cur, v) \<in> set (g_edges g)") auto
  qed
  moreover have "\<forall>v \<in> insert cur D. pending_edges g (insert cur D) v = 0"
    using closed qmem [of cur] by (auto simp: pending_edges_0)
  ultimately show ?thesis using qmem [of cur] sub by (simp add: queue_inv_def rem')
qed

text \<open>The vertices are visited after all their predecessors, and never twice.\<close>

fun topological :: "'v graph \<Rightarrow> 'v set \<Rightarrow> 'v list \<Rightarrow> bool" where
  "topological g D [] \<longleftrightarrow> True"
| "topological g D (v # vs) \<longleftrightarrow> v \<in> set (g_vertices g) \<and> v \<notin> D \<and>
     (\<forall>u. (u, v) \<in> set (g_edges g) \<longrightarrow> u \<in> D) \<and> topological g (insert v D) vs"

lemma queue_inv_Cons: "queue_inv g D (cur # queue) remaining \<Longrightarrow>
    cur \<in> set (g_vertices g) \<and> cur \<notin> D \<and> (\<forall>u. (u, cur) \<in> set (g_edges g) \<longrightarrow> u \<in> D)"
  by (auto simp: queue_inv_def pending_edges_0)

lemma visit_topological:
  assumes "wf_graph g" "queue_inv g D queue remaining"
  shows "topological g D (visit g queue remaining)"
  using assms
proof (induction g queue remaining arbitrary: D rule: visit.induct)
  case (2 g cur queue remaining)
  obtain queue' remaining' where r: "release (OutgoingEdgesOf g cur) queue remaining = (queue', remaining')" by fastforce
  have "topological g (insert cur D) (visit g queue' remaining')"
    using "2.IH" [OF r [symmetric]] "2.prems" queue_inv_step [OF _ _ r] by blast
  then show ?case using queue_inv_Cons [OF "2.prems"(2)] r by simp
qed simp

lemma topological_distinct: "topological g D order \<Longrightarrow> distinct order \<and> set order \<inter> D = {} \<and> set order \<subseteq> set (g_vertices g)"
  by (induction order arbitrary: D) auto

text \<open>In an acyclic graph every vertex is visited: the loop ends with no vertex left that has no
  unvisited predecessor.\<close>

lemma visit_closed:
  assumes "wf_graph g" "queue_inv g D queue remaining" "v \<in> set (g_vertices g)" "v \<notin> D \<union> set (visit g queue remaining)"
  shows "\<exists>u. (u, v) \<in> set (g_edges g) \<and> u \<notin> D \<union> set (visit g queue remaining)"
  using assms
proof (induction g queue remaining arbitrary: D rule: visit.induct)
  case (1 g remaining)
  then show ?case by (auto simp: queue_inv_def pending_edges_0)
next
  case (2 g cur queue remaining)
  obtain queue' remaining' where r: "release (OutgoingEdgesOf g cur) queue remaining = (queue', remaining')" by fastforce
  show ?case
    using "2.IH" [OF r [symmetric] "2.prems"(1) queue_inv_step [OF "2.prems"(1,2) r]] "2.prems"(3,4) r by auto
qed

lemma visit_all:
  assumes "wf_graph g" "queue_inv g {} queue remaining" "acyclic (set (g_edges g))"
  shows "set (visit g queue remaining) = set (g_vertices g)"
proof -
  let ?L = "set (g_vertices g) - set (visit g queue remaining)"
  have "wf (set (g_edges g))" by (rule finite_acyclic_wf) (use assms(3) in simp_all)
  moreover have ends: "(u, v) \<in> set (g_edges g) \<Longrightarrow> u \<in> set (g_vertices g)" for u v
    using assms(1) by (auto simp: wf_graph_def)
  moreover have "v \<notin> ?L" if "\<And>u. (u, v) \<in> set (g_edges g) \<Longrightarrow> u \<notin> ?L" for v
    using that visit_closed [OF assms(1,2), of v] by (auto dest: ends)
  ultimately have "v \<notin> ?L" for v
    by (induction v rule: wf_induct_rule) blast
  then show ?thesis
    using topological_distinct [OF visit_topological [OF assms(1,2)]] by auto
qed

definition topological_order :: "'v graph \<Rightarrow> 'v list" where
  "topological_order g = visit g (filter (\<lambda>v. InDegreeOf g v = 0) (g_vertices g)) (\<lambda>v. if ContainsVertex g v then InDegreeOf g v else 0)"

lemma InDegreeOf_pending: "wf_graph g \<Longrightarrow> InDegreeOf g v = pending_edges g {} v"
  unfolding InDegreeOf_def pending_edges_def IncomingEdgesOf_def wf_graph_def
  by (subst distinct_card [symmetric]) (auto intro: arg_cong [where f = card])

lemma queue_inv_init:
  assumes "wf_graph g"
  shows "queue_inv g {} (filter (\<lambda>v. InDegreeOf g v = 0) (g_vertices g)) (\<lambda>v. if ContainsVertex g v then InDegreeOf g v else 0)"
proof -
  have "pending_edges g {} v = 0" if "v \<notin> set (g_vertices g)" for v
    using that assms by (auto simp: pending_edges_0 wf_graph_def)
  then show ?thesis
    using assms by (auto simp: queue_inv_def InDegreeOf_pending fun_eq_iff wf_graph_def)
qed

lemma topological_order_topological: "wf_graph g \<Longrightarrow> topological g {} (topological_order g)"
  unfolding topological_order_def by (intro visit_topological queue_inv_init)

lemma topological_order_all:
  "wf_graph g \<Longrightarrow> acyclic (set (g_edges g)) \<Longrightarrow> set (topological_order g) = set (g_vertices g)"
  unfolding topological_order_def by (intro visit_all queue_inv_init)

text \<open>With an action that does not fail, the traversal runs the action on the vertices in this order.\<close>

lemma ForEach_fold:
  "snd (TopologicalOrderTraverser_ForEach g (\<lambda>v st. (None, f v st)) st) = fold f (topological_order g) st"
  by (auto simp: TopologicalOrderTraverser_ForEach_def topological_order_def Let_def traverse_queue_fold filter_empty_conv)

end
