(* ===== verification/Workflow_Run.thy ===== *)
theory Workflow_Run
  imports Graph Obj_Util
begin

text \<open>
  The status of a workflow run, \<open>pkg/obj/workflowrun.go\<close>: from the status of the Tekton PipelineRun
  that executes it, and the logs of its steps, \<open>uploadLogs\<close> of \<open>pkg/reconciler/workflow\<close>.

  Times are nanoseconds, a nil time is \<open>None\<close>. A nil map and an empty one are the same here, and the
  pointers in the maps of the PipelineRun's status are not nil. A map is iterated in the order of its list.
\<close>

section \<open>Workflow runs (\<open>pkg/apis/nebula.puppet.com/v1/types.go\<close>)\<close>

record workflow_step =
  ws_Name :: string
  ws_Image :: string
  ws_Spec :: "gval gomap"
  ws_Input :: "string list"
  ws_Command :: string
  ws_Args :: "string list"
  ws_Env :: "gval gomap"
  ws_When :: gval
  ws_DependsOn :: "string list"

record status_summary =
  ss_Name :: string
  ss_Status :: string
  ss_LogKey :: string
  ss_StartTime :: "int option"
  ss_CompletionTime :: "int option"

record run_status =
  rs_Status :: string
  rs_StartTime :: "int option"
  rs_CompletionTime :: "int option"
  rs_Steps :: "status_summary gomap"
  rs_Conditions :: "status_summary gomap"

record workflow_run =
  wr_Key :: object_key
  wr_Meta :: object_meta
  wr_SpecName :: string
  wr_Steps :: "workflow_step list"
  wr_WorkflowParameters :: "gval gomap"
  wr_Parameters :: "gval gomap"
  wr_TenantRef :: "string option"
  wr_StateWorkflow :: "gval gomap"
  wr_StateSteps :: "gval gomap gomap"
  wr_Status :: run_status

section \<open>The status of a PipelineRun (Tekton)\<close>

record duck_condition =
  dc_Type :: string
  dc_Status :: string
  dc_Reason :: string

record task_run_status =
  trs_Conditions :: "duck_condition list"
  trs_StartTime :: "int option"
  trs_CompletionTime :: "int option"
  trs_PodName :: string

record condition_check_status =
  ccs_Conditions :: "duck_condition list"
  ccs_StartTime :: "int option"
  ccs_CompletionTime :: "int option"

record pipeline_task_run =
  ptr_PipelineTaskName :: string
  ptr_Status :: "task_run_status option"
  ptr_ConditionChecks :: "condition_check_status option gomap"

record pipeline_run_status =
  prs_Conditions :: "duck_condition list"
  prs_StartTime :: "int option"
  prs_CompletionTime :: "int option"
  prs_TaskRuns :: "pipeline_task_run gomap"

definition GetCondition :: "duck_condition list \<Rightarrow> string \<Rightarrow> duck_condition option" where
  "GetCondition conds t = find (\<lambda>cond. dc_Type cond = t) conds"

definition ConditionSucceeded :: string where "ConditionSucceeded = ''Succeeded''"

section \<open>Status of a run and its steps\<close>

definition WorkflowRunStateCancel :: string where "WorkflowRunStateCancel = ''cancel''"
definition WorkflowRunStatusPending :: string where "WorkflowRunStatusPending = ''pending''"
definition WorkflowRunStatusInProgress :: string where "WorkflowRunStatusInProgress = ''in-progress''"
definition WorkflowRunStatusSuccess :: string where "WorkflowRunStatusSuccess = ''success''"
definition WorkflowRunStatusFailure :: string where "WorkflowRunStatusFailure = ''failure''"
definition WorkflowRunStatusCancelled :: string where "WorkflowRunStatusCancelled = ''cancelled''"
definition WorkflowRunStatusSkipped :: string where "WorkflowRunStatusSkipped = ''skipped''"
definition WorkflowRunStatusTimedOut :: string where "WorkflowRunStatusTimedOut = ''timed-out''"

lemmas status_names = WorkflowRunStatusPending_def WorkflowRunStatusInProgress_def WorkflowRunStatusSuccess_def
  WorkflowRunStatusFailure_def WorkflowRunStatusCancelled_def WorkflowRunStatusSkipped_def WorkflowRunStatusTimedOut_def

definition workflowRunStatus :: "duck_condition list \<Rightarrow> string" where
  "workflowRunStatus status =
     (case GetCondition status ConditionSucceeded of
        None \<Rightarrow> WorkflowRunStatusPending
      | Some cs \<Rightarrow>
          if dc_Status cs = ''Unknown'' then WorkflowRunStatusInProgress
          else if dc_Status cs = ''True'' then WorkflowRunStatusSuccess
          else if dc_Status cs = ''False'' then
            (if dc_Reason cs = ''ConditionCheckFailed'' then WorkflowRunStatusSkipped
             else if dc_Reason cs = ''PipelineRunTimeout'' then WorkflowRunStatusTimedOut
             else WorkflowRunStatusFailure)
          else WorkflowRunStatusPending)"

definition wr_ModelStepFromName :: "workflow_run \<Rightarrow> string \<Rightarrow> step" where
  "wr_ModelStepFromName wr stepName = \<lparr>Step_Run = \<lparr>Run_ID = wr_SpecName wr\<rparr>, Step_Name = stepName\<rparr>"

definition ModelStep :: "workflow_run \<Rightarrow> workflow_step \<Rightarrow> step" where
  "ModelStep wr ws = wr_ModelStepFromName wr (ws_Name ws)"

definition WorkflowRun_IsCancelled :: "workflow_run \<Rightarrow> bool" where
  "WorkflowRun_IsCancelled wr =
     (case map_of (wr_StateWorkflow wr) WorkflowRunStateCancel of None \<Rightarrow> False | Some v \<Rightarrow> v = GBool True)"

definition WorkflowRun_PodSelector :: "workflow_run \<Rightarrow> string gomap" where
  "WorkflowRun_PodSelector wr = [(''controller.relay.sh/run-id'', key_Name (wr_Key wr))]"

definition zero_summary :: status_summary where
  "zero_summary = \<lparr>ss_Name = [], ss_Status = [], ss_LogKey = [], ss_StartTime = None, ss_CompletionTime = None\<rparr>"

definition get_summary :: "status_summary gomap \<Rightarrow> string \<Rightarrow> status_summary" where
  "get_summary m name = (case map_of m name of None \<Rightarrow> zero_summary | Some s \<Rightarrow> s)"

definition summary_of :: "string \<Rightarrow> duck_condition list \<Rightarrow> int option \<Rightarrow> int option \<Rightarrow> status_summary" where
  "summary_of name conds started completed =
     zero_summary\<lparr>ss_Name := name, ss_Status := workflowRunStatus conds, ss_StartTime := started, ss_CompletionTime := completed\<rparr>"

text \<open>The first check that has a status.\<close>

fun first_check :: "string \<Rightarrow> condition_check_status option gomap \<Rightarrow> status_summary option" where
  "first_check name [] = None"
| "first_check name ((_, None) # checks) = first_check name checks"
| "first_check name ((_, Some st) # checks) =
     Some (summary_of name (ccs_Conditions st) (ccs_StartTime st) (ccs_CompletionTime st))"

definition taskRunConditionStatusSummary :: "pipeline_task_run \<Rightarrow> string \<Rightarrow> status_summary option" where
  "taskRunConditionStatusSummary status name = first_check name (ptr_ConditionChecks status)"

definition taskRunStepStatusSummary :: "pipeline_task_run \<Rightarrow> string \<Rightarrow> status_summary option" where
  "taskRunStepStatusSummary status name =
     (case ptr_Status status of
        None \<Rightarrow> None
      | Some st \<Rightarrow> Some (summary_of name (trs_Conditions st) (trs_StartTime st) (trs_CompletionTime st)))"

definition workflowRunSkipsPendingSteps :: "string \<Rightarrow> bool" where
  "workflowRunSkipsPendingSteps status \<longleftrightarrow>
     status = WorkflowRunStatusCancelled \<or> status = WorkflowRunStatusFailure \<or> status = WorkflowRunStatusTimedOut"

record summaries_by_task_name =
  sbt_steps :: "status_summary gomap"
  sbt_conditions :: "status_summary gomap"

definition add_summaries :: "string \<Rightarrow> string \<times> pipeline_task_run \<Rightarrow> summaries_by_task_name \<Rightarrow> summaries_by_task_name" where
  "add_summaries status entry m =
     (case entry of (name, taskRun) \<Rightarrow>
       (let m1 = (case taskRunConditionStatusSummary taskRun name of
                    None \<Rightarrow> m
                  | Some cond \<Rightarrow> m\<lparr>sbt_conditions := AList.update (ptr_PipelineTaskName taskRun) cond (sbt_conditions m)\<rparr>)
        in case taskRunStepStatusSummary taskRun name of
             None \<Rightarrow> m1
           | Some step \<Rightarrow>
               (let step' = (if ss_Status step = WorkflowRunStatusPending \<and> workflowRunSkipsPendingSteps status
                             then step\<lparr>ss_Status := WorkflowRunStatusSkipped\<rparr> else step)
                in m1\<lparr>sbt_steps := AList.update (ptr_PipelineTaskName taskRun) step' (sbt_steps m1)\<rparr>)))"

definition workflowRunStatusSummaries :: "string \<Rightarrow> pipeline_run_status \<Rightarrow> summaries_by_task_name" where
  "workflowRunStatusSummaries status pr =
     fold (add_summaries status) (prs_TaskRuns pr) \<lparr>sbt_steps = [], sbt_conditions = []\<rparr>"

section \<open>\<open>ConfigureWorkflowRun\<close>\<close>

definition step_vertices :: "workflow_step \<Rightarrow> string graph \<Rightarrow> string graph" where
  "step_vertices st g =
     fold (\<lambda>dep g. snd (Connect dep (ws_Name st) (AddVertex dep g))) (ws_DependsOn st) (AddVertex (ws_Name st) g)"

definition step_summary :: "workflow_run \<Rightarrow> summaries_by_task_name \<Rightarrow> string \<Rightarrow> status_summary gomap \<Rightarrow> status_summary" where
  "step_summary wr summaries name steps =
     (let taskName = HexEncoding (Step_Hash (wr_ModelStepFromName wr name));
          stepSummary = (case map_of (sbt_steps summaries) taskName of
                           Some s \<Rightarrow> s
                         | None \<Rightarrow> zero_summary\<lparr>ss_Status := WorkflowRunStatusPending\<rparr>)
      in if ss_LogKey (get_summary steps name) \<noteq> [] then stepSummary\<lparr>ss_LogKey := ss_LogKey (get_summary steps name)\<rparr>
         else stepSummary)"

definition configure_step :: "workflow_run \<Rightarrow> summaries_by_task_name \<Rightarrow> workflow_step \<Rightarrow>
    string graph \<times> run_status \<Rightarrow> string graph \<times> run_status" where
  "configure_step wr summaries st s =
     (case s of (g, status) \<Rightarrow>
       (let taskName = HexEncoding (Step_Hash (ModelStep wr st));
            status1 = status\<lparr>rs_Steps := AList.update (ws_Name st) (step_summary wr summaries (ws_Name st) (rs_Steps status)) (rs_Steps status)\<rparr>;
            status2 = (case map_of (sbt_conditions summaries) taskName of
                         None \<Rightarrow> status1
                       | Some c \<Rightarrow> status1\<lparr>rs_Conditions := AList.update (ws_Name st) c (rs_Conditions status1)\<rparr>)
        in (step_vertices st g, status2)))"

definition stops_dependents :: "string \<Rightarrow> bool" where
  "stops_dependents status \<longleftrightarrow> status = WorkflowRunStatusSkipped \<or> status = WorkflowRunStatusFailure"

definition mark_skipped :: "string graph \<Rightarrow> string \<Rightarrow> status_summary gomap \<Rightarrow> status_summary gomap" where
  "mark_skipped g v steps =
     (let self = get_summary steps v in
      if ss_Status self \<noteq> WorkflowRunStatusPending then steps
      else if list_ex (\<lambda>e. stops_dependents (ss_Status (get_summary steps (OppositeVertexOf e v)))) (IncomingEdgesOf g v)
      then AList.update v (self\<lparr>ss_Status := WorkflowRunStatusSkipped\<rparr>) steps
      else steps)"

definition run_overall_status :: "workflow_run \<Rightarrow> pipeline_run_status \<Rightarrow> string" where
  "run_overall_status wr pr =
     (if WorkflowRun_IsCancelled wr then WorkflowRunStatusCancelled else workflowRunStatus (prs_Conditions pr))"

definition ConfigureWorkflowRun :: "workflow_run \<Rightarrow> pipeline_run_status \<Rightarrow> workflow_run" where
  "ConfigureWorkflowRun wr pr =
     (let overall = run_overall_status wr pr;
          status0 = (wr_Status wr)\<lparr>rs_Status := overall,
            rs_StartTime := (case prs_StartTime pr of None \<Rightarrow> rs_StartTime (wr_Status wr) | Some t \<Rightarrow> Some t),
            rs_CompletionTime := (case prs_CompletionTime pr of None \<Rightarrow> rs_CompletionTime (wr_Status wr) | Some t \<Rightarrow> Some t)\<rparr>;
          summaries = workflowRunStatusSummaries overall pr
      in case fold (configure_step wr summaries) (wr_Steps wr) (NewSimpleDirectedGraph, status0) of
           (g, status1) \<Rightarrow>
             wr\<lparr>wr_Status := status1\<lparr>rs_Steps :=
               snd (TopologicalOrderTraverser_ForEach g (\<lambda>v steps. (None, mark_skipped g v steps)) (rs_Steps status1))\<rparr>\<rparr>)"

section \<open>Completion and logs\<close>

definition Complete_status :: "int \<Rightarrow> run_status \<Rightarrow> run_status" where
  "Complete_status now status =
     status\<lparr>rs_StartTime := (case rs_StartTime status of None \<Rightarrow> Some now | t \<Rightarrow> t),
            rs_CompletionTime := (case rs_CompletionTime status of None \<Rightarrow> Some now | t \<Rightarrow> t),
            rs_Status := WorkflowRunStatusSuccess\<rparr>"

definition IsUnknown :: "duck_condition option \<Rightarrow> bool" where
  "IsUnknown c \<longleftrightarrow> (case c of None \<Rightarrow> True | Some c \<Rightarrow> dc_Status c = ''Unknown'')"

text \<open>The pods of the task runs that have ended, by the name of the task run.\<close>

definition pod_names :: "pipeline_task_run gomap \<Rightarrow> string gomap" where
  "pod_names taskRuns =
     fold (\<lambda>(name, tr) m.
             case ptr_Status tr of
               None \<Rightarrow> m
             | Some st \<Rightarrow> if IsUnknown (GetCondition (trs_Conditions st) ConditionSucceeded) then m
                          else AList.update name (trs_PodName st) m)
       taskRuns []"

text \<open>Uploading one log acts on the world of the pods' logs and the storage, as a parameter.\<close>

fun upload_steps :: "(string \<Rightarrow> 'w \<Rightarrow> string res \<times> 'w) \<Rightarrow> string gomap \<Rightarrow> status_summary gomap \<Rightarrow> status_summary gomap \<Rightarrow> 'w \<Rightarrow>
    status_summary gomap \<times> 'w" where
  "upload_steps upload pods [] steps w = (steps, w)"
| "upload_steps upload pods ((name, st) # rest) steps w =
     (if ss_LogKey st \<noteq> [] then upload_steps upload pods rest steps w
      else
        (case map_of pods (ss_Name st) of
           None \<Rightarrow> upload_steps upload pods rest steps w
         | Some pod \<Rightarrow>
             (case upload pod w of (r, w') \<Rightarrow>
                upload_steps upload pods rest
                  (AList.update name (st\<lparr>ss_LogKey := (case r of Inl _ \<Rightarrow> [] | Inr logKey \<Rightarrow> logKey)\<rparr>) steps) w')))"

definition uploadLogs :: "(string \<Rightarrow> 'w \<Rightarrow> string res \<times> 'w) \<Rightarrow> workflow_run \<Rightarrow> pipeline_run_status \<Rightarrow> 'w \<Rightarrow> workflow_run \<times> 'w" where
  "uploadLogs upload wr plr w =
     (case upload_steps upload (pod_names (prs_TaskRuns plr)) (rs_Steps (wr_Status wr)) (rs_Steps (wr_Status wr)) w of
        (steps, w') \<Rightarrow> (wr\<lparr>wr_Status := (wr_Status wr)\<lparr>rs_Steps := steps\<rparr>\<rparr>, w'))"

text \<open>\<open>uploadLog\<close>: the log of a container is copied to the storage under a key made of its place.\<close>

definition uploadLog :: "(string \<Rightarrow> string \<Rightarrow> string \<Rightarrow> 'w \<Rightarrow> string res \<times> 'w) \<Rightarrow> (string \<Rightarrow> string \<Rightarrow> 'w \<Rightarrow> unit res \<times> 'w) \<Rightarrow>
    string \<Rightarrow> string \<Rightarrow> string \<Rightarrow> 'w \<Rightarrow> string res \<times> 'w" where
  "uploadLog stream put namespace podName containerName w =
     (let key = namespace @ ''/'' @ podName @ ''/'' @ containerName in
      case stream namespace podName containerName w of
        (Inl err, w1) \<Rightarrow> (Inl err, w1)
      | (Inr log, w1) \<Rightarrow>
          (case put key log w1 of
             (Inl err, w2) \<Rightarrow> (Inl err, w2)
           | (Inr _, w2) \<Rightarrow> (Inr key, w2)))"

end
