(* ===== verification/Run_Configmap.thy ===== *)
theory Run_Configmap
  imports Workflow_Run Errmark Evaluate
begin

text \<open>
  What the controller writes into the two ConfigMaps of a run, \<open>pkg/obj/configmap.go\<close>: parameters,
  and the specs, environments and conditions of the steps after a first evaluation; and the state of the steps.

  The ConfigMap is the object in memory (\<open>LocalConfigMap\<close>), the world of these operations. \<open>None\<close> is a
  panic: the code asserts that evaluating a spec or an environment variable yields a map.
\<close>

type_synonym configured = "((goerror + unit) \<times> configmap) option"

definition plain_error :: "err \<Rightarrow> goerror" where "plain_error err = Unmarked (Plain err)"

text \<open>Returning on the first error, and ignoring what a manager returns.\<close>

definition and_then :: "('a res \<times> configmap) option \<Rightarrow> (configmap \<Rightarrow> configured) \<Rightarrow> configured" where
  "and_then r next =
     (case r of None \<Rightarrow> None | Some (Inl err, cm) \<Rightarrow> Some (Inl (plain_error err), cm) | Some (Inr _, cm) \<Rightarrow> next cm)"

definition run_parameters :: "workflow_run \<Rightarrow> gval gomap" where
  "run_parameters wr = fold (\<lambda>(name, v) params. AList.update name v params) (wr_Parameters wr) (wr_WorkflowParameters wr)"

fun set_parameters :: "gval gomap \<Rightarrow> configmap \<Rightarrow> configured" where
  "set_parameters [] cm = Some (Inr (), cm)"
| "set_parameters ((name, v) # params) cm = and_then (Parameter_Set LocalConfigMap name v cm) (set_parameters params)"

definition set_spec :: "evaluator \<Rightarrow> step \<Rightarrow> workflow_step \<Rightarrow> configmap \<Rightarrow> configured" where
  "set_spec ev ms ws cm =
     (if length (ws_Spec ws) > 0 then
        (case EvaluateAll ev (GMap (ws_Spec ws)) of
           Inl err \<Rightarrow> Some (Inl (MarkUser (plain_error err)), cm)
         | Inr r \<Rightarrow>
             (case Value r of
                GMap m \<Rightarrow> and_then (Spec_Set LocalConfigMap (Step ms) m cm) (\<lambda>cm. Some (Inr (), cm))
              | _ \<Rightarrow> None))
      else Some (Inr (), cm))"

fun evaluate_vars :: "evaluator \<Rightarrow> gval gomap \<Rightarrow> gval gomap \<Rightarrow> (goerror + gval gomap) option" where
  "evaluate_vars ev [] vars = Some (Inr vars)"
| "evaluate_vars ev ((name, v) # env) vars =
     (case EvaluateAll ev v of
        Inl err \<Rightarrow> Some (Inl (MarkUser (plain_error err)))
      | Inr r \<Rightarrow> (case Value r of GMap m \<Rightarrow> evaluate_vars ev env (AList.update name (GMap m) vars) | _ \<Rightarrow> None))"

text \<open>The map of an environment is never nil, so that it is always stored; the error of storing it is
  dropped.\<close>

definition set_env :: "evaluator \<Rightarrow> step \<Rightarrow> workflow_step \<Rightarrow> configmap \<Rightarrow> configured" where
  "set_env ev ms ws cm =
     (case evaluate_vars ev (ws_Env ws) [] of
        None \<Rightarrow> None
      | Some (Inl err) \<Rightarrow> Some (Inl err, cm)
      | Some (Inr vars) \<Rightarrow>
          (case Environment_Set LocalConfigMap (Step ms) vars cm of None \<Rightarrow> None | Some (_, cm') \<Rightarrow> Some (Inr (), cm')))"

definition set_when :: "evaluator \<Rightarrow> step \<Rightarrow> workflow_step \<Rightarrow> configmap \<Rightarrow> configured" where
  "set_when ev ms ws cm =
     (if ws_When ws \<noteq> GNil then
        (case EvaluateAll ev (ws_When ws) of
           Inl err \<Rightarrow> Some (Inl (MarkUser (plain_error err)), cm)
         | Inr r \<Rightarrow> and_then (Condition_Set LocalConfigMap (Step ms) (Value r) cm) (\<lambda>cm. Some (Inr (), cm)))
      else Some (Inr (), cm))"

text \<open>Statements in sequence.\<close>

definition seq :: "(configmap \<Rightarrow> configured) \<Rightarrow> (configmap \<Rightarrow> configured) \<Rightarrow> configmap \<Rightarrow> configured" where
  "seq f g cm = (case f cm of None \<Rightarrow> None | Some (Inl err, cm') \<Rightarrow> Some (Inl err, cm') | Some (Inr _, cm') \<Rightarrow> g cm')"

definition set_step :: "evaluator \<Rightarrow> workflow_run \<Rightarrow> workflow_step \<Rightarrow> configmap \<Rightarrow> configured" where
  "set_step ev wr ws =
     seq (set_spec ev (ModelStep wr ws) ws) (seq (set_env ev (ModelStep wr ws) ws) (set_when ev (ModelStep wr ws) ws))"

fun set_steps :: "evaluator \<Rightarrow> workflow_run \<Rightarrow> workflow_step list \<Rightarrow> configmap \<Rightarrow> configured" where
  "set_steps ev wr [] cm = Some (Inr (), cm)"
| "set_steps ev wr (ws # wss) cm = seq (set_step ev wr ws) (set_steps ev wr wss) cm"

definition ConfigureImmutableConfigMapForWorkflowRun :: "golib \<Rightarrow> workflow_run \<Rightarrow> configmap \<Rightarrow> configured" where
  "ConfigureImmutableConfigMapForWorkflowRun lib wr =
     seq (set_parameters (run_parameters wr)) (set_steps (NewEvaluator lib []) wr (wr_Steps wr))"

fun set_state :: "step \<Rightarrow> gval gomap \<Rightarrow> configmap \<Rightarrow> configured" where
  "set_state ms [] cm = Some (Inr (), cm)"
| "set_state ms ((name, v) # st) cm = and_then (State_Set LocalConfigMap (Step ms) name v cm) (set_state ms st)"

fun set_states :: "workflow_run \<Rightarrow> gval gomap gomap \<Rightarrow> configmap \<Rightarrow> configured" where
  "set_states wr [] cm = Some (Inr (), cm)"
| "set_states wr ((stepName, st) # sts) cm = seq (set_state (wr_ModelStepFromName wr stepName) st) (set_states wr sts) cm"

definition ConfigureMutableConfigMapForWorkflowRun :: "workflow_run \<Rightarrow> configmap \<Rightarrow> configured" where
  "ConfigureMutableConfigMapForWorkflowRun wr = set_states wr (wr_StateSteps wr)"

end
