(* ===== verification/Workflow_Run_Props.thy ===== *)
theory Workflow_Run_Props
  imports Workflow_Run
begin

text \<open>
  What the status of a run says: how skipping spreads along the dependencies between steps, and that
  a log, once uploaded, stays recorded.
\<close>

section \<open>The graph of dependencies\<close>

definition dependencies :: "workflow_run \<Rightarrow> (string \<times> string) set" where
  "dependencies wr = (\<Union>st \<in> set (wr_Steps wr). {(d, ws_Name st) |d. d \<in> set (ws_DependsOn st) \<and> d \<noteq> ws_Name st})"

definition step_names :: "workflow_run \<Rightarrow> string set" where
  "step_names wr = ws_Name ` set (wr_Steps wr)"

lemma fold_connect:
  assumes "wf_graph g" "name \<in> set (g_vertices g)"
  shows "wf_graph (fold (\<lambda>dep g. snd (Connect dep name (AddVertex dep g))) deps g) \<and>
    set (g_edges (fold (\<lambda>dep g. snd (Connect dep name (AddVertex dep g))) deps g)) =
      set (g_edges g) \<union> {(d, name) |d. d \<in> set deps \<and> d \<noteq> name}"
  using assms
proof (induction deps arbitrary: g)
  case (Cons dep deps)
  have "set (g_edges (snd (Connect dep name (AddVertex dep g)))) = set (g_edges g) \<union> (if dep = name then {} else {(dep, name)})"
    using edges_Connect [of "AddVertex dep g" dep name] Cons.prems by simp
  then show ?case using Cons.IH [of "snd (Connect dep name (AddVertex dep g))"] Cons.prems by auto
qed simp

lemma step_vertices_edges:
  "wf_graph g \<Longrightarrow> wf_graph (step_vertices st g) \<and>
    set (g_edges (step_vertices st g)) = set (g_edges g) \<union> {(d, ws_Name st) |d. d \<in> set (ws_DependsOn st) \<and> d \<noteq> ws_Name st}"
  unfolding step_vertices_def using fold_connect [of "AddVertex (ws_Name st) g" "ws_Name st"] by simp

section \<open>Summaries of the steps before skipping spreads\<close>

definition pipeline_summary :: "workflow_run \<Rightarrow> pipeline_run_status \<Rightarrow> string \<Rightarrow> status_summary" where
  "pipeline_summary wr pr name =
     (case map_of (sbt_steps (workflowRunStatusSummaries (run_overall_status wr pr) pr)) (HexEncoding (Step_Hash (wr_ModelStepFromName wr name))) of
        Some s \<Rightarrow> s
      | None \<Rightarrow> zero_summary\<lparr>ss_Status := WorkflowRunStatusPending\<rparr>)"

lemma get_summary_update [simp]:
  "get_summary (AList.update k s m) name = (if name = k then s else get_summary m name)"
  by (simp add: get_summary_def)

lemma summaries_log:
  "(\<forall>s \<in> ran (map_of (sbt_steps m)). ss_LogKey s = []) \<Longrightarrow>
   \<forall>s \<in> ran (map_of (sbt_steps (fold (add_summaries status) trs m))). ss_LogKey s = []"
proof (induction trs arbitrary: m)
  case (Cons tr trs)
  have "\<forall>s \<in> ran (map_of (sbt_steps (add_summaries status tr m))). ss_LogKey s = []"
    using Cons.prems
    by (auto simp: add_summaries_def taskRunStepStatusSummary_def summary_of_def zero_summary_def Let_def ran_def
        split: prod.splits option.splits if_splits)
  then show ?case using Cons.IH by simp
qed simp

lemma pipeline_summary_log [simp]: "ss_LogKey (pipeline_summary wr pr name) = []"
  using summaries_log [of "\<lparr>sbt_steps = [], sbt_conditions = []\<rparr>" "run_overall_status wr pr" "prs_TaskRuns pr"]
  by (auto simp: pipeline_summary_def workflowRunStatusSummaries_def zero_summary_def split: option.splits intro: ranI)

definition keep_log :: "string \<Rightarrow> status_summary \<Rightarrow> status_summary" where
  "keep_log key s = (if key \<noteq> [] then s\<lparr>ss_LogKey := key\<rparr> else s)"

lemma step_summary_pipeline:
  "step_summary wr (workflowRunStatusSummaries (run_overall_status wr pr) pr) name steps =
     keep_log (ss_LogKey (get_summary steps name)) (pipeline_summary wr pr name)"
  by (simp add: step_summary_def pipeline_summary_def keep_log_def Let_def)

lemma keep_log_log [simp]: "ss_LogKey (keep_log key (pipeline_summary wr pr name)) = key"
  by (simp add: keep_log_def)

lemma keep_log_status [simp]: "ss_Status (keep_log key s) = ss_Status s"
  by (simp add: keep_log_def)

lemma fold_configure_step:
  assumes "wf_graph g"
    and "fold (configure_step wr (workflowRunStatusSummaries (run_overall_status wr pr) pr)) sts (g, status0) = (g', status1)"
  shows "wf_graph g' \<and>
    set (g_edges g') = set (g_edges g) \<union> (\<Union>st \<in> set sts. {(d, ws_Name st) |d. d \<in> set (ws_DependsOn st) \<and> d \<noteq> ws_Name st}) \<and>
    (\<forall>name. get_summary (rs_Steps status1) name =
      (if name \<in> ws_Name ` set sts
       then keep_log (ss_LogKey (get_summary (rs_Steps status0) name)) (pipeline_summary wr pr name)
       else get_summary (rs_Steps status0) name)) \<and>
    rs_Status status1 = rs_Status status0 \<and> rs_StartTime status1 = rs_StartTime status0 \<and>
    rs_CompletionTime status1 = rs_CompletionTime status0"
  using assms(2)
proof (induction sts arbitrary: g' status1 rule: rev_induct)
  case (snoc st sts)
  obtain g1 s1 where p: "fold (configure_step wr (workflowRunStatusSummaries (run_overall_status wr pr) pr)) sts (g, status0) = (g1, s1)"
    by fastforce
  note IH = snoc.IH [OF p]
  have step: "configure_step wr (workflowRunStatusSummaries (run_overall_status wr pr) pr) st (g1, s1) = (g', status1)"
    using snoc.prems p by simp
  then have g': "g' = step_vertices st g1"
    and steps: "rs_Steps status1 = AList.update (ws_Name st) (keep_log (ss_LogKey (get_summary (rs_Steps s1) (ws_Name st)))
        (pipeline_summary wr pr (ws_Name st))) (rs_Steps s1)"
    and rest: "rs_Status status1 = rs_Status s1" "rs_StartTime status1 = rs_StartTime s1" "rs_CompletionTime status1 = rs_CompletionTime s1"
    by (auto simp: configure_step_def Let_def step_summary_pipeline split: option.splits)
  show ?case
    unfolding g' steps using IH rest step_vertices_edges [of g1 st] by auto
qed (use assms(1) in auto)

section \<open>Skipping spreads along the dependencies\<close>

abbreviation status_at :: "status_summary gomap \<Rightarrow> string \<Rightarrow> string" where
  "status_at steps name \<equiv> ss_Status (get_summary steps name)"

lemma mark_skipped_status:
  assumes "wf_graph g"
  shows "status_at (mark_skipped g v steps) x =
    (if x = v \<and> status_at steps v = WorkflowRunStatusPending \<and> (\<exists>u. (u, v) \<in> set (g_edges g) \<and> stops_dependents (status_at steps u))
     then WorkflowRunStatusSkipped else status_at steps x)"
proof -
  have "OppositeVertexOf e v = fst e" if "e \<in> set (g_edges g)" "snd e = v" for e
    using that assms by (auto simp: OppositeVertexOf_def wf_graph_def)
  then have "list_ex (\<lambda>e. stops_dependents (status_at steps (OppositeVertexOf e v))) (IncomingEdgesOf g v) \<longleftrightarrow>
      (\<exists>u. (u, v) \<in> set (g_edges g) \<and> stops_dependents (status_at steps u))"
    by (auto simp: list_ex_iff)
  then show ?thesis by (auto simp: mark_skipped_def Let_def)
qed

lemma mark_skipped_log [simp]: "ss_LogKey (get_summary (mark_skipped g v steps) x) = ss_LogKey (get_summary steps x)"
  by (simp add: mark_skipped_def Let_def)

lemma fold_mark_log [simp]: "ss_LogKey (get_summary (fold (mark_skipped g) order steps) x) = ss_LogKey (get_summary steps x)"
  by (induction order arbitrary: steps) auto

lemma fold_mark_status:
  assumes "wf_graph g" "topological g D order"
  shows "status_at (fold (mark_skipped g) order steps) x =
    (if x \<in> set order \<and> status_at steps x = WorkflowRunStatusPending \<and>
        (\<exists>u. (u, x) \<in> set (g_edges g) \<and> stops_dependents (status_at (fold (mark_skipped g) order steps) u))
     then WorkflowRunStatusSkipped else status_at steps x)"
  using assms(2)
proof (induction order arbitrary: D steps x)
  case (Cons v order)
  let ?s = "mark_skipped g v steps"
  let ?F = "fold (mark_skipped g) order ?s"
  have top: "topological g (insert v D) order" and preds: "\<And>u. (u, v) \<in> set (g_edges g) \<Longrightarrow> u \<in> D" and "v \<notin> D"
    using Cons.prems by auto
  have fresh: "v \<notin> set order" "\<And>u. u \<in> D \<Longrightarrow> u \<notin> set order" using topological_distinct [OF top] by auto
  have same: "status_at ?F u = status_at steps u" if "(u, v) \<in> set (g_edges g)" for u
    using Cons.IH [OF top, of ?s u] fresh(2) [OF preds [OF that]] preds [OF that] \<open>v \<notin> D\<close>
    by (auto simp: mark_skipped_status [OF assms(1)])
  show ?case
  proof (cases "x = v")
    case True
    then show ?thesis
      using Cons.IH [OF top, of ?s v] fresh(1) same by (auto simp: mark_skipped_status [OF assms(1)])
  next
    case False
    then show ?thesis
      using Cons.IH [OF top, of ?s x] by (auto simp: mark_skipped_status [OF assms(1)])
  qed
qed simp

definition status_of :: "workflow_run \<Rightarrow> string \<Rightarrow> string" where
  "status_of wr name = status_at (rs_Steps (wr_Status wr)) name"

lemma ConfigureWorkflowRun_steps:
  obtains g steps where "wf_graph g" "set (g_edges g) = dependencies wr"
    "\<And>name. get_summary steps name = (if name \<in> step_names wr
       then keep_log (ss_LogKey (get_summary (rs_Steps (wr_Status wr)) name)) (pipeline_summary wr pr name)
       else get_summary (rs_Steps (wr_Status wr)) name)"
    "rs_Steps (wr_Status (ConfigureWorkflowRun wr pr)) = fold (mark_skipped g) (topological_order g) steps"
    "rs_Status (wr_Status (ConfigureWorkflowRun wr pr)) = run_overall_status wr pr"
proof -
  define status0 where "status0 = (wr_Status wr)\<lparr>rs_Status := run_overall_status wr pr,
    rs_StartTime := (case prs_StartTime pr of None \<Rightarrow> rs_StartTime (wr_Status wr) | Some t \<Rightarrow> Some t),
    rs_CompletionTime := (case prs_CompletionTime pr of None \<Rightarrow> rs_CompletionTime (wr_Status wr) | Some t \<Rightarrow> Some t)\<rparr>"
  obtain g status1 where p: "fold (configure_step wr (workflowRunStatusSummaries (run_overall_status wr pr) pr)) (wr_Steps wr)
      (NewSimpleDirectedGraph, status0) = (g, status1)" by fastforce
  note f = fold_configure_step [OF wf_NewSimpleDirectedGraph p]
  have "rs_Steps (wr_Status (ConfigureWorkflowRun wr pr)) = fold (mark_skipped g) (topological_order g) (rs_Steps status1)"
    "rs_Status (wr_Status (ConfigureWorkflowRun wr pr)) = rs_Status status1"
    using p by (simp_all add: ConfigureWorkflowRun_def Let_def status0_def ForEach_fold)
  moreover have "set (g_edges g) = dependencies wr"
    using f by (simp add: dependencies_def NewSimpleDirectedGraph_def)
  moreover have "rs_Steps status0 = rs_Steps (wr_Status wr)" "rs_Status status0 = run_overall_status wr pr" by (simp_all add: status0_def)
  ultimately show ?thesis using that [of g "rs_Steps status1"] f by (simp add: step_names_def)
qed

lemma Configure_status: "rs_Status (wr_Status (ConfigureWorkflowRun wr pr)) = run_overall_status wr pr"
  by (rule ConfigureWorkflowRun_steps [of wr pr])

lemma spread_status:
  assumes "acyclic (dependencies wr)"
  shows "status_of (ConfigureWorkflowRun wr pr) name =
    (let own = (if name \<in> step_names wr then ss_Status (pipeline_summary wr pr name) else status_of wr name) in
     if own = WorkflowRunStatusPending \<and>
        (\<exists>d. (d, name) \<in> dependencies wr \<and> stops_dependents (status_of (ConfigureWorkflowRun wr pr) d))
     then WorkflowRunStatusSkipped else own)"
proof -
  obtain g steps where g: "wf_graph g" "set (g_edges g) = dependencies wr"
    and steps: "\<And>name. get_summary steps name = (if name \<in> step_names wr
       then keep_log (ss_LogKey (get_summary (rs_Steps (wr_Status wr)) name)) (pipeline_summary wr pr name)
       else get_summary (rs_Steps (wr_Status wr)) name)"
    and F: "rs_Steps (wr_Status (ConfigureWorkflowRun wr pr)) = fold (mark_skipped g) (topological_order g) steps"
    by (rule ConfigureWorkflowRun_steps [of wr pr]) blast
  have "name \<in> set (topological_order g)" if "(d, name) \<in> dependencies wr" for d
    using that g topological_order_all [OF g(1)] assms by (auto simp: wf_graph_def)
  then show ?thesis
    using fold_mark_status [OF g(1) topological_order_topological [OF g(1)], of steps name]
    by (auto simp: status_of_def F Let_def g(2) steps)
qed

text \<open>C10: When the dependencies between the steps of a run have no cycle, \<open>ConfigureWorkflowRun\<close> leaves
  every step with the status of its task run, except that a pending step is skipped exactly if one
  of the steps it depends on was skipped (for whatever reason) or failed. Entries that are not steps
  of the workflow keep their status.\<close>

theorem skipping_spreads:
  assumes "acyclic (dependencies wr)"
  shows "status_of (ConfigureWorkflowRun wr pr) name =
    (let own = (if name \<in> step_names wr then ss_Status (pipeline_summary wr pr name) else status_of wr name) in
     if own = WorkflowRunStatusPending \<and>
        (\<exists>d. (d, name) \<in> dependencies wr \<and> stops_dependents (status_of (ConfigureWorkflowRun wr pr) d))
     then WorkflowRunStatusSkipped else own)"
  by (rule spread_status [OF assms])

definition ex_run :: workflow_run where
  "ex_run = \<lparr>wr_Key = \<lparr>key_Namespace = ''ns'', key_Name = ''run''\<rparr>,
     wr_Meta = \<lparr>om_Namespace = ''ns'', om_Name = ''run'', om_UID = ''uid'', om_Annotations = [], om_Labels = [], om_Finalizers = [],
       om_OwnerReferences = [], om_Deleting = False\<rparr>,
     wr_SpecName = ''run'',
     wr_Steps = [\<lparr>ws_Name = ''deploy'', ws_Image = [], ws_Spec = [], ws_Input = [], ws_Command = [], ws_Args = [], ws_Env = [],
       ws_When = GNil, ws_DependsOn = [''build'']\<rparr>],
     wr_WorkflowParameters = [], wr_Parameters = [], wr_TenantRef = None, wr_StateWorkflow = [], wr_StateSteps = [],
     wr_Status = \<lparr>rs_Status = [], rs_StartTime = None, rs_CompletionTime = None,
       rs_Steps = [(''build'', zero_summary\<lparr>ss_Status := WorkflowRunStatusFailure\<rparr>)], rs_Conditions = []\<rparr>\<rparr>"

definition ex_pipeline_status :: pipeline_run_status where
  "ex_pipeline_status = \<lparr>prs_Conditions = [], prs_StartTime = Some 1, prs_CompletionTime = None, prs_TaskRuns = []\<rparr>"

lemma ex_dependencies: "dependencies ex_run = {(''build'', ''deploy'')}"
  by (auto simp: dependencies_def ex_run_def)

theorem skipping_spreads_witness:
  "status_of (ConfigureWorkflowRun ex_run ex_pipeline_status) ''deploy'' = ''skipped''"
proof -
  have acyc: "acyclic (dependencies ex_run)" by (simp add: ex_dependencies acyclic_insert) (simp add: acyclic_def)
  have "status_of (ConfigureWorkflowRun ex_run ex_pipeline_status) ''build'' = WorkflowRunStatusFailure"
    unfolding skipping_spreads [OF acyc, of ex_pipeline_status "''build''"] ex_dependencies
    by (simp add: Let_def step_names_def ex_run_def status_of_def get_summary_def)
  moreover have "ss_Status (pipeline_summary ex_run ex_pipeline_status ''deploy'') = WorkflowRunStatusPending"
    by (simp add: pipeline_summary_def workflowRunStatusSummaries_def ex_pipeline_status_def)
  moreover have "''deploy'' \<in> step_names ex_run" by (simp add: step_names_def ex_run_def)
  ultimately show ?thesis
    unfolding skipping_spreads [OF acyc, of ex_pipeline_status "''deploy''"] ex_dependencies
    by (simp add: Let_def stops_dependents_def WorkflowRunStatusSkipped_def)
qed

text \<open>A step that has no task run stays pending, also when the run has been cancelled.\<close>

lemma cancelled_run_keeps_pending:
  "let wr = ex_run\<lparr>wr_StateWorkflow := [(''cancel'', GBool True)], wr_Status := (wr_Status ex_run)\<lparr>rs_Steps := []\<rparr>\<rparr> in
   rs_Status (wr_Status (ConfigureWorkflowRun wr ex_pipeline_status)) = ''cancelled'' \<and>
   status_of (ConfigureWorkflowRun wr ex_pipeline_status) ''deploy'' = ''pending''"
proof -
  let ?wr = "ex_run\<lparr>wr_StateWorkflow := [(''cancel'', GBool True)], wr_Status := (wr_Status ex_run)\<lparr>rs_Steps := []\<rparr>\<rparr>"
  have "run_overall_status ?wr ex_pipeline_status = ''cancelled''"
    by (simp add: run_overall_status_def WorkflowRun_IsCancelled_def WorkflowRunStateCancel_def WorkflowRunStatusCancelled_def)
  moreover have "pipeline_summary ?wr ex_pipeline_status ''deploy'' = zero_summary\<lparr>ss_Status := ''pending''\<rparr>"
    by (simp add: pipeline_summary_def workflowRunStatusSummaries_def ex_pipeline_status_def WorkflowRunStatusPending_def)
  moreover have "rs_Steps (wr_Status ?wr) = []" "''deploy'' \<in> step_names ?wr" "dependencies ?wr = {(''build'', ''deploy'')}"
    using ex_dependencies by (simp_all add: step_names_def ex_run_def dependencies_def)
  moreover have build: "''build'' \<notin> step_names ?wr" "status_of ?wr ''build'' = []"
    by (simp_all add: step_names_def ex_run_def status_of_def get_summary_def zero_summary_def)
  moreover have "acyclic {(''build'', ''deploy'')}" by (simp add: acyclic_insert) (simp add: acyclic_def)
  ultimately show ?thesis
    using spread_status [of ?wr ex_pipeline_status "''build''"] spread_status [of ?wr ex_pipeline_status "''deploy''"]
    unfolding Let_def Configure_status
    by (simp add: build stops_dependents_def status_names)
qed

section \<open>Logs\<close>

lemma upload_steps_kept:
  "(\<forall>st. (name, st) \<in> set rest \<longrightarrow> ss_LogKey st \<noteq> []) \<Longrightarrow>
   get_summary (fst (upload_steps upload pods rest steps w)) name = get_summary steps name"
  by (induction upload pods rest steps w rule: upload_steps.induct) (auto split: option.splits prod.splits)

text \<open>A log, once uploaded, stays recorded: neither \<open>uploadLogs\<close> nor \<open>ConfigureWorkflowRun\<close> changes or
  drops the log key of a step that has one.\<close>

lemma ConfigureWorkflowRun_log:
  "ss_LogKey (get_summary (rs_Steps (wr_Status (ConfigureWorkflowRun wr pr))) name) = ss_LogKey (get_summary (rs_Steps (wr_Status wr)) name)"
  by (rule ConfigureWorkflowRun_steps [of wr pr]) simp

lemma uploadLogs_kept:
  assumes "wf_gomap (rs_Steps (wr_Status wr))" "ss_LogKey (get_summary (rs_Steps (wr_Status wr)) name) \<noteq> []"
  shows "get_summary (rs_Steps (wr_Status (fst (uploadLogs upload wr plr w)))) name = get_summary (rs_Steps (wr_Status wr)) name"
proof -
  have "ss_LogKey st \<noteq> []" if "(name, st) \<in> set (rs_Steps (wr_Status wr))" for st
    using that assms by (simp add: get_summary_def wf_gomap_def map_of_is_SomeI)
  then show ?thesis
    using upload_steps_kept [of name "rs_Steps (wr_Status wr)" upload "pod_names (prs_TaskRuns plr)" "rs_Steps (wr_Status wr)" w]
    by (auto simp: uploadLogs_def split: prod.splits)
qed

end
