(* ===== verification/Run_Configmap_Props.thy ===== *)
theory Run_Configmap_Props
  imports Run_Configmap Workflow_Run_Props Configmap_Props Expr_Properties Metadata_Api
begin

text \<open>
  From the spec of a step in a workflow run to the answer of the metadata API: what the controller
  stores, and that evaluating the stored value in the API gives what evaluating the spec itself would.
\<close>

section \<open>What an operation leaves alone\<close>















section \<open>What the controller stores\<close>




section \<open>What the API answers\<close>









definition ex_lib :: golib where
  "ex_lib = \<lparr>render_html = (\<lambda>s. s), render_jira = (\<lambda>s. s), json_text = (\<lambda>s. Inr (GStr s))\<rparr>"

definition ex_spec :: "gval gomap" where
  "ex_spec = [(''token'', GMap [(''$type'', GStr ''Secret''), (''name'', GStr ''foo'')]),
     (''url'', GMap [(''$fn.concat'', GList [GStr ''a'', GStr ''b''])])]"


definition ex_step :: workflow_step where
  "ex_step = \<lparr>ws_Name = ''deploy'', ws_Image = [], ws_Spec = ex_spec, ws_Input = [], ws_Command = [], ws_Args = [], ws_Env = [],
     ws_When = GNil, ws_DependsOn = []\<rparr>"










text \<open>A spec that is itself a call of a function that returns no map makes the controller panic.\<close>

lemma spec_expression_panics:
  "set_spec (NewEvaluator ex_lib []) ms (ex_step\<lparr>ws_Spec := [(''$fn.concat'', GList [GStr ''a''])]\<rparr>) cm = None"
proof -
  have "EvaluateAll (NewEvaluator ex_lib []) (GMap [(''$fn.concat'', GList [GStr ''a''])]) = Inr (value_result (GStr ''a''))"
    by code_simp
  then show ?thesis by (simp add: set_spec_def)
qed

end
