(* ===== verification/Obj_Status.thy ===== *)
theory Obj_Status
  imports Obj_Util
begin

text \<open>
  Status conditions, \<open>pkg/obj/status.go\<close>, and the status of tenants (\<open>tenant.go\<close>) and webhook triggers
  (\<open>webhooktrigger.go\<close>) that is made of them.

  The clock gives the time at which each condition is updated. \<open>None\<close> as a time is the zero time, as an
  outcome a panic: a status that lists a condition of an unknown type.
\<close>

section \<open>Conditions (\<open>status.go\<close>)\<close>

record condition_state =
  cond_Status :: string
  cond_LastTransitionTime :: "int option"
  cond_Reason :: string
  cond_Message :: string

definition ConditionTrue :: string where "ConditionTrue = ''True''"
definition ConditionFalse :: string where "ConditionFalse = ''False''"
definition ConditionUnknown :: string where "ConditionUnknown = ''Unknown''"

lemmas condition_names = ConditionTrue_def ConditionFalse_def ConditionUnknown_def

definition empty_condition :: condition_state where
  "empty_condition = \<lparr>cond_Status = [], cond_LastTransitionTime = None, cond_Reason = [], cond_Message = []\<rparr>"

definition condition_with :: "string \<Rightarrow> string \<Rightarrow> string \<Rightarrow> condition_state" where
  "condition_with status reason message =
     \<lparr>cond_Status = status, cond_LastTransitionTime = None, cond_Reason = reason, cond_Message = message\<rparr>"

definition UpdateStatusConditionIfTransitioned :: "int \<Rightarrow> condition_state \<Rightarrow> condition_state \<Rightarrow> condition_state" where
  "UpdateStatusConditionIfTransitioned now nc target =
     (if cond_Status nc = cond_Status target \<and> cond_Reason nc = cond_Reason target \<and> cond_Message nc = cond_Message target
      then target
      else if cond_LastTransitionTime nc = None then nc\<lparr>cond_LastTransitionTime := Some now\<rparr>
      else nc)"

fun aggregate_loop :: "string \<Rightarrow> condition_state list \<Rightarrow> string" where
  "aggregate_loop all [] = all"
| "aggregate_loop all (cond # conds) =
     (if cond_Status cond = ConditionTrue then aggregate_loop all conds
      else if cond_Status cond = ConditionFalse then ConditionFalse
      else if cond_Status cond = ConditionUnknown then aggregate_loop ConditionUnknown conds
      else aggregate_loop all conds)"

definition AggregateStatusConditions :: "condition_state list \<Rightarrow> string" where
  "AggregateStatusConditions conds = (if length conds = 0 then ConditionUnknown else aggregate_loop ConditionTrue conds)"

text \<open>The conditions a status starts from: the known types, overwritten with what is stored.\<close>

type_synonym conditions = "(string \<times> condition_state) list"

fun load_conditions :: "string list \<Rightarrow> conditions \<Rightarrow> (string \<Rightarrow> condition_state) \<Rightarrow> (string \<Rightarrow> condition_state) option" where
  "load_conditions types [] conds = Some conds"
| "load_conditions types ((ty, cond) # rest) conds =
     (if List.member types ty then load_conditions types rest (conds(ty := cond)) else None)"

text \<open>\<open>Ready\<close>: the first condition of the given type decides.\<close>

fun ready_loop :: "string \<Rightarrow> conditions \<Rightarrow> bool" where
  "ready_loop ty [] = False"
| "ready_loop ty ((t, cond) # conds) = (if t \<noteq> ty then ready_loop ty conds else cond_Status cond = ConditionTrue)"

section \<open>Tenants (\<open>tenant.go\<close>)\<close>

definition TenantNamespaceReady :: string where "TenantNamespaceReady = ''NamespaceReady''"
definition TenantEventSinkReady :: string where "TenantEventSinkReady = ''EventSinkReady''"
definition TenantToolInjectionReady :: string where "TenantToolInjectionReady = ''ToolInjectionReady''"
definition TenantReady :: string where "TenantReady = ''Ready''"

lemmas tenant_types = TenantNamespaceReady_def TenantEventSinkReady_def TenantToolInjectionReady_def TenantReady_def

record tenant_status =
  ts_ObservedGeneration :: int
  ts_Namespace :: string
  ts_Conditions :: conditions

record tenant =
  tn_Generation :: int
  tn_TemplateName :: string
  tn_Status :: tenant_status

text \<open>An event sink with the data of the secret its token comes from.\<close>

record api_trigger_event_sink =
  tes_URL :: string
  tes_Token :: string
  tes_SecretKey :: string
  tes_SecretData :: "string gomap option"

definition OpaqueSecret_Data :: "string gomap \<Rightarrow> string \<Rightarrow> string \<times> bool" where
  "OpaqueSecret_Data data key = (case map_of data key of None \<Rightarrow> ([], False) | Some b \<Rightarrow> (b, True))"

definition APITriggerEventSink_Token :: "api_trigger_event_sink \<Rightarrow> string \<times> bool" where
  "APITriggerEventSink_Token tes =
     (if tes_Token tes \<noteq> [] then (tes_Token tes, True)
      else case tes_SecretData tes of
             Some data \<Rightarrow> OpaqueSecret_Data data (tes_SecretKey tes)
           | None \<Rightarrow> ([], False))"

record tenant_deps =
  td_Namespace :: string
  td_EventSink :: "api_trigger_event_sink option"
  td_VolumeClaim :: bool

record tenant_deps_result =
  tdr_TenantDeps :: "tenant_deps option"
  tdr_Error :: "string option"

record job_condition =
  jc_Type :: string
  jc_Status :: string

definition Tenant_Managed :: "tenant \<Rightarrow> bool" where
  "Tenant_Managed t \<longleftrightarrow> tn_TemplateName t \<noteq> []"

definition Tenant_Ready :: "tenant \<Rightarrow> bool" where
  "Tenant_Ready t = ready_loop TenantReady (ts_Conditions (tn_Status t))"

definition namespace_condition :: "tenant_deps_result \<Rightarrow> condition_state" where
  "namespace_condition td =
     (case tdr_Error td of
        Some err \<Rightarrow> condition_with ConditionFalse ''NamespaceError'' err
      | None \<Rightarrow>
          if tdr_TenantDeps td \<noteq> None then condition_with ConditionTrue ''NamespaceReady'' ''The tenant namespace is ready.''
          else condition_with ConditionUnknown [] [])"

definition event_sink_condition :: "tenant_deps_result \<Rightarrow> condition_state" where
  "event_sink_condition td =
     (case tdr_TenantDeps td of
        None \<Rightarrow> condition_with ConditionUnknown [] []
      | Some deps \<Rightarrow>
          (case td_EventSink deps of
             None \<Rightarrow> condition_with ConditionTrue ''EventSinkMissing'' ''The tenant does not have an event sink defined.''
           | Some sink \<Rightarrow>
               if tes_URL sink = [] then
                 condition_with ConditionFalse ''EventSinkNotConfigured'' ''The API trigger event sink is missing an endpoint URL.''
               else if \<not> snd (APITriggerEventSink_Token sink) then
                 condition_with ConditionFalse ''EventSinkNotConfigured'' ''The API trigger event sink is missing a token.''
               else condition_with ConditionTrue ''EventSinkReady'' ''The event sink is ready.''))"

text \<open>The last true or false condition of a type decides whether the job is complete or failed.\<close>

fun job_flag :: "string \<Rightarrow> bool \<Rightarrow> job_condition list \<Rightarrow> bool" where
  "job_flag ty flag [] = flag"
| "job_flag ty flag (cond # jcs) =
     job_flag ty
       (if jc_Type cond = ty then
          (if jc_Status cond = ConditionTrue then True else if jc_Status cond = ConditionFalse then False else flag)
        else flag) jcs"

definition tool_injection_condition :: "tenant_deps_result \<Rightarrow> job_condition list \<Rightarrow> condition_state" where
  "tool_injection_condition td jcs =
     (case tdr_TenantDeps td of
        None \<Rightarrow> condition_with ConditionUnknown [] []
      | Some deps \<Rightarrow>
          if td_VolumeClaim deps then
            (if job_flag ''Complete'' False jcs then
               (if job_flag ''Failed'' False jcs then
                  condition_with ConditionFalse ''ToolInjectionError'' ''Error processing tool injection.''
                else condition_with ConditionTrue [] [])
             else condition_with ConditionUnknown [] [])
          else condition_with ConditionTrue ''ToolInjectionMissing'' ''The tenant does not have a tool injection defined.'')"

definition summary_condition :: "string \<Rightarrow> string \<Rightarrow> condition_state list \<Rightarrow> condition_state" where
  "summary_condition good bad conds =
     (let all = AggregateStatusConditions conds in
      if all = ConditionTrue then condition_with ConditionTrue ''Ready'' good
      else if all = ConditionFalse then condition_with ConditionFalse ''Error'' bad
      else condition_with ConditionUnknown [] [])"

definition tenant_conditions ::
    "(string \<Rightarrow> int) \<Rightarrow> tenant_deps_result \<Rightarrow> job_condition list \<Rightarrow> (string \<Rightarrow> condition_state) \<Rightarrow> conditions" where
  "tenant_conditions clock td jcs conds =
     (let update = (\<lambda>ty nc. UpdateStatusConditionIfTransitioned (clock ty) nc (conds ty));
          ns = update TenantNamespaceReady (namespace_condition td);
          sink = update TenantEventSinkReady (event_sink_condition td);
          tool = update TenantToolInjectionReady (tool_injection_condition td jcs);
          ready = update TenantReady
            (summary_condition ''The tenant is configured.'' ''One or more tenant components failed.'' [ns, sink, tool])
      in [(TenantNamespaceReady, ns), (TenantEventSinkReady, sink), (TenantToolInjectionReady, tool), (TenantReady, ready)])"

definition ConfigureTenant :: "(string \<Rightarrow> int) \<Rightarrow> tenant_deps_result \<Rightarrow> job_condition list \<Rightarrow> tenant \<Rightarrow> tenant option" where
  "ConfigureTenant clock td jcs t =
     (case load_conditions [TenantNamespaceReady, TenantEventSinkReady, TenantToolInjectionReady, TenantReady]
             (ts_Conditions (tn_Status t)) (\<lambda>_. empty_condition) of
        None \<Rightarrow> None
      | Some conds \<Rightarrow>
          (case tdr_TenantDeps td of
             None \<Rightarrow> None
           | Some deps \<Rightarrow>
               Some (t\<lparr>tn_Status := \<lparr>ts_ObservedGeneration = tn_Generation t, ts_Namespace = td_Namespace deps,
                 ts_Conditions = tenant_conditions clock td jcs conds\<rparr>\<rparr>)))"

section \<open>Webhook triggers (\<open>webhooktrigger.go\<close>)\<close>

definition WebhookTriggerServiceReady :: string where "WebhookTriggerServiceReady = ''ServiceReady''"
definition WebhookTriggerReady :: string where "WebhookTriggerReady = ''Ready''"

record webhook_trigger_status =
  wts_ObservedGeneration :: int
  wts_Namespace :: string
  wts_URL :: string
  wts_Conditions :: conditions

record webhook_trigger =
  wt_Key :: object_key
  wt_SpecName :: string
  wt_Generation :: int
  wt_Status :: webhook_trigger_status

record knative_service =
  ks_Namespace :: string
  ks_IsReady :: bool
  ks_URL :: "string option"

record knative_service_result =
  ksr_KnativeService :: "knative_service option"
  ksr_Error :: "string option"

definition ModelWebhookTrigger :: "webhook_trigger \<Rightarrow> trigger" where
  "ModelWebhookTrigger wt = \<lparr>Trigger_Name = (if wt_SpecName wt = [] then key_Name (wt_Key wt) else wt_SpecName wt)\<rparr>"

definition WebhookTrigger_PodSelector :: "webhook_trigger \<Rightarrow> string gomap" where
  "WebhookTrigger_PodSelector wt = [(''controller.relay.sh/webhook-trigger-id'', key_Name (wt_Key wt))]"

definition WebhookTrigger_Ready :: "webhook_trigger \<Rightarrow> bool" where
  "WebhookTrigger_Ready wt = ready_loop WebhookTriggerReady (wts_Conditions (wt_Status wt))"

definition service_condition :: "knative_service_result \<Rightarrow> condition_state" where
  "service_condition ksr =
     (case ksr_Error ksr of
        Some err \<Rightarrow> condition_with ConditionFalse ''ServiceError'' err
      | None \<Rightarrow>
          (case ksr_KnativeService ksr of
             Some ks \<Rightarrow>
               if ks_IsReady ks then condition_with ConditionTrue ''ServiceReady'' ''The service is ready to handle requests.''
               else condition_with ConditionUnknown [] []
           | None \<Rightarrow> condition_with ConditionUnknown [] []))"

definition trigger_conditions ::
    "(string \<Rightarrow> int) \<Rightarrow> knative_service_result \<Rightarrow> (string \<Rightarrow> condition_state) \<Rightarrow> conditions" where
  "trigger_conditions clock ksr conds =
     (let update = (\<lambda>ty nc. UpdateStatusConditionIfTransitioned (clock ty) nc (conds ty));
          service = update WebhookTriggerServiceReady (service_condition ksr);
          ready = update WebhookTriggerReady
            (summary_condition ''The webhook trigger is configured.'' ''One or more webhook trigger components failed.'' [service])
      in [(WebhookTriggerServiceReady, service), (WebhookTriggerReady, ready)])"

definition ConfigureWebhookTrigger :: "(string \<Rightarrow> int) \<Rightarrow> knative_service_result \<Rightarrow> webhook_trigger \<Rightarrow> webhook_trigger option" where
  "ConfigureWebhookTrigger clock ksr wt =
     (case load_conditions [WebhookTriggerServiceReady, WebhookTriggerReady] (wts_Conditions (wt_Status wt)) (\<lambda>_. empty_condition) of
        None \<Rightarrow> None
      | Some conds \<Rightarrow>
          Some (wt\<lparr>wt_Status := \<lparr>wts_ObservedGeneration = wt_Generation wt,
            wts_Namespace = (case ksr_KnativeService ksr of None \<Rightarrow> [] | Some ks \<Rightarrow> ks_Namespace ks),
            wts_URL = (case ksr_KnativeService ksr of
                         None \<Rightarrow> []
                       | Some ks \<Rightarrow> if ks_IsReady ks then (case ks_URL ks of None \<Rightarrow> [] | Some u \<Rightarrow> u) else []),
            wts_Conditions = trigger_conditions clock ksr conds\<rparr>\<rparr>))"

end
