(* ===== verification/Obj_Status_Props.thy ===== *)
theory Obj_Status_Props
  imports Obj_Status
begin

text \<open>
  When a tenant or a webhook trigger is ready, and that a status changes only when something it
  reports has changed.
\<close>

section \<open>Conditions\<close>

lemma status_update [simp]: "cond_Status (UpdateStatusConditionIfTransitioned now nc target) = cond_Status nc"
  by (simp add: UpdateStatusConditionIfTransitioned_def)

lemma update_twice [simp]:
  "UpdateStatusConditionIfTransitioned now' nc (UpdateStatusConditionIfTransitioned now nc target) =
   UpdateStatusConditionIfTransitioned now nc target"
  by (simp add: UpdateStatusConditionIfTransitioned_def)

lemma condition_names_distinct [simp]:
  "ConditionTrue \<noteq> ConditionFalse" "ConditionFalse \<noteq> ConditionTrue" "ConditionTrue \<noteq> ConditionUnknown"
  "ConditionUnknown \<noteq> ConditionTrue" "ConditionFalse \<noteq> ConditionUnknown" "ConditionUnknown \<noteq> ConditionFalse"
  by (simp_all add: condition_names)

text \<open>Aggregating is a conjunction of three values.\<close>

lemma aggregate_loop_spec:
  "aggregate_loop all conds =
     (if ConditionFalse \<in> cond_Status ` set conds then ConditionFalse
      else if ConditionUnknown \<in> cond_Status ` set conds then ConditionUnknown else all)"
  by (induction conds arbitrary: all) auto

lemma AggregateStatusConditions_spec:
  "AggregateStatusConditions conds =
     (if conds = [] then ConditionUnknown
      else if ConditionFalse \<in> cond_Status ` set conds then ConditionFalse
      else if ConditionUnknown \<in> cond_Status ` set conds then ConditionUnknown else ConditionTrue)"
  by (simp add: AggregateStatusConditions_def aggregate_loop_spec)

lemma status_condition_with [simp]: "cond_Status (condition_with s r m) = s"
  by (simp add: condition_with_def)

lemma status_summary: "cond_Status (summary_condition good bad conds) = AggregateStatusConditions conds"
  by (auto simp: summary_condition_def Let_def AggregateStatusConditions_spec)

text \<open>Loading back what was stored, in any order of distinct known types.\<close>

lemma load_conditions_all:
  "\<forall>(ty, cond) \<in> set cs. ty \<in> set types \<Longrightarrow> distinct (map fst cs) \<Longrightarrow>
   load_conditions types cs conds = Some (\<lambda>ty. case map_of cs ty of Some cond \<Rightarrow> cond | None \<Rightarrow> conds ty)"
proof (induction cs arbitrary: conds)
  case (Cons c cs)
  obtain ty cond where c: "c = (ty, cond)" by fastforce
  have "map_of cs ty = None" using Cons.prems c by (simp add: map_of_eq_None_iff)
  with Cons c show ?case by (auto simp: fun_eq_iff split: option.splits)
qed (auto simp: fun_eq_iff)

section \<open>Tenants\<close>

definition sink_usable :: "tenant_deps \<Rightarrow> bool" where
  "sink_usable deps \<longleftrightarrow>
     (case td_EventSink deps of
        None \<Rightarrow> True
      | Some sink \<Rightarrow> tes_URL sink \<noteq> [] \<and> (tes_Token sink \<noteq> [] \<or>
          (\<exists>data. tes_SecretData sink = Some data \<and> tes_SecretKey sink \<in> fst ` set data)))"

definition tools_usable :: "tenant_deps \<Rightarrow> job_condition list \<Rightarrow> bool" where
  "tools_usable deps jcs \<longleftrightarrow> td_VolumeClaim deps \<longrightarrow> job_flag ''Complete'' False jcs \<and> \<not> job_flag ''Failed'' False jcs"

lemma token_present: "snd (APITriggerEventSink_Token sink) \<longleftrightarrow> tes_Token sink \<noteq> [] \<or>
    (\<exists>data. tes_SecretData sink = Some data \<and> tes_SecretKey sink \<in> fst ` set data)"
  by (auto simp: APITriggerEventSink_Token_def OpaqueSecret_Data_def map_of_eq_None_iff split: option.split)
    (metis domI dom_map_of_conv_image_fst)

lemma tenant_component_status:
  assumes "tdr_TenantDeps td = Some deps"
  shows "cond_Status (namespace_condition td) = (if tdr_Error td = None then ConditionTrue else ConditionFalse)"
    and "cond_Status (event_sink_condition td) = (if sink_usable deps then ConditionTrue else ConditionFalse)"
  using assms
  by (auto simp: namespace_condition_def event_sink_condition_def sink_usable_def token_present split: option.split)

lemma tool_status:
  assumes "tdr_TenantDeps td = Some deps"
  shows "cond_Status (tool_injection_condition td jcs) \<in> {ConditionTrue, ConditionFalse, ConditionUnknown}"
    and "cond_Status (tool_injection_condition td jcs) = ConditionTrue \<longleftrightarrow> tools_usable deps jcs"
  using assms by (auto simp: tool_injection_condition_def tools_usable_def)

lemma types_distinct [simp]:
  "TenantNamespaceReady \<noteq> TenantReady" "TenantEventSinkReady \<noteq> TenantReady" "TenantToolInjectionReady \<noteq> TenantReady"
  "WebhookTriggerServiceReady \<noteq> WebhookTriggerReady"
  by (simp_all add: tenant_types WebhookTriggerServiceReady_def WebhookTriggerReady_def)

lemma ready_tenant_conditions:
  "ready_loop TenantReady (tenant_conditions clock td jcs conds) \<longleftrightarrow>
     AggregateStatusConditions [namespace_condition td, event_sink_condition td, tool_injection_condition td jcs] = ConditionTrue"
  by (simp add: tenant_conditions_def Let_def status_summary AggregateStatusConditions_spec)

text \<open>A tenant whose dependencies could not be applied is not ready.\<close>

lemma ready_needs_dependencies:
  "ConfigureTenant clock td jcs t = Some t' \<Longrightarrow> Tenant_Ready t' \<Longrightarrow> tdr_Error td = None"
  by (auto simp: ConfigureTenant_def Tenant_Ready_def ready_tenant_conditions AggregateStatusConditions_spec tenant_component_status
      split: option.splits if_splits)

lemma tenant_conditions_again:
  assumes "load_conditions [TenantNamespaceReady, TenantEventSinkReady, TenantToolInjectionReady, TenantReady]
      (tenant_conditions clock td jcs conds) conds0 = Some conds'"
  shows "tenant_conditions clock' td jcs conds' = tenant_conditions clock td jcs conds"
  using assms by (auto simp: tenant_conditions_def Let_def tenant_types split: if_splits)

text \<open>C37: A tenant becomes ready exactly if its namespace could be applied, its event sink (if it has one)
  has a URL and a token, and its tools (if it asks for them) have been installed by a job that is
  complete and has not failed.\<close>

theorem tenant_ready_exact:
  assumes "ConfigureTenant clock td jcs t = Some t'"
  shows "\<exists>deps. tdr_TenantDeps td = Some deps \<and>
    (Tenant_Ready t' \<longleftrightarrow> tdr_Error td = None \<and> sink_usable deps \<and> tools_usable deps jcs)"
proof -
  from assms obtain deps where deps: "tdr_TenantDeps td = Some deps"
    by (auto simp: ConfigureTenant_def split: option.splits)
  have "Tenant_Ready t' \<longleftrightarrow>
      AggregateStatusConditions [namespace_condition td, event_sink_condition td, tool_injection_condition td jcs] = ConditionTrue"
    using assms by (auto simp: ConfigureTenant_def Tenant_Ready_def ready_tenant_conditions split: option.splits)
  also have "\<dots> \<longleftrightarrow> tdr_Error td = None \<and> sink_usable deps \<and> tools_usable deps jcs"
    using tenant_component_status [OF deps] tool_status [OF deps, of jcs]
    by (auto simp: AggregateStatusConditions_spec split: if_splits)
  finally show ?thesis using deps by blast
qed

definition ex_tenant :: tenant where
  "ex_tenant = \<lparr>tn_Generation = 3, tn_TemplateName = ''ns'', tn_Status = \<lparr>ts_ObservedGeneration = 2, ts_Namespace = [], ts_Conditions = []\<rparr>\<rparr>"

definition ex_deps_result :: tenant_deps_result where
  "ex_deps_result = \<lparr>tdr_TenantDeps = Some \<lparr>td_Namespace = ''ns'', td_EventSink = None, td_VolumeClaim = True\<rparr>, tdr_Error = None\<rparr>"

theorem tenant_ready_exact_witness:
  "Tenant_Ready (the (ConfigureTenant (\<lambda>_. 7) ex_deps_result [\<lparr>jc_Type = ''Complete'', jc_Status = ''True''\<rparr>] ex_tenant))"
proof -
  let ?jcs = "[\<lparr>jc_Type = ''Complete'', jc_Status = ''True''\<rparr>]"
  obtain t' where t': "ConfigureTenant (\<lambda>_. 7) ex_deps_result ?jcs ex_tenant = Some t'"
    by (simp add: ConfigureTenant_def ex_tenant_def ex_deps_result_def)
  from tenant_ready_exact [OF t'] show ?thesis
    by (simp add: t') (simp add: ex_deps_result_def sink_usable_def tools_usable_def ConditionTrue_def)
qed

text \<open>A job that failed without being complete is not reported as an error: the tenant stays undecided.\<close>

lemma failed_job_undecided:
  "cond_Status (tool_injection_condition ex_deps_result [\<lparr>jc_Type = ''Failed'', jc_Status = ''True''\<rparr>]) = ConditionUnknown"
  by (simp add: tool_injection_condition_def ex_deps_result_def)

section \<open>Transition times\<close>

lemma trigger_conditions_again:
  assumes "load_conditions [WebhookTriggerServiceReady, WebhookTriggerReady] (trigger_conditions clock ksr conds) conds0 = Some conds'"
  shows "trigger_conditions clock' ksr conds' = trigger_conditions clock ksr conds"
  using assms by (auto simp: trigger_conditions_def Let_def WebhookTriggerServiceReady_def WebhookTriggerReady_def split: if_splits)

lemma load_tenant_conditions:
  "\<exists>conds'. load_conditions [TenantNamespaceReady, TenantEventSinkReady, TenantToolInjectionReady, TenantReady]
     (tenant_conditions clock td jcs conds) conds0 = Some conds'"
  by (simp add: tenant_conditions_def Let_def)

lemma load_trigger_conditions:
  "\<exists>conds'. load_conditions [WebhookTriggerServiceReady, WebhookTriggerReady] (trigger_conditions clock ksr conds) conds0 = Some conds'"
  by (simp add: trigger_conditions_def Let_def)

lemma ConfigureTenant_again:
  assumes "ConfigureTenant clock td jcs t = Some t'"
  shows "ConfigureTenant clock' td jcs t' = Some t'"
proof -
  from assms obtain conds deps where t': "t' = t\<lparr>tn_Status := \<lparr>ts_ObservedGeneration = tn_Generation t, ts_Namespace = td_Namespace deps,
      ts_Conditions = tenant_conditions clock td jcs conds\<rparr>\<rparr>" and deps: "tdr_TenantDeps td = Some deps"
    by (auto simp: ConfigureTenant_def split: option.splits)
  obtain conds' where l: "load_conditions [TenantNamespaceReady, TenantEventSinkReady, TenantToolInjectionReady, TenantReady]
      (tenant_conditions clock td jcs conds) (\<lambda>_. empty_condition) = Some conds'"
    using load_tenant_conditions by blast
  from tenant_conditions_again [OF l, of clock'] l deps show ?thesis by (simp add: t' ConfigureTenant_def)
qed

lemma ConfigureWebhookTrigger_again:
  assumes "ConfigureWebhookTrigger clock ksr wt = Some wt'"
  shows "ConfigureWebhookTrigger clock' ksr wt' = Some wt'"
proof -
  from assms obtain conds where c: "wts_Conditions (wt_Status wt') = trigger_conditions clock ksr conds"
    by (auto simp: ConfigureWebhookTrigger_def split: option.splits)
  obtain conds' where l: "load_conditions [WebhookTriggerServiceReady, WebhookTriggerReady]
      (trigger_conditions clock ksr conds) (\<lambda>_. empty_condition) = Some conds'"
    using load_trigger_conditions by blast
  from assms trigger_conditions_again [OF l, of clock'] l c show ?thesis
    by (auto simp: ConfigureWebhookTrigger_def split: option.splits)
qed

text \<open>The condition of a type that a status has stored, and what the time of a transition means: a condition of the new status is the stored one,
  with its time, as long as it says the same, and has the time of the clock otherwise.\<close>

definition stored_condition :: "conditions \<Rightarrow> string \<Rightarrow> condition_state" where
  "stored_condition conds ty = (case map_of (rev conds) ty of None \<Rightarrow> empty_condition | Some c \<Rightarrow> c)"

definition says_same :: "condition_state \<Rightarrow> condition_state \<Rightarrow> bool" where
  "says_same a b \<longleftrightarrow> cond_Status a = cond_Status b \<and> cond_Reason a = cond_Reason b \<and> cond_Message a = cond_Message b"

definition timed_condition :: "int \<Rightarrow> condition_state \<Rightarrow> condition_state \<Rightarrow> bool" where
  "timed_condition now old c \<longleftrightarrow> (if says_same c old then c = old else cond_LastTransitionTime c = Some now)"

definition timed :: "(string \<Rightarrow> int) \<Rightarrow> conditions \<Rightarrow> conditions \<Rightarrow> bool" where
  "timed clock old new \<longleftrightarrow> list_all (\<lambda>(ty, c). timed_condition (clock ty) (stored_condition old ty) c) new"

lemma load_conditions_stored:
  "load_conditions types cs conds = Some conds' \<Longrightarrow> conds' ty = (case map_of (rev cs) ty of None \<Rightarrow> conds ty | Some c \<Rightarrow> c)"
proof (induction cs arbitrary: conds)
  case (Cons c cs)
  then show ?case by (cases c) (auto split: if_splits option.splits simp: map_add_def)
qed simp

lemma loaded_is_stored: "load_conditions types cs (\<lambda>_. empty_condition) = Some conds \<Longrightarrow> conds = stored_condition cs"
  by (rule ext) (simp add: load_conditions_stored stored_condition_def)

lemma update_timed:
  "cond_LastTransitionTime nc = None \<Longrightarrow> timed_condition now target (UpdateStatusConditionIfTransitioned now nc target)"
  by (auto simp: timed_condition_def UpdateStatusConditionIfTransitioned_def says_same_def)

lemma fresh_conditions:
  "cond_LastTransitionTime (namespace_condition td) = None" "cond_LastTransitionTime (event_sink_condition td) = None"
  "cond_LastTransitionTime (tool_injection_condition td jcs) = None" "cond_LastTransitionTime (summary_condition good bad conds) = None"
  "cond_LastTransitionTime (service_condition ksr) = None"
  by (simp_all add: namespace_condition_def event_sink_condition_def tool_injection_condition_def summary_condition_def service_condition_def
      condition_with_def Let_def split: option.split)

lemma conditions_timed:
  "timed clock old (tenant_conditions clock td jcs (stored_condition old))" "timed clock old (trigger_conditions clock ksr (stored_condition old))"
  by (simp_all add: timed_def tenant_conditions_def trigger_conditions_def Let_def update_timed fresh_conditions)

text \<open>C38: Transition times mark transitions. When the status of a tenant or of a webhook trigger is configured, each condition that says what the
  stored one said (status, reason and message) is kept with its transition time, and each other one, also one that was not stored before, gets the time of the
  clock; so configuring the status again with the same dependencies (and conditions of the job) gives the same status, at whatever time.
  This is about the configuration of the status: the reconciler of tenants with tools configures it twice in one call, with and without the job,
  so that there the conditions do change and come back.\<close>

theorem status_settles:
  "(ConfigureTenant clock td jcs t = Some t' \<longrightarrow>
      timed clock (ts_Conditions (tn_Status t)) (ts_Conditions (tn_Status t')) \<and>
      map fst (ts_Conditions (tn_Status t')) = [''NamespaceReady'', ''EventSinkReady'', ''ToolInjectionReady'', ''Ready''] \<and>
      ConfigureTenant clock' td jcs t' = Some t') \<and>
   (ConfigureWebhookTrigger clock ksr wt = Some wt' \<longrightarrow>
      timed clock (wts_Conditions (wt_Status wt)) (wts_Conditions (wt_Status wt')) \<and>
      map fst (wts_Conditions (wt_Status wt')) = [''ServiceReady'', ''Ready''] \<and>
      ConfigureWebhookTrigger clock' ksr wt' = Some wt')"
proof (intro conjI impI)
  assume t: "ConfigureTenant clock td jcs t = Some t'"
  then have c: "ts_Conditions (tn_Status t') = tenant_conditions clock td jcs (stored_condition (ts_Conditions (tn_Status t)))"
    by (auto simp: ConfigureTenant_def split: option.splits dest: loaded_is_stored)
  then show "timed clock (ts_Conditions (tn_Status t)) (ts_Conditions (tn_Status t'))" by (simp add: conditions_timed)
  from c show "map fst (ts_Conditions (tn_Status t')) = [''NamespaceReady'', ''EventSinkReady'', ''ToolInjectionReady'', ''Ready'']"
    by (simp add: tenant_conditions_def Let_def tenant_types)
  from t show "ConfigureTenant clock' td jcs t' = Some t'" by (rule ConfigureTenant_again)
next
  assume wt: "ConfigureWebhookTrigger clock ksr wt = Some wt'"
  then have c: "wts_Conditions (wt_Status wt') = trigger_conditions clock ksr (stored_condition (wts_Conditions (wt_Status wt)))"
    by (auto simp: ConfigureWebhookTrigger_def split: option.splits dest: loaded_is_stored)
  then show "timed clock (wts_Conditions (wt_Status wt)) (wts_Conditions (wt_Status wt'))" by (simp add: conditions_timed)
  from c show "map fst (wts_Conditions (wt_Status wt')) = [''ServiceReady'', ''Ready'']"
    by (simp add: trigger_conditions_def Let_def WebhookTriggerServiceReady_def WebhookTriggerReady_def)
  from wt show "ConfigureWebhookTrigger clock' ksr wt' = Some wt'" by (rule ConfigureWebhookTrigger_again)
qed

definition ex_trigger :: webhook_trigger where
  "ex_trigger = \<lparr>wt_Key = \<lparr>key_Namespace = ''ns'', key_Name = ''t''\<rparr>, wt_SpecName = [], wt_Generation = 1,
     wt_Status = \<lparr>wts_ObservedGeneration = 0, wts_Namespace = [], wts_URL = [], wts_Conditions = []\<rparr>\<rparr>"

definition ex_service :: knative_service_result where
  "ex_service = \<lparr>ksr_KnativeService = Some \<lparr>ks_Namespace = ''ns'', ks_IsReady = True, ks_URL = Some ''http://t''\<rparr>, ksr_Error = None\<rparr>"

theorem status_settles_witness:
  "\<exists>wt'. ConfigureWebhookTrigger (\<lambda>_. 1) ex_service ex_trigger = Some wt' \<and> WebhookTrigger_Ready wt' \<and>
     timed (\<lambda>_. 1) [] (wts_Conditions (wt_Status wt')) \<and> ConfigureWebhookTrigger (\<lambda>_. 2) ex_service wt' = Some wt'"
proof -
  obtain wt' where wt': "ConfigureWebhookTrigger (\<lambda>_. 1) ex_service ex_trigger = Some wt'" "WebhookTrigger_Ready wt'"
    by (simp add: ConfigureWebhookTrigger_def ex_trigger_def ex_service_def WebhookTrigger_Ready_def trigger_conditions_def Let_def
        service_condition_def status_summary AggregateStatusConditions_spec)
  have "wts_Conditions (wt_Status ex_trigger) = []" by (simp add: ex_trigger_def)
  with wt' status_settles [THEN conjunct2, rule_format, OF wt'(1)] show ?thesis by auto
qed

end
