(* ===== verification/Pipeline.thy ===== *)
theory Pipeline
  imports Tokens Workflow_Run
begin

text \<open>
  The Tekton objects of a run: tasks (\<open>pkg/obj/task.go\<close>), conditions (\<open>condition.go\<close>), the pipeline
  (\<open>pipeline.go\<close>) and its run (\<open>pipelinerun.go\<close>).

  Objects are returned with what an operation did to them. The clients of the four kinds and the issuer
  of tokens act on one world \<open>'w\<close>, which has a clock. Container fields the code never sets are left out.
\<close>

section \<open>Objects\<close>

record tekton_step =
  st_Name :: string
  st_Image :: string
  st_ImagePullPolicy :: string
  st_Env :: "string gomap"
  st_AllowPrivilegeEscalation :: "bool option"
  st_Script :: string
  st_Command :: "string list"
  st_Args :: "string list"

record pipeline_task =
  pt_Name :: string
  pt_TaskRef :: string
  pt_RunAfter :: "string list"
  pt_Conditions :: "string list"

record pipeline_run_body =
  prb_ServiceAccountNames :: "string list"
  prb_PipelineRef :: "string option"
  prb_SpecStatus :: string
  prb_Status :: pipeline_run_status

text \<open>An object with its key.\<close>

record 'a keyed =
  kd_Key :: object_key
  kd_Object :: "'a object"

record 'w tekton_client =
  tc_Task :: "(tekton_step list, 'w) object_client"
  tc_Condition :: "(tekton_step option, 'w) object_client"
  tc_Pipeline :: "(pipeline_task list, 'w) object_client"
  tc_PipelineRun :: "(pipeline_run_body, 'w) object_client"

definition empty_meta :: object_meta where
  "empty_meta = \<lparr>om_Namespace = [], om_Name = [], om_UID = [], om_Annotations = [], om_Labels = [], om_Finalizers = [],
     om_OwnerReferences = [], om_Deleting = False\<rparr>"

definition new_keyed :: "'a \<Rightarrow> object_key \<Rightarrow> 'a keyed" where
  "new_keyed body key = \<lparr>kd_Key = key, kd_Object = \<lparr>o_Meta = empty_meta, o_Body = body\<rparr>\<rparr>"

definition on_meta :: "(object_meta \<Rightarrow> object_meta) \<Rightarrow> 'a keyed \<Rightarrow> 'a keyed" where
  "on_meta f t = t\<lparr>kd_Object := (kd_Object t)\<lparr>o_Meta := f (o_Meta (kd_Object t))\<rparr>\<rparr>"

definition keyed_Persist :: "('a, 'w) object_client \<Rightarrow> 'a keyed \<Rightarrow> 'w \<Rightarrow> (unit res \<times> 'a keyed) \<times> 'w" where
  "keyed_Persist cl t w =
     (case CreateOrUpdate cl (kd_Key t) (kd_Object t) w of ((r, obj), w') \<Rightarrow> ((r, t\<lparr>kd_Object := obj\<rparr>), w'))"

definition keyed_Load :: "('a, 'w) object_client \<Rightarrow> 'a keyed \<Rightarrow> 'w \<Rightarrow> (bool res \<times> 'a keyed) \<times> 'w" where
  "keyed_Load cl t w =
     (case GetIgnoreNotFound cl (kd_Key t) (kd_Object t) w of ((r, obj), w') \<Rightarrow> ((r, t\<lparr>kd_Object := obj\<rparr>), w'))"

text \<open>Loops over a list of objects that return the first error.\<close>

fun each :: "('x \<Rightarrow> 'w \<Rightarrow> (unit res \<times> 'x) \<times> 'w) \<Rightarrow> 'x list \<Rightarrow> 'w \<Rightarrow> (unit res \<times> 'x list) \<times> 'w" where
  "each f [] w = ((Inr (), []), w)"
| "each f (x # xs) w =
     (case f x w of
        ((Inl err, x'), w') \<Rightarrow> ((Inl err, x' # xs), w')
      | ((Inr _, x'), w') \<Rightarrow> (case each f xs w' of ((r, xs'), w'') \<Rightarrow> ((r, x' # xs'), w'')))"

fun load_each :: "('a, 'w) object_client \<Rightarrow> bool \<Rightarrow> 'a keyed list \<Rightarrow> 'w \<Rightarrow> (bool res \<times> 'a keyed list) \<times> 'w" where
  "load_each cl all [] w = ((Inr all, []), w)"
| "load_each cl all (t # ts) w =
     (case keyed_Load cl t w of
        ((Inl err, t'), w') \<Rightarrow> ((Inl err, t' # ts), w')
      | ((Inr ok, t'), w') \<Rightarrow> (case load_each cl (all \<and> ok) ts w' of ((r, ts'), w'') \<Rightarrow> ((r, t' # ts'), w'')))"

section \<open>Dependencies\<close>

record pipeline_deps =
  pd_WorkflowRun :: workflow_run
  pd_NamespaceName :: string
  pd_NamespaceUID :: string
  pd_TokenData :: "string gomap"
  pd_ImmutableConfigMap :: object_key
  pd_MutableConfigMap :: object_key
  pd_MetadataAPIURL :: string

definition token_deps :: "pipeline_deps \<Rightarrow> workflow_run_deps" where
  "token_deps pd =
     \<lparr>wrd_RunName = wr_SpecName (pd_WorkflowRun pd), wrd_Annotations = om_Annotations (wr_Meta (pd_WorkflowRun pd)),
      wrd_NamespaceName = pd_NamespaceName pd, wrd_NamespaceUID = pd_NamespaceUID pd, wrd_TokenData = pd_TokenData pd,
      wrd_ImmutableConfigMap = pd_ImmutableConfigMap pd, wrd_MutableConfigMap = pd_MutableConfigMap pd\<rparr>"

text \<open>What issuing a token needs of the surroundings.\<close>

record 'w issuing =
  is_Issue :: "claims \<Rightarrow> 'w \<Rightarrow> raw res \<times> 'w"
  is_Now :: "'w \<Rightarrow> int"

definition WorkflowRunKind :: group_version_kind where
  "WorkflowRunKind = \<lparr>gvk_Group = ''nebula.puppet.com'', gvk_Version = ''v1'', gvk_Kind = ''WorkflowRun''\<rparr>"

definition WorkflowRun_Own :: "workflow_run \<Rightarrow> 'a keyed \<Rightarrow> unit res \<times> 'a keyed" where
  "WorkflowRun_Own wr t =
     (case Own WorkflowRunKind (wr_Meta wr) (o_Meta (kd_Object t)) of (r, m) \<Rightarrow> (r, on_meta (\<lambda>_. m) t))"

definition own_each :: "workflow_run \<Rightarrow> 'a keyed list \<Rightarrow> 'w \<Rightarrow> (unit res \<times> 'a keyed list) \<times> 'w" where
  "own_each wr = each (\<lambda>t w. (WorkflowRun_Own wr t, w))"

section \<open>Tasks (\<open>task.go\<close>)\<close>

definition DefaultImage :: string where "DefaultImage = ''alpine:latest''"

definition task_step :: "pipeline_deps \<Rightarrow> workflow_step \<Rightarrow> tekton_step" where
  "task_step pd ws =
     (let base = \<lparr>st_Name = ''step'', st_Image = (if ws_Image ws = [] then DefaultImage else ws_Image ws),
            st_ImagePullPolicy = ''Always'', st_Env = [(''METADATA_API_URL'', pd_MetadataAPIURL pd)],
            st_AllowPrivilegeEscalation = Some False, st_Script = [], st_Command = [], st_Args = []\<rparr>
      in if length (ws_Input ws) > 0 then base\<lparr>st_Script := ScriptForInput (ws_Input ws)\<rparr>
         else
           (let s1 = (if length (ws_Command ws) > 0 then base\<lparr>st_Command := [ws_Command ws]\<rparr> else base)
            in if length (ws_Args ws) > 0 then s1\<lparr>st_Args := ws_Args ws\<rparr> else s1))"

definition ConfigureTask :: "'w issuing \<Rightarrow> pipeline_deps \<Rightarrow> workflow_step \<Rightarrow> tekton_step list keyed \<Rightarrow> 'w \<Rightarrow>
    (unit res \<times> tekton_step list keyed) \<times> 'w" where
  "ConfigureTask iss pd ws t w =
     (case AnnotateStepToken (is_Issue iss) (token_deps pd) (is_Now iss w) (ws_Name ws) (o_Meta (kd_Object t)) w of
        ((Inl err, m), w') \<Rightarrow> ((Inl err, on_meta (\<lambda>_. m) t), w')
      | ((Inr _, m), w') \<Rightarrow>
          (let m' = (case wr_TenantRef (pd_WorkflowRun pd) of
                       None \<Rightarrow> m
                     | Some tenant \<Rightarrow> snd (Annotate ''controller.relay.sh/tools-volume-claim'' (tenant @ ''-volume-rox'') m))
           in ((Inr (), t\<lparr>kd_Object := \<lparr>o_Meta = m', o_Body = [task_step pd ws]\<rparr>\<rparr>), w')))"

definition NewTasks :: "pipeline_deps \<Rightarrow> tekton_step list keyed list" where
  "NewTasks pd =
     map (\<lambda>ws. new_keyed [] (ModelStepObjectKey (wr_Key (pd_WorkflowRun pd)) (ModelStep (pd_WorkflowRun pd) ws)))
       (wr_Steps (pd_WorkflowRun pd))"

text \<open>The steps of the workflow and the objects made for them have the same length: the loop by index is
  a loop over both.\<close>

fun configure_tasks :: "'w issuing \<Rightarrow> pipeline_deps \<Rightarrow> workflow_step list \<Rightarrow> tekton_step list keyed list \<Rightarrow> 'w \<Rightarrow>
    (unit res \<times> tekton_step list keyed list) \<times> 'w" where
  "configure_tasks iss pd (ws # wss) (t # ts) w =
     (case ConfigureTask iss pd ws t w of
        ((Inl err, t'), w') \<Rightarrow> ((Inl err, t' # ts), w')
      | ((Inr _, t'), w') \<Rightarrow> (case configure_tasks iss pd wss ts w' of ((r, ts'), w'') \<Rightarrow> ((r, t' # ts'), w'')))"
| "configure_tasks iss pd wss ts w = ((Inr (), ts), w)"

definition ConfigureTasks :: "'w issuing \<Rightarrow> pipeline_deps \<Rightarrow> tekton_step list keyed list \<Rightarrow> 'w \<Rightarrow>
    (unit res \<times> tekton_step list keyed list) \<times> 'w" where
  "ConfigureTasks iss pd ts w =
     (case own_each (pd_WorkflowRun pd) ts w of
        ((Inl err, ts'), w') \<Rightarrow> ((Inl err, ts'), w')
      | ((Inr _, ts'), w') \<Rightarrow> configure_tasks iss pd (wr_Steps (pd_WorkflowRun pd)) ts' w')"

section \<open>Conditions (\<open>condition.go\<close>)\<close>

text \<open>The text of the script that polls the metadata API is a parameter of what is made of it.\<close>

definition ConditionImage :: string where "ConditionImage = ''relaysh/core:latest''"

definition condition_step :: "string \<Rightarrow> pipeline_deps \<Rightarrow> tekton_step" where
  "condition_step script pd =
     \<lparr>st_Name = ''condition'', st_Image = ConditionImage, st_ImagePullPolicy = [],
      st_Env = [(''METADATA_API_URL'', pd_MetadataAPIURL pd)], st_AllowPrivilegeEscalation = None,
      st_Script = script, st_Command = [], st_Args = []\<rparr>"

definition ConfigureCondition :: "string \<Rightarrow> 'w issuing \<Rightarrow> pipeline_deps \<Rightarrow> workflow_step \<Rightarrow> tekton_step option keyed \<Rightarrow> 'w \<Rightarrow>
    (unit res \<times> tekton_step option keyed) \<times> 'w" where
  "ConfigureCondition script iss pd ws c w =
     (case AnnotateStepToken (is_Issue iss) (token_deps pd) (is_Now iss w) (ws_Name ws) (o_Meta (kd_Object c)) w of
        ((Inl err, m), w') \<Rightarrow> ((Inl err, on_meta (\<lambda>_. m) c), w')
      | ((Inr _, m), w') \<Rightarrow>
          ((Inr (), c\<lparr>kd_Object := \<lparr>o_Meta = m, o_Body = Some (condition_step script pd)\<rparr>\<rparr>), w'))"

record conditions_list =
  cs_List :: "tekton_step option keyed list"
  cs_idx :: "nat gomap"

definition GetByStepName :: "conditions_list \<Rightarrow> string \<Rightarrow> nat option" where
  "GetByStepName cs stepName = map_of (cs_idx cs) stepName"

definition add_condition :: "pipeline_deps \<Rightarrow> workflow_step \<Rightarrow> conditions_list \<Rightarrow> conditions_list" where
  "add_condition pd ws cs =
     (if ws_When ws = GNil then cs
      else \<lparr>cs_List = cs_List cs @
              [new_keyed None (ModelStepObjectKey (wr_Key (pd_WorkflowRun pd)) (ModelStep (pd_WorkflowRun pd) ws))],
            cs_idx = AList.update (ws_Name ws) (length (cs_List cs)) (cs_idx cs)\<rparr>)"

definition NewConditions :: "pipeline_deps \<Rightarrow> conditions_list" where
  "NewConditions pd = fold (add_condition pd) (wr_Steps (pd_WorkflowRun pd)) \<lparr>cs_List = [], cs_idx = []\<rparr>"

fun configure_conditions :: "string \<Rightarrow> 'w issuing \<Rightarrow> pipeline_deps \<Rightarrow> workflow_step list \<Rightarrow> conditions_list \<Rightarrow> 'w \<Rightarrow>
    (unit res \<times> conditions_list) \<times> 'w" where
  "configure_conditions script iss pd [] cs w = ((Inr (), cs), w)"
| "configure_conditions script iss pd (ws # wss) cs w =
     (case GetByStepName cs (ws_Name ws) of
        None \<Rightarrow> configure_conditions script iss pd wss cs w
      | Some i \<Rightarrow>
          (case ConfigureCondition script iss pd ws (cs_List cs ! i) w of
             ((Inl err, c), w') \<Rightarrow> ((Inl err, cs\<lparr>cs_List := (cs_List cs)[i := c]\<rparr>), w')
           | ((Inr _, c), w') \<Rightarrow> configure_conditions script iss pd wss (cs\<lparr>cs_List := (cs_List cs)[i := c]\<rparr>) w'))"

definition ConfigureConditions :: "string \<Rightarrow> 'w issuing \<Rightarrow> pipeline_deps \<Rightarrow> conditions_list \<Rightarrow> 'w \<Rightarrow>
    (unit res \<times> conditions_list) \<times> 'w" where
  "ConfigureConditions script iss pd cs w =
     (case own_each (pd_WorkflowRun pd) (cs_List cs) w of
        ((Inl err, l), w') \<Rightarrow> ((Inl err, cs\<lparr>cs_List := l\<rparr>), w')
      | ((Inr _, l), w') \<Rightarrow>
          configure_conditions script iss pd (wr_Steps (pd_WorkflowRun pd)) (cs\<lparr>cs_List := l\<rparr>) w')"

section \<open>Pipelines (\<open>pipeline.go\<close>)\<close>

record pipeline =
  pl_Pipeline :: "pipeline_task list keyed"
  pl_Tasks :: "tekton_step list keyed list"
  pl_Conditions :: conditions_list

definition NewPipeline :: "pipeline_deps \<Rightarrow> pipeline" where
  "NewPipeline pd =
     \<lparr>pl_Pipeline = new_keyed [] (wr_Key (pd_WorkflowRun pd)), pl_Tasks = NewTasks pd, pl_Conditions = NewConditions pd\<rparr>"

definition pipeline_task_of :: "workflow_run \<Rightarrow> conditions_list \<Rightarrow> tekton_step list keyed \<Rightarrow> workflow_step \<Rightarrow> pipeline_task" where
  "pipeline_task_of wr cs t ws =
     \<lparr>pt_Name = HexEncoding (Step_Hash (ModelStep wr ws)),
      pt_TaskRef = key_Name (kd_Key t),
      pt_RunAfter = map (\<lambda>dep. HexEncoding (Step_Hash (wr_ModelStepFromName wr dep))) (ws_DependsOn ws),
      pt_Conditions = (case GetByStepName cs (ws_Name ws) of None \<Rightarrow> [] | Some i \<Rightarrow> [key_Name (kd_Key (cs_List cs ! i))])\<rparr>"

definition ConfigurePipeline :: "string \<Rightarrow> 'w issuing \<Rightarrow> pipeline_deps \<Rightarrow> pipeline \<Rightarrow> 'w \<Rightarrow> (unit res \<times> pipeline) \<times> 'w" where
  "ConfigurePipeline script iss pd p w =
     (case WorkflowRun_Own (pd_WorkflowRun pd) (pl_Pipeline p) of
        (Inl err, k) \<Rightarrow> ((Inl err, p\<lparr>pl_Pipeline := k\<rparr>), w)
      | (Inr _, k) \<Rightarrow>
          (case ConfigureConditions script iss pd (pl_Conditions p) w of
             ((Inl err, cs), w1) \<Rightarrow> ((Inl err, p\<lparr>pl_Pipeline := k, pl_Conditions := cs\<rparr>), w1)
           | ((Inr _, cs), w1) \<Rightarrow>
               (case ConfigureTasks iss pd (pl_Tasks p) w1 of
                  ((Inl err, ts), w2) \<Rightarrow> ((Inl err, p\<lparr>pl_Pipeline := k, pl_Conditions := cs, pl_Tasks := ts\<rparr>), w2)
                | ((Inr _, ts), w2) \<Rightarrow>
                    (let body = map (\<lambda>(t, ws). pipeline_task_of (pd_WorkflowRun pd) cs t ws) (zip ts (wr_Steps (pd_WorkflowRun pd)))
                     in ((Inr (), \<lparr>pl_Pipeline = k\<lparr>kd_Object := (kd_Object k)\<lparr>o_Body := body\<rparr>\<rparr>, pl_Tasks = ts, pl_Conditions = cs\<rparr>), w2)))))"

definition Pipeline_Load :: "'w tekton_client \<Rightarrow> pipeline \<Rightarrow> 'w \<Rightarrow> (bool res \<times> pipeline) \<times> 'w" where
  "Pipeline_Load cl p w =
     (case keyed_Load (tc_Pipeline cl) (pl_Pipeline p) w of
        ((Inl err, k), w1) \<Rightarrow> ((Inl err, p\<lparr>pl_Pipeline := k\<rparr>), w1)
      | ((Inr ok1, k), w1) \<Rightarrow>
          (case load_each (tc_Task cl) True (pl_Tasks p) w1 of
             ((Inl err, ts), w2) \<Rightarrow> ((Inl err, p\<lparr>pl_Pipeline := k, pl_Tasks := ts\<rparr>), w2)
           | ((Inr ok2, ts), w2) \<Rightarrow>
               (case load_each (tc_Condition cl) True (cs_List (pl_Conditions p)) w2 of
                  ((Inl err, cs), w3) \<Rightarrow>
                    ((Inl err, p\<lparr>pl_Pipeline := k, pl_Tasks := ts, pl_Conditions := (pl_Conditions p)\<lparr>cs_List := cs\<rparr>\<rparr>), w3)
                | ((Inr ok3, cs), w3) \<Rightarrow>
                    ((Inr (ok1 \<and> ok2 \<and> ok3),
                      p\<lparr>pl_Pipeline := k, pl_Tasks := ts, pl_Conditions := (pl_Conditions p)\<lparr>cs_List := cs\<rparr>\<rparr>), w3))))"

definition Pipeline_Persist :: "'w tekton_client \<Rightarrow> pipeline \<Rightarrow> 'w \<Rightarrow> (unit res \<times> pipeline) \<times> 'w" where
  "Pipeline_Persist cl p w =
     (case each (keyed_Persist (tc_Task cl)) (pl_Tasks p) w of
        ((Inl err, ts), w1) \<Rightarrow> ((Inl err, p\<lparr>pl_Tasks := ts\<rparr>), w1)
      | ((Inr _, ts), w1) \<Rightarrow>
          (case each (keyed_Persist (tc_Condition cl)) (cs_List (pl_Conditions p)) w1 of
             ((Inl err, cs), w2) \<Rightarrow> ((Inl err, p\<lparr>pl_Tasks := ts, pl_Conditions := (pl_Conditions p)\<lparr>cs_List := cs\<rparr>\<rparr>), w2)
           | ((Inr _, cs), w2) \<Rightarrow>
               (case keyed_Persist (tc_Pipeline cl) (pl_Pipeline p) w2 of
                  ((r, k), w3) \<Rightarrow>
                    ((r, \<lparr>pl_Pipeline = k, pl_Tasks = ts, pl_Conditions = (pl_Conditions p)\<lparr>cs_List := cs\<rparr>\<rparr>), w3))))"

definition ApplyPipeline :: "'w tekton_client \<Rightarrow> string \<Rightarrow> 'w issuing \<Rightarrow> pipeline_deps \<Rightarrow> 'w \<Rightarrow> pipeline res \<times> 'w" where
  "ApplyPipeline cl script iss pd w =
     (case Pipeline_Load cl (NewPipeline pd) w of
        ((Inl err, _), w1) \<Rightarrow> (Inl err, w1)
      | ((Inr _, p), w1) \<Rightarrow>
          (let p1 = p\<lparr>pl_Pipeline := on_meta (CopyLabelsAndAnnotations (wr_Meta (pd_WorkflowRun pd))) (pl_Pipeline p)\<rparr> in
           case ConfigurePipeline script iss pd p1 w1 of
             ((Inl err, _), w2) \<Rightarrow> (Inl err, w2)
           | ((Inr _, p2), w2) \<Rightarrow>
               (case Pipeline_Persist cl p2 w2 of
                  ((Inl err, _), w3) \<Rightarrow> (Inl err, w3)
                | ((Inr _, p3), w3) \<Rightarrow> (Inr p3, w3))))"

section \<open>Runs of a pipeline (\<open>pipelinerun.go\<close>)\<close>

definition empty_pipeline_run :: pipeline_run_body where
  "empty_pipeline_run = \<lparr>prb_ServiceAccountNames = [], prb_PipelineRef = None, prb_SpecStatus = [],
     prb_Status = \<lparr>prs_Conditions = [], prs_StartTime = None, prs_CompletionTime = None, prs_TaskRuns = []\<rparr>\<rparr>"

definition NewPipelineRun :: "pipeline \<Rightarrow> pipeline_run_body keyed" where
  "NewPipelineRun p = new_keyed empty_pipeline_run (kd_Key (pl_Pipeline p))"

definition ConfigurePipelineRun :: "workflow_run \<Rightarrow> pipeline \<Rightarrow> pipeline_run_body keyed \<Rightarrow> unit res \<times> pipeline_run_body keyed" where
  "ConfigurePipelineRun wr p pr =
     (case WorkflowRun_Own wr pr of
        (Inl err, k) \<Rightarrow> (Inl err, k)
      | (Inr _, k) \<Rightarrow>
          (let k1 = on_meta (\<lambda>m. snd (obj_Label ''controller.relay.sh/run-id'' (key_Name (wr_Key wr)) m)) k;
               body = (o_Body (kd_Object k1))\<lparr>
                 prb_ServiceAccountNames := map pt_Name (o_Body (kd_Object (pl_Pipeline p))),
                 prb_PipelineRef := Some (key_Name (kd_Key (pl_Pipeline p))),
                 prb_SpecStatus := (if WorkflowRun_IsCancelled wr then ''PipelineRunCancelled'' else [])\<rparr>
           in (Inr (), k1\<lparr>kd_Object := (kd_Object k1)\<lparr>o_Body := body\<rparr>\<rparr>)))"

definition ApplyPipelineRun :: "'w tekton_client \<Rightarrow> workflow_run \<Rightarrow> pipeline \<Rightarrow> 'w \<Rightarrow> pipeline_run_body keyed res \<times> 'w" where
  "ApplyPipelineRun cl wr p w =
     (case keyed_Load (tc_PipelineRun cl) (NewPipelineRun p) w of
        ((Inl err, _), w1) \<Rightarrow> (Inl err, w1)
      | ((Inr _, pr), w1) \<Rightarrow>
          (case ConfigurePipelineRun wr p (on_meta (CopyLabelsAndAnnotations (o_Meta (kd_Object (pl_Pipeline p)))) pr) of
             (Inl err, _) \<Rightarrow> (Inl err, w1)
           | (Inr _, pr1) \<Rightarrow>
               (case keyed_Persist (tc_PipelineRun cl) pr1 w1 of
                  ((Inl err, _), w2) \<Rightarrow> (Inl err, w2)
                | ((Inr _, pr2), w2) \<Rightarrow> (Inr pr2, w2))))"

text \<open>\<open>IsComplete\<close>, with whether the run's time limit has passed.\<close>

definition PipelineRun_IsComplete :: "bool \<Rightarrow> pipeline_run_body \<Rightarrow> bool" where
  "PipelineRun_IsComplete timedOut pr =
     (if IsUnknown (GetCondition (prs_Conditions (prb_Status pr)) ConditionSucceeded) \<and>
         prb_SpecStatus pr \<noteq> ''PipelineRunCancelled'' \<and> \<not> timedOut then False
      else list_all (\<lambda>(name, tr). case ptr_Status tr of
             None \<Rightarrow> True
           | Some st \<Rightarrow> workflowRunStatus (trs_Conditions st) \<noteq> WorkflowRunStatusInProgress) (prs_TaskRuns (prb_Status pr)))"

end
