(* ===== verification/Pipeline_Props.thy ===== *)
theory Pipeline_Props
  imports Pipeline Obj_Util_Props
begin

text \<open>
  The pipeline the controller makes of a run: one task per step, in the order of the workflow, started
  after the tasks of the steps it depends on and under the step's condition.
\<close>

section \<open>Keys are kept\<close>

lemma keyed_Load_key [simp]: "kd_Key (snd (fst (keyed_Load cl t w))) = kd_Key t"
  by (simp add: keyed_Load_def split: prod.split)

lemma load_each_keys: "load_each cl all ts w = ((r, ts'), w') \<Longrightarrow> map kd_Key ts' = map kd_Key ts"
proof (induction cl all ts w arbitrary: ts' r w' rule: load_each.induct)
  case (2 cl all t ts w)
  obtain x t1 w1 where l: "keyed_Load cl t w = ((x, t1), w1)" by (metis prod.collapse)
  then have "kd_Key t1 = kd_Key t" using keyed_Load_key [of cl t w] by simp
  with 2 l show ?case by (auto split: sum.splits prod.splits)
qed simp

lemma each_keys:
  assumes "\<And>t w. kd_Key (snd (fst (f t w))) = kd_Key t" "each f ts w = ((r, ts'), w')"
  shows "map kd_Key ts' = map kd_Key ts"
  using assms(2)
proof (induction ts arbitrary: ts' r w w')
  case (Cons t ts)
  obtain x t1 w1 where l: "f t w = ((x, t1), w1)" by (metis prod.collapse)
  then have "kd_Key t1 = kd_Key t" using assms(1) [of t w] by simp
  with Cons l show ?case by (auto split: sum.splits prod.splits)
qed simp

lemma WorkflowRun_Own_key [simp]: "kd_Key (snd (WorkflowRun_Own wr t)) = kd_Key t"
  by (simp add: WorkflowRun_Own_def on_meta_def split: prod.split)

lemma own_each_keys: "own_each wr ts w = ((r, ts'), w') \<Longrightarrow> map kd_Key ts' = map kd_Key ts"
  unfolding own_each_def by (rule each_keys) auto

lemma ConfigureTask_key: "ConfigureTask iss pd ws t w = ((r, t'), w') \<Longrightarrow> kd_Key t' = kd_Key t"
  by (auto simp: ConfigureTask_def on_meta_def Let_def split: prod.splits sum.splits)

lemma ConfigureCondition_key: "ConfigureCondition script iss pd ws t w = ((r, t'), w') \<Longrightarrow> kd_Key t' = kd_Key t"
  by (auto simp: ConfigureCondition_def on_meta_def split: prod.splits sum.splits)

lemma configure_tasks_step:
  assumes "configure_tasks iss pd (ws # wss) (t # ts) w = ((r, ts'), w')"
  obtains (error) err t' where "ConfigureTask iss pd ws t w = ((Inl err, t'), w')" "r = Inl err" "ts' = t' # ts"
  | (ok) t' w1 ts1 where "ConfigureTask iss pd ws t w = ((Inr (), t'), w1)" "configure_tasks iss pd wss ts w1 = ((r, ts1), w')" "ts' = t' # ts1"
proof -
  obtain x t1 w1 where t1: "ConfigureTask iss pd ws t w = ((x, t1), w1)" by (metis prod.collapse)
  obtain y ts1 w2 where ts1: "configure_tasks iss pd wss ts w1 = ((y, ts1), w2)" by (metis prod.collapse)
  from assms t1 ts1 error ok show ?thesis by (cases x) auto
qed

lemma configure_tasks_keys: "configure_tasks iss pd wss ts w = ((r, ts'), w') \<Longrightarrow> map kd_Key ts' = map kd_Key ts"
proof (induction iss pd wss ts w arbitrary: ts' r w' rule: configure_tasks.induct)
  case (1 iss pd ws wss t ts w)
  from 1 show ?case
    by (cases rule: configure_tasks_step [OF "1.prems"]) (auto dest: ConfigureTask_key)
qed simp_all

lemma keys_update: "kd_Key c = kd_Key (l ! i) \<Longrightarrow> map kd_Key (l[i := c]) = map kd_Key l"
  by (rule nth_equalityI, simp) (cases "i < length l"; simp add: nth_list_update)

lemma configure_conditions_keys:
  "configure_conditions script iss pd wss cs w = ((r, cs'), w') \<Longrightarrow>
   map kd_Key (cs_List cs') = map kd_Key (cs_List cs) \<and> cs_idx cs' = cs_idx cs"
proof (induction wss arbitrary: cs w)
  case (Cons ws wss)
  show ?case
  proof (cases "GetByStepName cs (ws_Name ws)")
    case None
    with Cons show ?thesis by simp
  next
    case (Some i)
    obtain x c w1 where c: "ConfigureCondition script iss pd ws (cs_List cs ! i) w = ((x, c), w1)" by (metis prod.collapse)
    have "map kd_Key ((cs_List cs)[i := c]) = map kd_Key (cs_List cs)"
      using ConfigureCondition_key [OF c] by (rule keys_update)
    with Cons.prems Cons.IH [of "cs\<lparr>cs_List := (cs_List cs)[i := c]\<rparr>" w1] Some c show ?thesis by (cases x) auto
  qed
qed simp

section \<open>The tasks\<close>

lemma AnnotateStepToken_present:
  "AnnotateStepToken issue wrd now n target w = ((Inr (), m), w') \<Longrightarrow> map_of (om_Annotations m) KubernetesTokenAnnotation \<noteq> None"
  by (auto simp: AnnotateStepToken_def Annotate_def Let_def split: if_splits sum.splits prod.splits)

definition task_for :: "pipeline_deps \<Rightarrow> workflow_step \<Rightarrow> tekton_step list keyed \<Rightarrow> bool" where
  "task_for pd ws t \<longleftrightarrow> o_Body (kd_Object t) = [task_step pd ws] \<and>
     map_of (om_Annotations (o_Meta (kd_Object t))) KubernetesTokenAnnotation \<noteq> None"

lemma ConfigureTask_for: "ConfigureTask iss pd ws t w = ((Inr (), t'), w') \<Longrightarrow> task_for pd ws t'"
  by (auto simp: ConfigureTask_def task_for_def Let_def Annotate_def dest: AnnotateStepToken_present
      split: prod.splits sum.splits option.splits if_splits)

lemma configure_tasks_for:
  "configure_tasks iss pd wss ts w = ((Inr (), ts'), w') \<Longrightarrow> length ts = length wss \<Longrightarrow> list_all2 (task_for pd) wss ts'"
proof (induction iss pd wss ts w arbitrary: ts' w' rule: configure_tasks.induct)
  case (1 iss pd ws wss t ts w)
  show ?case
    by (cases rule: configure_tasks_step [OF "1.prems"(1)]) (use 1 in \<open>auto dest: ConfigureTask_for\<close>)
qed auto

section \<open>The conditions\<close>

abbreviation step_key :: "pipeline_deps \<Rightarrow> workflow_step \<Rightarrow> object_key" where
  "step_key pd ws \<equiv> ModelStepObjectKey (wr_Key (pd_WorkflowRun pd)) (ModelStep (pd_WorkflowRun pd) ws)"

lemma NewConditions_idx:
  assumes "distinct (map ws_Name wss)" "ws \<in> set wss"
    and "cs = fold (add_condition pd) wss \<lparr>cs_List = [], cs_idx = []\<rparr>"
  shows "case GetByStepName cs (ws_Name ws) of
      None \<Rightarrow> ws_When ws = GNil
    | Some i \<Rightarrow> ws_When ws \<noteq> GNil \<and> i < length (cs_List cs) \<and> kd_Key (cs_List cs ! i) = step_key pd ws"
  using assms
proof (induction wss arbitrary: cs rule: rev_induct)
  case (snoc w wss)
  define cs0 where "cs0 = fold (add_condition pd) wss \<lparr>cs_List = [], cs_idx = []\<rparr>"
  have cs: "cs = add_condition pd w cs0" using snoc.prems(3) by (simp add: cs0_def)
  have names: "GetByStepName cs0 n \<noteq> None \<Longrightarrow> n \<in> ws_Name ` set wss" for n
    unfolding cs0_def GetByStepName_def
    by (induction wss rule: rev_induct) (auto simp: add_condition_def split: if_splits)
  show ?case
  proof (cases "ws = w")
    case True
    with snoc.prems(1) names [of "ws_Name w"] show ?thesis
      by (auto simp: cs add_condition_def GetByStepName_def new_keyed_def nth_append split: option.split)
  next
    case False
    with snoc.prems have mem: "ws \<in> set wss" by simp
    then have "ws_Name ws \<in> ws_Name ` set wss" by (rule imageI)
    with snoc.prems(1) have "ws_Name ws \<noteq> ws_Name w" by auto
    from mem snoc.IH [OF _ mem cs0_def] snoc.prems(1) have
      "case GetByStepName cs0 (ws_Name ws) of None \<Rightarrow> ws_When ws = GNil
       | Some i \<Rightarrow> ws_When ws \<noteq> GNil \<and> i < length (cs_List cs0) \<and> kd_Key (cs_List cs0 ! i) = step_key pd ws"
      by simp
    with \<open>ws_Name ws \<noteq> ws_Name w\<close> show ?thesis
      by (auto simp: cs add_condition_def GetByStepName_def nth_append split: option.splits)
  qed
qed simp

section \<open>The pipeline\<close>

definition mirrored_task :: "workflow_run \<Rightarrow> workflow_step \<Rightarrow> pipeline_task" where
  "mirrored_task wr ws =
     (let task = (\<lambda>name. HexEncoding (Step_Hash (wr_ModelStepFromName wr name)))
      in \<lparr>pt_Name = task (ws_Name ws), pt_TaskRef = task (ws_Name ws), pt_RunAfter = map task (ws_DependsOn ws),
          pt_Conditions = (if ws_When ws = GNil then [] else [task (ws_Name ws)])\<rparr>)"

lemma Pipeline_Load_keys:
  assumes "Pipeline_Load cl p w = ((Inr ok, p'), w')"
  shows "map kd_Key (pl_Tasks p') = map kd_Key (pl_Tasks p)"
    and "map kd_Key (cs_List (pl_Conditions p')) = map kd_Key (cs_List (pl_Conditions p))"
    and "cs_idx (pl_Conditions p') = cs_idx (pl_Conditions p)"
  using assms
  by (auto simp: Pipeline_Load_def dest: load_each_keys split: prod.splits sum.splits)

lemma ConfigureTasks_ok:
  assumes "ConfigureTasks iss pd ts w = ((Inr (), ts'), w')" "length ts = length (wr_Steps (pd_WorkflowRun pd))"
  shows "map kd_Key ts' = map kd_Key ts" and "list_all2 (task_for pd) (wr_Steps (pd_WorkflowRun pd)) ts'"
proof -
  obtain r ts1 w1 where o: "own_each (pd_WorkflowRun pd) ts w = ((r, ts1), w1)" by (metis prod.collapse)
  with assms(1) have c: "configure_tasks iss pd (wr_Steps (pd_WorkflowRun pd)) ts1 w1 = ((Inr (), ts'), w')"
    by (auto simp: ConfigureTasks_def split: sum.splits)
  from own_each_keys [OF o] configure_tasks_keys [OF c] show "map kd_Key ts' = map kd_Key ts" by simp
  from own_each_keys [OF o] assms(2) have "length ts1 = length (wr_Steps (pd_WorkflowRun pd))" by (metis length_map)
  with c show "list_all2 (task_for pd) (wr_Steps (pd_WorkflowRun pd)) ts'" by (rule configure_tasks_for)
qed

lemma ConfigureConditions_keys:
  assumes "ConfigureConditions script iss pd cs w = ((Inr (), cs'), w')"
  shows "map kd_Key (cs_List cs') = map kd_Key (cs_List cs) \<and> cs_idx cs' = cs_idx cs"
proof -
  obtain r l w1 where o: "own_each (pd_WorkflowRun pd) (cs_List cs) w = ((r, l), w1)" by (metis prod.collapse)
  with assms have "configure_conditions script iss pd (wr_Steps (pd_WorkflowRun pd)) (cs\<lparr>cs_List := l\<rparr>) w1 = ((Inr (), cs'), w')"
    by (auto simp: ConfigureConditions_def split: sum.splits)
  from configure_conditions_keys [OF this] own_each_keys [OF o] show ?thesis by simp
qed

text \<open>The task of one step, from keys that are those of the new objects.\<close>

lemma pipeline_task_mirrors:
  assumes names: "distinct (map ws_Name (wr_Steps (pd_WorkflowRun pd)))" and ws: "ws \<in> set (wr_Steps (pd_WorkflowRun pd))"
    and t: "kd_Key t = step_key pd ws"
    and cs: "map kd_Key (cs_List cs) = map kd_Key (cs_List (NewConditions pd))" "cs_idx cs = cs_idx (NewConditions pd)"
  shows "pipeline_task_of (pd_WorkflowRun pd) cs t ws = mirrored_task (pd_WorkflowRun pd) ws"
proof -
  have len: "length (cs_List cs) = length (cs_List (NewConditions pd))" using cs(1) by (metis length_map)
  have key: "kd_Key (cs_List cs ! i) = kd_Key (cs_List (NewConditions pd) ! i)" if "i < length (cs_List (NewConditions pd))" for i
    using cs(1) that len by (metis nth_map)
  have "GetByStepName cs (ws_Name ws) = GetByStepName (NewConditions pd) (ws_Name ws)"
    using cs(2) by (simp add: GetByStepName_def)
  with NewConditions_idx [OF names ws NewConditions_def] key t show ?thesis
    by (auto simp: pipeline_task_of_def mirrored_task_def ModelStepObjectKey_def ModelStep_def Let_def split: option.splits)
qed

lemma ConfigurePipeline_mirrors:
  assumes names: "distinct (map ws_Name (wr_Steps (pd_WorkflowRun pd)))"
    and conf: "ConfigurePipeline script iss pd p w = ((Inr (), p2), w2)"
    and ts: "map kd_Key (pl_Tasks p) = map kd_Key (NewTasks pd)"
    and cs: "map kd_Key (cs_List (pl_Conditions p)) = map kd_Key (cs_List (NewConditions pd))"
      "cs_idx (pl_Conditions p) = cs_idx (NewConditions pd)"
  shows "o_Body (kd_Object (pl_Pipeline p2)) = map (mirrored_task (pd_WorkflowRun pd)) (wr_Steps (pd_WorkflowRun pd))"
    and "list_all2 (task_for pd) (wr_Steps (pd_WorkflowRun pd)) (pl_Tasks p2)"
proof -
  let ?wss = "wr_Steps (pd_WorkflowRun pd)"
  obtain w1 where c: "ConfigureConditions script iss pd (pl_Conditions p) w = ((Inr (), pl_Conditions p2), w1)"
    and t: "ConfigureTasks iss pd (pl_Tasks p) w1 = ((Inr (), pl_Tasks p2), w2)"
    and body: "o_Body (kd_Object (pl_Pipeline p2)) =
      map (\<lambda>(t, ws). pipeline_task_of (pd_WorkflowRun pd) (pl_Conditions p2) t ws) (zip (pl_Tasks p2) ?wss)"
    using conf by (auto simp: ConfigurePipeline_def Let_def split: prod.splits sum.splits)
  have len: "length (pl_Tasks p) = length ?wss" using arg_cong [OF ts, of length] by (simp add: NewTasks_def)
  from ConfigureTasks_ok [OF t len] show "list_all2 (task_for pd) ?wss (pl_Tasks p2)" by simp
  have keys: "map kd_Key (pl_Tasks p2) = map (step_key pd) ?wss"
    using ConfigureTasks_ok(1) [OF t len] ts by (simp add: NewTasks_def new_keyed_def comp_def)
  have len2: "length (pl_Tasks p2) = length ?wss" using arg_cong [OF keys, of length] by simp
  have "kd_Key (pl_Tasks p2 ! i) = step_key pd (?wss ! i)" if "i < length ?wss" for i
    using arg_cong [OF keys, of "\<lambda>l. l ! i"] that len2 by simp
  then show "o_Body (kd_Object (pl_Pipeline p2)) = map (mirrored_task (pd_WorkflowRun pd)) ?wss"
    using len2 ConfigureConditions_keys [OF c] cs
    by (auto simp: body intro!: nth_equalityI pipeline_task_mirrors [OF names])
qed

lemma ApplyPipeline_steps:
  assumes "ApplyPipeline cl script iss pd w = (Inr p3, w3)"
  obtains ok p w1 p2 w2 where "Pipeline_Load cl (NewPipeline pd) w = ((Inr ok, p), w1)"
    "ConfigurePipeline script iss pd
       (p\<lparr>pl_Pipeline := on_meta (CopyLabelsAndAnnotations (wr_Meta (pd_WorkflowRun pd))) (pl_Pipeline p)\<rparr>) w1 = ((Inr (), p2), w2)"
    "Pipeline_Persist cl p2 w2 = ((Inr (), p3), w3)"
  using assms by (auto simp: ApplyPipeline_def Let_def split: prod.splits sum.splits)

text \<open>C40: When the controller applies the pipeline of a run whose steps have distinct names, what it persists
  has one task per step, in order: named after the step's hash and run by the task of that name, started after the
  tasks of exactly the steps it depends on, and under a condition exactly when the step has a \<open>when\<close>. The task
  objects persisted with it run the step's container and carry a token to the metadata API.\<close>

theorem pipeline_mirrors_workflow:
  assumes "distinct (map ws_Name (wr_Steps (pd_WorkflowRun pd)))" "ApplyPipeline cl script iss pd w = (Inr p3, w3)"
  shows "\<exists>p2 w2. Pipeline_Persist cl p2 w2 = ((Inr (), p3), w3) \<and>
    o_Body (kd_Object (pl_Pipeline p2)) = map (mirrored_task (pd_WorkflowRun pd)) (wr_Steps (pd_WorkflowRun pd)) \<and>
    list_all2 (task_for pd) (wr_Steps (pd_WorkflowRun pd)) (pl_Tasks p2)"
proof -
  obtain ok p w1 p2 w2 where l: "Pipeline_Load cl (NewPipeline pd) w = ((Inr ok, p), w1)"
    and c: "ConfigurePipeline script iss pd
       (p\<lparr>pl_Pipeline := on_meta (CopyLabelsAndAnnotations (wr_Meta (pd_WorkflowRun pd))) (pl_Pipeline p)\<rparr>) w1 = ((Inr (), p2), w2)"
    and s: "Pipeline_Persist cl p2 w2 = ((Inr (), p3), w3)"
    using assms(2) by (rule ApplyPipeline_steps)
  have "o_Body (kd_Object (pl_Pipeline p2)) = map (mirrored_task (pd_WorkflowRun pd)) (wr_Steps (pd_WorkflowRun pd))"
    "list_all2 (task_for pd) (wr_Steps (pd_WorkflowRun pd)) (pl_Tasks p2)"
    using ConfigurePipeline_mirrors [OF assms(1) c] Pipeline_Load_keys [OF l] by (simp_all add: NewPipeline_def)
  with s show ?thesis by blast
qed

text \<open>A cluster that holds nothing yet, and a workflow of two steps, the second one conditional on an input.\<close>

definition ex_client :: "('a, unit) object_client" where
  "ex_client = \<lparr>oc_Get = (\<lambda>_ w. (Inl (StatusError ''NotFound'' ''not found''), w)), oc_Create = (\<lambda>obj w. (Inr obj, w)),
     oc_Update = (\<lambda>obj w. (Inr obj, w)), oc_Delete = (\<lambda>_ w. (Inr (), w))\<rparr>"

definition ex_tekton :: "unit tekton_client" where
  "ex_tekton = \<lparr>tc_Task = ex_client, tc_Condition = ex_client, tc_Pipeline = ex_client, tc_PipelineRun = ex_client\<rparr>"

definition ex_build :: workflow_step where
  "ex_build = \<lparr>ws_Name = ''build'', ws_Image = [], ws_Spec = [], ws_Input = [], ws_Command = ''make'', ws_Args = [], ws_Env = [],
     ws_When = GNil, ws_DependsOn = []\<rparr>"

definition ex_deploy :: workflow_step where
  "ex_deploy = ex_build\<lparr>ws_Name := ''deploy'', ws_When := GBool True, ws_DependsOn := [''build'']\<rparr>"

definition ex_pipeline_run :: workflow_run where
  "ex_pipeline_run =
     (let key = \<lparr>key_Namespace = ''ns'', key_Name = ''run''\<rparr>
      in \<lparr>wr_Key = key, wr_Meta = empty_meta\<lparr>om_Namespace := ''ns'', om_Name := ''run''\<rparr>, wr_SpecName = ''run'',
          wr_Steps = [ex_build, ex_deploy], wr_WorkflowParameters = [], wr_Parameters = [], wr_TenantRef = None,
          wr_StateWorkflow = [], wr_StateSteps = [],
          wr_Status = \<lparr>rs_Status = [], rs_StartTime = None, rs_CompletionTime = None, rs_Steps = [], rs_Conditions = []\<rparr>\<rparr>)"

definition ex_deps :: pipeline_deps where
  "ex_deps = \<lparr>pd_WorkflowRun = ex_pipeline_run, pd_NamespaceName = ''ns'', pd_NamespaceUID = ''uid'',
     pd_TokenData = [(''token'', ''sat'')], pd_ImmutableConfigMap = wr_Key ex_pipeline_run,
     pd_MutableConfigMap = wr_Key ex_pipeline_run, pd_MetadataAPIURL = ''http://api''\<rparr>"

definition ex_issuing :: "unit issuing" where
  "ex_issuing = \<lparr>is_Issue = (\<lambda>_ w. (Inr ''jwt'', w)), is_Now = (\<lambda>_. 0)\<rparr>"

lemmas ex_pipeline_defs = ex_deps_def ex_pipeline_run_def ex_build_def ex_deploy_def ex_issuing_def ex_tekton_def ex_client_def

lemma ex_loaded: "keyed_Load ex_client t () = ((Inr False, t\<lparr>kd_Object := at_key (kd_Key t) (kd_Object t)\<rparr>), ())"
  by (simp add: keyed_Load_def GetIgnoreNotFound_def ex_client_def IsNotFound_def)

lemma ex_stored_all: "\<exists>ts'. each (keyed_Persist ex_client) ts () = ((Inr (), ts'), ())"
  by (induction ts) (auto simp: keyed_Persist_def CreateOrUpdate_def ex_client_def stored_object_def obj_Exists_def split: prod.splits if_splits)

lemma ex_step_annotated:
  "\<exists>m'. AnnotateStepToken (is_Issue ex_issuing) (token_deps ex_deps) now n m w = ((Inr (), m'), ())"
  by (simp add: AnnotateStepToken_def ServiceAccountTokenSecret_Token_def token_deps_def lookup_str_def Let_def ex_deps_def ex_issuing_def)

lemma ex_task: "\<exists>t'. ConfigureTask ex_issuing ex_deps ws t () = ((Inr (), t'), ())"
proof -
  obtain m' where "AnnotateStepToken (is_Issue ex_issuing) (token_deps ex_deps) (is_Now ex_issuing ()) (ws_Name ws) (o_Meta (kd_Object t)) () = ((Inr (), m'), ())"
    using ex_step_annotated by blast
  then show ?thesis by (simp add: ConfigureTask_def Let_def)
qed

lemma ex_condition: "\<exists>c'. ConfigureCondition ''poll'' ex_issuing ex_deps ws c () = ((Inr (), c'), ())"
proof -
  obtain m' where "AnnotateStepToken (is_Issue ex_issuing) (token_deps ex_deps) (is_Now ex_issuing ()) (ws_Name ws) (o_Meta (kd_Object c)) () = ((Inr (), m'), ())"
    using ex_step_annotated by blast
  then show ?thesis by (simp add: ConfigureCondition_def)
qed

lemma ex_configured_tasks: "\<exists>ts'. configure_tasks ex_issuing ex_deps wss ts () = ((Inr (), ts'), ())"
proof (induction wss arbitrary: ts)
  case (Cons ws wss)
  show ?case
  proof (cases ts)
    case c: (Cons t ts1)
    obtain t' where "ConfigureTask ex_issuing ex_deps ws t () = ((Inr (), t'), ())" using ex_task by blast
    with Cons.IH [of ts1] c show ?thesis by auto
  qed simp
qed simp

lemma ex_configured_conditions: "\<exists>cs'. configure_conditions ''poll'' ex_issuing ex_deps wss cs () = ((Inr (), cs'), ())"
proof (induction wss arbitrary: cs)
  case (Cons ws wss)
  show ?case
  proof (cases "GetByStepName cs (ws_Name ws)")
    case (Some i)
    obtain c' where "ConfigureCondition ''poll'' ex_issuing ex_deps ws (cs_List cs ! i) () = ((Inr (), c'), ())" using ex_condition by blast
    with Cons.IH Some show ?thesis by auto
  qed (use Cons.IH in auto)
qed simp

lemma ex_owned: "om_Namespace (o_Meta (kd_Object t)) = ''ns'' \<Longrightarrow> \<exists>t'. WorkflowRun_Own ex_pipeline_run t = (Inr (), t')"
  by (simp add: WorkflowRun_Own_def Own_def ex_pipeline_run_def Let_def)

lemma ex_owned_all:
  "\<forall>t \<in> set ts. om_Namespace (o_Meta (kd_Object t)) = ''ns'' \<Longrightarrow> \<exists>ts'. own_each ex_pipeline_run ts () = ((Inr (), ts'), ())"
  unfolding own_each_def by (induction ts) (auto dest!: ex_owned)

lemma ex_loaded_all:
  "load_each ex_client all ts () =
     ((Inr (all \<and> ts = []), map (\<lambda>t. t\<lparr>kd_Object := at_key (kd_Key t) (kd_Object t)\<rparr>) ts), ())"
  by (induction ts arbitrary: all) (auto simp: ex_loaded)

lemma ex_pipeline_loaded:
  "\<exists>p. Pipeline_Load ex_tekton (NewPipeline ex_deps) () = ((Inr False, p), ()) \<and>
     om_Namespace (o_Meta (kd_Object (pl_Pipeline p))) = ''ns'' \<and>
     (\<forall>t \<in> set (pl_Tasks p). om_Namespace (o_Meta (kd_Object t)) = ''ns'') \<and>
     (\<forall>c \<in> set (cs_List (pl_Conditions p)). om_Namespace (o_Meta (kd_Object c)) = ''ns'')"
  by (simp add: Pipeline_Load_def ex_loaded ex_loaded_all NewPipeline_def NewTasks_def NewConditions_def add_condition_def
      new_keyed_def ModelStepObjectKey_def at_key_def ex_pipeline_defs Let_def)
    (simp add: keyed_Load_def GetIgnoreNotFound_def IsNotFound_def at_key_def)

lemma ex_applied: "\<exists>p3. ApplyPipeline ex_tekton ''poll'' ex_issuing ex_deps () = (Inr p3, ())"
proof -
  obtain p where load: "Pipeline_Load ex_tekton (NewPipeline ex_deps) () = ((Inr False, p), ())"
    and ns: "om_Namespace (o_Meta (kd_Object (pl_Pipeline p))) = ''ns''"
      "\<forall>t \<in> set (pl_Tasks p). om_Namespace (o_Meta (kd_Object t)) = ''ns''"
      "\<forall>c \<in> set (cs_List (pl_Conditions p)). om_Namespace (o_Meta (kd_Object c)) = ''ns''"
    using ex_pipeline_loaded by blast
  have run: "pd_WorkflowRun ex_deps = ex_pipeline_run" by (simp add: ex_deps_def)
  define p1 where "p1 = p\<lparr>pl_Pipeline := on_meta (CopyLabelsAndAnnotations (wr_Meta ex_pipeline_run)) (pl_Pipeline p)\<rparr>"
  have "om_Namespace (o_Meta (kd_Object (pl_Pipeline p1))) = ''ns''"
    using ns(1) by (simp add: p1_def on_meta_def CopyLabelsAndAnnotations_def ex_pipeline_run_def empty_meta_def Let_def)
  then obtain k where k: "WorkflowRun_Own ex_pipeline_run (pl_Pipeline p1) = (Inr (), k)" using ex_owned by blast
  obtain l cs where cs: "own_each ex_pipeline_run (cs_List (pl_Conditions p)) () = ((Inr (), l), ())"
    "configure_conditions ''poll'' ex_issuing ex_deps (wr_Steps ex_pipeline_run) ((pl_Conditions p)\<lparr>cs_List := l\<rparr>) () = ((Inr (), cs), ())"
    using ex_owned_all [OF ns(3)] ex_configured_conditions by blast
  obtain ts0 ts where ts: "own_each ex_pipeline_run (pl_Tasks p) () = ((Inr (), ts0), ())"
    "configure_tasks ex_issuing ex_deps (wr_Steps ex_pipeline_run) ts0 () = ((Inr (), ts), ())"
    using ex_owned_all [OF ns(2)] ex_configured_tasks by blast
  obtain p2 where p2: "ConfigurePipeline ''poll'' ex_issuing ex_deps p1 () = ((Inr (), p2), ())"
    using k cs ts by (simp add: ConfigurePipeline_def ConfigureConditions_def ConfigureTasks_def p1_def run Let_def)
  obtain p3 where "Pipeline_Persist ex_tekton p2 () = ((Inr (), p3), ())"
    using ex_stored_all [of "pl_Tasks p2"] ex_stored_all [of "cs_List (pl_Conditions p2)"] ex_stored_all [of "[pl_Pipeline p2]"]
    by (auto simp: Pipeline_Persist_def ex_tekton_def split: prod.splits sum.splits)
  with load p2 show ?thesis by (simp add: ApplyPipeline_def run p1_def)
qed

theorem pipeline_mirrors_workflow_witness:
  "\<exists>p2 w2 p3. Pipeline_Persist ex_tekton p2 w2 = ((Inr (), p3), ()) \<and>
     map (\<lambda>t. (pt_RunAfter t, pt_Conditions t)) (o_Body (kd_Object (pl_Pipeline p2))) =
       (let task = (\<lambda>n. HexEncoding (Step_Hash (wr_ModelStepFromName ex_pipeline_run n)))
        in [([], []), ([task ''build''], [task ''deploy''])])"
proof -
  have names: "distinct (map ws_Name (wr_Steps (pd_WorkflowRun ex_deps)))" by (simp add: ex_pipeline_defs Let_def)
  obtain p3 where "ApplyPipeline ex_tekton ''poll'' ex_issuing ex_deps () = (Inr p3, ())" using ex_applied by blast
  from pipeline_mirrors_workflow [OF names this] show ?thesis
    by (auto simp: mirrored_task_def Let_def ex_pipeline_defs)
qed

end
