(* ===== verification/Network_Policy.thy ===== *)
theory Network_Policy
  imports Pipeline Obj_Status "HOL-Library.Word"
begin

text \<open>
  The network policies of tenants, runs and webhook triggers (\<open>pkg/obj/networkpolicy.go\<close>), and the documented
  meaning of network policies: which traffic a set of policies permits to and from a pod. Selectors are
  the \<open>MatchLabels\<close>, the only part of a label selector the code sets.
\<close>

section \<open>Policies\<close>

type_synonym label_selector = "string gomap"

record ip_block =
  ib_CIDR :: string
  ib_Except :: "string list"

record policy_peer =
  pp_PodSelector :: "label_selector option"
  pp_NamespaceSelector :: "label_selector option"
  pp_IPBlock :: "ip_block option"

record policy_port =
  po_Protocol :: string
  po_Port :: int

record policy_rule =
  ru_Ports :: "policy_port list"
  ru_Peers :: "policy_peer list"

datatype policy_type = PolicyTypeIngress | PolicyTypeEgress

record network_policy_spec =
  np_PodSelector :: label_selector
  np_PolicyTypes :: "policy_type list"
  np_Ingress :: "policy_rule list"
  np_Egress :: "policy_rule list"

type_synonym network_policy = "network_policy_spec keyed"

definition DefaultNetworkPolicyDeniedIPBlocks :: "string list" where
  "DefaultNetworkPolicyDeniedIPBlocks =
     [''0.0.0.0/8'', ''10.0.0.0/8'', ''100.64.0.0/10'', ''169.254.0.0/16'', ''172.16.0.0/12'', ''192.0.0.0/24'',
      ''192.0.2.0/24'', ''192.31.196.0/24'', ''192.52.193.0/24'', ''192.168.0.0/16'', ''192.175.48.0/24'',
      ''198.18.0.0/15'', ''198.51.100.0/24'', ''203.0.113.0/24'', ''240.0.0.0/4'']"

record network_policy_options =
  npo_deniedIPBlocks :: "string list"
  npo_systemNamespaceSelector :: label_selector
  npo_metadataAPIPodSelector :: label_selector
  npo_metadataAPIPort :: int

type_synonym network_policy_option = "network_policy_options \<Rightarrow> network_policy_options"

definition NetworkPolicyWithDeniedIPBlocks :: "string list \<Rightarrow> network_policy_option" where
  "NetworkPolicyWithDeniedIPBlocks blocks opts = opts\<lparr>npo_deniedIPBlocks := [] @ blocks\<rparr>"

definition NetworkPolicyWithSystemNamespaceSelector :: "label_selector \<Rightarrow> network_policy_option" where
  "NetworkPolicyWithSystemNamespaceSelector selector opts = opts\<lparr>npo_systemNamespaceSelector := selector\<rparr>"

definition NetworkPolicyWithMetadataAPIPodSelector :: "label_selector \<Rightarrow> network_policy_option" where
  "NetworkPolicyWithMetadataAPIPodSelector selector opts = opts\<lparr>npo_metadataAPIPodSelector := selector\<rparr>"

definition NetworkPolicyWithMetadataAPIPort :: "int \<Rightarrow> network_policy_option" where
  "NetworkPolicyWithMetadataAPIPort port opts = opts\<lparr>npo_metadataAPIPort := port\<rparr>"

definition default_policy_options :: network_policy_options where
  "default_policy_options =
     \<lparr>npo_deniedIPBlocks = DefaultNetworkPolicyDeniedIPBlocks,
      npo_systemNamespaceSelector = [(''nebula.puppet.com/network-policy.tasks'', ''true'')],
      npo_metadataAPIPodSelector = [(''app.kubernetes.io/name'', ''nebula-system''), (''app.kubernetes.io/component'', ''metadata-api'')],
      npo_metadataAPIPort = 7000\<rparr>"

definition baseTenantWorkloadNetworkPolicySpec :: "label_selector \<Rightarrow> network_policy_option list \<Rightarrow> network_policy_spec" where
  "baseTenantWorkloadNetworkPolicySpec podSelector opts =
     (let npo = fold (\<lambda>opt. opt) opts default_policy_options
      in \<lparr>np_PodSelector = podSelector, np_PolicyTypes = [PolicyTypeIngress, PolicyTypeEgress], np_Ingress = [],
          np_Egress =
            [\<lparr>ru_Ports = [], ru_Peers =
                [\<lparr>pp_PodSelector = None, pp_NamespaceSelector = None,
                  pp_IPBlock = Some \<lparr>ib_CIDR = ''0.0.0.0/0'', ib_Except = npo_deniedIPBlocks npo\<rparr>\<rparr>]\<rparr>,
             \<lparr>ru_Ports = [\<lparr>po_Protocol = ''TCP'', po_Port = npo_metadataAPIPort npo\<rparr>], ru_Peers =
                [\<lparr>pp_PodSelector = Some (npo_metadataAPIPodSelector npo),
                  pp_NamespaceSelector = Some (npo_systemNamespaceSelector npo), pp_IPBlock = None\<rparr>]\<rparr>]\<rparr>)"

definition empty_policy :: network_policy_spec where
  "empty_policy = \<lparr>np_PodSelector = [], np_PolicyTypes = [], np_Ingress = [], np_Egress = []\<rparr>"

definition NewNetworkPolicy :: "object_key \<Rightarrow> network_policy" where
  "NewNetworkPolicy key = new_keyed empty_policy key"

definition with_spec :: "'a \<Rightarrow> 'a keyed \<Rightarrow> 'a keyed" where
  "with_spec spec np = np\<lparr>kd_Object := (kd_Object np)\<lparr>o_Body := spec\<rparr>\<rparr>"

definition ConfigureNetworkPolicyForTenant :: "network_policy \<Rightarrow> network_policy" where
  "ConfigureNetworkPolicyForTenant = with_spec (empty_policy\<lparr>np_PolicyTypes := [PolicyTypeIngress, PolicyTypeEgress]\<rparr>)"

definition ConfigureNetworkPolicyForWorkflowRun :: "network_policy_option list \<Rightarrow> workflow_run \<Rightarrow> network_policy \<Rightarrow> network_policy" where
  "ConfigureNetworkPolicyForWorkflowRun opts wr =
     with_spec (baseTenantWorkloadNetworkPolicySpec (WorkflowRun_PodSelector wr) opts)"

definition gateway_selector :: label_selector where
  "gateway_selector = [(''nebula.puppet.com/network-policy.webhook-gateway'', ''true'')]"

definition ConfigureNetworkPolicyForWebhookTrigger ::
    "network_policy_option list \<Rightarrow> webhook_trigger \<Rightarrow> network_policy \<Rightarrow> network_policy" where
  "ConfigureNetworkPolicyForWebhookTrigger opts wt =
     (let spec = baseTenantWorkloadNetworkPolicySpec (WebhookTrigger_PodSelector wt) opts
      in with_spec (spec\<lparr>np_Ingress := np_Ingress spec @
           [\<lparr>ru_Ports = [], ru_Peers = [\<lparr>pp_PodSelector = None, pp_NamespaceSelector = Some gateway_selector, pp_IPBlock = None\<rparr>]\<rparr>]\<rparr>))"

section \<open>What policies permit\<close>

text \<open>\<open>net.ParseCIDR\<close> for IPv4, and the addresses of a block: those with its leading bits.\<close>

definition v4_word :: "nat list \<Rightarrow> 32 word" where
  "v4_word ns = of_nat (foldl (\<lambda>acc n. 256 * acc + n) 0 ns)"

definition ParseCIDR :: "string \<Rightarrow> (32 word \<times> nat) option" where
  "ParseCIDR s =
     (case split_n2 (CHR ''/'') s of
        [addr, len] \<Rightarrow>
          (case (v4_parts 4 addr, dtoi len) of
             (Some ns, Some (n, [])) \<Rightarrow> if n \<le> 32 then Some (v4_word ns, n) else None
           | _ \<Rightarrow> None)
      | _ \<Rightarrow> None)"

definition in_cidr :: "32 word \<Rightarrow> string \<Rightarrow> bool" where
  "in_cidr a s =
     (case ParseCIDR s of None \<Rightarrow> False | Some (b, n) \<Rightarrow> drop_bit (32 - n) a = drop_bit (32 - n) b)"

text \<open>The other end of a connection: its address, the labels of its namespace and its own when it is a pod,
  whether that namespace is the one of the policy, and the port connected to.\<close>

record endpoint =
  ep_Address :: "32 word"
  ep_Pod :: "(string gomap \<times> string gomap) option"
  ep_Local :: bool
  ep_Protocol :: string
  ep_Port :: int

definition selects :: "label_selector \<Rightarrow> string gomap \<Rightarrow> bool" where
  "selects sel labels \<longleftrightarrow> list_all (\<lambda>(k, v). map_of labels k = Some v) sel"

definition peer_matches :: "policy_peer \<Rightarrow> endpoint \<Rightarrow> bool" where
  "peer_matches p e \<longleftrightarrow>
     (case pp_IPBlock p of
        Some b \<Rightarrow> in_cidr (ep_Address e) (ib_CIDR b) \<and> \<not> list_ex (in_cidr (ep_Address e)) (ib_Except b)
      | None \<Rightarrow>
          (case ep_Pod e of
             None \<Rightarrow> False
           | Some (namespace, pod) \<Rightarrow>
               (case pp_NamespaceSelector p of None \<Rightarrow> ep_Local e | Some sel \<Rightarrow> selects sel namespace) \<and>
               (case pp_PodSelector p of None \<Rightarrow> True | Some sel \<Rightarrow> selects sel pod)))"

definition rule_allows :: "policy_rule \<Rightarrow> endpoint \<Rightarrow> bool" where
  "rule_allows r e \<longleftrightarrow>
     (ru_Ports r = [] \<or> list_ex (\<lambda>p. po_Protocol p = ep_Protocol e \<and> po_Port p = ep_Port e) (ru_Ports r)) \<and>
     (ru_Peers r = [] \<or> list_ex (\<lambda>p. peer_matches p e) (ru_Peers r))"

text \<open>Policies that select a pod isolate it and are additive; a pod no policy selects is not isolated.\<close>

definition permitted :: "policy_type \<Rightarrow> (network_policy_spec \<Rightarrow> policy_rule list) \<Rightarrow> network_policy_spec list \<Rightarrow> string gomap \<Rightarrow>
    endpoint \<Rightarrow> bool" where
  "permitted t rules policies labels e \<longleftrightarrow>
     (let selecting = filter (\<lambda>p. t \<in> set (np_PolicyTypes p) \<and> selects (np_PodSelector p) labels) policies
      in selecting = [] \<or> list_ex (\<lambda>p. list_ex (\<lambda>r. rule_allows r e) (rules p)) selecting)"

abbreviation egress_permitted :: "network_policy_spec list \<Rightarrow> string gomap \<Rightarrow> endpoint \<Rightarrow> bool" where
  "egress_permitted \<equiv> permitted PolicyTypeEgress np_Egress"

abbreviation ingress_permitted :: "network_policy_spec list \<Rightarrow> string gomap \<Rightarrow> endpoint \<Rightarrow> bool" where
  "ingress_permitted \<equiv> permitted PolicyTypeIngress np_Ingress"

end
