(* ===== verification/Network_Policy_Props.thy ===== *)
theory Network_Policy_Props
  imports Network_Policy
begin

text \<open>
  What the pods of a tenant can reach and who can reach them: the policies of the tenant, of its runs and
  of its triggers together.
\<close>

section \<open>Blocks of addresses as bounds\<close>

lemma div_eq_bounds: "0 < k \<Longrightarrow> x div k = q \<longleftrightarrow> q * k \<le> x \<and> x < Suc q * (k :: nat)"
  by (metis div_less_iff_less_mult less_eq_div_iff_mult_less_eq less_Suc_eq_le order_antisym_conv order_refl)

lemma in_cidr_bounds:
  assumes "ParseCIDR s = Some (b, n)"
  shows "in_cidr a s \<longleftrightarrow> (let k = 2 ^ (32 - n); q = unat b div k in q * k \<le> unat a \<and> unat a < Suc q * k)"
proof -
  have "in_cidr a s \<longleftrightarrow> unat a div 2 ^ (32 - n) = unat b div 2 ^ (32 - n)"
    using assms by (simp add: in_cidr_def word_unat_eq_iff unat_drop_bit_eq drop_bit_eq_div [where 'a = nat] del: drop_bit_eq_div)
  then show ?thesis by (simp only: Let_def div_eq_bounds zero_less_power zero_less_numeral)
qed

lemma word_unat_bound: "unat (a :: 32 word) < 0x100000000"
proof -
  have "unat a < 2 ^ LENGTH(32)" by (rule unsigned_less)
  then show ?thesis by simp
qed

lemma v4_parts_4: "v4_parts 4 s = v4_parts (Suc (Suc (Suc (Suc 0)))) s" by (simp add: eval_nat_numeral)

lemma parsed_blocks:
  "ParseCIDR ''0.0.0.0/0'' = Some (0, 0)"
  "ParseCIDR ''0.0.0.0/8'' = Some (0, 8)"
  "ParseCIDR ''10.0.0.0/8'' = Some (0x0A000000, 8)"
  "ParseCIDR ''100.64.0.0/10'' = Some (0x64400000, 10)"
  "ParseCIDR ''169.254.0.0/16'' = Some (0xA9FE0000, 16)"
  "ParseCIDR ''172.16.0.0/12'' = Some (0xAC100000, 12)"
  "ParseCIDR ''192.0.0.0/24'' = Some (0xC0000000, 24)"
  "ParseCIDR ''192.0.2.0/24'' = Some (0xC0000200, 24)"
  "ParseCIDR ''192.31.196.0/24'' = Some (0xC01FC400, 24)"
  "ParseCIDR ''192.52.193.0/24'' = Some (0xC034C100, 24)"
  "ParseCIDR ''192.168.0.0/16'' = Some (0xC0A80000, 16)"
  "ParseCIDR ''192.175.48.0/24'' = Some (0xC0AF3000, 24)"
  "ParseCIDR ''198.18.0.0/15'' = Some (0xC6120000, 15)"
  "ParseCIDR ''198.51.100.0/24'' = Some (0xC6336400, 24)"
  "ParseCIDR ''203.0.113.0/24'' = Some (0xCB007100, 24)"
  "ParseCIDR ''240.0.0.0/4'' = Some (0xF0000000, 4)"
  by (simp_all add: ParseCIDR_def v4_word_def dtoi_def digit_of_def v4_parts_4)

lemma in_default_blocks:
  "in_cidr a ''0.0.0.0/0'' \<longleftrightarrow> True"
  "in_cidr a ''0.0.0.0/8'' \<longleftrightarrow> unat a < 0x01000000"
  "in_cidr a ''10.0.0.0/8'' \<longleftrightarrow> 0x0A000000 \<le> unat a \<and> unat a < 0x0B000000"
  "in_cidr a ''100.64.0.0/10'' \<longleftrightarrow> 0x64400000 \<le> unat a \<and> unat a < 0x64800000"
  "in_cidr a ''169.254.0.0/16'' \<longleftrightarrow> 0xA9FE0000 \<le> unat a \<and> unat a < 0xA9FF0000"
  "in_cidr a ''172.16.0.0/12'' \<longleftrightarrow> 0xAC100000 \<le> unat a \<and> unat a < 0xAC200000"
  "in_cidr a ''192.0.0.0/24'' \<longleftrightarrow> 0xC0000000 \<le> unat a \<and> unat a < 0xC0000100"
  "in_cidr a ''192.0.2.0/24'' \<longleftrightarrow> 0xC0000200 \<le> unat a \<and> unat a < 0xC0000300"
  "in_cidr a ''192.31.196.0/24'' \<longleftrightarrow> 0xC01FC400 \<le> unat a \<and> unat a < 0xC01FC500"
  "in_cidr a ''192.52.193.0/24'' \<longleftrightarrow> 0xC034C100 \<le> unat a \<and> unat a < 0xC034C200"
  "in_cidr a ''192.168.0.0/16'' \<longleftrightarrow> 0xC0A80000 \<le> unat a \<and> unat a < 0xC0A90000"
  "in_cidr a ''192.175.48.0/24'' \<longleftrightarrow> 0xC0AF3000 \<le> unat a \<and> unat a < 0xC0AF3100"
  "in_cidr a ''198.18.0.0/15'' \<longleftrightarrow> 0xC6120000 \<le> unat a \<and> unat a < 0xC6140000"
  "in_cidr a ''198.51.100.0/24'' \<longleftrightarrow> 0xC6336400 \<le> unat a \<and> unat a < 0xC6336500"
  "in_cidr a ''203.0.113.0/24'' \<longleftrightarrow> 0xCB007100 \<le> unat a \<and> unat a < 0xCB007200"
  "in_cidr a ''240.0.0.0/4'' \<longleftrightarrow> 0xF0000000 \<le> unat a"
  using word_unat_bound [of a]
  by (simp_all add: parsed_blocks [THEN in_cidr_bounds])

text \<open>The addresses no policy of a run or trigger lets its pods reach, as bounds.\<close>

definition special_address :: "nat \<Rightarrow> bool" where
  "special_address n \<longleftrightarrow> n < 0x01000000
     \<or> (0x0A000000 \<le> n \<and> n < 0x0B000000)
     \<or> (0x64400000 \<le> n \<and> n < 0x64800000)
     \<or> (0xA9FE0000 \<le> n \<and> n < 0xA9FF0000)
     \<or> (0xAC100000 \<le> n \<and> n < 0xAC200000)
     \<or> (0xC0000000 \<le> n \<and> n < 0xC0000100)
     \<or> (0xC0000200 \<le> n \<and> n < 0xC0000300)
     \<or> (0xC01FC400 \<le> n \<and> n < 0xC01FC500)
     \<or> (0xC034C100 \<le> n \<and> n < 0xC034C200)
     \<or> (0xC0A80000 \<le> n \<and> n < 0xC0A90000)
     \<or> (0xC0AF3000 \<le> n \<and> n < 0xC0AF3100)
     \<or> (0xC6120000 \<le> n \<and> n < 0xC6140000)
     \<or> (0xC6336400 \<le> n \<and> n < 0xC6336500)
     \<or> (0xCB007100 \<le> n \<and> n < 0xCB007200)
     \<or> 0xF0000000 \<le> n"

lemma denied_blocks: "list_ex (in_cidr a) DefaultNetworkPolicyDeniedIPBlocks \<longleftrightarrow> special_address (unat a)"
  by (simp only: DefaultNetworkPolicyDeniedIPBlocks_def list_ex_iff list.set insert_iff empty_iff in_default_blocks special_address_def simp_thms
      bex_simps)

text \<open>The IANA IPv4 special-purpose address registry (RFC 6890 and its updates; the private blocks of RFC 1918 are part of it): the
  numbers of the first address of each block, and the length of its prefix. Entries inside of a larger block are left out.\<close>

definition special_purpose_registry :: "((nat \<times> nat \<times> nat \<times> nat) \<times> nat) list" where
  "special_purpose_registry =
     [((0, 0, 0, 0), 8), ((10, 0, 0, 0), 8), ((100, 64, 0, 0), 10), ((127, 0, 0, 0), 8), ((169, 254, 0, 0), 16), ((172, 16, 0, 0), 12),
      ((192, 0, 0, 0), 24), ((192, 0, 2, 0), 24), ((192, 31, 196, 0), 24), ((192, 52, 193, 0), 24), ((192, 88, 99, 0), 24),
      ((192, 168, 0, 0), 16), ((192, 175, 48, 0), 24), ((198, 18, 0, 0), 15), ((198, 51, 100, 0), 24), ((203, 0, 113, 0), 24),
      ((240, 0, 0, 0), 4)]"

fun in_block :: "nat \<Rightarrow> (nat \<times> nat \<times> nat \<times> nat) \<times> nat \<Rightarrow> bool" where
  "in_block x ((a, b, c, d), n) \<longleftrightarrow> x div 2 ^ (32 - n) = (((a * 256 + b) * 256 + c) * 256 + d) div 2 ^ (32 - n)"

definition registered :: "nat \<Rightarrow> bool" where
  "registered x \<longleftrightarrow> list_ex (in_block x) special_purpose_registry"

text \<open>The blocks of the registry that the code does not deny: loopback, and the former 6to4 relays.\<close>

definition left_out :: "nat \<Rightarrow> bool" where
  "left_out x \<longleftrightarrow> in_block x ((127, 0, 0, 0), 8) \<or> in_block x ((192, 88, 99, 0), 24)"

lemma special_address_registered:
  assumes "x < 0x100000000"
  shows "special_address x \<longleftrightarrow> registered x \<and> \<not> left_out x"
proof -
  have "registered x \<longleftrightarrow> special_address x \<or> left_out x"
    using assms
    by (auto simp: registered_def special_purpose_registry_def left_out_def special_address_def div_eq_bounds)
  moreover have "\<not> (special_address x \<and> left_out x)"
    by (auto simp: left_out_def special_address_def div_eq_bounds)
  ultimately show ?thesis by blast
qed

section \<open>Rules\<close>

definition metadata_api_endpoint :: "endpoint \<Rightarrow> bool" where
  "metadata_api_endpoint e \<longleftrightarrow> ep_Protocol e = ''TCP'' \<and> ep_Port e = 7000 \<and>
     (\<exists>namespace pod. ep_Pod e = Some (namespace, pod) \<and>
        map_of namespace ''nebula.puppet.com/network-policy.tasks'' = Some ''true'' \<and>
        map_of pod ''app.kubernetes.io/name'' = Some ''nebula-system'' \<and>
        map_of pod ''app.kubernetes.io/component'' = Some ''metadata-api'')"

definition from_gateway :: "endpoint \<Rightarrow> bool" where
  "from_gateway e \<longleftrightarrow> (\<exists>namespace pod. ep_Pod e = Some (namespace, pod) \<and>
     map_of namespace ''nebula.puppet.com/network-policy.webhook-gateway'' = Some ''true'')"

lemma workload_egress:
  "list_ex (\<lambda>r. rule_allows r e) (np_Egress (baseTenantWorkloadNetworkPolicySpec sel [])) \<longleftrightarrow>
   \<not> special_address (unat (ep_Address e)) \<or> metadata_api_endpoint e"
  by (auto simp: baseTenantWorkloadNetworkPolicySpec_def default_policy_options_def Let_def rule_allows_def peer_matches_def
      in_default_blocks(1) denied_blocks selects_def metadata_api_endpoint_def split: option.splits)

abbreviation policy_spec :: "network_policy \<Rightarrow> network_policy_spec" where
  "policy_spec np \<equiv> o_Body (kd_Object np)"

text \<open>The policies in the namespace of a tenant.\<close>

definition tenant_policies :: "network_policy \<Rightarrow> (workflow_run \<times> network_policy) list \<Rightarrow> (webhook_trigger \<times> network_policy) list \<Rightarrow>
    network_policy_spec list" where
  "tenant_policies np runs triggers =
     policy_spec (ConfigureNetworkPolicyForTenant np) #
     map (\<lambda>r. policy_spec (ConfigureNetworkPolicyForWorkflowRun [] (fst r) (snd r))) runs @
     map (\<lambda>t. policy_spec (ConfigureNetworkPolicyForWebhookTrigger [] (fst t) (snd t))) triggers"

definition pod_of_run :: "string gomap \<Rightarrow> workflow_run \<Rightarrow> bool" where
  "pod_of_run labels wr \<longleftrightarrow> map_of labels ''controller.relay.sh/run-id'' = Some (key_Name (wr_Key wr))"

definition pod_of_trigger :: "string gomap \<Rightarrow> webhook_trigger \<Rightarrow> bool" where
  "pod_of_trigger labels wt \<longleftrightarrow> map_of labels ''controller.relay.sh/webhook-trigger-id'' = Some (key_Name (wt_Key wt))"

lemmas configured_policies = ConfigureNetworkPolicyForTenant_def ConfigureNetworkPolicyForWorkflowRun_def
  ConfigureNetworkPolicyForWebhookTrigger_def with_spec_def empty_policy_def

lemma isolated:
  "permitted t rules (tenant_policies np runs triggers) labels e \<longleftrightarrow>
     list_ex (\<lambda>p. t \<in> set (np_PolicyTypes p) \<and> selects (np_PodSelector p) labels \<and> list_ex (\<lambda>r. rule_allows r e) (rules p))
       (tenant_policies np runs triggers)"
proof -
  have "t \<in> set (np_PolicyTypes (hd (tenant_policies np runs triggers))) \<and>
      selects (np_PodSelector (hd (tenant_policies np runs triggers))) labels"
    by (cases t) (simp_all add: tenant_policies_def configured_policies selects_def)
  then show ?thesis
    by (auto simp: permitted_def Let_def list_ex_iff filter_empty_conv tenant_policies_def)
qed

lemma tenant_rules:
  "list_ex (\<lambda>r. rule_allows r e) (np_Egress (policy_spec (ConfigureNetworkPolicyForTenant np))) \<longleftrightarrow> False"
  "list_ex (\<lambda>r. rule_allows r e) (np_Ingress (policy_spec (ConfigureNetworkPolicyForTenant np))) \<longleftrightarrow> False"
  by (simp_all add: configured_policies)

lemma run_policy:
  "selects (np_PodSelector (policy_spec (ConfigureNetworkPolicyForWorkflowRun [] wr np))) labels \<longleftrightarrow> pod_of_run labels wr"
  "t \<in> set (np_PolicyTypes (policy_spec (ConfigureNetworkPolicyForWorkflowRun [] wr np)))"
  "np_Egress (policy_spec (ConfigureNetworkPolicyForWorkflowRun [] wr np)) = np_Egress (baseTenantWorkloadNetworkPolicySpec (WorkflowRun_PodSelector wr) [])"
  "np_Ingress (policy_spec (ConfigureNetworkPolicyForWorkflowRun [] wr np)) = []"
  by (cases t; simp add: configured_policies baseTenantWorkloadNetworkPolicySpec_def Let_def selects_def WorkflowRun_PodSelector_def pod_of_run_def)+

lemma trigger_policy:
  "selects (np_PodSelector (policy_spec (ConfigureNetworkPolicyForWebhookTrigger [] wt np))) labels \<longleftrightarrow> pod_of_trigger labels wt"
  "t \<in> set (np_PolicyTypes (policy_spec (ConfigureNetworkPolicyForWebhookTrigger [] wt np)))"
  "np_Egress (policy_spec (ConfigureNetworkPolicyForWebhookTrigger [] wt np)) = np_Egress (baseTenantWorkloadNetworkPolicySpec (WebhookTrigger_PodSelector wt) [])"
  "list_ex (\<lambda>r. rule_allows r e) (np_Ingress (policy_spec (ConfigureNetworkPolicyForWebhookTrigger [] wt np))) \<longleftrightarrow> from_gateway e"
  by (cases t; auto simp: configured_policies baseTenantWorkloadNetworkPolicySpec_def Let_def selects_def WebhookTrigger_PodSelector_def
      pod_of_trigger_def rule_allows_def peer_matches_def gateway_selector_def from_gateway_def split: option.splits)+

text \<open>C19: What a pod in the namespace of a tenant can reach. A pod of a run or of a trigger can connect exactly to the addresses outside of
  the IANA special-purpose registry, to those in the two blocks of the registry that the list of denied blocks leaves out
  (127.0.0.0/8 and 192.88.99.0/24), and to the metadata API on its port; any other pod reaches nothing. The comment of the rule promises that
  the whole registry is denied, which the code does not do; multicast (224.0.0.0/4), which has a registry of its own, can be reached as well.
  This holds for all addresses of 32 bits.\<close>

theorem tenant_egress_bounds:
  "egress_permitted (tenant_policies np runs triggers) labels e \<longleftrightarrow>
     (list_ex (\<lambda>r. pod_of_run labels (fst r)) runs \<or> list_ex (\<lambda>t. pod_of_trigger labels (fst t)) triggers) \<and>
     (\<not> registered (unat (ep_Address e)) \<or> left_out (unat (ep_Address e)) \<or> metadata_api_endpoint e)"
  unfolding isolated
  by (auto simp: tenant_policies_def tenant_rules run_policy trigger_policy workload_egress list_ex_iff [of _ runs] list_ex_iff [of _ triggers]
      list_ex_iff [of _ "map _ _"] special_address_registered [OF word_unat_bound])

definition ex_policy_run :: workflow_run where
  "ex_policy_run =
     \<lparr>wr_Key = \<lparr>key_Namespace = ''ns'', key_Name = ''run''\<rparr>, wr_Meta = empty_meta, wr_SpecName = ''run'',
      wr_Steps = [], wr_WorkflowParameters = [], wr_Parameters = [], wr_TenantRef = None, wr_StateWorkflow = [], wr_StateSteps = [],
      wr_Status = \<lparr>rs_Status = [], rs_StartTime = None, rs_CompletionTime = None, rs_Steps = [], rs_Conditions = []\<rparr>\<rparr>"

definition ex_outside :: "32 word \<Rightarrow> endpoint" where
  "ex_outside a = \<lparr>ep_Address = a, ep_Pod = None, ep_Local = False, ep_Protocol = ''TCP'', ep_Port = 443\<rparr>"

text \<open>A pod of a run reaches 8.8.8.8 and the multicast address 224.0.0.1, and not 10.0.0.1.\<close>

theorem tenant_egress_bounds_witness:
  "let np = NewNetworkPolicy (wr_Key ex_policy_run);
       permits = egress_permitted (tenant_policies np [(ex_policy_run, np)] []) [(''controller.relay.sh/run-id'', ''run'')]
   in permits (ex_outside 0x08080808) \<and> permits (ex_outside 0xE0000001) \<and> \<not> permits (ex_outside 0x0A000001)"
  unfolding Let_def tenant_egress_bounds
  by (simp add: pod_of_run_def ex_policy_run_def ex_outside_def registered_def special_purpose_registry_def left_out_def metadata_api_endpoint_def)

text \<open>C39: No pod of the tenant accepts a connection, except that pods of a webhook trigger accept those from
  namespaces marked as the gateway of webhooks.\<close>

theorem tenant_ingress_isolated:
  "ingress_permitted (tenant_policies np runs triggers) labels e \<longleftrightarrow>
     list_ex (\<lambda>t. pod_of_trigger labels (fst t)) triggers \<and> from_gateway e"
  unfolding isolated
  by (auto simp: tenant_policies_def tenant_rules run_policy trigger_policy list_ex_iff [of _ triggers] list_ex_iff [of _ "map _ _"])

text \<open>Multicast addresses are not in the registry, and not denied.\<close>

lemma multicast_not_denied: "0xE0000000 \<le> x \<Longrightarrow> x < 0xF0000000 \<Longrightarrow> \<not> registered x \<and> \<not> special_address x"
  by (auto simp: registered_def special_purpose_registry_def special_address_def div_eq_bounds)

end
