(* ===== verification/Parse_Yaml.thy ===== *)
theory Parse_Yaml
  imports Go_Values
begin

text \<open>
  The YAML syntax of expressions (\<open>pkg/expr/parse/yaml.go\<close>). A document is a graph of nodes that share
  the targets of aliases, and the parser rewrites tagged nodes in place. Nodes live in a store;
  a pointer is the index of a node or nil (\<open>None\<close>). Nodes are those of \<open>gopkg.in/yaml.v3\<close>; of the styles
  only whether a scalar is quoted matters. The tag that \<open>yaml.v3\<close> gives an untagged, unquoted scalar
  (\<open>resolve\<close>) and the decoding of nodes into values are parameters.

  The outcome \<open>None\<close> of a transformer is a nil dereference. A loop that never ends has no outcome.
\<close>

section \<open>Nodes\<close>

datatype ykind = DocumentNode | SequenceNode | MappingNode | ScalarNode | AliasNode

type_synonym yptr = "nat option"

record ynode =
  yn_Kind :: ykind
  yn_Quoted :: bool
  yn_Tag :: string
  yn_Value :: string
  yn_Alias :: yptr
  yn_Content :: "yptr list"

type_synonym ystore = "ynode list"

definition deref :: "ystore \<Rightarrow> yptr \<Rightarrow> ynode option" where
  "deref s p = (case p of None \<Rightarrow> None | Some a \<Rightarrow> Some (s ! a))"

definition longTagPrefix :: string where "longTagPrefix = ''tag:yaml.org,2002:''"

definition shortTag :: "string \<Rightarrow> string" where
  "shortTag tag = (if has_prefix tag longTagPrefix then ''!!'' @ drop (length longTagPrefix) tag else tag)"

text \<open>\<open>Node.ShortTag\<close> of a node that is not an alias.\<close>

definition short_tag :: "(string \<Rightarrow> string) \<Rightarrow> ykind \<Rightarrow> bool \<Rightarrow> string \<Rightarrow> string \<Rightarrow> string" where
  "short_tag resolve kind quoted tag val =
     (let unspecific = tag = [] \<or> tag = ''!'' in
      if kind = ScalarNode \<and> (shortTag tag = ''!!str'' \<or> unspecific \<and> quoted) then ''!!str''
      else if unspecific then
        (case kind of MappingNode \<Rightarrow> ''!!map'' | SequenceNode \<Rightarrow> ''!!seq'' | ScalarNode \<Rightarrow> resolve val | _ \<Rightarrow> [])
      else shortTag tag)"

abbreviation ShortTag :: "(string \<Rightarrow> string) \<Rightarrow> ynode \<Rightarrow> string" where
  "ShortTag resolve n \<equiv> short_tag resolve (yn_Kind n) (yn_Quoted n) (yn_Tag n) (yn_Value n)"

definition scalar :: "string \<Rightarrow> ynode" where
  "scalar v = \<lparr>yn_Kind = ScalarNode, yn_Quoted = False, yn_Tag = [], yn_Value = v, yn_Alias = None, yn_Content = []\<rparr>"

definition collection :: "ykind \<Rightarrow> yptr list \<Rightarrow> ynode" where
  "collection k ps = \<lparr>yn_Kind = k, yn_Quoted = False, yn_Tag = [], yn_Value = [], yn_Alias = None, yn_Content = ps\<rparr>"

text \<open>\<open>*node = ...\<close> with new nodes: fields are given as keys with pointers.\<close>

fun alloc_fields :: "(string \<times> yptr) list \<Rightarrow> ystore \<Rightarrow> yptr list \<times> ystore" where
  "alloc_fields [] s = ([], s)"
| "alloc_fields ((k, p) # fs) s =
     (case alloc_fields fs (s @ [scalar k]) of (ps, s') \<Rightarrow> (Some (length s) # p # ps, s'))"

definition rewrite_node :: "nat \<Rightarrow> (string \<times> yptr) list \<Rightarrow> ystore \<Rightarrow> ystore" where
  "rewrite_node a fs s = (case alloc_fields fs s of (ps, s') \<Rightarrow> s'[a := collection MappingNode ps])"

section \<open>Transformers\<close>

type_synonym ytransformer = "ystore \<Rightarrow> nat \<Rightarrow> (bool \<times> ystore) res option"

definition new_reference :: "string \<Rightarrow> (string \<times> yptr) list \<Rightarrow> ytransformer" where
  "new_reference type fs s a =
     Some (Inr (True, rewrite_node a ((''$type'', Some (length s)) # fs) (s @ [scalar type])))"

definition y_error :: "string \<Rightarrow> 'a res option" where "y_error m = Some (Inl (OtherError m))"

text \<open>\<open>!Data\<close>, \<open>!Secret\<close> and \<open>!Parameter\<close> have one field.\<close>

definition one_field :: "string \<Rightarrow> string \<Rightarrow> ytransformer" where
  "one_field type field s a =
     (let node = s ! a in
      case yn_Kind node of
        MappingNode \<Rightarrow>
          (if length (yn_Content node) \<noteq> 2 then
             y_error (''expected mapping-style !'' @ type @ '' to have exactly one key, \"'' @ field @ ''\"'')
           else
             (case deref s (yn_Content node ! 0) of
                None \<Rightarrow> None
              | Some k \<Rightarrow>
                  if yn_Value k \<noteq> field then
                    y_error (''expected mapping-style !'' @ type @ '' to have exactly one key, \"'' @ field @ ''\"'')
                  else new_reference type [(field, yn_Content node ! 1)] s a))
      | SequenceNode \<Rightarrow>
          (if length (yn_Content node) \<noteq> 1 then
             y_error (''expected sequence-style !'' @ type @ '' to have exactly one item'')
           else new_reference type [(field, yn_Content node ! 0)] s a)
      | ScalarNode \<Rightarrow> new_reference type [(field, Some (length s))] (s @ [scalar (yn_Value node)]) a
      | _ \<Rightarrow> new_reference type [(field, None)] s a)"

text \<open>\<open>!Connection\<close>, \<open>!Output\<close> and \<open>!Answer\<close> have two fields. The loop over a mapping's keys keeps the last value of each;
  \<open>key\<close> reads a key (\<open>None\<close> for a nil pointer).\<close>

fun pick_two :: "('p \<Rightarrow> string option) \<Rightarrow> string \<Rightarrow> string \<Rightarrow> 'p list \<Rightarrow> 'p \<times> 'p \<Rightarrow> ('p \<times> 'p) option option" where
  "pick_two key f g (k # v # ps) (x, y) =
     (case key k of
        None \<Rightarrow> None
      | Some n \<Rightarrow>
          if n = f then pick_two key f g ps (v, y)
          else if n = g then pick_two key f g ps (x, v)
          else Some None)"
| "pick_two key f g ps xy = Some (Some xy)"

definition two_fields :: "string \<Rightarrow> string \<Rightarrow> string \<Rightarrow> ytransformer" where
  "two_fields type f g s a =
     (let node = s ! a;
          keys = ''expected mapping-style !'' @ type @ '' to have exactly two keys, \"'' @ f @ ''\" and \"'' @ g @ ''\"'' in
      case yn_Kind node of
        MappingNode \<Rightarrow>
          (if length (yn_Content node) \<noteq> 4 then y_error keys
           else
             (case pick_two (\<lambda>p. map_option yn_Value (deref s p)) f g (yn_Content node) (None, None) of
                None \<Rightarrow> None
              | Some None \<Rightarrow> y_error keys
              | Some (Some (x, y)) \<Rightarrow> new_reference type [(f, x), (g, y)] s a))
      | SequenceNode \<Rightarrow>
          (if length (yn_Content node) \<noteq> 2 then
             y_error (''expected mapping-style !'' @ type @ '' to have exactly two items'')
           else new_reference type [(f, yn_Content node ! 0), (g, yn_Content node ! 1)] s a)
      | _ \<Rightarrow> y_error (''unexpected scalar value for !'' @ type @ '', must be a mapping or sequence''))"

definition declines :: ytransformer where "declines s a = Some (Inr (False, s))"

definition YAMLDataTransformer :: ytransformer where
  "YAMLDataTransformer s a = (if yn_Tag (s ! a) \<noteq> ''!Data'' then declines s a else one_field ''Data'' ''query'' s a)"

definition YAMLSecretTransformer :: ytransformer where
  "YAMLSecretTransformer s a = (if yn_Tag (s ! a) \<noteq> ''!Secret'' then declines s a else one_field ''Secret'' ''name'' s a)"

definition YAMLConnectionTransformer :: "(string \<Rightarrow> string) \<Rightarrow> ytransformer" where
  "YAMLConnectionTransformer resolve s a =
     (if ShortTag resolve (s ! a) \<noteq> ''!Connection'' then declines s a else two_fields ''Connection'' ''type'' ''name'' s a)"

definition YAMLOutputTransformer :: "(string \<Rightarrow> string) \<Rightarrow> ytransformer" where
  "YAMLOutputTransformer resolve s a =
     (if ShortTag resolve (s ! a) \<noteq> ''!Output'' then declines s a else two_fields ''Output'' ''from'' ''name'' s a)"

definition YAMLParameterTransformer :: "(string \<Rightarrow> string) \<Rightarrow> ytransformer" where
  "YAMLParameterTransformer resolve s a =
     (if ShortTag resolve (s ! a) \<noteq> ''!Parameter'' then declines s a else one_field ''Parameter'' ''name'' s a)"

definition YAMLAnswerTransformer :: "(string \<Rightarrow> string) \<Rightarrow> ytransformer" where
  "YAMLAnswerTransformer resolve s a =
     (if ShortTag resolve (s ! a) \<noteq> ''!Answer'' then declines s a else two_fields ''Answer'' ''askRef'' ''name'' s a)"

definition YAMLInvocationTransformer :: "(string \<Rightarrow> string) \<Rightarrow> ytransformer" where
  "YAMLInvocationTransformer resolve s a =
     (let node = s ! a; tag = ShortTag resolve node in
      if \<not> has_prefix tag ''!Fn.'' then declines s a
      else
        (let name = drop 4 tag; new = (\<lambda>args s. Some (Inr (True, rewrite_node a [(''$fn.'' @ name, args)] s))) in
         if name = [] then y_error ''expected function name to have the syntax !Fn.<name>''
         else
           (case yn_Kind node of
              MappingNode \<Rightarrow> new (Some (length s)) (s @ [collection MappingNode (yn_Content node)])
            | SequenceNode \<Rightarrow> new (Some (length s)) (s @ [collection SequenceNode (yn_Content node)])
            | ScalarNode \<Rightarrow>
                new (Some (Suc (length s))) (s @ [scalar (yn_Value node), collection SequenceNode [Some (length s)]])
            | _ \<Rightarrow> new None s)))"

definition YAMLBinaryToEncodingTransformer :: "(string \<Rightarrow> string) \<Rightarrow> ytransformer" where
  "YAMLBinaryToEncodingTransformer resolve s a =
     (let node = s ! a in
      if ShortTag resolve node \<noteq> ''!!binary'' \<or> yn_Kind node \<noteq> ScalarNode then declines s a
      else
        Some (Inr (True, rewrite_node a [(''$encoding'', Some (length s)), (''data'', Some (Suc (length s)))]
          (s @ [scalar ''base64'', scalar (yn_Value node)]))))"

definition YAMLUnknownTagTransformer :: "(string \<Rightarrow> string) \<Rightarrow> ytransformer" where
  "YAMLUnknownTagTransformer resolve s a =
     (let tag = ShortTag resolve (s ! a) in
      if tag \<noteq> [] \<and> \<not> has_prefix tag ''!!'' then y_error (''unknown tag \"'' @ tag @ ''\"'') else declines s a)"

definition YAMLTransformers :: "(string \<Rightarrow> string) \<Rightarrow> ytransformer list" where
  "YAMLTransformers resolve =
     [YAMLDataTransformer, YAMLSecretTransformer, YAMLConnectionTransformer resolve, YAMLOutputTransformer resolve,
      YAMLParameterTransformer resolve, YAMLAnswerTransformer resolve, YAMLInvocationTransformer resolve,
      YAMLBinaryToEncodingTransformer resolve, YAMLUnknownTagTransformer resolve]"

fun run_transformers :: "ytransformer list \<Rightarrow> ystore \<Rightarrow> nat \<Rightarrow> ystore res option" where
  "run_transformers [] s a = Some (Inr s)"
| "run_transformers (t # ts) s a =
     (case t s a of
        None \<Rightarrow> None
      | Some (Inl err) \<Rightarrow> Some (Inl err)
      | Some (Inr (ok, s')) \<Rightarrow> if ok then Some (Inr s') else run_transformers ts s' a)"

section \<open>The loop\<close>

text \<open>The node an alias stands for. The inner \<open>None\<close> is a nil dereference.\<close>

partial_function (option) follow :: "ystore \<Rightarrow> yptr \<Rightarrow> nat option option" where
  "follow s p =
     (case p of
        None \<Rightarrow> Some None
      | Some a \<Rightarrow> if yn_Kind (s ! a) = AliasNode then follow s (yn_Alias (s ! a)) else Some (Some a))"

partial_function (option) transform_nodes :: "(string \<Rightarrow> string) \<Rightarrow> ystore \<Rightarrow> yptr list \<Rightarrow> ystore res option option" where
  "transform_nodes resolve s stack =
     (case stack of
        [] \<Rightarrow> Some (Some (Inr s))
      | p # ps \<Rightarrow>
          Option.bind (follow s p) (\<lambda>r.
            case r of
              None \<Rightarrow> Some None
            | Some a \<Rightarrow>
                (case run_transformers (YAMLTransformers resolve) s a of
                   None \<Rightarrow> Some None
                 | Some (Inl err) \<Rightarrow> Some (Some (Inl err))
                 | Some (Inr s') \<Rightarrow> transform_nodes resolve s' (ps @ yn_Content (s' ! a)))))"

definition ParseYAMLNode :: "(string \<Rightarrow> string) \<Rightarrow> (ystore \<Rightarrow> yptr \<Rightarrow> 'v res) \<Rightarrow> ystore \<Rightarrow> yptr \<Rightarrow> 'v res option option" where
  "ParseYAMLNode resolve decode s node =
     Option.bind (transform_nodes resolve s [node]) (\<lambda>r.
       case r of
         None \<Rightarrow> Some None
       | Some (Inl err) \<Rightarrow> Some (Some (Inl err))
       | Some (Inr s') \<Rightarrow> Some (Some (decode s' node)))"

end
