(* ===== verification/Parse_Yaml_Props.thy ===== *)
theory Parse_Yaml_Props
  imports Parse_Yaml
begin

text \<open>
  The parser rewrites_to a shared graph in place, level by level; what it computes is the recursive
  expansion of the tree the document stands for. \<open>expand\<close> is that reference definition, \<open>repr\<close> relates a
  pointer to its tree (following aliases), and the loop refines the one through the other.
\<close>

section \<open>Trees\<close>

text \<open>\<open>YNil\<close> is a nil pointer, \<open>YBad\<close> a malformed expression.\<close>

datatype ytree = YNode ykind bool string string "ytree list" | YNil | YBad

abbreviation tscalar :: "string \<Rightarrow> ytree" where "tscalar v \<equiv> YNode ScalarNode False [] v []"

abbreviation tcoll :: "ykind \<Rightarrow> ytree list \<Rightarrow> ytree" where "tcoll k ts \<equiv> YNode k False [] [] ts"

fun key_of :: "ytree \<Rightarrow> string option" where
  "key_of (YNode k q tag v ts) = Some v"
| "key_of _ = None"

definition new_mapping :: "(string \<times> ytree) list \<Rightarrow> ytree" where
  "new_mapping fs = tcoll MappingNode (concat (map (\<lambda>(k, t). [tscalar k, t]) fs))"

definition reference :: "string \<Rightarrow> (string \<times> ytree) list \<Rightarrow> ytree" where
  "reference type fs = new_mapping ((''$type'', tscalar type) # fs)"

definition expand_one :: "string \<Rightarrow> string \<Rightarrow> ykind \<Rightarrow> string \<Rightarrow> ytree list \<Rightarrow> ytree" where
  "expand_one type field k v ts =
     (case k of
        MappingNode \<Rightarrow> if length ts = 2 \<and> key_of (ts ! 0) = Some field then reference type [(field, ts ! 1)] else YBad
      | SequenceNode \<Rightarrow> if length ts = 1 then reference type [(field, ts ! 0)] else YBad
      | ScalarNode \<Rightarrow> reference type [(field, tscalar v)]
      | _ \<Rightarrow> reference type [(field, YNil)])"

definition expand_two :: "string \<Rightarrow> string \<Rightarrow> string \<Rightarrow> ykind \<Rightarrow> ytree list \<Rightarrow> ytree" where
  "expand_two type f g k ts =
     (case k of
        MappingNode \<Rightarrow>
          (if length ts = 4 then
             (case pick_two key_of f g ts (YNil, YNil) of Some (Some (x, y)) \<Rightarrow> reference type [(f, x), (g, y)] | _ \<Rightarrow> YBad)
           else YBad)
      | SequenceNode \<Rightarrow> if length ts = 2 then reference type [(f, ts ! 0), (g, ts ! 1)] else YBad
      | _ \<Rightarrow> YBad)"

definition expand_fn :: "string \<Rightarrow> ykind \<Rightarrow> string \<Rightarrow> ytree list \<Rightarrow> ytree" where
  "expand_fn name k v ts =
     (if name = [] then YBad
      else new_mapping [(''$fn.'' @ name,
        case k of
          MappingNode \<Rightarrow> tcoll MappingNode ts
        | SequenceNode \<Rightarrow> tcoll SequenceNode ts
        | ScalarNode \<Rightarrow> tcoll SequenceNode [tscalar v]
        | _ \<Rightarrow> YNil)])"

text \<open>The expansion of a node whose children are expanded.\<close>

definition expand_top :: "(string \<Rightarrow> string) \<Rightarrow> ykind \<Rightarrow> bool \<Rightarrow> string \<Rightarrow> string \<Rightarrow> ytree list \<Rightarrow> ytree" where
  "expand_top resolve k q tag v ts =
     (let st = short_tag resolve k q tag v in
      if st = ''!Data'' then expand_one ''Data'' ''query'' k v ts
      else if st = ''!Secret'' then expand_one ''Secret'' ''name'' k v ts
      else if st = ''!Connection'' then expand_two ''Connection'' ''type'' ''name'' k ts
      else if st = ''!Output'' then expand_two ''Output'' ''from'' ''name'' k ts
      else if st = ''!Parameter'' then expand_one ''Parameter'' ''name'' k v ts
      else if st = ''!Answer'' then expand_two ''Answer'' ''askRef'' ''name'' k ts
      else if has_prefix st ''!Fn.'' then expand_fn (drop 4 st) k v ts
      else if st = ''!!binary'' \<and> k = ScalarNode then new_mapping [(''$encoding'', tscalar ''base64''), (''data'', tscalar v)]
      else if st = [] \<or> has_prefix st ''!!'' then YNode k q tag v ts
      else YBad)"

primrec expand :: "(string \<Rightarrow> string) \<Rightarrow> ytree \<Rightarrow> ytree" where
  "expand resolve (YNode k q tag v ts) = expand_top resolve k q tag v (map (expand resolve) ts)"
| "expand resolve YNil = YNil"
| "expand resolve YBad = YBad"

primrec well_formed :: "ytree \<Rightarrow> bool" where
  "well_formed (YNode k q tag v ts) \<longleftrightarrow> list_all well_formed ts"
| "well_formed YNil \<longleftrightarrow> False"
| "well_formed YBad \<longleftrightarrow> False"

section \<open>Graphs\<close>

text \<open>A node no transformer changes.\<close>

definition inert_node :: "(string \<Rightarrow> string) \<Rightarrow> ynode \<Rightarrow> bool" where
  "inert_node resolve n \<longleftrightarrow>
     (let st = ShortTag resolve n in (st = [] \<or> has_prefix st ''!!'') \<and> \<not> (st = ''!!binary'' \<and> yn_Kind n = ScalarNode))"

text \<open>Keys of mappings are plain scalars, given in place.\<close>

definition is_key :: "(string \<Rightarrow> string) \<Rightarrow> ystore \<Rightarrow> yptr \<Rightarrow> bool" where
  "is_key resolve s p \<longleftrightarrow>
     (case p of
        None \<Rightarrow> False
      | Some a \<Rightarrow> a < length s \<and> yn_Kind (s ! a) = ScalarNode \<and> inert_node resolve (s ! a) \<and> yn_Content (s ! a) = [])"

fun plain_keys :: "(string \<Rightarrow> string) \<Rightarrow> ystore \<Rightarrow> yptr list \<Rightarrow> bool" where
  "plain_keys resolve s (k # v # ps) \<longleftrightarrow> is_key resolve s k \<and> plain_keys resolve s ps"
| "plain_keys resolve s _ \<longleftrightarrow> True"

inductive repr :: "(string \<Rightarrow> string) \<Rightarrow> ystore \<Rightarrow> yptr \<Rightarrow> ytree \<Rightarrow> bool" for resolve s where
  nil: "repr resolve s None YNil"
| aliased: "a < length s \<Longrightarrow> yn_Kind (s ! a) = AliasNode \<Longrightarrow> repr resolve s (yn_Alias (s ! a)) t \<Longrightarrow> repr resolve s (Some a) t"
| node: "a < length s \<Longrightarrow> yn_Kind (s ! a) \<noteq> AliasNode \<Longrightarrow>
    yn_Kind (s ! a) = MappingNode \<longrightarrow> plain_keys resolve s (yn_Content (s ! a)) \<Longrightarrow>
    list_all2 (repr resolve s) (yn_Content (s ! a)) ts \<Longrightarrow>
    repr resolve s (Some a) (YNode (yn_Kind (s ! a)) (yn_Quoted (s ! a)) (yn_Tag (s ! a)) (yn_Value (s ! a)) ts)"

text \<open>A pointer with the expansion of its tree.\<close>

inductive den :: "(string \<Rightarrow> string) \<Rightarrow> ystore \<Rightarrow> yptr \<Rightarrow> ytree \<Rightarrow> bool" for resolve s where
  nil: "den resolve s None YNil"
| aliased: "a < length s \<Longrightarrow> yn_Kind (s ! a) = AliasNode \<Longrightarrow> den resolve s (yn_Alias (s ! a)) e \<Longrightarrow> den resolve s (Some a) e"
| node: "a < length s \<Longrightarrow> yn_Kind (s ! a) \<noteq> AliasNode \<Longrightarrow>
    yn_Kind (s ! a) = MappingNode \<longrightarrow> plain_keys resolve s (yn_Content (s ! a)) \<Longrightarrow>
    list_all2 (den resolve s) (yn_Content (s ! a)) es \<Longrightarrow>
    den resolve s (Some a) (expand_top resolve (yn_Kind (s ! a)) (yn_Quoted (s ! a)) (yn_Tag (s ! a)) (yn_Value (s ! a)) es)"

inductive_cases den_NoneE: "den resolve s None e"
inductive_cases den_SomeE: "den resolve s (Some a) e"

lemma repr_den: "repr resolve s p t \<Longrightarrow> den resolve s p (expand resolve t)"
proof (induction rule: repr.induct)
  case (node a ts)
  have "list_all2 (den resolve s) (yn_Content (s ! a)) (map (expand resolve) ts)"
    using node.IH by (simp add: list.rel_map list_all2_mono)
  with node.hyps show ?case by (auto intro: den.node)
qed (auto intro: den.intros)

text \<open>What \<open>yaml.v3\<close> documents of the tags of untagged scalars.\<close>

definition standard_tags :: "(string \<Rightarrow> string) \<Rightarrow> bool" where
  "standard_tags resolve \<longleftrightarrow> (\<forall>v. has_prefix (resolve v) ''!!'' \<and> resolve v \<noteq> ''!!binary'')"

lemma expand_inert: "inert_node resolve n \<Longrightarrow>
    expand_top resolve (yn_Kind n) (yn_Quoted n) (yn_Tag n) (yn_Value n) es = YNode (yn_Kind n) (yn_Quoted n) (yn_Tag n) (yn_Value n) es"
  by (auto simp: expand_top_def inert_node_def Let_def has_prefix_iff)

lemma den_inert:
  assumes "den resolve s (Some a) e" "yn_Kind (s ! a) \<noteq> AliasNode" "inert_node resolve (s ! a)"
  obtains es where "list_all2 (den resolve s) (yn_Content (s ! a)) es"
    "e = YNode (yn_Kind (s ! a)) (yn_Quoted (s ! a)) (yn_Tag (s ! a)) (yn_Value (s ! a)) es"
  using assms(1) by (cases rule: den.cases) (use assms(2,3) expand_inert that in auto)

lemma inert_scalar: "standard_tags resolve \<Longrightarrow> inert_node resolve (scalar v)"
  by (auto simp: inert_node_def scalar_def short_tag_def standard_tags_def shortTag_def longTagPrefix_def has_prefix_def)

lemma inert_collection: "k = MappingNode \<or> k = SequenceNode \<Longrightarrow> inert_node resolve (collection k ps)"
  by (auto simp: inert_node_def collection_def short_tag_def has_prefix_def)

lemma den_scalar:
  assumes "standard_tags resolve" "b < length s" "s ! b = scalar v"
  shows "den resolve s (Some b) (tscalar v)"
proof -
  have "den resolve s (Some b) (expand_top resolve ScalarNode False [] v [])"
    using den.node [of b s resolve "[]"] assms by (simp add: scalar_def)
  with expand_inert [OF inert_scalar [OF assms(1)], of v "[]"] show ?thesis by (simp add: scalar_def)
qed

lemma den_collection:
  assumes "k = MappingNode \<or> k = SequenceNode" "b < length s" "s ! b = collection k ps"
    and "k = MappingNode \<longrightarrow> plain_keys resolve s ps" "list_all2 (den resolve s) ps es"
  shows "den resolve s (Some b) (tcoll k es)"
proof -
  have "den resolve s (Some b) (expand_top resolve k False [] [] es)"
    using den.node [of b s resolve es] assms by (auto simp: collection_def)
  with expand_inert [OF inert_collection [OF assms(1)], of resolve ps es] show ?thesis by (simp add: collection_def)
qed

section \<open>One rewriting\<close>

text \<open>A store that changed at one node and grew.\<close>

definition changed_at :: "nat \<Rightarrow> ystore \<Rightarrow> ystore \<Rightarrow> bool" where
  "changed_at a s s1 \<longleftrightarrow> length s \<le> length s1 \<and> (\<forall>b < length s. b \<noteq> a \<longrightarrow> s1 ! b = s ! b)"

abbreviation fields_den :: "(string \<Rightarrow> string) \<Rightarrow> ystore \<Rightarrow> (string \<times> yptr) list \<Rightarrow> (string \<times> ytree) list \<Rightarrow> bool" where
  "fields_den resolve s \<equiv> list_all2 (\<lambda>f ft. fst ft = fst f \<and> den resolve s (snd f) (snd ft))"

lemma alloc_fields_spec:
  assumes "standard_tags resolve" "alloc_fields fs s = (ps, s')" "a < length s"
  shows "\<exists>new. s' = s @ new \<and>
    (\<forall>s1 fts. length s1 = length s' \<longrightarrow> (\<forall>b < length s'. b \<noteq> a \<longrightarrow> s1 ! b = s' ! b) \<longrightarrow>
       fields_den resolve s1 fs fts \<longrightarrow>
       list_all2 (den resolve s1) ps (concat (map (\<lambda>(k, t). [tscalar k, t]) fts)) \<and> plain_keys resolve s1 ps)"
  using assms(2,3)
proof (induction fs s arbitrary: ps s' rule: alloc_fields.induct)
  case (2 k p fs s)
  obtain ps1 where al: "alloc_fields fs (s @ [scalar k]) = (ps1, s')" and ps: "ps = Some (length s) # p # ps1"
    using "2.prems"(1) by (auto split: prod.splits)
  from "2.IH" [OF al] "2.prems"(2) obtain new where new: "s' = (s @ [scalar k]) @ new"
    and rest: "\<And>s1 fts. length s1 = length s' \<Longrightarrow> (\<forall>b < length s'. b \<noteq> a \<longrightarrow> s1 ! b = s' ! b) \<Longrightarrow>
       fields_den resolve s1 fs fts \<Longrightarrow>
       list_all2 (den resolve s1) ps1 (concat (map (\<lambda>(k, t). [tscalar k, t]) fts)) \<and> plain_keys resolve s1 ps1"
    by (metis (no_types, lifting) length_append less_Suc_eq add.right_neutral add_Suc_right list.size(3,4) length_append)
  show ?case
  proof (intro exI [of _ "scalar k # new"] conjI allI impI)
    show "s' = s @ scalar k # new" using new by simp
    fix s1 fts
    assume len: "length s1 = length s'" and eq: "\<forall>b < length s'. b \<noteq> a \<longrightarrow> s1 ! b = s' ! b"
      and fts: "fields_den resolve s1 ((k, p) # fs) fts"
    from fts obtain t fts1 where fts1: "fts = (k, t) # fts1" "den resolve s1 p t"
      "fields_den resolve s1 fs fts1"
      by (auto simp: list_all2_Cons1)
    have at: "length s < length s1" "s1 ! length s = scalar k"
      using len new eq "2.prems"(2) by (simp_all add: nth_append)
    from rest [OF len eq fts1(3)] fts1(1,2) den_scalar [OF assms(1) at]
    show "list_all2 (den resolve s1) ps (concat (map (\<lambda>(k, t). [tscalar k, t]) fts))" by (simp add: ps)
    from rest [OF len eq fts1(3)] at inert_scalar [OF assms(1)] show "plain_keys resolve s1 ps"
      by (simp add: ps is_key_def scalar_def)
  qed
qed simp

lemma rewrite_node_den:
  assumes "standard_tags resolve" "a < length s"
  shows "changed_at a s (rewrite_node a fs s)" and "inert_node resolve (rewrite_node a fs s ! a)"
    and "yn_Kind (rewrite_node a fs s ! a) = MappingNode"
    and "fields_den resolve (rewrite_node a fs s) fs fts \<Longrightarrow>
      den resolve (rewrite_node a fs s) (Some a) (new_mapping fts)"
proof -
  obtain ps s' where al: "alloc_fields fs s = (ps, s')" by fastforce
  let ?s1 = "s'[a := collection MappingNode ps]"
  have s1: "rewrite_node a fs s = ?s1" by (simp add: rewrite_node_def al)
  from alloc_fields_spec [OF assms(1) al assms(2)] obtain new where new: "s' = s @ new"
    and spec: "\<And>fts. fields_den resolve ?s1 fs fts \<Longrightarrow>
       list_all2 (den resolve ?s1) ps (concat (map (\<lambda>(k, t). [tscalar k, t]) fts)) \<and> plain_keys resolve ?s1 ps"
    by fastforce
  show "changed_at a s (rewrite_node a fs s)" by (auto simp: changed_at_def s1 new nth_append)
  have at: "a < length ?s1" "?s1 ! a = collection MappingNode ps" using assms(2) by (simp_all add: new)
  then show "inert_node resolve (rewrite_node a fs s ! a)" "yn_Kind (rewrite_node a fs s ! a) = MappingNode"
    by (simp_all add: s1 inert_collection) (simp add: collection_def)
  assume "fields_den resolve (rewrite_node a fs s) fs fts"
  with spec [of fts] den_collection [of MappingNode a ?s1 ps resolve] at
  show "den resolve (rewrite_node a fs s) (Some a) (new_mapping fts)" by (simp add: s1 new_mapping_def)
qed

lemma changed_at_append: "a < length s \<Longrightarrow> changed_at a (s @ new) s1 \<Longrightarrow> changed_at a s s1"
  by (auto simp: changed_at_def nth_append)

lemma changed_at_new:
  "a < length s \<Longrightarrow> changed_at a (s @ new) s1 \<Longrightarrow> i < length new \<Longrightarrow> length s + i < length s1 \<and> s1 ! (length s + i) = new ! i"
  by (force simp: changed_at_def nth_append)

text \<open>A result that rewrites_to the node at \<open>a\<close> so that it denotes \<open>F\<close> of its children's expansions, or an error that \<open>F\<close> has too.\<close>

definition rewrites_to :: "(string \<Rightarrow> string) \<Rightarrow> ystore \<Rightarrow> nat \<Rightarrow> (ytree list \<Rightarrow> ytree) \<Rightarrow> (bool \<times> ystore) res option \<Rightarrow> bool" where
  "rewrites_to resolve s a F r \<longleftrightarrow>
     (case r of
        None \<Rightarrow> False
      | Some (Inl _) \<Rightarrow> \<forall>es. list_all2 (den resolve s) (yn_Content (s ! a)) es \<longrightarrow> F es = YBad
      | Some (Inr (ok, s1)) \<Rightarrow> ok \<and> changed_at a s s1 \<and> inert_node resolve (s1 ! a) \<and> yn_Kind (s1 ! a) \<noteq> AliasNode \<and>
          (\<forall>es. list_all2 (den resolve s1) (yn_Content (s ! a)) es \<longrightarrow> den resolve s1 (Some a) (F es)))"

lemma rewrites_to_error: "(\<And>es. length es = length (yn_Content (s ! a)) \<Longrightarrow> F es = YBad) \<Longrightarrow> rewrites_to resolve s a F (y_error m)"
  by (simp add: rewrites_to_def y_error_def list_all2_lengthD)

lemma rewrites_to_node:
  assumes "standard_tags resolve" "a < length s"
    and "\<And>s1 es. changed_at a (s @ new) s1 \<Longrightarrow> list_all2 (den resolve s1) (yn_Content (s ! a)) es \<Longrightarrow>
      \<exists>fts. F es = new_mapping fts \<and> fields_den resolve s1 fs fts"
  shows "rewrites_to resolve s a F (Some (Inr (True, rewrite_node a fs (s @ new))))"
proof -
  let ?s1 = "rewrite_node a fs (s @ new)"
  have a: "a < length (s @ new)" using assms(2) by simp
  have "den resolve ?s1 (Some a) (F es)" if "list_all2 (den resolve ?s1) (yn_Content (s ! a)) es" for es
    using assms(3) [OF rewrite_node_den(1) [OF assms(1) a] that] rewrite_node_den(4) [OF assms(1) a] by auto
  with rewrite_node_den(2,3) [OF assms(1) a] changed_at_append [OF assms(2) rewrite_node_den(1) [OF assms(1) a]] show ?thesis
    by (simp add: rewrites_to_def)
qed

lemma den_new_scalar:
  assumes "standard_tags resolve" "a < length s" "changed_at a (s @ new) s1" "i < length new" "new ! i = scalar v"
  shows "den resolve s1 (Some (length s + i)) (tscalar v)"
  using den_scalar [OF assms(1)] changed_at_new [OF assms(2,3,4)] assms(5) by simp

lemma rewrites_to_reference:
  assumes "standard_tags resolve" "a < length s"
    and "\<And>s1 es. changed_at a (s @ new @ [scalar type]) s1 \<Longrightarrow> list_all2 (den resolve s1) (yn_Content (s ! a)) es \<Longrightarrow>
      \<exists>fts. F es = reference type fts \<and> fields_den resolve s1 fs fts"
  shows "rewrites_to resolve s a F (new_reference type fs (s @ new) a)"
proof -
  have "rewrites_to resolve s a F (Some (Inr (True, rewrite_node a ((''$type'', Some (length (s @ new))) # fs) (s @ new @ [scalar type]))))"
  proof (rule rewrites_to_node [OF assms(1,2)])
    fix s1 es
    assume ch: "changed_at a (s @ new @ [scalar type]) s1" and es: "list_all2 (den resolve s1) (yn_Content (s ! a)) es"
    from den_new_scalar [OF assms(1,2) ch, of "length new" type] have "den resolve s1 (Some (length (s @ new))) (tscalar type)"
      by (simp add: nth_append)
    moreover obtain fts where "F es = reference type fts" "fields_den resolve s1 fs fts"
      using assms(3) [OF ch es] by blast
    ultimately show "\<exists>fts. F es = new_mapping fts \<and>
        fields_den resolve s1 ((''$type'', Some (length (s @ new))) # fs) fts"
      by (intro exI [of _ "(''$type'', tscalar type) # fts"]) (simp add: reference_def)
  qed
  then show ?thesis by (simp add: new_reference_def)
qed

lemma rewrites_to_reference_old:
  assumes "standard_tags resolve" "a < length s"
    and "\<And>s1 es. changed_at a s s1 \<Longrightarrow> list_all2 (den resolve s1) (yn_Content (s ! a)) es \<Longrightarrow>
      \<exists>fts. F es = reference type fts \<and> fields_den resolve s1 fs fts"
  shows "rewrites_to resolve s a F (new_reference type fs s a)"
  using rewrites_to_reference [OF assms(1,2), of "[]" type F fs] assms(3) changed_at_append [OF assms(2)] by simp

lemma key_kept:
  assumes "is_key resolve s k" "\<not> inert_node resolve (s ! a)" "changed_at a s s1"
  shows "is_key resolve s1 k" and "den resolve s1 k e \<Longrightarrow> key_of e = map_option yn_Value (deref s k)"
proof -
  from assms obtain b where b: "k = Some b" "b < length s" "yn_Kind (s ! b) = ScalarNode" "inert_node resolve (s ! b)"
      "yn_Content (s ! b) = []" "s1 ! b = s ! b" "b < length s1"
    by (cases k) (auto simp: is_key_def changed_at_def)
  then show "is_key resolve s1 k" by (simp add: is_key_def)
  show "key_of e = map_option yn_Value (deref s k)" if "den resolve s1 k e"
    using that b by (auto simp: deref_def elim!: den_inert [of resolve s1 b e])
qed

lemma plain_keys_kept:
  "plain_keys resolve s ps \<Longrightarrow> \<not> inert_node resolve (s ! a) \<Longrightarrow> changed_at a s s1 \<Longrightarrow> plain_keys resolve s1 ps"
  by (induction resolve s ps rule: plain_keys.induct) (auto intro: key_kept)

lemma one_field_rewrites:
  assumes std: "standard_tags resolve" and a: "a < length s" "\<not> inert_node resolve (s ! a)"
    and keys: "yn_Kind (s ! a) = MappingNode \<longrightarrow> plain_keys resolve s (yn_Content (s ! a))"
  shows "rewrites_to resolve s a (expand_one type field (yn_Kind (s ! a)) (yn_Value (s ! a))) (one_field type field s a)"
proof -
  note old = rewrites_to_reference_old [OF std a(1)]
  show ?thesis
  proof (cases "yn_Kind (s ! a)")
    case SequenceNode
    show ?thesis
    proof (cases "length (yn_Content (s ! a)) = 1")
      case True
      then obtain p where p: "yn_Content (s ! a) = [p]" by (cases "yn_Content (s ! a)") auto
      show ?thesis
        by (simp add: one_field_def SequenceNode p, rule old) (auto simp: expand_one_def p list_all2_Cons1)
    qed (use SequenceNode in \<open>auto simp: one_field_def expand_one_def intro: rewrites_to_error\<close>)
  next
    case MappingNode
    show ?thesis
    proof (cases "length (yn_Content (s ! a)) = 2")
      case True
      then obtain k p where p: "yn_Content (s ! a) = [k, p]" by (cases "yn_Content (s ! a)" rule: remdups_adj.cases) auto
      with keys MappingNode have k: "is_key resolve s k" by simp
      then obtain n where n: "deref s k = Some n" by (auto simp: is_key_def deref_def split: option.splits)
      have key: "key_of e0 = Some (yn_Value n)" if "changed_at a s s1" "den resolve s1 k e0" for s1 e0
        using key_kept(2) [OF k a(2) that] n by simp
      have same: "changed_at a s s" by (simp add: changed_at_def)
      show ?thesis
      proof (cases "yn_Value n = field")
        case True
        show ?thesis
          by (simp add: one_field_def MappingNode p n True, rule old) (auto simp: expand_one_def p list_all2_Cons1 key True)
      next
        case False
        with key [OF same] show ?thesis
          by (auto simp: one_field_def MappingNode p n rewrites_to_def y_error_def expand_one_def list_all2_Cons1)
      qed
    qed (use MappingNode in \<open>auto simp: one_field_def expand_one_def intro: rewrites_to_error\<close>)
  next
    case ScalarNode
    have "den resolve s1 (Some (length s)) (tscalar (yn_Value (s ! a)))"
      if "changed_at a (s @ [scalar (yn_Value (s ! a))] @ [scalar type]) s1" for s1
      using den_new_scalar [OF std a(1) that, of 0 "yn_Value (s ! a)"] by simp
    then show ?thesis
      by (simp add: one_field_def ScalarNode, intro rewrites_to_reference [OF std a(1)]) (auto simp: expand_one_def list_all2_Cons1)
  next
    case DocumentNode
    show ?thesis by (simp add: one_field_def DocumentNode, rule old) (auto simp: expand_one_def list_all2_Cons1 intro: den.nil)
  next
    case AliasNode
    show ?thesis by (simp add: one_field_def AliasNode, rule old) (auto simp: expand_one_def list_all2_Cons1 intro: den.nil)
  qed
qed

lemma pick_two_keys: "plain_keys resolve s ps \<Longrightarrow> \<exists>r. pick_two (\<lambda>p. map_option yn_Value (deref s p)) f g ps xy = Some r"
proof (induction resolve s ps arbitrary: xy rule: plain_keys.induct)
  case (1 resolve s k p ps)
  then show ?case by (cases xy) (auto simp: is_key_def deref_def split: option.splits)
qed (auto split: prod.splits)

lemma pick_two_den:
  assumes "\<not> inert_node resolve (s ! a)" "changed_at a s s1"
    and "plain_keys resolve s ps" "list_all2 (den resolve s1) ps es" "den resolve s1 x u" "den resolve s1 y v"
  shows "case pick_two (\<lambda>p. map_option yn_Value (deref s p)) f g ps (x, y) of
      None \<Rightarrow> False
    | Some None \<Rightarrow> pick_two key_of f g es (u, v) = Some None
    | Some (Some (x', y')) \<Rightarrow> \<exists>u' v'. pick_two key_of f g es (u, v) = Some (Some (u', v')) \<and> den resolve s1 x' u' \<and> den resolve s1 y' v'"
  using assms
proof (induction resolve s ps arbitrary: es x y u v rule: plain_keys.induct)
  case (1 resolve s k p ps)
  from "1.prems"(4) obtain e0 e1 es1 where es: "es = e0 # e1 # es1" "den resolve s1 k e0" "den resolve s1 p e1" "list_all2 (den resolve s1) ps es1"
    by (auto simp: list_all2_Cons1)
  from "1.prems"(3) obtain n where n: "deref s k = Some n" by (auto simp: is_key_def deref_def split: option.splits)
  then have "key_of e0 = Some (yn_Value n)"
    using key_kept(2) [of resolve s k a s1 e0] "1.prems"(1-3) es(2) by simp
  then have step: "pick_two key_of f g es (u, v) =
      (if yn_Value n = f then pick_two key_of f g es1 (e1, v)
       else if yn_Value n = g then pick_two key_of f g es1 (u, e1) else Some None)"
    by (simp add: es(1))
  from n "1.prems"(3) "1.IH" [OF "1.prems"(1,2) _ es(4) es(3) "1.prems"(6)] "1.IH" [OF "1.prems"(1,2) _ es(4) "1.prems"(5) es(3)]
  show ?case unfolding step by (cases "yn_Value n = f"; cases "yn_Value n = g") simp_all
qed (auto simp: list_all2_Cons1)

lemma two_fields_rewrites:
  assumes std: "standard_tags resolve" and a: "a < length s" "\<not> inert_node resolve (s ! a)"
    and keys: "yn_Kind (s ! a) = MappingNode \<longrightarrow> plain_keys resolve s (yn_Content (s ! a))"
  shows "rewrites_to resolve s a (expand_two type f g (yn_Kind (s ! a))) (two_fields type f g s a)"
proof -
  note old = rewrites_to_reference_old [OF std a(1)]
  have bad: "rewrites_to resolve s a (expand_two type f g k) (y_error m)" if "k \<noteq> MappingNode" "k \<noteq> SequenceNode" for k m
    using that by (cases k) (auto simp: expand_two_def intro: rewrites_to_error)
  show ?thesis
  proof (cases "yn_Kind (s ! a)")
    case SequenceNode
    show ?thesis
    proof (cases "length (yn_Content (s ! a)) = 2")
      case True
      then obtain p q where p: "yn_Content (s ! a) = [p, q]" by (cases "yn_Content (s ! a)" rule: remdups_adj.cases) auto
      show ?thesis
        by (simp add: two_fields_def SequenceNode p Let_def, rule old) (auto simp: expand_two_def p list_all2_Cons1)
    qed (use SequenceNode in \<open>auto simp: two_fields_def expand_two_def Let_def intro: rewrites_to_error\<close>)
  next
    case MappingNode
    let ?ps = "yn_Content (s ! a)" and ?key = "\<lambda>p. map_option yn_Value (deref s p)"
    from keys MappingNode have plain: "plain_keys resolve s ?ps" by simp
    note picked = pick_two_den [OF a(2) _ plain _ den.nil den.nil, of _ _ f g]
    show ?thesis
    proof (cases "length ?ps = 4")
      case True
      have same: "changed_at a s s" by (simp add: changed_at_def)
      obtain r where Some: "pick_two ?key f g ?ps (None, None) = Some r" using pick_two_keys [OF plain] by blast
        show ?thesis
        proof (cases r)
          case None
          with Some picked [OF same] show ?thesis
            by (auto simp: two_fields_def MappingNode True Let_def rewrites_to_def y_error_def expand_two_def)
        next
          case r: (Some xy)
          obtain x y where xy: "xy = (x, y)" by fastforce
          show ?thesis
            by (simp add: two_fields_def MappingNode True Let_def Some r xy, rule old)
              (use picked Some r xy True in \<open>fastforce simp: expand_two_def list_all2_Cons1 dest: list_all2_lengthD\<close>)
        qed
    qed (use MappingNode in \<open>auto simp: two_fields_def expand_two_def Let_def intro: rewrites_to_error\<close>)
  qed (use bad in \<open>simp_all add: two_fields_def Let_def\<close>)
qed

lemma invocation_rewrites:
  assumes std: "standard_tags resolve" and a: "a < length s" "\<not> inert_node resolve (s ! a)"
    and keys: "yn_Kind (s ! a) = MappingNode \<longrightarrow> plain_keys resolve s (yn_Content (s ! a))"
    and tag: "ShortTag resolve (s ! a) = ''!Fn.'' @ name"
  shows "rewrites_to resolve s a (expand_fn name (yn_Kind (s ! a)) (yn_Value (s ! a))) (YAMLInvocationTransformer resolve s a)"
proof (cases "name = []")
  case True
  with tag show ?thesis
    by (auto simp: YAMLInvocationTransformer_def has_prefix_def expand_fn_def intro: rewrites_to_error)
next
  case False
  let ?F = "expand_fn name (yn_Kind (s ! a)) (yn_Value (s ! a))" and ?fn = "''$fn.'' @ name"
  have unfold: "YAMLInvocationTransformer resolve s a =
      (let new = (\<lambda>args s. Some (Inr (True, rewrite_node a [(?fn, args)] s))) in
       case yn_Kind (s ! a) of
         MappingNode \<Rightarrow> new (Some (length s)) (s @ [collection MappingNode (yn_Content (s ! a))])
       | SequenceNode \<Rightarrow> new (Some (length s)) (s @ [collection SequenceNode (yn_Content (s ! a))])
       | ScalarNode \<Rightarrow> new (Some (Suc (length s))) (s @ [scalar (yn_Value (s ! a)), collection SequenceNode [Some (length s)]])
       | _ \<Rightarrow> new None s)"
    using False tag by (simp add: YAMLInvocationTransformer_def has_prefix_def Let_def)
  have args: "\<exists>fts. F = new_mapping fts \<and> fields_den resolve s1 [(?fn, p)] fts"
    if "den resolve s1 p t" "F = new_mapping [(?fn, t)]" for s1 p t F
    using that by (intro exI [of _ "[(?fn, t)]"]) simp
  note node = rewrites_to_node [OF std a(1)]
  have coll: "den resolve s1 (Some (length s)) (tcoll k es)"
    if "k = MappingNode \<or> k = SequenceNode" "yn_Kind (s ! a) = k" "changed_at a (s @ [collection k (yn_Content (s ! a))]) s1"
      "list_all2 (den resolve s1) (yn_Content (s ! a)) es" for k s1 es
  proof (rule den_collection [OF that(1) _ _ _ that(4)])
    show "length s < length s1" "s1 ! length s = collection k (yn_Content (s ! a))"
      using changed_at_new [OF a(1) that(3), of 0] by simp_all
    show "k = MappingNode \<longrightarrow> plain_keys resolve s1 (yn_Content (s ! a))"
      using keys that(2) plain_keys_kept [OF _ a(2) changed_at_append [OF a(1) that(3)]] by simp
  qed
  show ?thesis
  proof (cases "yn_Kind (s ! a)")
    case MappingNode
    show ?thesis
      unfolding unfold MappingNode Let_def ykind.case by (rule node, rule args, rule coll) (auto simp: MappingNode expand_fn_def False)
  next
    case SequenceNode
    show ?thesis
      unfolding unfold SequenceNode Let_def ykind.case by (rule node, rule args, rule coll) (auto simp: SequenceNode expand_fn_def False)
  next
    case ScalarNode
    have "den resolve s1 (Some (Suc (length s))) (tcoll SequenceNode [tscalar (yn_Value (s ! a))])"
      if ch: "changed_at a (s @ [scalar (yn_Value (s ! a)), collection SequenceNode [Some (length s)]]) s1" for s1
      using den_collection [of SequenceNode "Suc (length s)" s1 "[Some (length s)]" resolve] changed_at_new [OF a(1) ch, of 1]
        den_new_scalar [OF std a(1) ch, of 0 "yn_Value (s ! a)"] by simp
    then show ?thesis
      unfolding unfold ScalarNode Let_def ykind.case by (intro node args) (auto simp: ScalarNode expand_fn_def False)
  next
    case DocumentNode
    show ?thesis
      using node [of "[]" "?F" "[(?fn, None)]"] args [OF den.nil] unfolding unfold DocumentNode Let_def ykind.case
      by (simp add: expand_fn_def False)
  next
    case AliasNode
    show ?thesis
      using node [of "[]" "?F" "[(?fn, None)]"] args [OF den.nil] unfolding unfold AliasNode Let_def ykind.case
      by (simp add: expand_fn_def False)
  qed
qed

lemma binary_rewrites:
  assumes std: "standard_tags resolve" and a: "a < length s" and tag: "ShortTag resolve (s ! a) = ''!!binary''" "yn_Kind (s ! a) = ScalarNode"
  shows "rewrites_to resolve s a (\<lambda>_. new_mapping [(''$encoding'', tscalar ''base64''), (''data'', tscalar (yn_Value (s ! a)))])
    (YAMLBinaryToEncodingTransformer resolve s a)"
proof -
  have "den resolve s1 (Some (length s)) (tscalar ''base64'') \<and> den resolve s1 (Some (Suc (length s))) (tscalar (yn_Value (s ! a)))"
    if ch: "changed_at a (s @ [scalar ''base64'', scalar (yn_Value (s ! a))]) s1" for s1
    using den_new_scalar [OF std a(1) ch, of 0 "''base64''"] den_new_scalar [OF std a(1) ch, of 1 "yn_Value (s ! a)"] by simp
  then show ?thesis
    using tag by (simp add: YAMLBinaryToEncodingTransformer_def, intro rewrites_to_node [OF std a(1)])
      (auto simp: list_all2_Cons1 intro!: exI [of _ "[(''$encoding'', tscalar ''base64''), (''data'', tscalar (yn_Value (s ! a)))]"])
qed

section \<open>All transformers\<close>

lemma raw_tag:
  assumes "standard_tags resolve" "t = ''!Data'' \<or> t = ''!Secret''"
  shows "yn_Tag n = t \<longleftrightarrow> ShortTag resolve n = t"
proof -
  have "has_prefix (resolve (yn_Value n)) ''!!''" using assms(1) by (simp add: standard_tags_def)
  then have "resolve (yn_Value n) \<noteq> t" using assms(2) by (auto simp: has_prefix_iff)
  then show ?thesis using assms(2)
    by (auto simp: short_tag_def shortTag_def longTagPrefix_def has_prefix_def Let_def split: ykind.splits if_splits)
qed

text \<open>What running the transformers on a node that is not inert achieves.\<close>

definition run_rewrites :: "(string \<Rightarrow> string) \<Rightarrow> ystore \<Rightarrow> nat \<Rightarrow> (ytree list \<Rightarrow> ytree) \<Rightarrow> ystore res option \<Rightarrow> bool" where
  "run_rewrites resolve s a F r \<longleftrightarrow>
     (case r of
        None \<Rightarrow> False
      | Some (Inl err) \<Rightarrow> rewrites_to resolve s a F (Some (Inl err))
      | Some (Inr s1) \<Rightarrow> rewrites_to resolve s a F (Some (Inr (True, s1))))"

lemma run_here: "rewrites_to resolve s a F (t s a) \<Longrightarrow> run_rewrites resolve s a F (run_transformers (t # ts) s a)"
  by (auto simp: run_rewrites_def rewrites_to_def split: option.splits sum.splits)

lemma run_skip: "t s a = declines s a \<Longrightarrow> run_transformers (t # ts) s a = run_transformers ts s a"
  by (simp add: declines_def)

lemmas transformer_defs = YAMLDataTransformer_def YAMLSecretTransformer_def YAMLConnectionTransformer_def YAMLOutputTransformer_def
  YAMLParameterTransformer_def YAMLAnswerTransformer_def

lemma declined:
  assumes "standard_tags resolve"
  shows "ShortTag resolve (s ! a) \<noteq> ''!Data'' \<Longrightarrow> YAMLDataTransformer s a = declines s a"
    "ShortTag resolve (s ! a) \<noteq> ''!Secret'' \<Longrightarrow> YAMLSecretTransformer s a = declines s a"
    "ShortTag resolve (s ! a) \<noteq> ''!Connection'' \<Longrightarrow> YAMLConnectionTransformer resolve s a = declines s a"
    "ShortTag resolve (s ! a) \<noteq> ''!Output'' \<Longrightarrow> YAMLOutputTransformer resolve s a = declines s a"
    "ShortTag resolve (s ! a) \<noteq> ''!Parameter'' \<Longrightarrow> YAMLParameterTransformer resolve s a = declines s a"
    "ShortTag resolve (s ! a) \<noteq> ''!Answer'' \<Longrightarrow> YAMLAnswerTransformer resolve s a = declines s a"
    "\<not> has_prefix (ShortTag resolve (s ! a)) ''!Fn.'' \<Longrightarrow> YAMLInvocationTransformer resolve s a = declines s a"
    "\<not> (ShortTag resolve (s ! a) = ''!!binary'' \<and> yn_Kind (s ! a) = ScalarNode) \<Longrightarrow> YAMLBinaryToEncodingTransformer resolve s a = declines s a"
  using raw_tag [OF assms, of "''!Data''"] raw_tag [OF assms, of "''!Secret''"]
  by (auto simp: transformer_defs YAMLInvocationTransformer_def YAMLBinaryToEncodingTransformer_def Let_def)

lemma run_inert:
  assumes "standard_tags resolve" "inert_node resolve (s ! a)"
  shows "run_transformers (YAMLTransformers resolve) s a = Some (Inr s)"
proof -
  let ?st = "ShortTag resolve (s ! a)"
  from assms(2) have st: "?st = [] \<or> (\<exists>t. ?st = ''!!'' @ t)" and b: "\<not> (?st = ''!!binary'' \<and> yn_Kind (s ! a) = ScalarNode)"
    by (auto simp: inert_node_def Let_def has_prefix_iff)
  have "?st \<noteq> ''!Data''" "?st \<noteq> ''!Secret''" "?st \<noteq> ''!Connection''" "?st \<noteq> ''!Output''" "?st \<noteq> ''!Parameter''" "?st \<noteq> ''!Answer''"
      "\<not> has_prefix ?st ''!Fn.''"
    using st by (auto simp: has_prefix_def)
  then have "run_transformers (YAMLTransformers resolve) s a = run_transformers [YAMLUnknownTagTransformer resolve] s a"
    by (simp only: YAMLTransformers_def run_skip declined [OF assms(1)] b not_False_eq_True)
  with st show ?thesis by (auto simp: YAMLUnknownTagTransformer_def declines_def has_prefix_def Let_def)
qed

lemma rewrites_to_cong: "rewrites_to resolve s a F r \<Longrightarrow> (\<And>es. G es = F es) \<Longrightarrow> rewrites_to resolve s a G r"
  by (metis ext)

lemma run_step:
  assumes std: "standard_tags resolve" and a: "a < length s" "\<not> inert_node resolve (s ! a)"
    and keys: "yn_Kind (s ! a) = MappingNode \<longrightarrow> plain_keys resolve s (yn_Content (s ! a))"
  shows "run_rewrites resolve s a (expand_top resolve (yn_Kind (s ! a)) (yn_Quoted (s ! a)) (yn_Tag (s ! a)) (yn_Value (s ! a)))
    (run_transformers (YAMLTransformers resolve) s a)"
proof -
  let ?st = "ShortTag resolve (s ! a)"
  let ?F = "expand_top resolve (yn_Kind (s ! a)) (yn_Quoted (s ! a)) (yn_Tag (s ! a)) (yn_Value (s ! a))"
  note skip = YAMLTransformers_def run_skip declined [OF std]
  note one = one_field_rewrites [OF std a keys] and two = two_fields_rewrites [OF std a keys]
  note raw = raw_tag [OF std, of _ "s ! a"]
  consider "?st = ''!Data''" | "?st = ''!Secret''" | "?st = ''!Connection''" | "?st = ''!Output''" | "?st = ''!Parameter''" | "?st = ''!Answer''"
    | name where "?st = ''!Fn.'' @ name" | "?st = ''!!binary''" "yn_Kind (s ! a) = ScalarNode"
    | "?st \<noteq> ''!Data''" "?st \<noteq> ''!Secret''" "?st \<noteq> ''!Connection''" "?st \<noteq> ''!Output''" "?st \<noteq> ''!Parameter''" "?st \<noteq> ''!Answer''"
      "\<not> has_prefix ?st ''!Fn.''" "\<not> (?st = ''!!binary'' \<and> yn_Kind (s ! a) = ScalarNode)"
    unfolding has_prefix_iff by blast
  then show ?thesis
  proof cases
    case 1
    have "rewrites_to resolve s a ?F (YAMLDataTransformer s a)"
      using rewrites_to_cong [OF one, of ?F] 1 raw [of "''!Data''"] by (simp add: transformer_defs expand_top_def)
    then show ?thesis unfolding YAMLTransformers_def by (rule run_here)
  next
    case 2
    have "rewrites_to resolve s a ?F (YAMLSecretTransformer s a)"
      using rewrites_to_cong [OF one, of ?F] 2 raw [of "''!Secret''"] by (simp add: transformer_defs expand_top_def)
    from run_here [of resolve s a ?F "YAMLSecretTransformer", OF this] 2 show ?thesis by (simp add: skip del: run_transformers.simps)
  next
    case 3
    have "rewrites_to resolve s a ?F (YAMLConnectionTransformer resolve s a)"
      using rewrites_to_cong [OF two, of ?F] 3 by (simp add: transformer_defs expand_top_def)
    from run_here [of resolve s a ?F "YAMLConnectionTransformer resolve", OF this] 3 show ?thesis by (simp add: skip del: run_transformers.simps)
  next
    case 4
    have "rewrites_to resolve s a ?F (YAMLOutputTransformer resolve s a)"
      using rewrites_to_cong [OF two, of ?F] 4 by (simp add: transformer_defs expand_top_def)
    from run_here [of resolve s a ?F "YAMLOutputTransformer resolve", OF this] 4 show ?thesis by (simp add: skip del: run_transformers.simps)
  next
    case 5
    have "rewrites_to resolve s a ?F (YAMLParameterTransformer resolve s a)"
      using rewrites_to_cong [OF one, of ?F] 5 by (simp add: transformer_defs expand_top_def)
    from run_here [of resolve s a ?F "YAMLParameterTransformer resolve", OF this] 5 show ?thesis by (simp add: skip del: run_transformers.simps)
  next
    case 6
    have "rewrites_to resolve s a ?F (YAMLAnswerTransformer resolve s a)"
      using rewrites_to_cong [OF two, of ?F] 6 by (simp add: transformer_defs expand_top_def)
    from run_here [of resolve s a ?F "YAMLAnswerTransformer resolve", OF this] 6 show ?thesis by (simp add: skip del: run_transformers.simps)
  next
    case (7 name)
    have "rewrites_to resolve s a ?F (YAMLInvocationTransformer resolve s a)"
      using rewrites_to_cong [OF invocation_rewrites [OF std a keys 7], of ?F] 7 by (simp add: expand_top_def has_prefix_def)
    from run_here [of resolve s a ?F "YAMLInvocationTransformer resolve", OF this] 7 show ?thesis by (simp add: skip del: run_transformers.simps)
  next
    case 8
    have "rewrites_to resolve s a ?F (YAMLBinaryToEncodingTransformer resolve s a)"
      using rewrites_to_cong [OF binary_rewrites [OF std a(1) 8], of ?F] 8 by (simp add: expand_top_def has_prefix_def)
    from run_here [of resolve s a ?F "YAMLBinaryToEncodingTransformer resolve", OF this] 8 show ?thesis by (simp add: skip has_prefix_def del: run_transformers.simps)
  next
    case 9
    with a(2) have "rewrites_to resolve s a ?F (YAMLUnknownTagTransformer resolve s a)"
      by (auto simp: YAMLUnknownTagTransformer_def inert_node_def expand_top_def Let_def intro: rewrites_to_error)
    from run_here [of resolve s a ?F "YAMLUnknownTagTransformer resolve", OF this] 9 show ?thesis by (simp add: skip del: run_transformers.simps)
  qed
qed

section \<open>The loop\<close>

lemma den_follow:
  "den resolve s p e \<Longrightarrow> e = YNil \<and> follow s p = Some None \<or>
     (\<exists>a. follow s p = Some (Some a) \<and> a < length s \<and> yn_Kind (s ! a) \<noteq> AliasNode \<and>
        (yn_Kind (s ! a) = MappingNode \<longrightarrow> plain_keys resolve s (yn_Content (s ! a))) \<and> den resolve s (Some a) e)"
proof (induction rule: den.induct)
  case nil
  show ?case by (simp add: follow.simps)
next
  case (aliased a e)
  then show ?case by (auto simp: follow.simps [of s "Some a"])
next
  case (node a es)
  then show ?case using den.node [of a s resolve es] node by (auto simp: follow.simps [of s "Some a"] list_all2_mono)
qed

text \<open>A rewriting keeps what every pointer denotes.\<close>

lemma den_kept:
  assumes a: "yn_Kind (s ! a) \<noteq> AliasNode" "\<not> inert_node resolve (s ! a)"
    and run: "rewrites_to resolve s a (expand_top resolve (yn_Kind (s ! a)) (yn_Quoted (s ! a)) (yn_Tag (s ! a)) (yn_Value (s ! a))) (Some (Inr (True, s1)))"
  shows "den resolve s p e \<Longrightarrow> den resolve s1 p e"
proof (induction rule: den.induct)
  case nil
  show ?case by (rule den.nil)
next
  case (aliased b e)
  with a run have "s1 ! b = s ! b" "b < length s1" by (auto simp: rewrites_to_def changed_at_def)
  with aliased show ?case by (simp add: den.aliased)
next
  case (node b es)
  have kids: "list_all2 (den resolve s1) (yn_Content (s ! b)) es" using node.IH by (rule list_all2_mono) simp
  show ?case
  proof (cases "b = a")
    case True
    with run kids show ?thesis by (simp add: rewrites_to_def)
  next
    case False
    with run node.hyps have b: "s1 ! b = s ! b" "b < length s1" "changed_at a s s1" by (auto simp: rewrites_to_def changed_at_def)
    with node.hyps plain_keys_kept [OF _ a(2) b(3)] kids show ?thesis using den.node [of b s1 resolve es] by simp
  qed
qed

text \<open>Pointers whose nodes are inert as far as the stack does not say otherwise.\<close>

inductive covered :: "(string \<Rightarrow> string) \<Rightarrow> ystore \<Rightarrow> yptr set \<Rightarrow> yptr \<Rightarrow> bool" for resolve s stack where
  waiting: "p \<in> stack \<Longrightarrow> covered resolve s stack p"
| aliased: "a < length s \<Longrightarrow> yn_Kind (s ! a) = AliasNode \<Longrightarrow> covered resolve s stack (yn_Alias (s ! a)) \<Longrightarrow> covered resolve s stack (Some a)"
| node: "a < length s \<Longrightarrow> yn_Kind (s ! a) \<noteq> AliasNode \<Longrightarrow> inert_node resolve (s ! a) \<Longrightarrow>
    \<forall>p \<in> set (yn_Content (s ! a)). covered resolve s stack p \<Longrightarrow> covered resolve s stack (Some a)"

lemma covered_repr:
  "covered resolve s {} p \<Longrightarrow> den resolve s p e \<Longrightarrow> repr resolve s p e \<and> well_formed e"
proof (induction arbitrary: e rule: covered.induct)
  case (aliased a)
  then have "den resolve s (yn_Alias (s ! a)) e" by (auto elim: den_SomeE)
  with aliased show ?case by (auto intro: repr.aliased)
next
  case (node a)
  from node.prems obtain es where es: "list_all2 (den resolve s) (yn_Content (s ! a)) es"
      "e = YNode (yn_Kind (s ! a)) (yn_Quoted (s ! a)) (yn_Tag (s ! a)) (yn_Value (s ! a)) es"
    using node.hyps(2,3) by (elim den_inert) auto
  from node.prems node.hyps(2) have keys: "yn_Kind (s ! a) = MappingNode \<longrightarrow> plain_keys resolve s (yn_Content (s ! a))"
    by (auto elim: den_SomeE)
  have "list_all2 (\<lambda>p e. repr resolve s p e \<and> well_formed e) (yn_Content (s ! a)) es"
    using es(1) by (rule list.rel_mono_strong) (use node.IH in blast)
  then have "list_all2 (repr resolve s) (yn_Content (s ! a)) es" "list_all well_formed es"
    by (auto simp: list_all2_conv_all_nth list_all_length)
  with repr.node [OF node.hyps(1,2) keys] show ?case by (simp add: es(2))
qed simp

text \<open>One turn of the loop, on the node \<open>a\<close> the head of the stack stands for.\<close>

lemma turn:
  assumes std: "standard_tags resolve" and den: "den resolve s (Some a) e" and a: "a < length s" "yn_Kind (s ! a) \<noteq> AliasNode"
    and keys: "yn_Kind (s ! a) = MappingNode \<longrightarrow> plain_keys resolve s (yn_Content (s ! a))"
  obtains (error) err where "run_transformers (YAMLTransformers resolve) s a = Some (Inl err)" "e = YBad"
  | (ok) s1 where "run_transformers (YAMLTransformers resolve) s a = Some (Inr s1)" "changed_at a s s1"
      "inert_node resolve (s1 ! a)" "yn_Kind (s1 ! a) \<noteq> AliasNode" "inert_node resolve (s ! a) \<longrightarrow> s1 = s"
      "\<And>p e. den resolve s p e \<Longrightarrow> den resolve s1 p e"
proof (cases "inert_node resolve (s ! a)")
  case True
  with run_inert [OF std True] a ok show ?thesis by (simp add: changed_at_def)
next
  case False
  let ?F = "expand_top resolve (yn_Kind (s ! a)) (yn_Quoted (s ! a)) (yn_Tag (s ! a)) (yn_Value (s ! a))"
  obtain es where es: "list_all2 (den resolve s) (yn_Content (s ! a)) es" "e = ?F es"
    using den a(2) by (auto elim: den_SomeE)
  show ?thesis
  proof (cases "run_transformers (YAMLTransformers resolve) s a")
    case None
    with run_step [OF std a(1) False keys] show ?thesis by (simp add: run_rewrites_def)
  next
    case (Some r)
    show ?thesis
    proof (cases r)
      case (Inl err)
      with Some run_step [OF std a(1) False keys] es error show ?thesis by (auto simp: run_rewrites_def rewrites_to_def)
    next
      case (Inr s1)
      with Some run_step [OF std a(1) False keys] have rw: "rewrites_to resolve s a ?F (Some (Inr (True, s1)))" by (simp add: run_rewrites_def)
      show ?thesis
      proof (rule ok [of s1])
        show "run_transformers (YAMLTransformers resolve) s a = Some (Inr s1)" using Some Inr by simp
        show "den resolve s1 p e" if "den resolve s p e" for p e using den_kept [OF a(2) False rw that] .
      qed (use rw False in \<open>simp_all add: rewrites_to_def\<close>)
    qed
  qed
qed

lemma follow_covered:
  assumes "changed_at a s s1" "yn_Kind (s ! a) \<noteq> AliasNode" "covered resolve s1 stack (Some a)"
  shows "den resolve s p e \<Longrightarrow> follow s p = Some (Some a) \<Longrightarrow> covered resolve s1 stack p"
proof (induction rule: den.induct)
  case (aliased b e)
  then have "follow s (yn_Alias (s ! b)) = Some (Some a)" by (simp add: follow.simps [of s "Some b"])
  moreover from aliased assms(1,2) have "s1 ! b = s ! b" "b < length s1" by (auto simp: changed_at_def)
  ultimately show ?case using aliased by (simp add: covered.aliased)
qed (use assms(3) in \<open>auto simp: follow.simps\<close>)

lemma covered_turn:
  assumes step: "changed_at a s s1" "a < length s" "yn_Kind (s ! a) \<noteq> AliasNode"
    and node: "inert_node resolve (s1 ! a)" "yn_Kind (s1 ! a) \<noteq> AliasNode"
    and head: "den resolve s p e" "follow s p = Some (Some a)"
  shows "covered resolve s (set (p # ps)) q \<Longrightarrow> covered resolve s1 (set (ps @ yn_Content (s1 ! a))) q"
proof (induction rule: covered.induct)
  have here: "covered resolve s1 (set (ps @ yn_Content (s1 ! a))) (Some a)"
  proof (rule covered.node)
    show "a < length s1" using step(1,2) by (simp add: changed_at_def)
  qed (use node in \<open>simp_all add: covered.waiting\<close>)
  {
    case (waiting q)
    then show ?case using follow_covered [OF step(1,3) here head] by (auto intro: covered.waiting)
  next
    case (aliased b)
    then have "s1 ! b = s ! b" "b < length s1" using step(1,3) by (auto simp: changed_at_def)
    with aliased show ?case by (auto intro: covered.aliased)
  next
    case (node b)
    show ?case
    proof (cases "b = a")
      case False
      with node step(1) have "s1 ! b = s ! b" "b < length s1" by (auto simp: changed_at_def)
      with node show ?thesis by (auto intro!: covered.node)
    qed (use here in simp)
  }
qed

lemma transform_nodes_spec:
  assumes std: "standard_tags resolve"
  shows "list_all2 (den resolve s) stack es \<Longrightarrow> \<exists>out. transform_nodes resolve s stack = Some out \<and>
    (list_all well_formed es \<longrightarrow> (\<exists>s1. out = Some (Inr s1))) \<and>
    (\<forall>s1. out = Some (Inr s1) \<longrightarrow> (\<forall>p e. den resolve s p e \<longrightarrow> den resolve s1 p e) \<and>
       (\<forall>p. covered resolve s (set stack) p \<longrightarrow> covered resolve s1 {} p))"
proof (induction "sum_list (map size es)" arbitrary: s stack es rule: less_induct)
  case less
  show ?case
  proof (cases stack)
    case Nil
    then show ?thesis by (simp add: transform_nodes.simps)
  next
    case (Cons p ps)
    with less.prems obtain e es1 where es: "es = e # es1" "den resolve s p e" "list_all2 (den resolve s) ps es1"
      by (auto simp: list_all2_Cons1)
    from den_follow [OF es(2)] consider (nil) "e = YNil" "follow s p = Some None"
      | (node) a where "follow s p = Some (Some a)" "a < length s" "yn_Kind (s ! a) \<noteq> AliasNode"
          "yn_Kind (s ! a) = MappingNode \<longrightarrow> plain_keys resolve s (yn_Content (s ! a))" "den resolve s (Some a) e"
      by blast
    then show ?thesis
    proof cases
      case nil
      then show ?thesis by (simp add: Cons transform_nodes.simps [of resolve s "p # ps"] es(1))
    next
      case (node a)
      show ?thesis
      proof (cases rule: turn [OF std node(5) node(2,3,4), case_names error ok])
        case (error err)
        with node(1) show ?thesis by (simp add: Cons transform_nodes.simps [of resolve s "p # ps"] es(1))
      next
        case (ok s1)
        obtain ts where ts: "list_all2 (den resolve s1) (yn_Content (s1 ! a)) ts"
            "e = YNode (yn_Kind (s1 ! a)) (yn_Quoted (s1 ! a)) (yn_Tag (s1 ! a)) (yn_Value (s1 ! a)) ts"
          using den_inert [OF ok(6) [OF node(5)] ok(4,3)] by blast
        have rest: "list_all2 (den resolve s1) ps es1" using es(3) by (rule list_all2_mono) (rule ok(6))
        have "sum_list (map size (es1 @ ts)) < sum_list (map size es)"
          by (simp add: es(1) ts(2) size_list_conv_sum_list sum_list_Suc)
        from less.hyps [OF this list_all2_appendI [OF rest ts(1)]] obtain out
          where out: "transform_nodes resolve s1 (ps @ yn_Content (s1 ! a)) = Some out"
            "list_all well_formed (es1 @ ts) \<Longrightarrow> \<exists>s2. out = Some (Inr s2)"
            "\<And>s2. out = Some (Inr s2) \<Longrightarrow> (\<forall>p e. den resolve s1 p e \<longrightarrow> den resolve s2 p e) \<and>
               (\<forall>p. covered resolve s1 (set (ps @ yn_Content (s1 ! a))) p \<longrightarrow> covered resolve s2 {} p)"
          by blast
        have "transform_nodes resolve s stack = Some out"
          using node(1) ok(1) out(1) by (simp add: Cons transform_nodes.simps [of resolve s "p # ps"])
        moreover have "list_all well_formed es \<longrightarrow> (\<exists>s2. out = Some (Inr s2))"
          using out(2) by (simp add: es(1) ts(2))
        moreover have "(\<forall>p e. den resolve s p e \<longrightarrow> den resolve s2 p e) \<and>
            (\<forall>q. covered resolve s (set stack) q \<longrightarrow> covered resolve s2 {} q)" if "out = Some (Inr s2)" for s2
          using out(3) [OF that] ok(6) covered_turn [OF ok(2) node(2,3) ok(3,4) es(2) node(1)] Cons by blast
        ultimately show ?thesis by blast
      qed
    qed
  qed
qed

section \<open>The parser\<close>

text \<open>C7: Parsing a YAML document always ends when no alias stands for a node around it, and it computes the
  recursive expansion of the document's tree. If every tagged node is a well-formed expression, the
  parser decodes a graph that stands for the expansion, in which each expression is the mapping of its
  JSON syntax and every other node is as it was, however nodes are shared. If some tagged node is not well-formed
  (an unknown tag, wrong keys or number of items), parsing does not return a value.\<close>

theorem yaml_expansion:
  assumes "standard_tags resolve" "repr resolve s root t"
  shows "if well_formed (expand resolve t)
    then \<exists>s1. repr resolve s1 root (expand resolve t) \<and> ParseYAMLNode resolve decode s root = Some (Some (decode s1 root))
    else ParseYAMLNode resolve decode s root = Some None \<or> (\<exists>err. ParseYAMLNode resolve decode s root = Some (Some (Inl err)))"
proof -
  have den: "den resolve s root (expand resolve t)" using assms(2) by (rule repr_den)
  have "covered resolve s (set [root]) root" by (simp add: covered.waiting)
  with transform_nodes_spec [OF assms(1), of s "[root]" "[expand resolve t]"] den obtain out
    where out: "transform_nodes resolve s [root] = Some out" "well_formed (expand resolve t) \<Longrightarrow> \<exists>s1. out = Some (Inr s1)"
      "\<And>s1. out = Some (Inr s1) \<Longrightarrow> den resolve s1 root (expand resolve t) \<and> covered resolve s1 {} root"
    by (metis list_all2_Cons list_all2_Nil list.pred_inject)
  show ?thesis
  proof (cases "\<exists>s1. out = Some (Inr s1)")
    case True
    then obtain s1 where s1: "out = Some (Inr s1)" by blast
    with out(3) covered_repr have "repr resolve s1 root (expand resolve t)" "well_formed (expand resolve t)" by blast+
    with s1 out(1) show ?thesis by (auto simp: ParseYAMLNode_def)
  next
    case False
    then have "out = None \<or> (\<exists>err. out = Some (Inl err))" by (metis option.exhaust sum.exhaust)
    with False out(1,2) show ?thesis by (auto simp: ParseYAMLNode_def)
  qed
qed

text \<open>A secret used in two places: \<open>{a: &x !Secret foo, b: *x}\<close>.\<close>

definition ex_document :: ystore where
  "ex_document = [collection MappingNode [Some 1, Some 2, Some 3, Some 4], scalar ''a'', (scalar ''foo'')\<lparr>yn_Tag := ''!Secret''\<rparr>, scalar ''b'',
     \<lparr>yn_Kind = AliasNode, yn_Quoted = False, yn_Tag = [], yn_Value = ''x'', yn_Alias = Some 2, yn_Content = []\<rparr>]"

definition ex_tree :: ytree where
  "ex_tree = tcoll MappingNode [tscalar ''a'', YNode ScalarNode False ''!Secret'' ''foo'' [], tscalar ''b'', YNode ScalarNode False ''!Secret'' ''foo'' []]"

abbreviation ex_resolve :: "string \<Rightarrow> string" where "ex_resolve \<equiv> \<lambda>_. ''!!str''"

lemma ex_standard: "standard_tags ex_resolve"
  by (simp add: standard_tags_def has_prefix_def)

lemma ex_repr: "repr ex_resolve ex_document (Some 0) ex_tree"
proof -
  have "repr ex_resolve ex_document (Some 1) (tscalar ''a'')" "repr ex_resolve ex_document (Some 3) (tscalar ''b'')"
    "repr ex_resolve ex_document (Some 2) (YNode ScalarNode False ''!Secret'' ''foo'' [])"
    using repr.node [of 1 ex_document ex_resolve "[]"] repr.node [of 3 ex_document ex_resolve "[]"] repr.node [of 2 ex_document ex_resolve "[]"]
    by (simp_all add: ex_document_def scalar_def collection_def)
  moreover from this have "repr ex_resolve ex_document (Some 4) (YNode ScalarNode False ''!Secret'' ''foo'' [])"
    using repr.aliased [of 4 ex_document ex_resolve] by (simp add: ex_document_def)
  moreover have "plain_keys ex_resolve ex_document [Some 1, Some 2, Some 3, Some 4]"
    using inert_scalar [OF ex_standard] by (simp add: is_key_def ex_document_def) (simp add: scalar_def)
  ultimately show ?thesis
    using repr.node [of 0 ex_document ex_resolve "[tscalar ''a'', YNode ScalarNode False ''!Secret'' ''foo'' [], tscalar ''b'', YNode ScalarNode False ''!Secret'' ''foo'' []]"]
    by (simp add: ex_tree_def) (simp add: ex_document_def collection_def)
qed

theorem yaml_expansion_witness:
  "\<exists>s1. repr ex_resolve s1 (Some 0)
      (tcoll MappingNode [tscalar ''a'', reference ''Secret'' [(''name'', tscalar ''foo'')],
                          tscalar ''b'', reference ''Secret'' [(''name'', tscalar ''foo'')]]) \<and>
    ParseYAMLNode ex_resolve (\<lambda>s p. Inr (s, p)) ex_document (Some 0) = Some (Some (Inr (s1, Some 0)))"
proof -
  have exp: "expand ex_resolve ex_tree =
      tcoll MappingNode [tscalar ''a'', reference ''Secret'' [(''name'', tscalar ''foo'')], tscalar ''b'', reference ''Secret'' [(''name'', tscalar ''foo'')]]"
    by (simp add: ex_tree_def expand_top_def expand_one_def short_tag_def shortTag_def longTagPrefix_def has_prefix_def)
  then have "well_formed (expand ex_resolve ex_tree)" by (simp add: reference_def new_mapping_def)
  with yaml_expansion [OF ex_standard ex_repr, of "\<lambda>s p. Inr (s, p)"] exp show ?thesis by simp
qed

text \<open>A document whose anchor contains its own alias, \<open>&x [*x]\<close>: the loop never ends.\<close>

definition cyclic_document :: ystore where
  "cyclic_document = [collection SequenceNode [Some 1],
     \<lparr>yn_Kind = AliasNode, yn_Quoted = False, yn_Tag = [], yn_Value = ''x'', yn_Alias = Some 0, yn_Content = []\<rparr>]"

lemma cyclic_never_ends:
  assumes "standard_tags resolve"
  shows "ParseYAMLNode resolve decode cyclic_document (Some 0) = None"
proof -
  have at: "follow cyclic_document p = Some (Some 0)" if "p = Some 0 \<or> p = Some 1" for p
    using that by (auto simp: follow.simps cyclic_document_def collection_def)
  have run: "run_transformers (YAMLTransformers resolve) cyclic_document 0 = Some (Inr cyclic_document)"
    by (rule run_inert [OF assms]) (simp add: cyclic_document_def inert_collection)
  have kids: "yn_Content (cyclic_document ! 0) = [Some 1]" by (simp add: cyclic_document_def collection_def)
  have "transform_nodes r s stack = Some out \<Longrightarrow> \<not> (r = resolve \<and> s = cyclic_document \<and> (stack = [Some 0] \<or> stack = [Some 1]))" for r s stack out
    by (erule transform_nodes.raw_induct [rotated]) (fastforce simp: at run kids)
  then show ?thesis by (cases "transform_nodes resolve cyclic_document [Some 0]") (auto simp: ParseYAMLNode_def)
qed

end
