(* ===== verification/Run_Deps.thy ===== *)
theory Run_Deps
  imports Network_Policy Run_Configmap
begin

text \<open>
  What a run needs before its pipeline exists (\<open>pkg/obj/workflowrundeps.go\<close>): ConfigMaps, service accounts
  whose tokens are waited for (\<open>serviceaccount.go\<close>, \<open>pkg/util/retry\<close>), a role and its binding, a limit range and a
  network policy; and the reconciler that puts a run together (\<open>pkg/reconciler/workflow\<close>).

  The clients of all kinds act on one world, which has a clock. A time is in nanoseconds.
\<close>

section \<open>Retrying (\<open>pkg/util/retry\<close>)\<close>

record retry_error =
  re_Transient :: bool
  re_Cause :: "err option"

definition RetryPermanent :: "err option \<Rightarrow> retry_error" where "RetryPermanent err = \<lparr>re_Transient = False, re_Cause = err\<rparr>"

definition RetryTransient :: "err option \<Rightarrow> retry_error" where "RetryTransient err = \<lparr>re_Transient = True, re_Cause = err\<rparr>"

record 'w clock =
  ck_Now :: "'w \<Rightarrow> int"
  ck_Wait :: "int \<Rightarrow> 'w \<Rightarrow> 'w"

text \<open>A context with a deadline, and the period between two attempts.\<close>

record 'w retry_context =
  cx_Expired :: "'w \<Rightarrow> bool"
  cx_Pause :: "'w \<Rightarrow> 'w"

definition context_until :: "'w clock \<Rightarrow> int \<Rightarrow> int \<Rightarrow> 'w retry_context" where
  "context_until ck deadline freq = \<lparr>cx_Expired = (\<lambda>w. ck_Now ck w \<ge> deadline), cx_Pause = ck_Wait ck freq\<rparr>"

text \<open>\<open>wait.UntilWithContext\<close>: run, wait for the period, and look whether the context has ended before running again.
  The function works on a state \<open>'x\<close> of its own; with it goes the error of the last attempt.\<close>

partial_function (option) retry_until ::
    "'w retry_context \<Rightarrow> ('x \<Rightarrow> 'w \<Rightarrow> (retry_error \<times> 'x) \<times> 'w) \<Rightarrow> err option \<times> 'x \<Rightarrow> 'w \<Rightarrow> ((err option \<times> 'x) \<times> 'w) option" where
  "retry_until cx fn st w =
     (if cx_Expired cx w then Some (st, w)
      else
        (case fn (snd st) w of ((rt, x'), w') \<Rightarrow>
           if \<not> re_Transient rt \<or> re_Cause rt = None then Some ((re_Cause rt, x'), w')
           else retry_until cx fn (re_Cause rt, x') (cx_Pause cx w')))"

definition DeadlineExceeded :: err where "DeadlineExceeded = OtherError ''context deadline exceeded''"

definition Retry ::
    "'w retry_context \<Rightarrow> ('x \<Rightarrow> 'w \<Rightarrow> (retry_error \<times> 'x) \<times> 'w) \<Rightarrow> 'x \<Rightarrow> 'w \<Rightarrow> ((err option \<times> 'x) \<times> 'w) option" where
  "Retry cx fn x w =
     Option.bind (retry_until cx fn (None, x) w) (\<lambda>((err, x'), w').
       Some ((if err = None then (if cx_Expired cx w' then Some DeadlineExceeded else None) else err, x'), w'))"

section \<open>Service accounts (\<open>serviceaccount.go\<close>, \<open>secret.go\<close>)\<close>

record secret_body =
  sb_Type :: string
  sb_Data :: "string gomap"

record service_account_body =
  sab_Secrets :: "string list"
  sab_Automount :: "bool option"

record service_account =
  sa_Account :: "service_account_body keyed"
  sa_DefaultTokenSecret :: "secret_body keyed option"

definition SecretTypeServiceAccountToken :: string where "SecretTypeServiceAccountToken = ''kubernetes.io/service-account-token''"

definition ErrNotServiceAccountTokenSecret :: err where
  "ErrNotServiceAccountTokenSecret = OtherError ''obj: secret is not usable for service accounts''"

definition ErrServiceAccountMissingDefaultTokenSecret :: err where
  "ErrServiceAccountMissingDefaultTokenSecret = OtherError ''obj: service account has no default token secret''"

definition NewServiceAccountTokenSecret :: "object_key \<Rightarrow> secret_body keyed" where
  "NewServiceAccountTokenSecret key = new_keyed \<lparr>sb_Type = SecretTypeServiceAccountToken, sb_Data = []\<rparr> key"

definition ServiceAccountTokenSecret_Load :: "(secret_body, 'w) object_client \<Rightarrow> secret_body keyed \<Rightarrow> 'w \<Rightarrow> (bool res \<times> secret_body keyed) \<times> 'w" where
  "ServiceAccountTokenSecret_Load cl sats w =
     (case keyed_Load cl sats w of
        ((Inl err, sats'), w') \<Rightarrow> ((Inl err, sats'), w')
      | ((Inr ok, sats'), w') \<Rightarrow>
          if sb_Type (o_Body (kd_Object sats')) \<noteq> SecretTypeServiceAccountToken then ((Inl ErrNotServiceAccountTokenSecret, sats'), w')
          else ((Inr ok, sats'), w'))"

definition NewServiceAccount :: "object_key \<Rightarrow> service_account" where
  "NewServiceAccount key = \<lparr>sa_Account = new_keyed \<lparr>sab_Secrets = [], sab_Automount = None\<rparr> key, sa_DefaultTokenSecret = None\<rparr>"

definition loadDefaultTokenSecret :: "(secret_body, 'w) object_client \<Rightarrow> service_account \<Rightarrow> 'w \<Rightarrow> (unit res \<times> service_account) \<times> 'w" where
  "loadDefaultTokenSecret cl sa w =
     (case sab_Secrets (o_Body (kd_Object (sa_Account sa))) of
        [] \<Rightarrow> ((Inl ErrServiceAccountMissingDefaultTokenSecret, sa), w)
      | name # _ \<Rightarrow>
          if name = [] then ((Inl ErrServiceAccountMissingDefaultTokenSecret, sa), w)
          else
            (let key = \<lparr>key_Namespace = key_Namespace (kd_Key (sa_Account sa)), key_Name = name\<rparr>;
                 sats = (case sa_DefaultTokenSecret sa of None \<Rightarrow> NewServiceAccountTokenSecret key | Some sats \<Rightarrow> sats);
                 sa1 = sa\<lparr>sa_DefaultTokenSecret := Some sats\<rparr>
             in if kd_Key sats = key \<and> om_UID (o_Meta (kd_Object sats)) \<noteq> [] then ((Inr (), sa1), w)
                else
                  (case ServiceAccountTokenSecret_Load cl sats w of
                     ((r, sats'), w') \<Rightarrow>
                       ((case r of Inl err \<Rightarrow> Inl err | Inr ok \<Rightarrow> if ok then Inr () else Inl ErrRequired,
                         sa1\<lparr>sa_DefaultTokenSecret := Some sats'\<rparr>), w'))))"

section \<open>Roles and limits (\<open>role.go\<close>, \<open>rolebinding.go\<close>, \<open>limitrange.go\<close>)\<close>

record rbac_rule =
  rr_APIGroups :: "string list"
  rr_Resources :: "string list"
  rr_ResourceNames :: "string list"
  rr_Verbs :: "string list"

record role_ref =
  rf_Kind :: string
  rf_APIGroup :: string
  rf_Name :: string

record rbac_subject =
  su_Kind :: string
  su_Namespace :: string
  su_Name :: string

record role_binding_body =
  rbb_RoleRef :: role_ref
  rbb_Subjects :: "rbac_subject list"

definition ConfigureMetadataAPIRole :: "'c keyed \<Rightarrow> 'c keyed \<Rightarrow> rbac_rule list keyed \<Rightarrow> rbac_rule list keyed" where
  "ConfigureMetadataAPIRole immutableConfigMap mutableConfigMap =
     with_spec
       [\<lparr>rr_APIGroups = [[]], rr_Resources = [''configmaps''], rr_ResourceNames = [key_Name (kd_Key immutableConfigMap)],
         rr_Verbs = [''get'']\<rparr>,
        \<lparr>rr_APIGroups = [[]], rr_Resources = [''configmaps''], rr_ResourceNames = [key_Name (kd_Key mutableConfigMap)],
         rr_Verbs = [''get'', ''update'']\<rparr>]"

definition ConfigureMetadataAPIRoleBinding ::
    "service_account \<Rightarrow> rbac_rule list keyed \<Rightarrow> role_binding_body keyed \<Rightarrow> role_binding_body keyed" where
  "ConfigureMetadataAPIRoleBinding sa role =
     with_spec
       \<lparr>rbb_RoleRef = \<lparr>rf_Kind = ''Role'', rf_APIGroup = ''rbac.authorization.k8s.io'', rf_Name = key_Name (kd_Key role)\<rparr>,
        rbb_Subjects = [\<lparr>su_Kind = ''ServiceAccount'', su_Namespace = key_Namespace (kd_Key (sa_Account sa)),
          su_Name = key_Name (kd_Key (sa_Account sa))\<rparr>]\<rparr>"

text \<open>Quantities are their texts.\<close>

type_synonym resource_list = "string gomap"

record limit_range_item =
  lri_Type :: string
  lri_Default :: resource_list
  lri_DefaultRequest :: resource_list
  lri_Max :: resource_list

record limit_range_options =
  lro_containerDefaultLimit :: resource_list
  lro_containerDefaultRequestLimit :: resource_list
  lro_containerMaxLimit :: resource_list

definition LimitRangeWithContainerDefaultLimit :: "resource_list \<Rightarrow> limit_range_options \<Rightarrow> limit_range_options" where
  "LimitRangeWithContainerDefaultLimit rl opts = opts\<lparr>lro_containerDefaultLimit := rl\<rparr>"

definition LimitRangeWithContainerDefaultRequestLimit :: "resource_list \<Rightarrow> limit_range_options \<Rightarrow> limit_range_options" where
  "LimitRangeWithContainerDefaultRequestLimit rl opts = opts\<lparr>lro_containerDefaultRequestLimit := rl\<rparr>"

definition LimitRangeWithContainerMaxLimit :: "resource_list \<Rightarrow> limit_range_options \<Rightarrow> limit_range_options" where
  "LimitRangeWithContainerMaxLimit rl opts = opts\<lparr>lro_containerMaxLimit := rl\<rparr>"

definition ConfigureLimitRange ::
    "(limit_range_options \<Rightarrow> limit_range_options) list \<Rightarrow> limit_range_item list keyed \<Rightarrow> limit_range_item list keyed" where
  "ConfigureLimitRange opts =
     (let lro = fold (\<lambda>opt. opt) opts
            \<lparr>lro_containerDefaultLimit = [(''cpu'', ''750m''), (''memory'', ''2Gi'')],
             lro_containerDefaultRequestLimit = [(''cpu'', ''100m''), (''memory'', ''256Mi'')],
             lro_containerMaxLimit = [(''cpu'', ''1''), (''memory'', ''3Gi'')]\<rparr>
      in with_spec [\<lparr>lri_Type = ''Container'', lri_Default = lro_containerDefaultLimit lro,
           lri_DefaultRequest = lro_containerDefaultRequestLimit lro, lri_Max = lro_containerMaxLimit lro\<rparr>])"

section \<open>Loading and persisting accounts\<close>

record 'w run_client =
  rc_Clock :: "'w clock"
  rc_Namespace :: "(unit, 'w) object_client"
  rc_LimitRange :: "(limit_range_item list, 'w) object_client"
  rc_NetworkPolicy :: "(network_policy_spec, 'w) object_client"
  rc_ConfigMap :: "(configmap, 'w) object_client"
  rc_ServiceAccount :: "(service_account_body, 'w) object_client"
  rc_Secret :: "(secret_body, 'w) object_client"
  rc_Role :: "(rbac_rule list, 'w) object_client"
  rc_RoleBinding :: "(role_binding_body, 'w) object_client"

definition ServiceAccountDefaultTokenSecretLoadTimeout :: int where
  "ServiceAccountDefaultTokenSecretLoadTimeout = 120 * 10 ^ 9"

definition ServiceAccountDefaultTokenSecretLoadBackoffFrequency :: int where
  "ServiceAccountDefaultTokenSecretLoadBackoffFrequency = 250 * 10 ^ 6"

text \<open>One attempt; the state is the outer \<open>ok\<close> and the account.\<close>

definition load_attempt :: "'w run_client \<Rightarrow> bool \<times> service_account \<Rightarrow> 'w \<Rightarrow> (retry_error \<times> (bool \<times> service_account)) \<times> 'w" where
  "load_attempt cl x w =
     (case keyed_Load (rc_ServiceAccount cl) (sa_Account (snd x)) w of
        ((Inl err, acc), w1) \<Rightarrow> ((RetryPermanent (Some err), fst x, (snd x)\<lparr>sa_Account := acc\<rparr>), w1)
      | ((Inr found, acc), w1) \<Rightarrow>
          if \<not> found then ((RetryPermanent None, fst x, (snd x)\<lparr>sa_Account := acc\<rparr>), w1)
          else
            (case loadDefaultTokenSecret (rc_Secret cl) ((snd x)\<lparr>sa_Account := acc\<rparr>) w1 of
               ((Inl err, sa), w2) \<Rightarrow> ((RetryTransient (Some err), fst x, sa), w2)
             | ((Inr _, sa), w2) \<Rightarrow> ((RetryPermanent None, True, sa), w2)))"

text \<open>\<open>None\<close> where the loop never ends.\<close>

definition ServiceAccount_Load :: "'w run_client \<Rightarrow> service_account \<Rightarrow> 'w \<Rightarrow> ((bool res \<times> service_account) \<times> 'w) option" where
  "ServiceAccount_Load cl sa w =
     Option.bind (Retry (context_until (rc_Clock cl) (ck_Now (rc_Clock cl) w + ServiceAccountDefaultTokenSecretLoadTimeout)
           ServiceAccountDefaultTokenSecretLoadBackoffFrequency) (load_attempt cl) (False, sa) w)
       (\<lambda>((err, (ok, sa')), w'). Some ((case err of None \<Rightarrow> Inr ok | Some e \<Rightarrow> Inl e, sa'), w'))"

definition ServiceAccount_Persist :: "'w run_client \<Rightarrow> service_account \<Rightarrow> 'w \<Rightarrow> ((unit res \<times> service_account) \<times> 'w) option" where
  "ServiceAccount_Persist cl sa w =
     (case keyed_Persist (rc_ServiceAccount cl) (sa_Account sa) w of
        ((Inl err, acc), w1) \<Rightarrow> Some ((Inl err, sa\<lparr>sa_Account := acc\<rparr>), w1)
      | ((Inr _, acc), w1) \<Rightarrow>
          Option.bind (ServiceAccount_Load cl (sa\<lparr>sa_Account := acc\<rparr>) w1) (\<lambda>((r, sa'), w2).
            Some ((case r of Inl err \<Rightarrow> Inl err | Inr ok \<Rightarrow> if ok then Inr () else Inl ErrRequired, sa'), w2)))"

definition with_automount :: "bool \<Rightarrow> service_account \<Rightarrow> service_account" where
  "with_automount b sa = sa\<lparr>sa_Account := with_spec ((o_Body (kd_Object (sa_Account sa)))\<lparr>sab_Automount := Some b\<rparr>) (sa_Account sa)\<rparr>"

definition ConfigureMetadataAPIServiceAccount :: "service_account \<Rightarrow> service_account" where
  "ConfigureMetadataAPIServiceAccount = with_automount False"

definition ConfigureUntrustedServiceAccount :: "service_account \<Rightarrow> service_account" where
  "ConfigureUntrustedServiceAccount = with_automount False"

section \<open>The dependencies (\<open>workflowrundeps.go\<close>)\<close>

record run_deps =
  rd_WorkflowRun :: workflow_run
  rd_Namespace :: "unit keyed"
  rd_LimitRange :: "limit_range_item list keyed option"
  rd_NetworkPolicy :: "network_policy option"
  rd_ImmutableConfigMap :: "configmap keyed"
  rd_MutableConfigMap :: "configmap keyed"
  rd_MetadataAPIURL :: string
  rd_MetadataAPIServiceAccount :: service_account
  rd_MetadataAPIRole :: "rbac_rule list keyed"
  rd_MetadataAPIRoleBinding :: "role_binding_body keyed"
  rd_PipelineServiceAccount :: service_account
  rd_UntrustedServiceAccount :: service_account

definition WorkflowRunDepsWithStandaloneMode :: "bool \<Rightarrow> run_deps \<Rightarrow> run_deps" where
  "WorkflowRunDepsWithStandaloneMode standalone wrd =
     (if standalone then wrd\<lparr>rd_NetworkPolicy := None, rd_LimitRange := None\<rparr> else wrd)"

definition empty_role_binding :: role_binding_body where
  "empty_role_binding = \<lparr>rbb_RoleRef = \<lparr>rf_Kind = [], rf_APIGroup = [], rf_Name = []\<rparr>, rbb_Subjects = []\<rparr>"

definition NewWorkflowRunDeps :: "workflow_run \<Rightarrow> string \<Rightarrow> (run_deps \<Rightarrow> run_deps) list \<Rightarrow> run_deps" where
  "NewWorkflowRunDeps wr metadataAPIURL opts =
     (let key = wr_Key wr in
      fold (\<lambda>opt. opt) opts
        \<lparr>rd_WorkflowRun = wr,
         rd_Namespace = new_keyed () \<lparr>key_Namespace = [], key_Name = key_Namespace key\<rparr>,
         rd_LimitRange = Some (new_keyed [] key),
         rd_NetworkPolicy = Some (NewNetworkPolicy key),
         rd_ImmutableConfigMap = new_keyed empty_configmap (SuffixObjectKey key ''immutable''),
         rd_MutableConfigMap = new_keyed empty_configmap (SuffixObjectKey key ''mutable''),
         rd_MetadataAPIURL = metadataAPIURL,
         rd_MetadataAPIServiceAccount = NewServiceAccount (SuffixObjectKey key ''metadata-api''),
         rd_MetadataAPIRole = new_keyed [] (SuffixObjectKey key ''metadata-api''),
         rd_MetadataAPIRoleBinding = new_keyed empty_role_binding (SuffixObjectKey key ''metadata-api''),
         rd_PipelineServiceAccount = NewServiceAccount (SuffixObjectKey key ''pipeline''),
         rd_UntrustedServiceAccount = NewServiceAccount (SuffixObjectKey key ''untrusted'')\<rparr>)"

text \<open>An operation on one field of the dependencies. \<open>None\<close> is a wait that never ends.\<close>

type_synonym ('r, 'd, 'w) stepped = "'d \<Rightarrow> 'w \<Rightarrow> (('r res \<times> 'd) \<times> 'w) option"

definition on_field :: "('d \<Rightarrow> 'x) \<Rightarrow> (('x \<Rightarrow> 'x) \<Rightarrow> 'd \<Rightarrow> 'd) \<Rightarrow> ('r, 'x, 'w) stepped \<Rightarrow> ('r, 'd, 'w) stepped" where
  "on_field get update f d w = Option.bind (f (get d) w) (\<lambda>((r, x), w'). Some ((r, update (\<lambda>_. x) d), w'))"

definition if_present :: "'r \<Rightarrow> ('r, 'x, 'w) stepped \<Rightarrow> ('r, 'x option, 'w) stepped" where
  "if_present r f x w =
     (case x of
        None \<Rightarrow> Some ((Inr r, None), w)
      | Some y \<Rightarrow> Option.bind (f y w) (\<lambda>((r', y'), w'). Some ((r', Some y'), w')))"

definition required :: "(bool, 'x, 'w) stepped \<Rightarrow> (bool, 'x, 'w) stepped" where
  "required f x w =
     Option.bind (f x w) (\<lambda>((r, x'), w').
       Some ((case r of Inl err \<Rightarrow> Inl err | Inr ok \<Rightarrow> if ok then Inr True else Inl ErrRequired, x'), w'))"

fun load_fields :: "bool \<Rightarrow> (bool, 'd, 'w) stepped list \<Rightarrow> (bool, 'd, 'w) stepped" where
  "load_fields all [] d w = Some ((Inr all, d), w)"
| "load_fields all (f # fs) d w =
     Option.bind (f d w) (\<lambda>((r, d'), w').
       case r of Inl err \<Rightarrow> Some ((Inl err, d'), w') | Inr ok \<Rightarrow> load_fields (all \<and> ok) fs d' w')"

fun persist_fields :: "(unit, 'd, 'w) stepped list \<Rightarrow> (unit, 'd, 'w) stepped" where
  "persist_fields [] d w = Some ((Inr (), d), w)"
| "persist_fields (f # fs) d w =
     Option.bind (f d w) (\<lambda>((r, d'), w').
       case r of Inl err \<Rightarrow> Some ((Inl err, d'), w') | Inr _ \<Rightarrow> persist_fields fs d' w')"

definition loads :: "('a, 'w) object_client \<Rightarrow> (bool, 'a keyed, 'w) stepped" where
  "loads cl x w = Some (keyed_Load cl x w)"

definition persists :: "('a, 'w) object_client \<Rightarrow> (unit, 'a keyed, 'w) stepped" where
  "persists cl x w = Some (keyed_Persist cl x w)"

definition deps_loaders :: "'w run_client \<Rightarrow> (bool, run_deps, 'w) stepped list" where
  "deps_loaders cl =
     [on_field rd_Namespace rd_Namespace_update (required (loads (rc_Namespace cl))),
      on_field rd_LimitRange rd_LimitRange_update (if_present True (loads (rc_LimitRange cl))),
      on_field rd_NetworkPolicy rd_NetworkPolicy_update (if_present True (loads (rc_NetworkPolicy cl))),
      on_field rd_ImmutableConfigMap rd_ImmutableConfigMap_update (loads (rc_ConfigMap cl)),
      on_field rd_MutableConfigMap rd_MutableConfigMap_update (loads (rc_ConfigMap cl)),
      on_field rd_MetadataAPIServiceAccount rd_MetadataAPIServiceAccount_update (ServiceAccount_Load cl),
      on_field rd_MetadataAPIRole rd_MetadataAPIRole_update (loads (rc_Role cl)),
      on_field rd_MetadataAPIRoleBinding rd_MetadataAPIRoleBinding_update (loads (rc_RoleBinding cl)),
      on_field rd_PipelineServiceAccount rd_PipelineServiceAccount_update (ServiceAccount_Load cl),
      on_field rd_UntrustedServiceAccount rd_UntrustedServiceAccount_update (ServiceAccount_Load cl)]"

definition WorkflowRunDeps_Load :: "'w run_client \<Rightarrow> (bool, run_deps, 'w) stepped" where
  "WorkflowRunDeps_Load cl = load_fields True (deps_loaders cl)"

definition deps_persisters :: "'w run_client \<Rightarrow> (unit, run_deps, 'w) stepped list" where
  "deps_persisters cl =
     [on_field rd_LimitRange rd_LimitRange_update (if_present () (persists (rc_LimitRange cl))),
      on_field rd_NetworkPolicy rd_NetworkPolicy_update (if_present () (persists (rc_NetworkPolicy cl))),
      on_field rd_ImmutableConfigMap rd_ImmutableConfigMap_update (persists (rc_ConfigMap cl)),
      on_field rd_MutableConfigMap rd_MutableConfigMap_update (persists (rc_ConfigMap cl)),
      on_field rd_MetadataAPIServiceAccount rd_MetadataAPIServiceAccount_update (ServiceAccount_Persist cl),
      on_field rd_MetadataAPIRole rd_MetadataAPIRole_update (persists (rc_Role cl)),
      on_field rd_MetadataAPIRoleBinding rd_MetadataAPIRoleBinding_update (persists (rc_RoleBinding cl)),
      on_field rd_PipelineServiceAccount rd_PipelineServiceAccount_update (ServiceAccount_Persist cl),
      on_field rd_UntrustedServiceAccount rd_UntrustedServiceAccount_update (ServiceAccount_Persist cl)]"

definition WorkflowRunDeps_Persist :: "'w run_client \<Rightarrow> (unit, run_deps, 'w) stepped" where
  "WorkflowRunDeps_Persist cl = persist_fields (deps_persisters cl)"

section \<open>Configuring the dependencies\<close>

definition owned :: "workflow_run \<Rightarrow> ('d \<Rightarrow> 'a keyed) \<Rightarrow> (('a keyed \<Rightarrow> 'a keyed) \<Rightarrow> 'd \<Rightarrow> 'd) \<Rightarrow> 'd \<Rightarrow> unit res \<times> 'd" where
  "owned wr get update d = (case WorkflowRun_Own wr (get d) of (r, x) \<Rightarrow> (r, update (\<lambda>_. x) d))"

definition owned_if_present :: "workflow_run \<Rightarrow> ('d \<Rightarrow> 'a keyed option) \<Rightarrow> (('a keyed option \<Rightarrow> 'a keyed option) \<Rightarrow> 'd \<Rightarrow> 'd) \<Rightarrow> 'd \<Rightarrow> unit res \<times> 'd" where
  "owned_if_present wr get update d =
     (case get d of None \<Rightarrow> (Inr (), d) | Some x \<Rightarrow> (case WorkflowRun_Own wr x of (r, x') \<Rightarrow> (r, update (\<lambda>_. Some x') d)))"

fun own_fields :: "('d \<Rightarrow> unit res \<times> 'd) list \<Rightarrow> 'd \<Rightarrow> unit res \<times> 'd" where
  "own_fields [] d = (Inr (), d)"
| "own_fields (f # fs) d = (case f d of (Inl err, d') \<Rightarrow> (Inl err, d') | (Inr _, d') \<Rightarrow> own_fields fs d')"

abbreviation on_account :: "(service_account_body keyed \<Rightarrow> service_account_body keyed) \<Rightarrow> service_account \<Rightarrow> service_account" where
  "on_account \<equiv> sa_Account_update"

definition own_deps :: "run_deps \<Rightarrow> unit res \<times> run_deps" where
  "own_deps d =
     (let wr = rd_WorkflowRun d in
      own_fields
        [owned wr rd_ImmutableConfigMap rd_ImmutableConfigMap_update,
         owned wr rd_MutableConfigMap rd_MutableConfigMap_update,
         owned wr (\<lambda>d. sa_Account (rd_MetadataAPIServiceAccount d)) (\<lambda>f. rd_MetadataAPIServiceAccount_update (on_account f)),
         owned wr rd_MetadataAPIRole rd_MetadataAPIRole_update,
         owned wr rd_MetadataAPIRoleBinding rd_MetadataAPIRoleBinding_update,
         owned wr (\<lambda>d. sa_Account (rd_PipelineServiceAccount d)) (\<lambda>f. rd_PipelineServiceAccount_update (on_account f)),
         owned wr (\<lambda>d. sa_Account (rd_UntrustedServiceAccount d)) (\<lambda>f. rd_UntrustedServiceAccount_update (on_account f)),
         owned_if_present wr rd_LimitRange rd_LimitRange_update,
         owned_if_present wr rd_NetworkPolicy rd_NetworkPolicy_update] d)"

definition label_deps :: "run_deps \<Rightarrow> run_deps" where
  "label_deps d =
     (let copy = (\<lambda>m. CopyLabelsAndAnnotations (wr_Meta (rd_WorkflowRun d)) m) in
      d\<lparr>rd_ImmutableConfigMap := on_meta copy (rd_ImmutableConfigMap d),
        rd_MutableConfigMap := on_meta copy (rd_MutableConfigMap d),
        rd_MetadataAPIServiceAccount := on_account (on_meta copy) (rd_MetadataAPIServiceAccount d),
        rd_MetadataAPIRole := on_meta copy (rd_MetadataAPIRole d),
        rd_PipelineServiceAccount := on_account (on_meta copy) (rd_PipelineServiceAccount d),
        rd_UntrustedServiceAccount := on_account (on_meta copy) (rd_UntrustedServiceAccount d)\<rparr>)"

definition configure_access :: "run_deps \<Rightarrow> run_deps" where
  "configure_access d =
     (let sa = ConfigureMetadataAPIServiceAccount (rd_MetadataAPIServiceAccount d);
          role = ConfigureMetadataAPIRole (rd_ImmutableConfigMap d) (rd_MutableConfigMap d) (rd_MetadataAPIRole d)
      in d\<lparr>rd_MetadataAPIServiceAccount := sa,
           rd_MetadataAPIRole := role,
           rd_MetadataAPIRoleBinding := ConfigureMetadataAPIRoleBinding sa role (rd_MetadataAPIRoleBinding d),
           rd_PipelineServiceAccount := ConfigureUntrustedServiceAccount (rd_PipelineServiceAccount d),
           rd_UntrustedServiceAccount := ConfigureUntrustedServiceAccount (rd_UntrustedServiceAccount d)\<rparr>)"

text \<open>\<open>None\<close> is a panic of configuring the ConfigMaps.\<close>

definition ConfigureWorkflowRunDeps :: "golib \<Rightarrow> run_deps \<Rightarrow> ((goerror + unit) \<times> run_deps) option" where
  "ConfigureWorkflowRunDeps lib d =
     (let wr = rd_WorkflowRun d in
      case own_deps d of
        (Inl err, d1) \<Rightarrow> Some (Inl (plain_error err), d1)
      | (Inr _, d1) \<Rightarrow>
          (let d2 = label_deps d1;
               d3 = d2\<lparr>rd_LimitRange := map_option (ConfigureLimitRange []) (rd_LimitRange d2),
                       rd_NetworkPolicy := map_option (ConfigureNetworkPolicyForWorkflowRun [] wr) (rd_NetworkPolicy d2)\<rparr> in
           case ConfigureImmutableConfigMapForWorkflowRun lib wr (o_Body (kd_Object (rd_ImmutableConfigMap d3))) of
             None \<Rightarrow> None
           | Some (Inl err, cm) \<Rightarrow> Some (Inl err, d3\<lparr>rd_ImmutableConfigMap := with_spec cm (rd_ImmutableConfigMap d3)\<rparr>)
           | Some (Inr _, cm) \<Rightarrow>
               (let d4 = d3\<lparr>rd_ImmutableConfigMap := with_spec cm (rd_ImmutableConfigMap d3)\<rparr> in
                case ConfigureMutableConfigMapForWorkflowRun wr (o_Body (kd_Object (rd_MutableConfigMap d4))) of
                  None \<Rightarrow> None
                | Some (Inl err, cm') \<Rightarrow> Some (Inl err, d4\<lparr>rd_MutableConfigMap := with_spec cm' (rd_MutableConfigMap d4)\<rparr>)
                | Some (Inr _, cm') \<Rightarrow>
                    Some (Inr (), configure_access (d4\<lparr>rd_MutableConfigMap := with_spec cm' (rd_MutableConfigMap d4)\<rparr>)))))"

text \<open>Here \<open>None\<close> is a panic or a wait that never ends.\<close>

definition ApplyWorkflowRunDeps :: "'w run_client \<Rightarrow> golib \<Rightarrow> workflow_run \<Rightarrow> string \<Rightarrow> (run_deps \<Rightarrow> run_deps) list \<Rightarrow> 'w \<Rightarrow>
    ((goerror + run_deps) \<times> 'w) option" where
  "ApplyWorkflowRunDeps cl lib wr metadataAPIURL opts w =
     Option.bind (WorkflowRunDeps_Load cl (NewWorkflowRunDeps wr metadataAPIURL opts) w) (\<lambda>((r, d), w1).
       case r of
         Inl err \<Rightarrow> Some (Inl (plain_error err), w1)
       | Inr _ \<Rightarrow>
           Option.bind (ConfigureWorkflowRunDeps lib d) (\<lambda>(r, d1).
             case r of
               Inl err \<Rightarrow> Some (Inl err, w1)
             | Inr _ \<Rightarrow>
                 Option.bind (WorkflowRunDeps_Persist cl d1 w1) (\<lambda>((r, d2), w2).
                   Some (case r of Inl err \<Rightarrow> Inl (plain_error err) | Inr _ \<Rightarrow> Inr d2, w2))))"

section \<open>The reconciler (\<open>pkg/reconciler/workflow\<close>)\<close>

text \<open>The dependencies as the pipeline uses them. \<open>None\<close> is the nil dereference of an account without a token secret.\<close>

definition pipeline_deps_of :: "run_deps \<Rightarrow> pipeline_deps option" where
  "pipeline_deps_of d =
     (case sa_DefaultTokenSecret (rd_MetadataAPIServiceAccount d) of
        None \<Rightarrow> None
      | Some sats \<Rightarrow>
          Some \<lparr>pd_WorkflowRun = rd_WorkflowRun d, pd_NamespaceName = key_Name (kd_Key (rd_Namespace d)),
                pd_NamespaceUID = om_UID (o_Meta (kd_Object (rd_Namespace d))),
                pd_TokenData = sb_Data (o_Body (kd_Object sats)),
                pd_ImmutableConfigMap = kd_Key (rd_ImmutableConfigMap d), pd_MutableConfigMap = kd_Key (rd_MutableConfigMap d),
                pd_MetadataAPIURL = rd_MetadataAPIURL d\<rparr>)"

record 'w workflow_env =
  we_Client :: "'w run_client"
  we_Tekton :: "'w tekton_client"
  we_GetRun :: "object_key \<Rightarrow> 'w \<Rightarrow> workflow_run res \<times> 'w"
  we_UpdateStatus :: "workflow_run \<Rightarrow> 'w \<Rightarrow> unit res \<times> 'w"
  we_UploadLog :: "string \<Rightarrow> string \<Rightarrow> string \<Rightarrow> 'w \<Rightarrow> string res \<times> 'w"
  we_Issuing :: "'w issuing"
  we_Lib :: golib
  we_ConditionScript :: string
  we_MetadataAPIURL :: string
  we_Standalone :: bool

fun marked_string :: "marked \<Rightarrow> string" where
  "marked_string (Plain err) = error_string err"
| "marked_string (TransientError m) = ''transient: '' @ marked_string m"
| "marked_string (UserError m) = marked_string m"

definition failed_to :: "string \<Rightarrow> goerror \<Rightarrow> goerror" where
  "failed_to what err = MapLast err (\<lambda>m. Plain (OtherError (''failed to '' @ what @ '': '' @ marked_string m)))"

definition startup :: "'w workflow_env \<Rightarrow> workflow_run \<Rightarrow> 'w \<Rightarrow> ((goerror + pipeline_run_body keyed) \<times> 'w) option" where
  "startup we wr w =
     Option.bind (ApplyWorkflowRunDeps (we_Client we) (we_Lib we) wr (we_MetadataAPIURL we)
         [WorkflowRunDepsWithStandaloneMode (we_Standalone we)] w) (\<lambda>(r, w1).
       case r of
         Inl err \<Rightarrow> Some (Inl (failed_to ''apply dependencies'' (MarkTransient err [\<lambda>m. TransientRuleExact m (Plain ErrRequired)])), w1)
       | Inr d \<Rightarrow>
           Option.bind (pipeline_deps_of d) (\<lambda>pd.
             case ApplyPipeline (we_Tekton we) (we_ConditionScript we) (we_Issuing we) pd w1 of
               (Inl err, w2) \<Rightarrow> Some (Inl (failed_to ''apply Pipeline'' (plain_error err)), w2)
             | (Inr p, w2) \<Rightarrow>
                 (case ApplyPipelineRun (we_Tekton we) wr p w2 of
                    (Inl err, w3) \<Rightarrow> Some (Inl (failed_to ''apply Pipeline'' (plain_error err)), w3)
                  | (Inr pr, w3) \<Rightarrow> Some (Inr pr, w3))))"

definition reconciled :: "goerror option \<Rightarrow> 'w \<Rightarrow> ((reconcile_result \<times> goerror option) \<times> 'w) option" where
  "reconciled err w = Some ((\<lparr>Requeue = False, RequeueAfter = 0\<rparr>, err), w)"

definition Workflow_Reconcile :: "'w workflow_env \<Rightarrow> request \<Rightarrow> 'w \<Rightarrow> ((reconcile_result \<times> goerror option) \<times> 'w) option" where
  "Workflow_Reconcile we req w =
     (let key = \<lparr>key_Namespace = Req_Namespace req, key_Name = Req_Name req\<rparr> in
      case we_GetRun we key w of
        (Inl err, w1) \<Rightarrow> if IsNotFound err then reconciled None w1 else reconciled (Some (failed_to ''load dependencies'' (plain_error err))) w1
      | (Inr found, w1) \<Rightarrow>
          (let wr = found\<lparr>wr_Key := key\<rparr> in
          if om_Deleting (wr_Meta wr) then reconciled None w1
          else if wr_Steps wr = [] then
            (case we_UpdateStatus we (wr\<lparr>wr_Status := Complete_status (is_Now (we_Issuing we) w1) (wr_Status wr)\<rparr>) w1 of
               (Inl err, w2) \<Rightarrow> reconciled (Some (plain_error err)) w2
             | (Inr _, w2) \<Rightarrow> reconciled None w2)
          else
            Option.bind (startup we wr w1) (\<lambda>(r, w2).
              case r of
                Inl err \<Rightarrow> reconciled (Some err) w2
              | Inr pr \<Rightarrow>
                  (case uploadLogs (\<lambda>pod. we_UploadLog we (key_Namespace (kd_Key pr)) pod ''step-step'') wr (prb_Status (o_Body (kd_Object pr))) w2 of
                     (wr1, w3) \<Rightarrow>
                       (case we_UpdateStatus we (ConfigureWorkflowRun wr1 (prb_Status (o_Body (kd_Object pr)))) w3 of
                          (Inl err, w4) \<Rightarrow> reconciled (Some (failed_to ''persist WorkflowRun'' (plain_error err))) w4
                        | (Inr _, w4) \<Rightarrow> reconciled None w4)))))"

end
