(* ===== verification/Run_Deps_Props.thy ===== *)
theory Run_Deps_Props
  imports Run_Deps Network_Policy_Props
begin

text \<open>
  The dependencies of a run: waiting for the token of an account ends, the keys of the objects stay what they
  were made with, and the metadata API gets access to the two ConfigMaps of the run and to nothing else.
\<close>

section \<open>Retrying ends\<close>

lemma retry_until_returns:
  assumes wait: "\<And>w. ck_Now ck w + freq \<le> ck_Now ck (ck_Wait ck freq w)" and "0 < freq"
    and fn: "\<And>x w rt x' w'. fn x w = ((rt, x'), w') \<Longrightarrow> ck_Now ck w \<le> ck_Now ck w'"
  shows "\<exists>out. retry_until (context_until ck deadline freq) fn st w = Some out"
proof (induction "nat (deadline - ck_Now ck w)" arbitrary: st w rule: less_induct)
  case less
  let ?cx = "context_until ck deadline freq"
  obtain rt x' w' where f: "fn (snd st) w = ((rt, x'), w')" by (metis prod.collapse)
  show ?case
  proof (cases "cx_Expired ?cx w \<or> \<not> re_Transient rt \<or> re_Cause rt = None")
    case False
    have "ck_Now ck w < ck_Now ck (ck_Wait ck freq w')" using fn [OF f] wait [of w'] \<open>0 < freq\<close> by linarith
    then have "nat (deadline - ck_Now ck (cx_Pause ?cx w')) < nat (deadline - ck_Now ck w)"
      using False by (auto simp: context_until_def)
    from less [OF this] False f show ?thesis by (simp add: retry_until.simps [of ?cx fn st w])
  qed (auto simp: retry_until.simps [of ?cx fn st w] f)
qed

text \<open>An invariant of the state of the function that is retried.\<close>

lemma retry_until_invariant:
  assumes "\<And>x w rt x' w'. P x \<Longrightarrow> fn x w = ((rt, x'), w') \<Longrightarrow> P x'"
    and "retry_until cx fn st w = Some out" "P (snd st)"
  shows "P (snd (fst out))"
proof -
  have "retry_until cx f st w = Some out \<Longrightarrow> f = fn \<longrightarrow> P (snd st) \<longrightarrow> P (snd (fst out))" for cx f st w out
    by (erule retry_until.raw_induct [rotated]) (fastforce dest: assms(1) split: if_splits prod.splits)
  with assms(2,3) show ?thesis by blast
qed

lemma Retry_invariant:
  assumes "\<And>x w rt x' w'. P x \<Longrightarrow> fn x w = ((rt, x'), w') \<Longrightarrow> P x'" "Retry cx fn x w = Some ((err, x'), w')" "P x"
  shows "P x'"
proof -
  obtain e w1 where "retry_until cx fn (None, x) w = Some ((e, x'), w1)"
    using assms(2) by (auto simp: Retry_def split: bind_splits)
  from retry_until_invariant [of P fn, OF assms(1) this] assms(3) show ?thesis by simp
qed

section \<open>Accounts\<close>

abbreviation account_key :: "service_account \<Rightarrow> object_key" where "account_key sa \<equiv> kd_Key (sa_Account sa)"

lemma keyed_Load_keeps: "keyed_Load cl x w = ((r, x'), w') \<Longrightarrow> kd_Key x' = kd_Key x"
  by (auto simp: keyed_Load_def split: prod.splits)

lemma keyed_Persist_keeps: "keyed_Persist cl x w = ((r, x'), w') \<Longrightarrow> kd_Key x' = kd_Key x"
  by (auto simp: keyed_Persist_def split: prod.splits)

lemma loadDefaultTokenSecret_keeps:
  "loadDefaultTokenSecret cl sa w = ((r, sa'), w') \<Longrightarrow>
     sa_Account sa' = sa_Account sa \<and> (r = Inr () \<or> sa_DefaultTokenSecret sa \<noteq> None \<longrightarrow> sa_DefaultTokenSecret sa' \<noteq> None)"
  by (auto simp: loadDefaultTokenSecret_def Let_def split: list.splits if_splits prod.splits)

text \<open>What is known of an account while it is loaded.\<close>

definition account_loading :: "object_key \<Rightarrow> bool \<times> service_account \<Rightarrow> bool" where
  "account_loading key x \<longleftrightarrow> account_key (snd x) = key \<and> (fst x \<longrightarrow> sa_DefaultTokenSecret (snd x) \<noteq> None)"

lemma load_attempt_keeps:
  assumes "account_loading key x" "load_attempt cl x w = ((rt, x'), w')"
  shows "account_loading key x'"
proof -
  obtain r acc w1 where l: "keyed_Load (rc_ServiceAccount cl) (sa_Account (snd x)) w = ((r, acc), w1)" by (metis prod.collapse)
  obtain r2 sa w2 where d: "loadDefaultTokenSecret (rc_Secret cl) ((snd x)\<lparr>sa_Account := acc\<rparr>) w1 = ((r2, sa), w2)" by (metis prod.collapse)
  from assms keyed_Load_keeps [OF l] loadDefaultTokenSecret_keeps [OF d] show ?thesis
    by (auto simp: account_loading_def load_attempt_def l d split: sum.splits if_splits)
qed

lemma ServiceAccount_Load_keeps:
  assumes "ServiceAccount_Load cl sa w = Some ((r, sa'), w')"
  shows "account_key sa' = account_key sa" and "r = Inr True \<Longrightarrow> sa_DefaultTokenSecret sa' \<noteq> None"
proof -
  obtain err ok where e: "Retry (context_until (rc_Clock cl) (ck_Now (rc_Clock cl) w + ServiceAccountDefaultTokenSecretLoadTimeout)
      ServiceAccountDefaultTokenSecretLoadBackoffFrequency) (load_attempt cl) (False, sa) w = Some ((err, (ok, sa')), w')"
    and r: "r = (case err of None \<Rightarrow> Inr ok | Some e \<Rightarrow> Inl e)"
    using assms by (auto simp: ServiceAccount_Load_def split: bind_splits)
  have "account_loading (account_key sa) (ok, sa')"
    by (rule Retry_invariant [of "account_loading (account_key sa)", OF load_attempt_keeps e]) (auto simp: account_loading_def)
  then show "account_key sa' = account_key sa" "r = Inr True \<Longrightarrow> sa_DefaultTokenSecret sa' \<noteq> None"
    by (auto simp: account_loading_def r split: option.splits)
qed

lemma ServiceAccount_Persist_keeps:
  assumes "ServiceAccount_Persist cl sa w = Some ((r, sa'), w')"
  shows "account_key sa' = account_key sa" and "r = Inr () \<Longrightarrow> sa_DefaultTokenSecret sa' \<noteq> None"
proof -
  obtain r1 acc w1 where p: "keyed_Persist (rc_ServiceAccount cl) (sa_Account sa) w = ((r1, acc), w1)" by (metis prod.collapse)
  show "account_key sa' = account_key sa" "r = Inr () \<Longrightarrow> sa_DefaultTokenSecret sa' \<noteq> None"
    using assms keyed_Persist_keeps [OF p]
    by (auto simp: ServiceAccount_Persist_def p split: sum.splits bind_splits if_splits dest: ServiceAccount_Load_keeps)
qed

section \<open>Keys\<close>

definition deps_keys :: "run_deps \<Rightarrow> workflow_run \<times> object_key list" where
  "deps_keys d = (rd_WorkflowRun d,
     [kd_Key (rd_ImmutableConfigMap d), kd_Key (rd_MutableConfigMap d), account_key (rd_MetadataAPIServiceAccount d),
      kd_Key (rd_MetadataAPIRole d), kd_Key (rd_MetadataAPIRoleBinding d), account_key (rd_PipelineServiceAccount d),
      account_key (rd_UntrustedServiceAccount d)])"

definition keeps_keys :: "('r, run_deps, 'w) stepped \<Rightarrow> bool" where
  "keeps_keys f \<longleftrightarrow> (\<forall>d w r d' w'. f d w = Some ((r, d'), w') \<longrightarrow> deps_keys d' = deps_keys d)"

lemma load_fields_invariant:
  "\<forall>f \<in> set fs. \<forall>d w r d' w'. f d w = Some ((r, d'), w') \<longrightarrow> p d' = p d \<Longrightarrow>
   load_fields all fs d w = Some ((r, d'), w') \<Longrightarrow> p d' = p d"
proof (induction fs arbitrary: all d w)
  case (Cons f fs)
  from Cons.prems(2) obtain r1 d1 w1 where f: "f d w = Some ((r1, d1), w1)" by (auto split: bind_splits)
  then have "p d1 = p d" using Cons.prems(1) by fastforce
  with f Cons show ?case by (cases r1) auto
qed simp

lemma load_fields_keys:
  "\<forall>f \<in> set fs. keeps_keys f \<Longrightarrow> load_fields all fs d w = Some ((r, d'), w') \<Longrightarrow> deps_keys d' = deps_keys d"
  by (rule load_fields_invariant) (auto simp: keeps_keys_def)

lemma keeps_keys_field:
  assumes "\<And>x w r x' w'. f x w = Some ((r, x'), w') \<Longrightarrow> k x' = k x"
    and "\<And>d x. k x = k (get d) \<Longrightarrow> deps_keys (update (\<lambda>_. x) d) = deps_keys d"
  shows "keeps_keys (on_field get update f)"
  using assms by (fastforce simp: keeps_keys_def on_field_def split: bind_splits)

lemma loads_keeps: "loads cl x w = Some ((r, x'), w') \<Longrightarrow> kd_Key x' = kd_Key x"
  by (simp add: loads_def keyed_Load_keeps)

lemma Load_keys:
  assumes "WorkflowRunDeps_Load cl d w = Some ((r, d'), w')"
  shows "deps_keys d' = deps_keys d"
proof (rule load_fields_keys [OF _ assms [unfolded WorkflowRunDeps_Load_def]])
  note account = keeps_keys_field [where k = account_key, OF ServiceAccount_Load_keeps(1)]
    and keyed = keeps_keys_field [where k = kd_Key, OF loads_keeps]
    and other = keeps_keys_field [where k = "\<lambda>_. ()", OF refl]
  show "\<forall>f \<in> set (deps_loaders cl). keeps_keys f"
    by (simp add: deps_loaders_def deps_keys_def account keyed other)
qed

lemma Own_key: "WorkflowRun_Own wr x = (r, x') \<Longrightarrow> kd_Key x' = kd_Key x"
  by (auto simp: WorkflowRun_Own_def on_meta_def split: prod.splits)

lemma own_fields_keys:
  "\<forall>f \<in> set fs. \<forall>d r d'. f d = (r, d') \<longrightarrow> deps_keys d' = deps_keys d \<Longrightarrow> own_fields fs d = (r, d') \<Longrightarrow> deps_keys d' = deps_keys d"
proof (induction fs arbitrary: d)
  case (Cons f fs)
  obtain r1 d1 where f: "f d = (r1, d1)" by fastforce
  with Cons show ?case by (cases r1) auto
qed simp

lemma own_deps_keys:
  assumes "own_deps d = (r, d')"
  shows "deps_keys d' = deps_keys d"
proof (rule own_fields_keys [OF _ assms [unfolded own_deps_def Let_def]])
qed (auto simp: owned_def owned_if_present_def deps_keys_def split: prod.splits option.splits dest!: Own_key)

lemma configured_keys:
  "deps_keys (label_deps d) = deps_keys d" "deps_keys (configure_access d) = deps_keys d"
  "deps_keys (d\<lparr>rd_LimitRange := l, rd_NetworkPolicy := n, rd_ImmutableConfigMap := with_spec cm (rd_ImmutableConfigMap d),
     rd_MutableConfigMap := with_spec cm' (rd_MutableConfigMap d)\<rparr>) = deps_keys d"
  by (simp_all add: deps_keys_def label_deps_def configure_access_def Let_def on_meta_def with_spec_def with_automount_def
      ConfigureMetadataAPIServiceAccount_def ConfigureUntrustedServiceAccount_def ConfigureMetadataAPIRole_def ConfigureMetadataAPIRoleBinding_def)

lemma Configure_access:
  assumes "ConfigureWorkflowRunDeps lib d = Some (Inr (), d')"
  obtains d1 where "d' = configure_access d1" "deps_keys d1 = deps_keys d"
  using assms own_deps_keys [of d]
  by (auto simp: ConfigureWorkflowRunDeps_def Let_def configured_keys split: prod.splits sum.splits option.splits)

section \<open>Access\<close>

text \<open>What a role and its binding let a subject do, as Kubernetes documents it.\<close>

definition grants :: "run_deps \<Rightarrow> rbac_subject \<Rightarrow> string \<Rightarrow> string \<Rightarrow> string \<Rightarrow> string \<Rightarrow> bool" where
  "grants d subject verb grp resource name \<longleftrightarrow>
     (let binding = o_Body (kd_Object (rd_MetadataAPIRoleBinding d)); covers = (\<lambda>xs x. x \<in> set xs \<or> ''*'' \<in> set xs) in
      subject \<in> set (rbb_Subjects binding) \<and>
      rbb_RoleRef binding = \<lparr>rf_Kind = ''Role'', rf_APIGroup = ''rbac.authorization.k8s.io'', rf_Name = key_Name (kd_Key (rd_MetadataAPIRole d))\<rparr> \<and>
      list_ex (\<lambda>rule. covers (rr_APIGroups rule) grp \<and> covers (rr_Resources rule) resource \<and> covers (rr_Verbs rule) verb \<and>
                 (rr_ResourceNames rule = [] \<or> name \<in> set (rr_ResourceNames rule)))
        (o_Body (kd_Object (rd_MetadataAPIRole d))))"

definition metadata_api_access :: "workflow_run \<Rightarrow> rbac_subject \<Rightarrow> string \<Rightarrow> string \<Rightarrow> string \<Rightarrow> string \<Rightarrow> bool" where
  "metadata_api_access wr subject verb grp resource name \<longleftrightarrow>
     subject = \<lparr>su_Kind = ''ServiceAccount'', su_Namespace = key_Namespace (wr_Key wr), su_Name = key_Name (wr_Key wr) @ ''-metadata-api''\<rparr> \<and>
     grp = [] \<and> resource = ''configmaps'' \<and>
     (name = key_Name (wr_Key wr) @ ''-immutable'' \<and> verb = ''get'' \<or>
      name = key_Name (wr_Key wr) @ ''-mutable'' \<and> verb \<in> {''get'', ''update''})"

lemma new_deps_keys:
  "deps_keys (NewWorkflowRunDeps wr url [WorkflowRunDepsWithStandaloneMode b]) =
     (wr, map (SuffixObjectKey (wr_Key wr)) [''immutable'', ''mutable'', ''metadata-api'', ''metadata-api'', ''metadata-api'', ''pipeline'', ''untrusted''])"
  by (simp add: NewWorkflowRunDeps_def WorkflowRunDepsWithStandaloneMode_def deps_keys_def new_keyed_def NewServiceAccount_def Let_def)

lemma access_exact:
  assumes "deps_keys d = deps_keys (NewWorkflowRunDeps wr url [WorkflowRunDepsWithStandaloneMode b])"
  shows "grants (configure_access d) subject verb grp resource name \<longleftrightarrow> metadata_api_access wr subject verb grp resource name"
  using assms unfolding new_deps_keys
  by (auto simp: deps_keys_def grants_def metadata_api_access_def configure_access_def Let_def with_spec_def with_automount_def
      ConfigureMetadataAPIServiceAccount_def ConfigureMetadataAPIRole_def ConfigureMetadataAPIRoleBinding_def SuffixObjectKey_def)

section \<open>The token\<close>

definition has_token :: "run_deps \<Rightarrow> bool" where
  "has_token d \<longleftrightarrow> sa_DefaultTokenSecret (rd_MetadataAPIServiceAccount d) \<noteq> None"

lemma persist_fields_keep:
  assumes "\<forall>f \<in> set fs. \<forall>d w r d' w'. f d w = Some ((r, d'), w') \<longrightarrow> P d \<longrightarrow> P d'"
  shows "persist_fields fs d w = Some ((r, d'), w') \<Longrightarrow> P d \<Longrightarrow> P d'"
  using assms
proof (induction fs arbitrary: d w)
  case (Cons f fs)
  from Cons.prems(1) obtain r1 d1 w1 where f: "f d w = Some ((r1, d1), w1)" by (auto split: bind_splits)
  then have "P d1" using Cons.prems(2,3) by (meson list.set_intros(1))
  with f Cons show ?case by (cases r1) auto
qed simp

lemma persist_fields_append:
  assumes "persist_fields (fs @ gs) d w = Some ((Inr (), d'), w')"
  obtains d1 w1 where "persist_fields gs d1 w1 = Some ((Inr (), d'), w')"
  using assms
proof (induction fs arbitrary: d w)
  case (Cons f fs)
  from Cons.prems(2) obtain r1 d1 w1 where f: "f d w = Some ((r1, d1), w1)" by (auto split: bind_splits)
  with Cons show ?case by (cases r1) auto
qed simp

lemma Persist_token:
  assumes "WorkflowRunDeps_Persist cl d w = Some ((Inr (), d'), w')"
  shows "has_token d'"
proof -
  let ?f = "on_field rd_MetadataAPIServiceAccount rd_MetadataAPIServiceAccount_update (ServiceAccount_Persist cl)"
  let ?gs = "drop 5 (deps_persisters cl)"
  have "deps_persisters cl = take 4 (deps_persisters cl) @ ?f # ?gs" by (simp add: deps_persisters_def)
  with assms obtain d1 w1 where p: "persist_fields (?f # ?gs) d1 w1 = Some ((Inr (), d'), w')"
    unfolding WorkflowRunDeps_Persist_def by (metis persist_fields_append)
  then obtain r d2 w2 where f: "?f d1 w1 = Some ((r, d2), w2)" by (auto split: bind_splits)
  with p have r: "r = Inr ()" "persist_fields ?gs d2 w2 = Some ((Inr (), d'), w')" by (cases r; auto)+
  from f r(1) have "has_token d2"
    by (auto simp: on_field_def has_token_def split: bind_splits dest: ServiceAccount_Persist_keeps)
  have keep: "\<forall>f \<in> set ?gs. \<forall>d w r d' w'. f d w = Some ((r, d'), w') \<longrightarrow> has_token d \<longrightarrow> has_token d'"
    by (auto simp: deps_persisters_def on_field_def has_token_def split: bind_splits)
  from persist_fields_keep [of ?gs has_token, OF keep r(2) \<open>has_token d2\<close>] show ?thesis .
qed

lemma Apply_steps:
  assumes "ApplyWorkflowRunDeps cl lib wr url opts w = Some (Inr d, w')"
  obtains ok d0 w1 d1 where "WorkflowRunDeps_Load cl (NewWorkflowRunDeps wr url opts) w = Some ((Inr ok, d0), w1)"
    "ConfigureWorkflowRunDeps lib d0 = Some (Inr (), d1)" "WorkflowRunDeps_Persist cl d1 w1 = Some ((Inr (), d), w')"
  using assms by (auto simp: ApplyWorkflowRunDeps_def split: bind_splits sum.splits prod.splits)

text \<open>C11: When the dependencies of a run have been applied, the role and the binding that were persisted let the
  metadata API's account of the run read the run's immutable ConfigMap, and read and update its mutable one; they let no
  other subject do anything, and this one nothing else. The accounts' tokens are not mounted into pods, and the token that the
  pods' own tokens carry is there, so that making the pipeline does not dereference nil.\<close>

theorem run_access_exact:
  assumes "ApplyWorkflowRunDeps cl lib wr url [WorkflowRunDepsWithStandaloneMode standalone] w = Some (Inr d, w')"
  shows "(\<exists>d1 w1. WorkflowRunDeps_Persist cl d1 w1 = Some ((Inr (), d), w') \<and>
      grants d1 = metadata_api_access wr \<and>
      map (\<lambda>sa. sab_Automount (o_Body (kd_Object (sa_Account sa))))
        [rd_MetadataAPIServiceAccount d1, rd_PipelineServiceAccount d1, rd_UntrustedServiceAccount d1] = [Some False, Some False, Some False]) \<and>
    pipeline_deps_of d \<noteq> None"
proof -
  obtain ok d0 w1 d1 where l: "WorkflowRunDeps_Load cl (NewWorkflowRunDeps wr url [WorkflowRunDepsWithStandaloneMode standalone]) w = Some ((Inr ok, d0), w1)"
    and c: "ConfigureWorkflowRunDeps lib d0 = Some (Inr (), d1)" and p: "WorkflowRunDeps_Persist cl d1 w1 = Some ((Inr (), d), w')"
    using assms by (rule Apply_steps)
  from c obtain d2 where d2: "d1 = configure_access d2" "deps_keys d2 = deps_keys d0" by (rule Configure_access)
  have "grants d1 = metadata_api_access wr"
    using access_exact [OF trans [OF d2(2) Load_keys [OF l]]] by (intro ext) (simp add: d2(1))
  moreover have "pipeline_deps_of d \<noteq> None" using Persist_token [OF p] by (auto simp: has_token_def pipeline_deps_of_def)
  ultimately show ?thesis using p
    by (auto simp: d2(1) configure_access_def Let_def ConfigureMetadataAPIServiceAccount_def ConfigureUntrustedServiceAccount_def
        with_automount_def with_spec_def)
qed

text \<open>C23: Loading a service account, which waits for its token to appear, ends if the clock goes on while waiting
  and is not turned back by requests.\<close>

theorem account_load_ends:
  assumes "\<And>f w. ck_Now (rc_Clock cl) w + f \<le> ck_Now (rc_Clock cl) (ck_Wait (rc_Clock cl) f w)"
    and "\<And>x w rt x' w'. load_attempt cl x w = ((rt, x'), w') \<Longrightarrow> ck_Now (rc_Clock cl) w \<le> ck_Now (rc_Clock cl) w'"
  shows "\<exists>r sa' w'. ServiceAccount_Load cl sa w = Some ((r, sa'), w')"
proof -
  let ?cx = "context_until (rc_Clock cl) (ck_Now (rc_Clock cl) w + ServiceAccountDefaultTokenSecretLoadTimeout) ServiceAccountDefaultTokenSecretLoadBackoffFrequency"
  have "\<exists>out. retry_until ?cx (load_attempt cl) (None, False, sa) w = Some out"
    using assms(1) _ assms(2) by (rule retry_until_returns) (simp add: ServiceAccountDefaultTokenSecretLoadBackoffFrequency_def)
  then show ?thesis by (fastforce simp: ServiceAccount_Load_def Retry_def)
qed

section \<open>Examples\<close>

text \<open>A cluster in which namespaces, accounts with a token secret, and that secret exist, and nothing else does.\<close>

definition found_at :: "'a \<Rightarrow> object_key \<Rightarrow> 'a object" where
  "found_at body key = \<lparr>o_Meta = empty_meta\<lparr>om_Namespace := key_Namespace key, om_Name := key_Name key, om_UID := ''uid''\<rparr>, o_Body = body\<rparr>"

definition client_with :: "(object_key \<Rightarrow> 'a object res) \<Rightarrow> ('a, 'w) object_client" where
  "client_with get = \<lparr>oc_Get = (\<lambda>key w. (get key, w)), oc_Create = (\<lambda>obj w. (Inr obj, w)),
     oc_Update = (\<lambda>obj w. (Inr obj, w)), oc_Delete = (\<lambda>_ w. (Inr (), w))\<rparr>"

definition nothing :: "object_key \<Rightarrow> 'a object res" where "nothing key = Inl (StatusError ''NotFound'' ''not found'')"

definition cluster_with :: "string list \<Rightarrow> int run_client" where
  "cluster_with secrets =
     \<lparr>rc_Clock = \<lparr>ck_Now = (\<lambda>w. w), ck_Wait = (\<lambda>f w. w + f)\<rparr>,
      rc_Namespace = client_with (\<lambda>key. Inr (found_at () key)),
      rc_LimitRange = client_with nothing, rc_NetworkPolicy = client_with nothing, rc_ConfigMap = client_with nothing,
      rc_ServiceAccount = client_with (\<lambda>key. Inr (found_at \<lparr>sab_Secrets = secrets, sab_Automount = None\<rparr> key)),
      rc_Secret = client_with (\<lambda>key. Inr (found_at \<lparr>sb_Type = SecretTypeServiceAccountToken, sb_Data = [(''token'', ''sat'')]\<rparr> key)),
      rc_Role = client_with nothing, rc_RoleBinding = client_with nothing\<rparr>"

lemma cluster_sel [simp]:
  "rc_Namespace (cluster_with secrets) = client_with (\<lambda>key. Inr (found_at () key))"
  "rc_LimitRange (cluster_with secrets) = client_with nothing" "rc_NetworkPolicy (cluster_with secrets) = client_with nothing"
  "rc_ConfigMap (cluster_with secrets) = client_with nothing" "rc_Role (cluster_with secrets) = client_with nothing"
  "rc_RoleBinding (cluster_with secrets) = client_with nothing"
  "rc_ServiceAccount (cluster_with secrets) = client_with (\<lambda>key. Inr (found_at \<lparr>sab_Secrets = secrets, sab_Automount = None\<rparr> key))"
  "rc_Secret (cluster_with secrets) =
     client_with (\<lambda>key. Inr (found_at \<lparr>sb_Type = SecretTypeServiceAccountToken, sb_Data = [(''token'', ''sat'')]\<rparr> key))"
  by (simp_all add: cluster_with_def)

lemma found_at_sel [simp]: "o_Body (found_at body key) = body" "om_Namespace (o_Meta (found_at body key)) = key_Namespace key"
  by (simp_all add: found_at_def)

lemma cluster_attempt: "load_attempt (cluster_with secrets) x w = ((rt, x'), w') \<Longrightarrow> w' = w"
  by (auto simp: load_attempt_def cluster_with_def keyed_Load_def GetIgnoreNotFound_def client_with_def loadDefaultTokenSecret_def
      ServiceAccountTokenSecret_Load_def Let_def split: list.splits if_splits sum.splits prod.splits option.splits)

theorem account_load_ends_witness:
  "\<exists>r sa' w'. ServiceAccount_Load (cluster_with []) (NewServiceAccount \<lparr>key_Namespace = ''ns'', key_Name = ''run''\<rparr>) 0 = Some ((r, sa'), w')"
proof (rule account_load_ends)
  show "ck_Now (rc_Clock (cluster_with [])) w \<le> ck_Now (rc_Clock (cluster_with [])) w'"
    if "load_attempt (cluster_with []) x w = ((rt, x'), w')" for x w rt x' w'
    using cluster_attempt [OF that] by simp
qed (simp add: cluster_with_def)

lemma cluster_loads:
  "keyed_Load (client_with nothing) x w = ((Inr False, x\<lparr>kd_Object := at_key (kd_Key x) (kd_Object x)\<rparr>), w)"
  "keyed_Load (client_with (\<lambda>key. Inr (found_at body key))) y w = ((Inr True, y\<lparr>kd_Object := found_at body (kd_Key y)\<rparr>), w)"
  by (simp_all add: keyed_Load_def GetIgnoreNotFound_def client_with_def nothing_def IsNotFound_def)

lemma cluster_persists: "\<exists>x'. keyed_Persist (client_with get) x w = ((Inr (), x'), w)"
  by (simp add: keyed_Persist_def CreateOrUpdate_def client_with_def stored_object_def obj_Exists_def split: prod.split if_split)

lemma cluster_account:
  "\<exists>sa'. ServiceAccount_Load (cluster_with [''tok'']) sa w = Some ((Inr True, sa'), w) \<and>
     om_Namespace (o_Meta (kd_Object (sa_Account sa'))) = key_Namespace (account_key sa)"
proof -
  let ?acc = "sa\<lparr>sa_Account := (sa_Account sa)\<lparr>kd_Object := found_at \<lparr>sab_Secrets = [''tok''], sab_Automount = None\<rparr> (account_key sa)\<rparr>\<rparr>"
  have load: "ServiceAccountTokenSecret_Load (rc_Secret (cluster_with [''tok''])) sats w =
      ((Inr True, sats\<lparr>kd_Object := found_at \<lparr>sb_Type = SecretTypeServiceAccountToken, sb_Data = [(''token'', ''sat'')]\<rparr> (kd_Key sats)\<rparr>), w)" for sats
    by (simp add: ServiceAccountTokenSecret_Load_def cluster_loads)
  have "\<exists>sa'. loadDefaultTokenSecret (rc_Secret (cluster_with [''tok''])) ?acc w = ((Inr (), sa'), w)"
    by (auto simp: loadDefaultTokenSecret_def Let_def load simp del: cluster_sel)
  then obtain sa' where sa': "loadDefaultTokenSecret (rc_Secret (cluster_with [''tok''])) ?acc w = ((Inr (), sa'), w)" by blast
  have "load_attempt (cluster_with [''tok'']) (False, sa) w = ((RetryPermanent None, True, sa'), w)"
    using sa' by (simp add: load_attempt_def cluster_loads)
  moreover have "om_Namespace (o_Meta (kd_Object (sa_Account sa'))) = key_Namespace (account_key sa)"
    using loadDefaultTokenSecret_keeps [OF sa'] by simp
  ultimately show ?thesis
    by (simp add: ServiceAccount_Load_def Retry_def retry_until.simps context_until_def RetryPermanent_def cluster_with_def
        ServiceAccountDefaultTokenSecretLoadTimeout_def)
qed

definition ex_access_run :: workflow_run where
  "ex_access_run = ex_policy_run\<lparr>wr_Meta := empty_meta\<lparr>om_Namespace := ''ns'', om_Name := ''run''\<rparr>\<rparr>"

definition placed :: "string \<Rightarrow> 'a keyed \<Rightarrow> bool" where
  "placed ns x \<longleftrightarrow> om_Namespace (o_Meta (kd_Object x)) = ns"

definition all_placed :: "string \<Rightarrow> run_deps \<Rightarrow> bool" where
  "all_placed ns d \<longleftrightarrow> placed ns (rd_ImmutableConfigMap d) \<and> placed ns (rd_MutableConfigMap d) \<and>
     placed ns (sa_Account (rd_MetadataAPIServiceAccount d)) \<and> placed ns (rd_MetadataAPIRole d) \<and> placed ns (rd_MetadataAPIRoleBinding d) \<and>
     placed ns (sa_Account (rd_PipelineServiceAccount d)) \<and> placed ns (sa_Account (rd_UntrustedServiceAccount d)) \<and>
     rd_LimitRange d = None \<and> rd_NetworkPolicy d = None"

lemma cluster_load:
  "\<exists>d. WorkflowRunDeps_Load (cluster_with [''tok''])
     (NewWorkflowRunDeps ex_access_run ''http://api'' [WorkflowRunDepsWithStandaloneMode True]) w = Some ((Inr False, d), w) \<and>
     all_placed ''ns'' d \<and> rd_WorkflowRun d = ex_access_run"
proof -
  let ?sa = "\<lambda>sfx. NewServiceAccount (SuffixObjectKey (wr_Key ex_access_run) sfx)"
  have "\<exists>sa'. ServiceAccount_Load (cluster_with [''tok'']) (?sa sfx) w = Some ((Inr True, sa'), w) \<and> placed ''ns'' (sa_Account sa')" for sfx
    using cluster_account [of "?sa sfx" w]
    by (simp add: placed_def NewServiceAccount_def new_keyed_def SuffixObjectKey_def ex_access_run_def ex_policy_run_def)
  then obtain sa where sa: "ServiceAccount_Load (cluster_with [''tok'']) (?sa sfx) w = Some ((Inr True, sa sfx), w)" "placed ''ns'' (sa_Account (sa sfx))" for sfx
    by metis
  show ?thesis
    by (simp add: WorkflowRunDeps_Load_def deps_loaders_def on_field_def required_def if_present_def loads_def NewWorkflowRunDeps_def
        WorkflowRunDepsWithStandaloneMode_def Let_def sa cluster_loads all_placed_def)
      (simp add: placed_def at_key_def new_keyed_def SuffixObjectKey_def ex_access_run_def ex_policy_run_def)
qed

lemma cluster_configure:
  assumes "all_placed ''ns'' d" "rd_WorkflowRun d = ex_access_run"
  shows "\<exists>d'. ConfigureWorkflowRunDeps lib d = Some (Inr (), d')"
proof -
  have run: "om_Namespace (wr_Meta ex_access_run) = ''ns''" "wr_Parameters ex_access_run = []" "wr_WorkflowParameters ex_access_run = []"
      "wr_Steps ex_access_run = []" "wr_StateSteps ex_access_run = []"
    by (simp_all add: ex_access_run_def ex_policy_run_def)
  have "\<exists>d1. own_deps d = (Inr (), d1)"
    using assms by (simp add: own_deps_def Let_def owned_def owned_if_present_def all_placed_def placed_def WorkflowRun_Own_def Own_def run)
  then show ?thesis
    by (auto simp: ConfigureWorkflowRunDeps_def Let_def assms(2) ConfigureImmutableConfigMapForWorkflowRun_def
        ConfigureMutableConfigMapForWorkflowRun_def run_parameters_def run seq_def)
qed

lemma cluster_stored:
  "\<exists>d'. on_field get update (persists (client_with g)) d w = Some ((Inr (), d'), w)"
  "\<exists>d'. on_field get2 update2 (ServiceAccount_Persist (cluster_with [''tok''])) d w = Some ((Inr (), d'), w)"
proof -
  show "\<exists>d'. on_field get update (persists (client_with g)) d w = Some ((Inr (), d'), w)"
    using cluster_persists [of g "get d" w] by (auto simp: on_field_def persists_def)
  obtain acc where "keyed_Persist (rc_ServiceAccount (cluster_with [''tok''])) (sa_Account (get2 d)) w = ((Inr (), acc), w)"
    using cluster_persists by (metis cluster_sel(7))
  with cluster_account [of "(get2 d)\<lparr>sa_Account := acc\<rparr>" w]
  show "\<exists>d'. on_field get2 update2 (ServiceAccount_Persist (cluster_with [''tok''])) d w = Some ((Inr (), d'), w)"
    by (auto simp: on_field_def ServiceAccount_Persist_def simp del: cluster_sel)
qed

lemma persist_fields_ok:
  "\<forall>f \<in> set fs. \<forall>d. \<exists>d'. f d w = Some ((Inr (), d'), w) \<Longrightarrow> \<exists>d'. persist_fields fs d w = Some ((Inr (), d'), w)"
proof (induction fs arbitrary: d)
  case (Cons f fs)
  then obtain d1 where "f d w = Some ((Inr (), d1), w)" by (meson list.set_intros(1))
  with Cons show ?case by simp
qed simp

lemma cluster_stored_option: "\<exists>d'. on_field get update (if_present () (persists (client_with g))) d w = Some ((Inr (), d'), w)"
proof (cases "get d")
  case (Some x)
  obtain x' where "keyed_Persist (client_with g) x w = ((Inr (), x'), w)" using cluster_persists [of g x w] by (elim exE)
  with Some show ?thesis by (simp add: on_field_def if_present_def persists_def)
qed (simp add: on_field_def if_present_def)

lemma cluster_persist: "\<exists>d'. WorkflowRunDeps_Persist (cluster_with [''tok'']) d w = Some ((Inr (), d'), w)"
  unfolding WorkflowRunDeps_Persist_def
  by (intro persist_fields_ok) (simp add: deps_persisters_def cluster_stored cluster_stored_option)

theorem run_access_exact_witness:
  "\<exists>d w' d1 w1. WorkflowRunDeps_Persist (cluster_with [''tok'']) d1 w1 = Some ((Inr (), d), w') \<and>
     grants d1 \<lparr>su_Kind = ''ServiceAccount'', su_Namespace = ''ns'', su_Name = ''run-metadata-api''\<rparr> ''update'' [] ''configmaps'' ''run-mutable'' \<and>
     \<not> grants d1 \<lparr>su_Kind = ''ServiceAccount'', su_Namespace = ''ns'', su_Name = ''run-metadata-api''\<rparr> ''update'' [] ''configmaps'' ''run-immutable''"
proof -
  let ?lib = "\<lparr>render_html = (\<lambda>s. s), render_jira = (\<lambda>s. s), json_text = (\<lambda>s. Inr (GStr s))\<rparr>"
  obtain d0 where l: "WorkflowRunDeps_Load (cluster_with [''tok''])
      (NewWorkflowRunDeps ex_access_run ''http://api'' [WorkflowRunDepsWithStandaloneMode True]) 0 = Some ((Inr False, d0), 0)"
    and d0: "all_placed ''ns'' d0" "rd_WorkflowRun d0 = ex_access_run"
    using cluster_load by blast
  obtain d1 where c: "ConfigureWorkflowRunDeps ?lib d0 = Some (Inr (), d1)" using cluster_configure [OF d0] by blast
  obtain d where p: "WorkflowRunDeps_Persist (cluster_with [''tok'']) d1 0 = Some ((Inr (), d), 0)" using cluster_persist by blast
  have "ApplyWorkflowRunDeps (cluster_with [''tok'']) ?lib ex_access_run ''http://api'' [WorkflowRunDepsWithStandaloneMode True] 0 = Some (Inr d, 0)"
    using l c p by (simp add: ApplyWorkflowRunDeps_def)
  from run_access_exact [OF this] obtain d2 w2 where "WorkflowRunDeps_Persist (cluster_with [''tok'']) d2 w2 = Some ((Inr (), d), 0)"
    "grants d2 = metadata_api_access ex_access_run" by blast
  then show ?thesis
    by (intro exI [of _ d] exI [of _ 0] exI [of _ d2] exI [of _ w2]) (simp add: metadata_api_access_def ex_access_run_def ex_policy_run_def)
qed

end
