(* ===== verification/Tenant_Deps.thy ===== *)
theory Tenant_Deps
  imports Run_Deps Obj_Status
begin

text \<open>
  What a tenant needs (\<open>pkg/obj/tenantdeps.go\<close>): its namespace with a network policy and a limit range, the secret of
  its event sink, and the volumes and the job that put tools into its containers; and the reconciler of tenants
  (\<open>pkg/reconciler/tenant\<close>).

  Objects in another namespace than their owner's carry a JSON annotation instead of an owner reference. Its text is
  a parameter. \<open>None\<close> as an outcome is a panic or a wait that never ends.
\<close>

section \<open>Dependencies across namespaces (\<open>util.go\<close>)\<close>

record dependency_of =
  do_APIVersion :: string
  do_Kind :: string
  do_Namespace :: string
  do_Name :: string
  do_UID :: string

record dependency_json =
  dj_Marshal :: "dependency_of \<Rightarrow> string"
  dj_Unmarshal :: "string \<Rightarrow> dependency_of res"

definition RelayControllerDependencyOfAnnotation :: string where
  "RelayControllerDependencyOfAnnotation = ''controller.relay.sh/dependency-of''"

definition SetDependencyOf :: "dependency_json \<Rightarrow> group_version_kind \<Rightarrow> object_meta \<Rightarrow> object_meta \<Rightarrow> object_meta" where
  "SetDependencyOf dj gvk owner target =
     snd (Annotate RelayControllerDependencyOfAnnotation
       (dj_Marshal dj \<lparr>do_APIVersion = GroupVersion_String gvk, do_Kind = gvk_Kind gvk, do_Namespace = om_Namespace owner,
          do_Name = om_Name owner, do_UID = om_UID owner\<rparr>) target)"

text \<open>A text with more than one slash is an error, which the caller drops.\<close>

definition ParseGroupVersion :: "string \<Rightarrow> string \<times> string" where
  "ParseGroupVersion gv =
     (if gv = [] \<or> gv = ''/'' then ([], [])
      else case length (filter (\<lambda>c. c = CHR ''/'') gv) of
             0 \<Rightarrow> ([], gv)
           | Suc 0 \<Rightarrow> (takeWhile (\<lambda>c. c \<noteq> CHR ''/'') gv, tl (dropWhile (\<lambda>c. c \<noteq> CHR ''/'') gv))
           | _ \<Rightarrow> ([], []))"

definition IsDependencyOf :: "dependency_json \<Rightarrow> group_version_kind \<Rightarrow> object_meta \<Rightarrow> object_meta \<Rightarrow> bool res" where
  "IsDependencyOf dj gvk owner target =
     (let annotation = lookup_str (om_Annotations target) RelayControllerDependencyOfAnnotation in
      if annotation = [] then Inr False
      else
        (case dj_Unmarshal dj annotation of
           Inl err \<Rightarrow> Inl err
         | Inr dep \<Rightarrow>
             if gvk_Kind gvk \<noteq> do_Kind dep \<or> (gvk_Group gvk, gvk_Version gvk) \<noteq> ParseGroupVersion (do_APIVersion dep) then Inr False
             else Inr (om_UID owner = do_UID dep \<and> om_Namespace owner = do_Namespace dep \<and> om_Name owner = do_Name dep)))"

section \<open>Namespaces and secrets (\<open>namespace.go\<close>, \<open>secret.go\<close>)\<close>

definition NewNamespace :: "string \<Rightarrow> unit keyed" where
  "NewNamespace name = new_keyed () \<lparr>key_Namespace = [], key_Name = name\<rparr>"

definition keyed_Delete :: "('a, 'w) object_client \<Rightarrow> 'a keyed \<Rightarrow> 'w \<Rightarrow> bool res \<times> 'w" where
  "keyed_Delete cl n = DeleteIgnoreNotFound cl (kd_Object n)"

definition SecretTypeOpaque :: string where "SecretTypeOpaque = ''Opaque''"

definition ErrNotOpaqueSecret :: err where
  "ErrNotOpaqueSecret = OtherError ''obj: secret is not an unstructured opaque secret''"

definition NewOpaqueSecret :: "object_key \<Rightarrow> secret_body keyed" where
  "NewOpaqueSecret key = new_keyed \<lparr>sb_Type = SecretTypeOpaque, sb_Data = []\<rparr> key"

definition OpaqueSecret_Load :: "(secret_body, 'w) object_client \<Rightarrow> (bool, secret_body keyed, 'w) stepped" where
  "OpaqueSecret_Load cl os w =
     Some (case keyed_Load cl os w of
        ((Inl err, os'), w') \<Rightarrow> ((Inl err, os'), w')
      | ((Inr ok, os'), w') \<Rightarrow>
          if sb_Type (o_Body (kd_Object os')) \<noteq> SecretTypeOpaque then ((Inl ErrNotOpaqueSecret, os'), w')
          else ((Inr ok, os'), w'))"

section \<open>Tenants (\<open>apis/relay.sh/v1beta1\<close>)\<close>

text \<open>A volume claim; the requests and limits of its resources.\<close>

record claim_spec =
  cs_AccessModes :: "string list"
  cs_Resources :: "resource_list \<times> resource_list"
  cs_StorageClassName :: "string option"
  cs_VolumeName :: string

text \<open>An event sink; the name and the key of the secret its token comes from.\<close>

record sink_spec =
  ss_URL :: string
  ss_Token :: string
  ss_SecretKeyRef :: "(string \<times> string) option"

record tenant_body =
  tb_TemplateName :: string
  tb_TemplateLabels :: "string gomap"
  tb_TemplateAnnotations :: "string gomap"
  tb_VolumeClaimTemplate :: "claim_spec option"
  tb_Sink :: "sink_spec option"
  tb_Generation :: int
  tb_Status :: tenant_status

definition as_tenant :: "tenant_body keyed \<Rightarrow> tenant" where
  "as_tenant t = (let b = o_Body (kd_Object t) in
     \<lparr>tn_Generation = tb_Generation b, tn_TemplateName = tb_TemplateName b, tn_Status = tb_Status b\<rparr>)"

definition TenantKind :: group_version_kind where
  "TenantKind = \<lparr>gvk_Group = ''relay.sh'', gvk_Version = ''v1beta1'', gvk_Kind = ''Tenant''\<rparr>"

definition empty_tenant :: tenant_body where
  "empty_tenant = \<lparr>tb_TemplateName = [], tb_TemplateLabels = [], tb_TemplateAnnotations = [], tb_VolumeClaimTemplate = None,
     tb_Sink = None, tb_Generation = 0, tb_Status = \<lparr>ts_ObservedGeneration = 0, ts_Namespace = [], ts_Conditions = []\<rparr>\<rparr>"

definition NewTenant :: "object_key \<Rightarrow> tenant_body keyed" where
  "NewTenant = new_keyed empty_tenant"

section \<open>The dependencies (\<open>tenantdeps.go\<close>)\<close>

record event_sink =
  es_Sink :: sink_spec
  es_TokenSecret :: "secret_body keyed option"

definition APITriggerEventSink_Load :: "(secret_body, 'w) object_client \<Rightarrow> (bool, event_sink, 'w) stepped" where
  "APITriggerEventSink_Load cl = on_field es_TokenSecret es_TokenSecret_update (if_present True (OpaqueSecret_Load cl))"

definition NewAPITriggerEventSink :: "string \<Rightarrow> sink_spec \<Rightarrow> event_sink" where
  "NewAPITriggerEventSink namespace sink =
     \<lparr>es_Sink = sink,
      es_TokenSecret = map_option (\<lambda>(name, _). NewOpaqueSecret \<lparr>key_Namespace = namespace, key_Name = name\<rparr>) (ss_SecretKeyRef sink)\<rparr>"

text \<open>The tenant is a pointer in the source: whoever changes the tenant stores it here again.\<close>

record tenant_objects =
  to_Tenant :: "tenant_body keyed"
  to_StaleNamespace :: "unit keyed option"
  to_Namespace :: "unit keyed"
  to_NetworkPolicy :: "network_policy option"
  to_LimitRange :: "limit_range_item list keyed option"
  to_Sink :: "event_sink option"
  to_VolumeClaimTemplate :: "claim_spec option"

abbreviation to_Managed :: "tenant_objects \<Rightarrow> bool" where
  "to_Managed td \<equiv> Tenant_Managed (as_tenant (to_Tenant td))"

definition NewTenantDeps :: "tenant_body keyed \<Rightarrow> tenant_objects" where
  "NewTenantDeps t =
     (let b = o_Body (kd_Object t); ns = tb_TemplateName b; key = \<lparr>key_Namespace = ns, key_Name = key_Name (kd_Key t)\<rparr>;
          managed = Tenant_Managed (as_tenant t)
      in \<lparr>to_Tenant = t,
          to_StaleNamespace = None,
          to_Namespace = NewNamespace (if managed then ns else key_Namespace (kd_Key t)),
          to_NetworkPolicy = (if managed then Some (NewNetworkPolicy key) else None),
          to_LimitRange = (if managed then Some (new_keyed [] key) else None),
          to_Sink = map_option (NewAPITriggerEventSink (key_Namespace (kd_Key t))) (tb_Sink b),
          to_VolumeClaimTemplate = tb_VolumeClaimTemplate b\<rparr>)"

text \<open>Using a nil pointer panics.\<close>

definition non_nil :: "('r, 'x, 'w) stepped \<Rightarrow> ('r, 'x option, 'w) stepped" where
  "non_nil f x w =
     (case x of None \<Rightarrow> None | Some y \<Rightarrow> Option.bind (f y w) (\<lambda>((r, y'), w'). Some ((r, Some y'), w')))"

definition TenantDeps_Persist :: "'w run_client \<Rightarrow> (unit, tenant_objects, 'w) stepped" where
  "TenantDeps_Persist cl td w =
     (if \<not> to_Managed td then Some ((Inr (), td), w)
      else persist_fields
        [on_field to_Namespace to_Namespace_update (persists (rc_Namespace cl)),
         on_field to_NetworkPolicy to_NetworkPolicy_update (non_nil (persists (rc_NetworkPolicy cl))),
         on_field to_LimitRange to_LimitRange_update (non_nil (persists (rc_LimitRange cl)))] td w)"

text \<open>The status names the namespace of the last reconciliation; it is stale when it was managed and is another one now.\<close>

definition is_stale :: "tenant_objects \<Rightarrow> bool" where
  "is_stale td \<longleftrightarrow>
     (let ns = ts_Namespace (tb_Status (o_Body (kd_Object (to_Tenant td)))) in
      ns \<noteq> [] \<and> ns \<noteq> key_Namespace (kd_Key (to_Tenant td)) \<and> ns \<noteq> key_Name (kd_Key (to_Namespace td)))"

definition tenant_loaders :: "'w run_client \<Rightarrow> tenant_objects \<Rightarrow> (bool, tenant_objects, 'w) stepped list" where
  "tenant_loaders cl td =
     [on_field to_Sink to_Sink_update (if_present True (APITriggerEventSink_Load (rc_Secret cl)))] @
     (if \<not> to_Managed td then [on_field to_Namespace to_Namespace_update (required (loads (rc_Namespace cl)))]
      else
        [on_field to_Namespace to_Namespace_update (loads (rc_Namespace cl)),
         on_field to_NetworkPolicy to_NetworkPolicy_update (non_nil (loads (rc_NetworkPolicy cl))),
         on_field to_LimitRange to_LimitRange_update (non_nil (loads (rc_LimitRange cl)))]) @
     (if is_stale td then [on_field to_StaleNamespace to_StaleNamespace_update (non_nil (loads (rc_Namespace cl)))] else [])"

definition TenantDeps_Load :: "'w run_client \<Rightarrow> (bool, tenant_objects, 'w) stepped" where
  "TenantDeps_Load cl td =
     load_fields True (tenant_loaders cl td)
       (if is_stale td then td\<lparr>to_StaleNamespace := Some (NewNamespace (ts_Namespace (tb_Status (o_Body (kd_Object (to_Tenant td))))))\<rparr>
        else td)"

text \<open>Deleting an object only when it is marked as a dependency of its owner.\<close>

definition delete_dependency :: "dependency_json \<Rightarrow> group_version_kind \<Rightarrow> object_meta \<Rightarrow> ('a, 'w) object_client \<Rightarrow> 'a keyed \<Rightarrow> 'w \<Rightarrow> bool res \<times> 'w" where
  "delete_dependency dj gvk owner cl x w =
     (if om_UID (o_Meta (kd_Object x)) = [] then (Inr True, w)
      else
        (case IsDependencyOf dj gvk owner (o_Meta (kd_Object x)) of
           Inl err \<Rightarrow> (Inl err, w)
         | Inr ok \<Rightarrow> if ok then keyed_Delete cl x w else (Inr True, w)))"

definition TenantDeps_DeleteStale :: "dependency_json \<Rightarrow> 'w run_client \<Rightarrow> tenant_objects \<Rightarrow> 'w \<Rightarrow> bool res \<times> 'w" where
  "TenantDeps_DeleteStale dj cl td w =
     (case to_StaleNamespace td of
        None \<Rightarrow> (Inr True, w)
      | Some ns \<Rightarrow> delete_dependency dj TenantKind (o_Meta (kd_Object (to_Tenant td))) (rc_Namespace cl) ns w)"

definition TenantDeps_Delete :: "dependency_json \<Rightarrow> 'w run_client \<Rightarrow> tenant_objects \<Rightarrow> 'w \<Rightarrow> bool res \<times> 'w" where
  "TenantDeps_Delete dj cl td w =
     (case TenantDeps_DeleteStale dj cl td w of
        (Inl err, w1) \<Rightarrow> (Inl err, w1)
      | (Inr _, w1) \<Rightarrow>
          if \<not> to_Managed td then (Inr True, w1)
          else delete_dependency dj TenantKind (o_Meta (kd_Object (to_Tenant td))) (rc_Namespace cl) (to_Namespace td) w1)"

definition RelayControllerTenantWorkloadLabel :: string where
  "RelayControllerTenantWorkloadLabel = ''controller.relay.sh/tenant-workload''"

text \<open>\<open>None\<close>: a managed tenant without a network policy or limit range.\<close>

definition ConfigureTenantDeps :: "dependency_json \<Rightarrow> tenant_objects \<Rightarrow> tenant_objects option" where
  "ConfigureTenantDeps dj td =
     (if \<not> to_Managed td then Some td
      else
        (case (to_NetworkPolicy td, to_LimitRange td) of
           (Some np, Some lr) \<Rightarrow>
             (let owner = o_Meta (kd_Object (to_Tenant td)); b = o_Body (kd_Object (to_Tenant td));
                  depends = SetDependencyOf dj TenantKind owner;
                  label = (\<lambda>m. snd (obj_Label RelayControllerTenantWorkloadLabel ''true'' m));
                  copy = (\<lambda>m. CopyLabelsAndAnnotations
                    (empty_meta\<lparr>om_Labels := tb_TemplateLabels b, om_Annotations := tb_TemplateAnnotations b\<rparr>) m)
              in Some (td\<lparr>to_Namespace := on_meta (\<lambda>m. copy (label (depends m))) (to_Namespace td),
                   to_NetworkPolicy := Some (ConfigureNetworkPolicyForTenant (on_meta depends np)),
                   to_LimitRange := Some (ConfigureLimitRange [] lr)\<rparr>))
         | _ \<Rightarrow> None))"

definition ApplyTenantDeps :: "dependency_json \<Rightarrow> 'w run_client \<Rightarrow> tenant_body keyed \<Rightarrow> 'w \<Rightarrow> (tenant_objects res \<times> 'w) option" where
  "ApplyTenantDeps dj cl t w =
     Option.bind (TenantDeps_Load cl (NewTenantDeps t) w) (\<lambda>((r, td), w1).
       case r of
         Inl err \<Rightarrow> Some (Inl err, w1)
       | Inr _ \<Rightarrow>
           Option.bind (ConfigureTenantDeps dj td) (\<lambda>td1.
             Option.bind (TenantDeps_Persist cl td1 w1) (\<lambda>((r, td2), w2).
               Some (case r of Inl err \<Rightarrow> Inl err | Inr _ \<Rightarrow> Inr td2, w2))))"

end
