(* ===== verification/Tenant_Reconciler.thy ===== *)
theory Tenant_Reconciler
  imports Tenant_Deps
begin

text \<open>
  The volumes and the job that inject tools into the containers of a tenant (\<open>persistentvolume.go\<close>,
  \<open>persistentvolumeclaim.go\<close>, \<open>job.go\<close>) and the reconciler of tenants (\<open>pkg/reconciler/tenant\<close>).
\<close>

section \<open>Applying a specification\<close>

text \<open>Load an object; if it exists change the given part of it, otherwise take the specification; persist it.\<close>

definition apply_spec :: "('a, 'w) object_client \<Rightarrow> 'a \<Rightarrow> object_key \<Rightarrow> ('a \<Rightarrow> 'a) \<Rightarrow> ('a \<Rightarrow> 'a) \<Rightarrow> 'w \<Rightarrow> 'a keyed res \<times> 'w" where
  "apply_spec cl zero key change set_new w =
     (case keyed_Load cl (new_keyed zero key) w of
        ((Inl err, _), w1) \<Rightarrow> (Inl err, w1)
      | ((Inr _, x), w1) \<Rightarrow>
          (case obj_Exists key (kd_Object x) of (exists, obj) \<Rightarrow>
             (let obj' = obj\<lparr>o_Body := (if exists then change else set_new) (o_Body obj)\<rparr> in
              case keyed_Persist cl (x\<lparr>kd_Object := obj'\<rparr>) w1 of
                ((Inl err, _), w2) \<Rightarrow> (Inl err, w2)
              | ((Inr _, y), w2) \<Rightarrow> (Inr y, w2))))"

record claim_body =
  cb_Spec :: claim_spec
  cb_Phase :: string

definition empty_claim :: claim_body where
  "empty_claim = \<lparr>cb_Spec = \<lparr>cs_AccessModes = [], cs_Resources = ([], []), cs_StorageClassName = None, cs_VolumeName = []\<rparr>, cb_Phase = []\<rparr>"

definition ApplyPersistentVolumeClaim :: "(claim_body, 'w) object_client \<Rightarrow> object_key \<Rightarrow> claim_spec \<Rightarrow> 'w \<Rightarrow> claim_body keyed res \<times> 'w" where
  "ApplyPersistentVolumeClaim cl key spec =
     apply_spec cl empty_claim key (\<lambda>b. b\<lparr>cb_Spec := (cb_Spec b)\<lparr>cs_Resources := cs_Resources spec\<rparr>\<rparr>) (\<lambda>b. b\<lparr>cb_Spec := spec\<rparr>)"

record gce_disk =
  gd_PDName :: string
  gd_FSType :: string
  gd_Partition :: int
  gd_ReadOnly :: bool

record host_path =
  hp_Path :: string
  hp_Type :: "string option"

record volume_spec =
  vs_AccessModes :: "string list"
  vs_Capacity :: resource_list
  vs_StorageClassName :: string
  vs_GCEPersistentDisk :: "gce_disk option"
  vs_HostPath :: "host_path option"

definition empty_volume :: volume_spec where
  "empty_volume = \<lparr>vs_AccessModes = [], vs_Capacity = [], vs_StorageClassName = [], vs_GCEPersistentDisk = None, vs_HostPath = None\<rparr>"

definition ApplyPersistentVolume :: "(volume_spec, 'w) object_client \<Rightarrow> object_key \<Rightarrow> volume_spec \<Rightarrow> 'w \<Rightarrow> volume_spec keyed res \<times> 'w" where
  "ApplyPersistentVolume cl key spec =
     apply_spec cl empty_volume key (\<lambda>b. b\<lparr>vs_Capacity := vs_Capacity spec\<rparr>) (\<lambda>_. spec)"

record job_container =
  jn_Name :: string
  jn_Image :: string
  jn_Command :: "string list"
  jn_Args :: "string list"
  jn_VolumeMounts :: "(string \<times> string) list"

record job_pod =
  jp_Containers :: "job_container list"
  jp_RestartPolicy :: string
  jp_ClaimVolumes :: "(string \<times> string) list"

record job_spec =
  js_TemplateName :: string
  js_TemplateNamespace :: string
  js_TemplateSpec :: job_pod
  js_BackoffLimit :: "int option"
  js_Completions :: "int option"
  js_Parallelism :: "int option"

record job_body =
  jb_Spec :: job_spec
  jb_Conditions :: "job_condition list"

definition empty_job :: job_body where
  "empty_job =
     \<lparr>jb_Spec = \<lparr>js_TemplateName = [], js_TemplateNamespace = [],
        js_TemplateSpec = \<lparr>jp_Containers = [], jp_RestartPolicy = [], jp_ClaimVolumes = []\<rparr>,
        js_BackoffLimit = None, js_Completions = None, js_Parallelism = None\<rparr>,
      jb_Conditions = []\<rparr>"

definition ApplyJob :: "(job_body, 'w) object_client \<Rightarrow> object_key \<Rightarrow> job_spec \<Rightarrow> 'w \<Rightarrow> job_body keyed res \<times> 'w" where
  "ApplyJob cl key spec =
     apply_spec cl empty_job key (\<lambda>b. b\<lparr>jb_Spec := (jb_Spec b)\<lparr>js_TemplateSpec := js_TemplateSpec spec\<rparr>\<rparr>) (\<lambda>b. b\<lparr>jb_Spec := spec\<rparr>)"

section \<open>The reconciler\<close>

text \<open>\<open>te_UpdateStatus\<close> is \<open>cl.Status().Update\<close>; the clock gives the time at which a condition is updated.\<close>

record 'w tenant_env =
  te_Client :: "'w run_client"
  te_Tenant :: "(tenant_body, 'w) object_client"
  te_UpdateStatus :: "tenant_body object \<Rightarrow> 'w \<Rightarrow> tenant_body object res \<times> 'w"
  te_Claim :: "(claim_body, 'w) object_client"
  te_Volume :: "(volume_spec, 'w) object_client"
  te_Job :: "(job_body, 'w) object_client"
  te_Json :: dependency_json
  te_Now :: "'w \<Rightarrow> string \<Rightarrow> int"
  te_ToolInjectionImage :: string

type_synonym 'w reconcile_outcome = "((reconcile_result \<times> goerror option) \<times> 'w) option"

definition requeued :: "'w \<Rightarrow> 'w reconcile_outcome" where
  "requeued w = Some ((\<lparr>Requeue = True, RequeueAfter = 0\<rparr>, None), w)"

text \<open>The part of the dependencies that the status is made of.\<close>

definition sink_status :: "event_sink \<Rightarrow> api_trigger_event_sink" where
  "sink_status es =
     \<lparr>tes_URL = ss_URL (es_Sink es), tes_Token = ss_Token (es_Sink es),
      tes_SecretKey = (case ss_SecretKeyRef (es_Sink es) of None \<Rightarrow> [] | Some (_, key) \<Rightarrow> key),
      tes_SecretData = map_option (\<lambda>s. sb_Data (o_Body (kd_Object s))) (es_TokenSecret es)\<rparr>"

definition AsTenantDepsResult :: "tenant_objects \<Rightarrow> unit res \<Rightarrow> tenant_deps_result" where
  "AsTenantDepsResult td r =
     \<lparr>tdr_TenantDeps = Some \<lparr>td_Namespace = key_Name (kd_Key (to_Namespace td)), td_EventSink = map_option sink_status (to_Sink td),
        td_VolumeClaim = (to_VolumeClaimTemplate td \<noteq> None)\<rparr>,
      tdr_Error = (case r of Inl err \<Rightarrow> Some (error_string err) | Inr _ \<Rightarrow> None)\<rparr>"

definition put_status :: "tenant \<Rightarrow> tenant_body keyed \<Rightarrow> tenant_body keyed" where
  "put_status t tn = with_spec ((o_Body (kd_Object tn))\<lparr>tb_Status := tn_Status t\<rparr>) tn"

text \<open>\<open>ConfigureTenant\<close>, then \<open>PersistStatus\<close>; an error ends the reconciliation.\<close>

definition persist_status :: "'w tenant_env \<Rightarrow> tenant_deps_result \<Rightarrow> job_condition list \<Rightarrow> tenant_body keyed \<Rightarrow> 'w \<Rightarrow>
    (tenant_body keyed \<Rightarrow> 'w \<Rightarrow> 'w reconcile_outcome) \<Rightarrow> 'w reconcile_outcome" where
  "persist_status te tdr jcs tn w k =
     (case ConfigureTenant (te_Now te w) tdr jcs (as_tenant tn) of
        None \<Rightarrow> None
      | Some t \<Rightarrow>
          (case te_UpdateStatus te (kd_Object (put_status t tn)) w of
             (Inl err, w1) \<Rightarrow> reconciled (Some (plain_error err)) w1
           | (Inr obj, w1) \<Rightarrow> k (tn\<lparr>kd_Object := obj\<rparr>) w1))"

definition if_ready :: "tenant_body keyed \<Rightarrow> 'w \<Rightarrow> 'w reconcile_outcome" where
  "if_ready tn w = (if \<not> Tenant_Ready (as_tenant tn) then requeued w else reconciled None w)"

definition tools_rwo :: "tenant_body keyed \<Rightarrow> string" where "tools_rwo tn = om_Name (o_Meta (kd_Object tn)) @ ''-volume-rwo''"

definition tools_rox :: "tenant_body keyed \<Rightarrow> string" where "tools_rox tn = om_Name (o_Meta (kd_Object tn)) @ ''-volume-rox''"

abbreviation template_name :: "tenant_body keyed \<Rightarrow> string" where
  "template_name tn \<equiv> tb_TemplateName (o_Body (kd_Object tn))"

definition tools_job :: "'w tenant_env \<Rightarrow> tenant_body keyed \<Rightarrow> string \<Rightarrow> job_spec" where
  "tools_job te tn claim =
     \<lparr>js_TemplateName = ''relay-runtime-tools'', js_TemplateNamespace = template_name tn,
      js_TemplateSpec =
        \<lparr>jp_Containers =
           [\<lparr>jn_Name = ''relay-runtime-tools'',
             jn_Image = (if te_ToolInjectionImage te \<noteq> [] then te_ToolInjectionImage te else ''relaysh/relay-runtime-tools''),
             jn_Command = [''cp''], jn_Args = [''-r'', ''/relay/runtime/tools/.'', ''/var/lib/puppet/relay/''],
             jn_VolumeMounts = [(''relay-runtime-tools'', ''/var/lib/puppet/relay/'')]\<rparr>],
         jp_RestartPolicy = ''Never'',
         jp_ClaimVolumes = [(''relay-runtime-tools'', claim)]\<rparr>,
      js_BackoffLimit = Some 1, js_Completions = Some 1, js_Parallelism = Some 1\<rparr>"

definition job_condition_true :: "string \<Rightarrow> job_condition list \<Rightarrow> bool" where
  "job_condition_true ty = list_ex (\<lambda>cond. jc_Type cond = ty \<and> jc_Status cond = ConditionTrue)"

definition IsAlreadyExists :: "err \<Rightarrow> bool" where "IsAlreadyExists = reason_is ''AlreadyExists''"

text \<open>The job: \<open>ApplyJob\<close> returns no job with its errors, so that an error that is let through is a panic.\<close>

definition run_tools_job :: "'w tenant_env \<Rightarrow> tenant_deps_result \<Rightarrow> string \<Rightarrow> tenant_body keyed \<Rightarrow> 'w \<Rightarrow> 'w reconcile_outcome" where
  "run_tools_job te tdr claim tn w =
     (case ApplyJob (te_Job te) \<lparr>key_Namespace = template_name tn, key_Name = tools_rox tn\<rparr> (tools_job te tn claim) w of
        (Inl err, w1) \<Rightarrow> if \<not> IsAlreadyExists err then reconciled (Some (plain_error err)) w1 else None
      | (Inr job, w1) \<Rightarrow>
          (let jcs = jb_Conditions (o_Body (kd_Object job)) in
           if \<not> job_condition_true ''Complete'' jcs \<and> \<not> job_condition_true ''Failed'' jcs then requeued w1
           else persist_status te tdr jcs tn w1 if_ready))"

text \<open>\<open>client.Get\<close> as the reconciler uses it: only \<open>NotFound\<close> is returned, after other errors it goes on with the object as it was.\<close>

definition get_or_keep :: "('a, 'w) object_client \<Rightarrow> object_key \<Rightarrow> 'a object \<Rightarrow> 'w \<Rightarrow> ('a object \<Rightarrow> 'w \<Rightarrow> 'w reconcile_outcome) \<Rightarrow> 'w reconcile_outcome" where
  "get_or_keep cl key obj w k =
     (case oc_Get cl key w of
        (Inl err, w1) \<Rightarrow> if IsNotFound err then reconciled (Some (plain_error err)) w1 else k obj w1
      | (Inr obj', w1) \<Rightarrow> k obj' w1)"

text \<open>An error of an \<open>Apply\<close> is returned.\<close>

definition apply_or_fail :: "'a res \<times> 'w \<Rightarrow> ('a \<Rightarrow> 'w \<Rightarrow> 'w reconcile_outcome) \<Rightarrow> 'w reconcile_outcome" where
  "apply_or_fail r k = (case r of (Inl err, w) \<Rightarrow> reconciled (Some (plain_error err)) w | (Inr x, w) \<Rightarrow> k x w)"

definition read_only_volume :: "volume_spec \<Rightarrow> volume_spec" where
  "read_only_volume pv =
     \<lparr>vs_AccessModes = [''ReadOnlyMany''], vs_Capacity = vs_Capacity pv, vs_StorageClassName = vs_StorageClassName pv,
      vs_GCEPersistentDisk = vs_GCEPersistentDisk pv,
      vs_HostPath = (if vs_GCEPersistentDisk pv \<noteq> None then None else vs_HostPath pv)\<rparr>"

text \<open>The claim for the tools, its volume, the same volume read-only with a claim on it, and the job that fills it.\<close>

definition inject_tools :: "'w tenant_env \<Rightarrow> tenant_deps_result \<Rightarrow> claim_spec \<Rightarrow> tenant_body keyed \<Rightarrow> 'w \<Rightarrow> 'w reconcile_outcome" where
  "inject_tools te tdr tmpl tn w =
     apply_or_fail
       (ApplyPersistentVolumeClaim (te_Claim te) \<lparr>key_Namespace = template_name tn, key_Name = tools_rwo tn\<rparr>
          \<lparr>cs_AccessModes = [''ReadWriteOnce''], cs_Resources = cs_Resources tmpl, cs_StorageClassName = cs_StorageClassName tmpl,
           cs_VolumeName = []\<rparr> w)
       (\<lambda>pvco w1.
          let spec = cb_Spec (o_Body (kd_Object pvco)) in
          if cs_VolumeName spec = [] \<or> cb_Phase (o_Body (kd_Object pvco)) \<noteq> ''Bound'' then requeued w1
          else get_or_keep (te_Volume te) \<lparr>key_Namespace = [], key_Name = cs_VolumeName spec\<rparr> \<lparr>o_Meta = empty_meta, o_Body = empty_volume\<rparr> w1
            (\<lambda>pv w2.
               if vs_GCEPersistentDisk (o_Body pv) = None \<and> vs_HostPath (o_Body pv) = None then requeued w2
               else apply_or_fail
                 (ApplyPersistentVolume (te_Volume te) \<lparr>key_Namespace = [], key_Name = tools_rox tn\<rparr> (read_only_volume (o_Body pv)) w2)
                 (\<lambda>_ w3.
                    let claim = \<lparr>cs_AccessModes = [''ReadOnlyMany''], cs_Resources = cs_Resources spec,
                          cs_StorageClassName = cs_StorageClassName spec, cs_VolumeName = []\<rparr>;
                        key = \<lparr>key_Namespace = template_name tn, key_Name = tools_rox tn\<rparr>
                    in apply_or_fail (ApplyPersistentVolumeClaim (te_Claim te) key claim w3)
                      (\<lambda>_ w4.
                         get_or_keep (te_Claim te) key (at_key key \<lparr>o_Meta = empty_meta, o_Body = empty_claim\<lparr>cb_Spec := claim\<rparr>\<rparr>) w4
                           (\<lambda>pvcn w5.
                              if cs_VolumeName (cb_Spec (o_Body pvcn)) = [] then requeued w5
                              else run_tools_job te tdr (om_Name (o_Meta (kd_Object pvco))) tn w5)))))"

definition Tenant_FinalizerName :: string where "Tenant_FinalizerName = ''tenant.finalizers.controller.relay.sh''"

text \<open>After the dependencies are there: the status, and the tools when the tenant asks for them.\<close>

definition settle_tenant :: "'w tenant_env \<Rightarrow> tenant_objects \<Rightarrow> 'w \<Rightarrow> 'w reconcile_outcome" where
  "settle_tenant te deps w =
     Option.bind (ConfigureTenantDeps (te_Json te) deps) (\<lambda>deps1.
       Option.bind (TenantDeps_Persist (te_Client te) deps1 w) (\<lambda>((r, deps2), w1).
         let tdr = AsTenantDepsResult deps2 r in
         persist_status te tdr [] (to_Tenant deps2) w1 (\<lambda>tn w2.
           case tb_VolumeClaimTemplate (o_Body (kd_Object tn)) of
             None \<Rightarrow> if_ready tn w2
           | Some tmpl \<Rightarrow> inject_tools te tdr tmpl tn w2)))"

definition Tenant_Reconcile :: "'w tenant_env \<Rightarrow> request \<Rightarrow> 'w \<Rightarrow> 'w reconcile_outcome" where
  "Tenant_Reconcile te req w =
     (case keyed_Load (te_Tenant te) (NewTenant \<lparr>key_Namespace = Req_Namespace req, key_Name = Req_Name req\<rparr>) w of
        ((Inl err, _), w1) \<Rightarrow> reconciled (Some (failed_to ''load dependencies'' (plain_error err))) w1
      | ((Inr found, tn), w1) \<Rightarrow>
          if \<not> found then reconciled None w1
          else
            Option.bind (TenantDeps_Load (te_Client te) (NewTenantDeps tn) w1) (\<lambda>((r, deps), w2).
              case r of
                Inl err \<Rightarrow> reconciled (Some (failed_to ''load dependencies'' (plain_error err))) w2
              | Inr _ \<Rightarrow>
                  (case Finalize Tenant_FinalizerName
                          (\<lambda>w. case TenantDeps_Delete (te_Json te) (te_Client te) deps w of (Inl err, w') \<Rightarrow> (Inl err, w') | (Inr _, w') \<Rightarrow> (Inr (), w'))
                          (CreateOrUpdate (te_Tenant te) (kd_Key tn)) (kd_Object tn) w2 of
                     ((Inl err, _), w3) \<Rightarrow> reconciled (Some (plain_error err)) w3
                   | ((Inr finalized, obj), w3) \<Rightarrow>
                       if finalized then reconciled None w3
                       else
                         (let deps1 = deps\<lparr>to_Tenant := tn\<lparr>kd_Object := obj\<rparr>\<rparr> in
                          case TenantDeps_DeleteStale (te_Json te) (te_Client te) deps1 w3 of
                            (Inl err, w4) \<Rightarrow> reconciled (Some (failed_to ''delete stale dependencies'' (plain_error err))) w4
                          | (Inr _, w4) \<Rightarrow> settle_tenant te deps1 w4))))"

end
