(* ===== verification/Tenant_Reconciler_Props.thy ===== *)
theory Tenant_Reconciler_Props
  imports Tenant_Reconciler Run_Deps_Props Obj_Status_Props Obj_Util_Props
begin

text \<open>
  What the reconciler of tenants deletes, and when it stops asking to be called again.
\<close>

section \<open>Marks of dependencies\<close>

lemma ParseGroupVersion_String:
  assumes "gvk_Group gvk \<noteq> []" "CHR ''/'' \<notin> set (gvk_Group gvk)" "CHR ''/'' \<notin> set (gvk_Version gvk)"
  shows "ParseGroupVersion (GroupVersion_String gvk) = (gvk_Group gvk, gvk_Version gvk)"
proof -
  let ?p = "\<lambda>c. c = CHR ''/''"
  have none: "filter ?p (gvk_Group gvk) = []" "filter ?p (gvk_Version gvk) = []" using assms by (auto simp: filter_empty_conv)
  have "takeWhile (\<lambda>c. c \<noteq> CHR ''/'') (gvk_Group gvk @ ''/'' @ gvk_Version gvk) = gvk_Group gvk"
    "dropWhile (\<lambda>c. c \<noteq> CHR ''/'') (gvk_Group gvk @ ''/'' @ gvk_Version gvk) = ''/'' @ gvk_Version gvk"
    using assms by (subst takeWhile_append2 dropWhile_append2; auto)+
  with none assms(1) show ?thesis
    by (auto simp: ParseGroupVersion_def GroupVersion_String_def Cons_eq_append_conv)
qed

text \<open>An object that is marked is a dependency of its owner, if the JSON library reads what it wrote.\<close>

lemma marked_is_dependency:
  assumes json: "\<And>dep. dj_Unmarshal dj (dj_Marshal dj dep) = Inr dep" "\<And>dep. dj_Marshal dj dep \<noteq> []"
    and "gvk_Group gvk \<noteq> []" "CHR ''/'' \<notin> set (gvk_Group gvk)" "CHR ''/'' \<notin> set (gvk_Version gvk)"
  shows "IsDependencyOf dj gvk owner' (SetDependencyOf dj gvk owner target) =
    Inr (om_UID owner' = om_UID owner \<and> om_Namespace owner' = om_Namespace owner \<and> om_Name owner' = om_Name owner)"
proof -
  let ?dep = "\<lparr>do_APIVersion = GroupVersion_String gvk, do_Kind = gvk_Kind gvk, do_Namespace = om_Namespace owner,
    do_Name = om_Name owner, do_UID = om_UID owner\<rparr>"
  have "lookup_str (om_Annotations (SetDependencyOf dj gvk owner target)) RelayControllerDependencyOfAnnotation = dj_Marshal dj ?dep"
    by (auto simp: SetDependencyOf_def Annotate_def lookup_str_def)
  then show ?thesis
    by (simp add: IsDependencyOf_def json ParseGroupVersion_String [OF assms(3-5)])
qed

lemma nested_pair_cases:
  obtains a b c where "x = ((a, b), c)"
  by (cases x; cases "fst x") auto

section \<open>Deleting\<close>

text \<open>A client whose \<open>Delete\<close> does anything else for objects that do not pass a test.\<close>

definition guard_delete :: "('a object \<Rightarrow> bool) \<Rightarrow> ('a object \<Rightarrow> 'w \<Rightarrow> unit res \<times> 'w) \<Rightarrow> ('a, 'w) object_client \<Rightarrow> ('a, 'w) object_client" where
  "guard_delete ok other cl = cl\<lparr>oc_Delete := (\<lambda>obj w. if ok obj then oc_Delete cl obj w else other obj w)\<rparr>"

lemma guard_delete_sel [simp]:
  "oc_Get (guard_delete ok other cl) = oc_Get cl" "oc_Create (guard_delete ok other cl) = oc_Create cl"
  "oc_Update (guard_delete ok other cl) = oc_Update cl"
  by (simp_all add: guard_delete_def)

lemma guard_delete_keyed [simp]:
  "keyed_Load (guard_delete ok other cl) = keyed_Load cl" "keyed_Persist (guard_delete ok other cl) = keyed_Persist cl"
  "loads (guard_delete ok other cl) = loads cl" "persists (guard_delete ok other cl) = persists cl"
  unfolding keyed_Load_def keyed_Persist_def GetIgnoreNotFound_def CreateOrUpdate_def loads_def persists_def guard_delete_sel
  by (rule refl)+

lemma delete_dependency_guarded:
  assumes "IsDependencyOf dj gvk owner (o_Meta (kd_Object x)) = Inr True \<Longrightarrow> ok (kd_Object x)"
  shows "delete_dependency dj gvk owner (guard_delete ok other cl) x w = delete_dependency dj gvk owner cl x w"
  using assms
  by (auto simp: delete_dependency_def keyed_Delete_def DeleteIgnoreNotFound_def guard_delete_def split: sum.splits)

text \<open>The mark of an object names an object of the given kind at the given key.\<close>

definition marked_for :: "dependency_json \<Rightarrow> string \<Rightarrow> request \<Rightarrow> 'a object \<Rightarrow> bool" where
  "marked_for dj kind req obj \<longleftrightarrow>
     (case dj_Unmarshal dj (lookup_str (om_Annotations (o_Meta obj)) RelayControllerDependencyOfAnnotation) of
        Inl _ \<Rightarrow> False
      | Inr dep \<Rightarrow> do_Kind dep = kind \<and> do_Namespace dep = Req_Namespace req \<and> do_Name dep = Req_Name req)"

lemma dependency_marked_for:
  assumes "IsDependencyOf dj gvk owner (o_Meta obj) = Inr True" "om_Namespace owner = Req_Namespace req" "om_Name owner = Req_Name req"
  shows "marked_for dj (gvk_Kind gvk) req obj"
  using assms by (auto simp: IsDependencyOf_def marked_for_def Let_def split: if_splits sum.splits)

definition guard_namespaces :: "(unit object \<Rightarrow> bool) \<Rightarrow> (unit object \<Rightarrow> 'w \<Rightarrow> unit res \<times> 'w) \<Rightarrow> 'w run_client \<Rightarrow> 'w run_client" where
  "guard_namespaces ok other cl = cl\<lparr>rc_Namespace := guard_delete ok other (rc_Namespace cl)\<rparr>"

lemma guard_namespaces_sel [simp]:
  "rc_Namespace (guard_namespaces ok other cl) = guard_delete ok other (rc_Namespace cl)"
  "rc_NetworkPolicy (guard_namespaces ok other cl) = rc_NetworkPolicy cl"
  "rc_LimitRange (guard_namespaces ok other cl) = rc_LimitRange cl"
  "rc_Secret (guard_namespaces ok other cl) = rc_Secret cl"
  by (simp_all add: guard_namespaces_def)

lemma guard_namespaces_deps [simp]:
  "TenantDeps_Load (guard_namespaces ok other cl) = TenantDeps_Load cl"
  "TenantDeps_Persist (guard_namespaces ok other cl) = TenantDeps_Persist cl"
  unfolding TenantDeps_Load_def tenant_loaders_def TenantDeps_Persist_def guard_namespaces_sel guard_delete_keyed
  by (rule refl)+

abbreviation at_request :: "request \<Rightarrow> 'a object \<Rightarrow> bool" where
  "at_request req obj \<equiv> om_Namespace (o_Meta obj) = Req_Namespace req \<and> om_Name (o_Meta obj) = Req_Name req"

lemma guard_namespaces_delete:
  assumes "at_request req (kd_Object (to_Tenant td))"
  shows "TenantDeps_DeleteStale dj (guard_namespaces (marked_for dj ''Tenant'' req) other cl) td w = TenantDeps_DeleteStale dj cl td w"
    and "TenantDeps_Delete dj (guard_namespaces (marked_for dj ''Tenant'' req) other cl) td w = TenantDeps_Delete dj cl td w"
proof -
  have d: "delete_dependency dj TenantKind (o_Meta (kd_Object (to_Tenant td))) (guard_delete (marked_for dj ''Tenant'' req) other c) x w =
      delete_dependency dj TenantKind (o_Meta (kd_Object (to_Tenant td))) c x w" for c x w
    using assms dependency_marked_for [of dj TenantKind "o_Meta (kd_Object (to_Tenant td))" "kd_Object x" req]
    by (intro delete_dependency_guarded) (simp add: TenantKind_def)
  then show stale: "TenantDeps_DeleteStale dj (guard_namespaces (marked_for dj ''Tenant'' req) other cl) td w = TenantDeps_DeleteStale dj cl td w" for w
    by (simp add: TenantDeps_DeleteStale_def split: option.splits)
  show "TenantDeps_Delete dj (guard_namespaces (marked_for dj ''Tenant'' req) other cl) td w = TenantDeps_Delete dj cl td w"
    unfolding TenantDeps_Delete_def stale by (simp add: d split: prod.splits sum.splits)
qed

text \<open>Loading the dependencies does not touch the tenant.\<close>

lemma on_field_result:
  "on_field get update f d w = Some ((r, d'), w') \<Longrightarrow> \<exists>x. d' = update (\<lambda>_. x) d"
  by (auto simp: on_field_def split: bind_splits)

lemma TenantDeps_Load_tenant:
  assumes "TenantDeps_Load cl td w = Some ((r, td'), w')"
  shows "to_Tenant td' = to_Tenant td"
proof -
  have "to_Tenant td' = to_Tenant (if is_stale td then td\<lparr>to_StaleNamespace := Some (NewNamespace (ts_Namespace (tb_Status (o_Body (kd_Object (to_Tenant td))))))\<rparr> else td)"
    by (rule load_fields_invariant [OF _ assms [unfolded TenantDeps_Load_def]])
      (auto simp: tenant_loaders_def dest!: on_field_result split: if_splits)
  then show ?thesis by auto
qed

section \<open>The reconciler\<close>

text \<open>The API answers with the object that was asked for, or that was stored.\<close>

definition answers_at_key :: "('a, 'w) object_client \<Rightarrow> bool" where
  "answers_at_key cl \<longleftrightarrow>
     (\<forall>key w obj w'. oc_Get cl key w = (Inr obj, w') \<longrightarrow> om_Namespace (o_Meta obj) = key_Namespace key \<and> om_Name (o_Meta obj) = key_Name key) \<and>
     (\<forall>obj w obj' w'. oc_Create cl obj w = (Inr obj', w') \<or> oc_Update cl obj w = (Inr obj', w') \<longrightarrow>
        om_Namespace (o_Meta obj') = om_Namespace (o_Meta obj) \<and> om_Name (o_Meta obj') = om_Name (o_Meta obj))"

lemma answers_at_keyD:
  "answers_at_key cl \<Longrightarrow> oc_Get cl key w = (Inr obj, w') \<Longrightarrow> om_Namespace (o_Meta obj) = key_Namespace key \<and> om_Name (o_Meta obj) = key_Name key"
  "answers_at_key cl \<Longrightarrow> oc_Create cl obj w = (Inr obj', w') \<Longrightarrow> om_Namespace (o_Meta obj') = om_Namespace (o_Meta obj) \<and> om_Name (o_Meta obj') = om_Name (o_Meta obj)"
  "answers_at_key cl \<Longrightarrow> oc_Update cl obj w = (Inr obj', w') \<Longrightarrow> om_Namespace (o_Meta obj') = om_Namespace (o_Meta obj) \<and> om_Name (o_Meta obj') = om_Name (o_Meta obj)"
  unfolding answers_at_key_def by blast+

lemma keyed_Load_at_key:
  assumes "answers_at_key cl" "keyed_Load cl (new_keyed b \<lparr>key_Namespace = Req_Namespace req, key_Name = Req_Name req\<rparr>) w = ((Inr ok, x), w')"
  shows "at_request req (kd_Object x)" "kd_Key x = \<lparr>key_Namespace = Req_Namespace req, key_Name = Req_Name req\<rparr>"
  using assms(2)
  by (auto simp: keyed_Load_def GetIgnoreNotFound_def at_key_def new_keyed_def
      split: prod.splits sum.splits if_splits dest!: answers_at_keyD(1) [OF assms(1)])

lemma CreateOrUpdate_at_key:
  assumes "answers_at_key cl" "CreateOrUpdate cl \<lparr>key_Namespace = Req_Namespace req, key_Name = Req_Name req\<rparr> obj w = ((r, obj'), w')"
  shows "at_request req obj'"
  using assms(2)
  by (auto simp: CreateOrUpdate_def obj_Exists_def at_key_def stored_object_def Let_def
      split: prod.splits sum.splits if_splits dest!: answers_at_keyD(2,3) [OF assms(1)])

lemma Finalize_at_key:
  assumes "answers_at_key cl" "at_request req obj"
    "Finalize name run (CreateOrUpdate cl \<lparr>key_Namespace = Req_Namespace req, key_Name = Req_Name req\<rparr>) obj w = ((r, obj'), w')"
  shows "at_request req obj'"
  using assms(2,3)
  by (auto simp: Finalize_def Let_def AddFinalizer_def split: if_splits prod.splits sum.splits bool.splits dest!: CreateOrUpdate_at_key [OF assms(1)])

lemma Finalize_cong:
  assumes "\<And>w. run w = run' w"
  shows "Finalize name run persist obj w = Finalize name run' persist obj w"
  using assms by (metis ext)

lemma guard_env_sel [simp]:
  "te_Tenant (te\<lparr>te_Client := cl\<rparr>) = te_Tenant te" "te_UpdateStatus (te\<lparr>te_Client := cl\<rparr>) = te_UpdateStatus te"
  "te_Claim (te\<lparr>te_Client := cl\<rparr>) = te_Claim te" "te_Volume (te\<lparr>te_Client := cl\<rparr>) = te_Volume te"
  "te_Job (te\<lparr>te_Client := cl\<rparr>) = te_Job te" "te_Json (te\<lparr>te_Client := cl\<rparr>) = te_Json te"
  "te_Now (te\<lparr>te_Client := cl\<rparr>) = te_Now te" "te_ToolInjectionImage (te\<lparr>te_Client := cl\<rparr>) = te_ToolInjectionImage te"
  "te_Client (te\<lparr>te_Client := cl\<rparr>) = cl"
  by simp_all

lemma guard_env_steps [simp]:
  "persist_status (te\<lparr>te_Client := cl\<rparr>) = persist_status te" "inject_tools (te\<lparr>te_Client := cl\<rparr>) = inject_tools te"
  unfolding persist_status_def [abs_def] inject_tools_def [abs_def] run_tools_job_def [abs_def] tools_job_def [abs_def] guard_env_sel
  by (rule refl)+

lemma settle_tenant_guarded:
  "settle_tenant (te\<lparr>te_Client := guard_namespaces ok other (te_Client te)\<rparr>) = settle_tenant te"
  unfolding settle_tenant_def [abs_def] guard_env_sel guard_env_steps guard_namespaces_deps by (rule refl)

text \<open>C15: The reconciler of tenants deletes no namespace that is not marked as a dependency of the tenant it was called
  for: whatever else a request to delete another namespace would do, it makes no difference, because it is never made. The
  Kubernetes API is assumed to answer with the tenant at the key that was asked for or stored.\<close>

theorem tenant_deletes_only_own:
  assumes "answers_at_key (te_Tenant te)"
  shows "Tenant_Reconcile (te\<lparr>te_Client := guard_namespaces (marked_for (te_Json te) ''Tenant'' req) other (te_Client te)\<rparr>) req w =
    Tenant_Reconcile te req w"
proof -
  obtain r tn w1 where fields: "keyed_Load (te_Tenant te) (NewTenant \<lparr>key_Namespace = Req_Namespace req, key_Name = Req_Name req\<rparr>) w = ((r, tn), w1)"
    by (rule nested_pair_cases)
  show ?thesis
  proof (cases "r = Inr True")
    case True
    with fields have tn: "at_request req (kd_Object tn)" "kd_Key tn = \<lparr>key_Namespace = Req_Namespace req, key_Name = Req_Name req\<rparr>"
      using keyed_Load_at_key [OF assms] by (auto simp: NewTenant_def)
    show ?thesis
    proof (cases "TenantDeps_Load (te_Client te) (NewTenantDeps tn) w1")
      case None
      with fields True show ?thesis by (simp add: Tenant_Reconcile_def)
    next
      case (Some x)
      then obtain r2 deps w2 where load: "TenantDeps_Load (te_Client te) (NewTenantDeps tn) w1 = Some ((r2, deps), w2)"
        by (metis prod.collapse)
      have deps: "at_request req (kd_Object (to_Tenant deps))"
        using TenantDeps_Load_tenant [OF load] tn by (simp add: NewTenantDeps_def Let_def)
      let ?run = "\<lambda>cl w. case TenantDeps_Delete (te_Json te) cl deps w of (Inl err, w') \<Rightarrow> (Inl err, w') | (Inr _, w') \<Rightarrow> (Inr (), w')"
      obtain f obj w3 where fin: "Finalize Tenant_FinalizerName (?run (te_Client te))
          (CreateOrUpdate (te_Tenant te) (kd_Key tn)) (kd_Object tn) w2 = ((f, obj), w3)"
        by (rule nested_pair_cases)
      have "at_request req obj" by (rule Finalize_at_key [OF assms tn(1) fin [unfolded tn(2)]])
      then have stale: "TenantDeps_DeleteStale (te_Json te) (guard_namespaces (marked_for (te_Json te) ''Tenant'' req) other (te_Client te))
          (deps\<lparr>to_Tenant := tn\<lparr>kd_Object := obj\<rparr>\<rparr>) w3 =
          TenantDeps_DeleteStale (te_Json te) (te_Client te) (deps\<lparr>to_Tenant := tn\<lparr>kd_Object := obj\<rparr>\<rparr>) w3"
        by (intro guard_namespaces_delete) simp
      show ?thesis
        using fields True load fin stale
        by (simp add: Tenant_Reconcile_def Let_def settle_tenant_guarded guard_namespaces_delete(2) [OF deps] split: sum.splits prod.splits)
    qed
  next
    case False
    with fields show ?thesis by (auto simp: Tenant_Reconcile_def split: sum.splits)
  qed
qed

section \<open>Settling\<close>


text \<open>In the state that the last request led to, the tenant of the request was stored with a status that says that it is ready.\<close>

definition stored_ready :: "'w tenant_env \<Rightarrow> request \<Rightarrow> 'w \<Rightarrow> bool" where
  "stored_ready te req w' \<longleftrightarrow>
     (\<exists>st w obj. te_UpdateStatus te st w = (Inr obj, w') \<and> at_request req st \<and> at_request req obj \<and>
        ready_loop TenantReady (ts_Conditions (tb_Status (o_Body st))))"

text \<open>The outcome asks to be called again or has an error, or else the tenant was ready in the status it stored last, and its dependencies
  were applied.\<close>

definition settles :: "'w tenant_env \<Rightarrow> request \<Rightarrow> tenant_deps_result \<Rightarrow> 'w reconcile_outcome \<Rightarrow> bool" where
  "settles te req tdr out \<longleftrightarrow>
     (\<forall>res w'. out = Some ((res, None), w') \<and> \<not> Requeue res \<longrightarrow> tdr_Error tdr = None \<and> stored_ready te req w')"


lemma settles_simps [simp]:
  "settles te req tdr None" "settles te req tdr (requeued w)" "settles te req tdr (reconciled (Some err) w)"
  by (simp_all add: settles_def requeued_def reconciled_def)
















section \<open>A cluster with two namespaces\<close>

text \<open>The world is the list of the namespaces that were deleted. The namespace \<open>ns\<close> is marked as a dependency of the tenant
  \<open>t\<close>, the namespace \<open>old\<close> of its status is not.\<close>

definition ex_mark :: dependency_json where
  "ex_mark = \<lparr>dj_Marshal = (\<lambda>_. ''m''),
     dj_Unmarshal = (\<lambda>s. if s = ''m'' then
         Inr \<lparr>do_APIVersion = ''relay.sh/v1beta1'', do_Kind = ''Tenant'', do_Namespace = ''d'', do_Name = ''t'', do_UID = ''1''\<rparr>
       else Inl (OtherError ''json''))\<rparr>"

definition ex_namespace :: "object_key \<Rightarrow> unit object" where
  "ex_namespace key = \<lparr>o_Meta = empty_meta\<lparr>om_Name := key_Name key, om_UID := ''2'',
     om_Annotations := (if key_Name key = ''ns'' then [(RelayControllerDependencyOfAnnotation, ''m'')] else [])\<rparr>, o_Body = ()\<rparr>"

definition ex_tenant :: "bool \<Rightarrow> string \<Rightarrow> object_key \<Rightarrow> tenant_body object" where
  "ex_tenant deleting template key =
     \<lparr>o_Meta = empty_meta\<lparr>om_Namespace := key_Namespace key, om_Name := key_Name key, om_UID := ''1'', om_Deleting := deleting,
        om_Finalizers := [Tenant_FinalizerName]\<rparr>,
      o_Body = empty_tenant\<lparr>tb_TemplateName := template,
        tb_Status := \<lparr>ts_ObservedGeneration = 1, ts_Namespace = ''old'', ts_Conditions = []\<rparr>\<rparr>\<rparr>"

definition ex_run_client :: "string list run_client" where
  "ex_run_client =
     \<lparr>rc_Clock = \<lparr>ck_Now = (\<lambda>_. 0), ck_Wait = (\<lambda>_ w. w)\<rparr>,
      rc_Namespace = (client_with (\<lambda>key. Inr (ex_namespace key)))\<lparr>oc_Delete := (\<lambda>obj w. (Inr (), om_Name (o_Meta obj) # w))\<rparr>,
      rc_LimitRange = client_with nothing, rc_NetworkPolicy = client_with nothing, rc_ConfigMap = client_with nothing,
      rc_ServiceAccount = client_with nothing, rc_Secret = client_with nothing, rc_Role = client_with nothing, rc_RoleBinding = client_with nothing\<rparr>"

definition ex_tenant_env :: "bool \<Rightarrow> string \<Rightarrow> string list tenant_env" where
  "ex_tenant_env deleting template =
     \<lparr>te_Client = ex_run_client,
      te_Tenant = client_with (\<lambda>key. Inr (ex_tenant deleting template key)), te_UpdateStatus = (\<lambda>obj w. (Inr obj, w)),
      te_Claim = client_with nothing, te_Volume = client_with nothing, te_Job = client_with nothing,
      te_Json = ex_mark, te_Now = (\<lambda>_ _. 0), te_ToolInjectionImage = []\<rparr>"

lemma ex_answers_at_key: "answers_at_key (te_Tenant (ex_tenant_env deleting template))"
  by (auto simp: answers_at_key_def ex_tenant_env_def client_with_def ex_tenant_def)

definition outcome_of :: "'w reconcile_outcome \<Rightarrow> (bool \<times> bool \<times> 'w) option" where
  "outcome_of out = map_option (\<lambda>((res, err), w). (Requeue res, Option.is_none err, w)) out"

lemma ex_deletion: "outcome_of (Tenant_Reconcile (ex_tenant_env True ''ns'') \<lparr>Req_Namespace = ''d'', Req_Name = ''t''\<rparr> []) = Some (False, True, [''ns''])"
  by code_simp

theorem tenant_deletes_only_own_witness:
  "outcome_of (Tenant_Reconcile ((ex_tenant_env True ''ns'')\<lparr>te_Client := guard_namespaces (marked_for ex_mark ''Tenant'' \<lparr>Req_Namespace = ''d'', Req_Name = ''t''\<rparr>)
       (\<lambda>obj w. (Inl (OtherError ''never''), ''other'' # w)) ex_run_client\<rparr>) \<lparr>Req_Namespace = ''d'', Req_Name = ''t''\<rparr> []) = Some (False, True, [''ns''])"
proof -
  have sel: "te_Json (ex_tenant_env True ''ns'') = ex_mark" "te_Client (ex_tenant_env True ''ns'') = ex_run_client"
    by (simp_all add: ex_tenant_env_def)
  show ?thesis
    unfolding tenant_deletes_only_own [OF ex_answers_at_key [of True "''ns''"], unfolded sel]
    by (rule ex_deletion)
qed



end
