(* ===== verification/Hash_Util.thy ===== *)
theory Hash_Util
  imports Transfer_Encoding Go_Stdlib
begin

text \<open>
  The structured hash of \<open>pkg/util/hashutil\<close>, and of the standard library what it uses: the text that
  \<open>encoding/json\<close> prints for a map of lists of strings, and SHA-256. Strings are byte strings.
\<close>

section \<open>SHA-256\<close>

definition sha256_k :: "32 word list" where
  "sha256_k =
    [0x428a2f98, 0x71374491, 0xb5c0fbcf, 0xe9b5dba5, 0x3956c25b, 0x59f111f1, 0x923f82a4, 0xab1c5ed5,
     0xd807aa98, 0x12835b01, 0x243185be, 0x550c7dc3, 0x72be5d74, 0x80deb1fe, 0x9bdc06a7, 0xc19bf174,
     0xe49b69c1, 0xefbe4786, 0x0fc19dc6, 0x240ca1cc, 0x2de92c6f, 0x4a7484aa, 0x5cb0a9dc, 0x76f988da,
     0x983e5152, 0xa831c66d, 0xb00327c8, 0xbf597fc7, 0xc6e00bf3, 0xd5a79147, 0x06ca6351, 0x14292967,
     0x27b70a85, 0x2e1b2138, 0x4d2c6dfc, 0x53380d13, 0x650a7354, 0x766a0abb, 0x81c2c92e, 0x92722c85,
     0xa2bfe8a1, 0xa81a664b, 0xc24b8b70, 0xc76c51a3, 0xd192e819, 0xd6990624, 0xf40e3585, 0x106aa070,
     0x19a4c116, 0x1e376c08, 0x2748774c, 0x34b0bcb5, 0x391c0cb3, 0x4ed8aa4a, 0x5b9cca4f, 0x682e6ff3,
     0x748f82ee, 0x78a5636f, 0x84c87814, 0x8cc70208, 0x90befffa, 0xa4506ceb, 0xbef9a3f7, 0xc67178f2]"

text \<open>The message schedule, with the words of the block last first.\<close>

fun sha256_schedule :: "nat \<Rightarrow> 32 word list \<Rightarrow> 32 word list" where
  "sha256_schedule 0 ws = []"
| "sha256_schedule (Suc n) ws =
     (let v1 = ws ! 1; t1 = word_rotr 17 v1 XOR word_rotr 19 v1 XOR drop_bit 10 v1;
          v2 = ws ! 14; t2 = word_rotr 7 v2 XOR word_rotr 18 v2 XOR drop_bit 3 v2;
          w = t1 + ws ! 6 + t2 + ws ! 15
      in w # sha256_schedule n (w # butlast ws))"

definition sha256_round :: "32 word \<times> 32 word \<Rightarrow> 32 word list \<Rightarrow> 32 word list" where
  "sha256_round kw st =
     (case st of
        [a, b, c, d, e, f, g, h] \<Rightarrow>
          (let t1 = h + (word_rotr 6 e XOR word_rotr 11 e XOR word_rotr 25 e) + ((e AND f) XOR (NOT e AND g)) + fst kw + snd kw;
               t2 = (word_rotr 2 a XOR word_rotr 13 a XOR word_rotr 22 a) + ((a AND b) XOR (a AND c) XOR (b AND c))
           in [t1 + t2, a, b, c, d + t1, e, f, g])
      | _ \<Rightarrow> st)"

definition sha256_block :: "32 word list \<Rightarrow> 32 word list \<Rightarrow> 32 word list" where
  "sha256_block ws st = map2 (+) st (fold sha256_round (zip sha256_k (ws @ sha256_schedule 48 (rev ws))) st)"

function sha256_blocks :: "32 word list \<Rightarrow> 32 word list \<Rightarrow> 32 word list" where
  "sha256_blocks ws st = (if ws = [] then st else sha256_blocks (drop 16 ws) (sha256_block (take 16 ws) st))"
  by pat_completeness auto
termination
  by (relation "measure (length \<circ> fst)") auto

declare sha256_blocks.simps [simp del]

definition sha256_Sum :: "string \<Rightarrow> string" where
  "sha256_Sum m =
     map (char_of \<circ> uint) (concat (map be_bytes (sha256_blocks (be_words (sha1_pad (map of_char m)))
       [0x6a09e667, 0xbb67ae85, 0x3c6ef372, 0xa54ff53a, 0x510e527f, 0x9b05688c, 0x1f83d9ab, 0x5be0cd19])))"

section \<open>The text of JSON\<close>

text \<open>A byte below 0x80 in a string: what is not safe in HTML is escaped.\<close>

definition json_escape_byte :: "char \<Rightarrow> string" where
  "json_escape_byte c =
     (if c = CHR 0x5C \<or> c = CHR 0x22 then [CHR 0x5C, c]
      else if c = CHR 0x0A then [CHR 0x5C, CHR ''n'']
      else if c = CHR 0x0D then [CHR 0x5C, CHR ''r'']
      else if c = CHR 0x09 then [CHR 0x5C, CHR ''t'']
      else if ord c < 0x20 \<or> c = CHR ''<'' \<or> c = CHR ''>'' \<or> c = CHR ''&'' then [CHR 0x5C] @ ''u00'' @ hex_EncodeToString [c]
      else [c])"

function json_escape :: "string \<Rightarrow> string" where
  "json_escape s =
     (if s = [] then []
      else if rune_len s = 0 then [CHR 0x5C] @ ''ufffd'' @ json_escape (drop 1 s)
      else if rune_len s = 1 then json_escape_byte (hd s) @ json_escape (drop 1 s)
      else if take 3 s = [CHR 0xE2, CHR 0x80, CHR 0xA8] then [CHR 0x5C] @ ''u2028'' @ json_escape (drop 3 s)
      else if take 3 s = [CHR 0xE2, CHR 0x80, CHR 0xA9] then [CHR 0x5C] @ ''u2029'' @ json_escape (drop 3 s)
      else take (rune_len s) s @ json_escape (drop (rune_len s) s))"
  by pat_completeness auto
termination
  by (relation "measure length") auto

declare json_escape.simps [simp del]

definition json_string :: "string \<Rightarrow> string" where
  "json_string s = [CHR 0x22] @ json_escape s @ [CHR 0x22]"

fun commas :: "string list \<Rightarrow> string" where
  "commas [] = []"
| "commas [x] = x"
| "commas (x # y # xs) = x @ '','' @ commas (y # xs)"

definition json_strings :: "string list \<Rightarrow> string" where
  "json_strings vs = ''['' @ commas (map json_string vs) @ '']''"

text \<open>The members of a map come sorted by key.\<close>

definition json_map :: "string list gomap \<Rightarrow> string" where
  "json_map m = ''{'' @ commas (map (\<lambda>(k, vs). json_string k @ '':'' @ json_strings vs) (sort_key fst m)) @ ''}''"

section \<open>The hash\<close>

record structured_hash =
  sh_factory :: "string \<Rightarrow> string"
  sh_data :: "string list gomap"

definition NewStructuredHash :: "(string \<Rightarrow> string) \<Rightarrow> structured_hash" where
  "NewStructuredHash factory = \<lparr>sh_factory = factory, sh_data = []\<rparr>"

definition StructuredHash_Set :: "string \<Rightarrow> string list \<Rightarrow> structured_hash \<Rightarrow> structured_hash" where
  "StructuredHash_Set name vs sh = sh\<lparr>sh_data := AList.update name vs (sh_data sh)\<rparr>"

text \<open>Printing a map of lists of strings does not fail.\<close>

definition StructuredHash_Sum :: "structured_hash \<Rightarrow> string" where
  "StructuredHash_Sum sh = sh_factory sh (json_map (sh_data sh))"

end
