(* ===== verification/Trigger_Deps.thy ===== *)
theory Trigger_Deps
  imports Tenant_Deps Hash_Util Tokens
begin

text \<open>
  What a webhook trigger needs in the namespace of its tenant (\<open>pkg/obj/webhooktriggerdeps.go\<close>), its ConfigMap
  (\<open>configmap.go\<close>) and the token it gets.

  All objects of a trigger there are owned by one stub ConfigMap, which carries the mark of a dependency of the trigger.
  \<open>None\<close> as an outcome is a panic or a wait that never ends. Parsing a URL and printing it again is a parameter.
\<close>

section \<open>Triggers\<close>

record trigger_body =
  gb_TenantRef :: string
  gb_Name :: string
  gb_Image :: string
  gb_Input :: "string list"
  gb_Command :: string
  gb_Args :: "string list"
  gb_Spec :: "gval gomap"
  gb_Env :: "gval gomap"
  gb_Generation :: int
  gb_Status :: webhook_trigger_status

abbreviation trigger_spec :: "trigger_body keyed \<Rightarrow> trigger_body" where "trigger_spec wt \<equiv> o_Body (kd_Object wt)"

definition as_trigger :: "trigger_body keyed \<Rightarrow> webhook_trigger" where
  "as_trigger wt = \<lparr>wt_Key = kd_Key wt, wt_SpecName = gb_Name (trigger_spec wt), wt_Generation = gb_Generation (trigger_spec wt),
     wt_Status = gb_Status (trigger_spec wt)\<rparr>"

definition WebhookTriggerKind :: group_version_kind where
  "WebhookTriggerKind = \<lparr>gvk_Group = ''relay.sh'', gvk_Version = ''v1beta1'', gvk_Kind = ''WebhookTrigger''\<rparr>"

section \<open>The ConfigMap of a trigger (\<open>configmap.go\<close>)\<close>

text \<open>The script of the trigger is plain text; it is kept apart from the entries that are JSON.\<close>

record trigger_configmap =
  tcm_Map :: configmap
  tcm_Scripts :: "string gomap"

definition empty_trigger_configmap :: trigger_configmap where
  "empty_trigger_configmap = \<lparr>tcm_Map = empty_configmap, tcm_Scripts = []\<rparr>"

definition scriptConfigMapKey :: "action \<Rightarrow> string" where
  "scriptConfigMapKey a = Plural (Action_Type a) @ ''.'' @ HexEncoding (Action_Hash a) @ ''.script''"

definition set_trigger_spec :: "evaluator \<Rightarrow> trigger_body keyed \<Rightarrow> configmap \<Rightarrow> configured" where
  "set_trigger_spec ev wt cm =
     (if length (gb_Spec (trigger_spec wt)) > 0 then
        (case EvaluateAll ev (GMap (gb_Spec (trigger_spec wt))) of
           Inl err \<Rightarrow> Some (Inl (MarkUser (plain_error err)), cm)
         | Inr r \<Rightarrow>
             (case Value r of
                GMap m \<Rightarrow> and_then (Spec_Set LocalConfigMap (Trigger (ModelWebhookTrigger (as_trigger wt))) m cm) (\<lambda>cm. Some (Inr (), cm))
              | _ \<Rightarrow> None))
      else Some (Inr (), cm))"

definition set_trigger_env :: "evaluator \<Rightarrow> trigger_body keyed \<Rightarrow> configmap \<Rightarrow> configured" where
  "set_trigger_env ev wt cm =
     (case evaluate_vars ev (gb_Env (trigger_spec wt)) [] of
        None \<Rightarrow> None
      | Some (Inl err) \<Rightarrow> Some (Inl err, cm)
      | Some (Inr vars) \<Rightarrow>
          (case Environment_Set LocalConfigMap (Trigger (ModelWebhookTrigger (as_trigger wt))) vars cm of
             None \<Rightarrow> None
           | Some (_, cm') \<Rightarrow> Some (Inr (), cm')))"

definition set_trigger_script :: "trigger_body keyed \<Rightarrow> string gomap \<Rightarrow> string gomap" where
  "set_trigger_script wt scripts =
     (if length (gb_Input (trigger_spec wt)) > 0 then
        AList.update (scriptConfigMapKey (Trigger (ModelWebhookTrigger (as_trigger wt)))) (ScriptForInput (gb_Input (trigger_spec wt))) scripts
      else scripts)"

definition ConfigureImmutableConfigMapForWebhookTrigger ::
    "golib \<Rightarrow> trigger_body keyed \<Rightarrow> trigger_configmap \<Rightarrow> ((goerror + unit) \<times> trigger_configmap) option" where
  "ConfigureImmutableConfigMapForWebhookTrigger lib wt tcm =
     (let ev = NewEvaluator lib [] in
      case seq (set_trigger_spec ev wt) (set_trigger_env ev wt) (tcm_Map tcm) of
        None \<Rightarrow> None
      | Some (Inl err, cm) \<Rightarrow> Some (Inl err, tcm\<lparr>tcm_Map := cm\<rparr>)
      | Some (Inr _, cm) \<Rightarrow> Some (Inr (), \<lparr>tcm_Map = cm, tcm_Scripts = set_trigger_script wt (tcm_Scripts tcm)\<rparr>))"

section \<open>The dependencies (\<open>webhooktriggerdeps.go\<close>)\<close>

text \<open>The objects in the namespace of the tenant, which are all made at the same place, once the tenant is known.\<close>

record trigger_objects =
  ti_OwnerConfigMap :: "trigger_configmap keyed"
  ti_NetworkPolicy :: network_policy
  ti_ImmutableConfigMap :: "trigger_configmap keyed"
  ti_MutableConfigMap :: "trigger_configmap keyed"
  ti_MetadataAPIServiceAccount :: service_account
  ti_MetadataAPIRole :: "rbac_rule list keyed"
  ti_MetadataAPIRoleBinding :: "role_binding_body keyed"
  ti_KnativeServiceAccount :: service_account

record trigger_deps =
  wd_WebhookTrigger :: "trigger_body keyed"
  wd_Tenant :: "tenant_body keyed"
  wd_TenantDeps :: "tenant_objects option"
  wd_StaleOwnerConfigMap :: "trigger_configmap keyed option"
  wd_Objects :: "trigger_objects option"
  wd_MetadataAPIURL :: string

record 'w trigger_client =
  gc_Run :: "'w run_client"
  gc_Tenant :: "(tenant_body, 'w) object_client"
  gc_ConfigMap :: "(trigger_configmap, 'w) object_client"

definition NewWebhookTriggerDeps :: "trigger_body keyed \<Rightarrow> string \<Rightarrow> trigger_deps" where
  "NewWebhookTriggerDeps wt metadataAPIURL =
     \<lparr>wd_WebhookTrigger = wt,
      wd_Tenant = NewTenant \<lparr>key_Namespace = key_Namespace (kd_Key wt), key_Name = gb_TenantRef (trigger_spec wt)\<rparr>,
      wd_TenantDeps = None, wd_StaleOwnerConfigMap = None, wd_Objects = None, wd_MetadataAPIURL = metadataAPIURL\<rparr>"

definition NewConfigMap :: "object_key \<Rightarrow> trigger_configmap keyed" where
  "NewConfigMap = new_keyed empty_trigger_configmap"

definition new_trigger_objects :: "object_key \<Rightarrow> trigger_objects" where
  "new_trigger_objects key =
     \<lparr>ti_OwnerConfigMap = NewConfigMap (SuffixObjectKey key ''owner''),
      ti_NetworkPolicy = NewNetworkPolicy key,
      ti_ImmutableConfigMap = NewConfigMap (SuffixObjectKey key ''immutable''),
      ti_MutableConfigMap = NewConfigMap (SuffixObjectKey key ''mutable''),
      ti_MetadataAPIServiceAccount = NewServiceAccount (SuffixObjectKey key ''metadata-api''),
      ti_MetadataAPIRole = new_keyed [] (SuffixObjectKey key ''metadata-api''),
      ti_MetadataAPIRoleBinding = new_keyed empty_role_binding (SuffixObjectKey key ''metadata-api''),
      ti_KnativeServiceAccount = NewServiceAccount (SuffixObjectKey key ''knative'')\<rparr>"

abbreviation status_namespace :: "trigger_deps \<Rightarrow> string" where
  "status_namespace d \<equiv> wts_Namespace (gb_Status (trigger_spec (wd_WebhookTrigger d)))"

definition stale_owner :: "trigger_deps \<Rightarrow> trigger_configmap keyed" where
  "stale_owner d = NewConfigMap (SuffixObjectKey \<lparr>key_Namespace = status_namespace d, key_Name = key_Name (kd_Key (wd_WebhookTrigger d))\<rparr> ''owner'')"

text \<open>An operation on one of the objects; they are nil before they are made.\<close>

definition on_object :: "(trigger_objects \<Rightarrow> 'x) \<Rightarrow> (('x \<Rightarrow> 'x) \<Rightarrow> trigger_objects \<Rightarrow> trigger_objects) \<Rightarrow> ('r, 'x, 'w) stepped \<Rightarrow> ('r, trigger_deps, 'w) stepped" where
  "on_object get update f = on_field wd_Objects wd_Objects_update (non_nil (on_field get update f))"

definition trigger_loaders :: "'w trigger_client \<Rightarrow> (bool, trigger_deps, 'w) stepped list" where
  "trigger_loaders cl =
     [on_field wd_StaleOwnerConfigMap wd_StaleOwnerConfigMap_update (if_present True (loads (gc_ConfigMap cl))),
      on_object ti_OwnerConfigMap ti_OwnerConfigMap_update (loads (gc_ConfigMap cl)),
      on_object ti_NetworkPolicy ti_NetworkPolicy_update (loads (rc_NetworkPolicy (gc_Run cl))),
      on_object ti_ImmutableConfigMap ti_ImmutableConfigMap_update (loads (gc_ConfigMap cl)),
      on_object ti_MutableConfigMap ti_MutableConfigMap_update (loads (gc_ConfigMap cl)),
      on_object ti_MetadataAPIServiceAccount ti_MetadataAPIServiceAccount_update (ServiceAccount_Load (gc_Run cl)),
      on_object ti_MetadataAPIRole ti_MetadataAPIRole_update (loads (rc_Role (gc_Run cl))),
      on_object ti_MetadataAPIRoleBinding ti_MetadataAPIRoleBinding_update (loads (rc_RoleBinding (gc_Run cl))),
      on_object ti_KnativeServiceAccount ti_KnativeServiceAccount_update (ServiceAccount_Load (gc_Run cl))]"

record load_result =
  lr_Upstream :: bool
  lr_All :: bool

definition no_load_result :: load_result where "no_load_result = \<lparr>lr_Upstream = False, lr_All = False\<rparr>"

text \<open>The tenant was not found: its namespace may still have the objects of this trigger.\<close>

definition load_without_tenant :: "'w trigger_client \<Rightarrow> (load_result, trigger_deps, 'w) stepped" where
  "load_without_tenant cl d w =
     (if status_namespace d \<noteq> [] then
        (case keyed_Load (gc_ConfigMap cl) (stale_owner d) w of
           ((r, cm), w') \<Rightarrow>
             Some ((case r of Inl err \<Rightarrow> Inl err | Inr _ \<Rightarrow> Inr no_load_result, d\<lparr>wd_StaleOwnerConfigMap := Some cm\<rparr>), w'))
      else Some ((Inr no_load_result, d), w))"

text \<open>The tenant and its dependencies are there.\<close>

definition load_objects :: "'w trigger_client \<Rightarrow> tenant_objects \<Rightarrow> (load_result, trigger_deps, 'w) stepped" where
  "load_objects cl td d w =
     (let key = \<lparr>key_Namespace = key_Name (kd_Key (to_Namespace td)), key_Name = key_Name (kd_Key (wd_WebhookTrigger d))\<rparr>;
          d1 = d\<lparr>wd_Objects := Some (new_trigger_objects key),
                 wd_StaleOwnerConfigMap :=
                   (if status_namespace d \<noteq> [] \<and> key_Namespace key \<noteq> status_namespace d then Some (stale_owner d)
                    else wd_StaleOwnerConfigMap d)\<rparr>
      in Option.bind (load_fields True (trigger_loaders cl) d1 w) (\<lambda>((r, d2), w').
           Some ((case r of Inl err \<Rightarrow> Inl err | Inr ok \<Rightarrow> Inr \<lparr>lr_Upstream = True, lr_All = ok\<rparr>, d2), w')))"

definition WebhookTriggerDeps_Load :: "'w trigger_client \<Rightarrow> (load_result, trigger_deps, 'w) stepped" where
  "WebhookTriggerDeps_Load cl d w =
     (case keyed_Load (gc_Tenant cl) (wd_Tenant d) w of
        ((Inl err, t), w1) \<Rightarrow> Some ((Inl err, d\<lparr>wd_Tenant := t\<rparr>), w1)
      | ((Inr found, t), w1) \<Rightarrow>
          if \<not> found then load_without_tenant cl (d\<lparr>wd_Tenant := t\<rparr>) w1
          else
            Option.bind (TenantDeps_Load (gc_Run cl) (NewTenantDeps t) w1) (\<lambda>((r, td), w2).
              let d1 = d\<lparr>wd_Tenant := t, wd_TenantDeps := Some td\<rparr> in
              case r of
                Inl err \<Rightarrow> Some ((Inl err, d1), w2)
              | Inr ok \<Rightarrow> if \<not> ok then Some ((Inr no_load_result, d1), w2) else load_objects cl td d1 w2))"

definition WebhookTriggerDeps_DeleteStale :: "dependency_json \<Rightarrow> 'w trigger_client \<Rightarrow> trigger_deps \<Rightarrow> 'w \<Rightarrow> bool res \<times> 'w" where
  "WebhookTriggerDeps_DeleteStale dj cl d w =
     (case wd_StaleOwnerConfigMap d of
        None \<Rightarrow> (Inr True, w)
      | Some cm \<Rightarrow> delete_dependency dj WebhookTriggerKind (o_Meta (kd_Object (wd_WebhookTrigger d))) (gc_ConfigMap cl) cm w)"

definition WebhookTriggerDeps_Delete :: "dependency_json \<Rightarrow> 'w trigger_client \<Rightarrow> trigger_deps \<Rightarrow> 'w \<Rightarrow> bool res \<times> 'w" where
  "WebhookTriggerDeps_Delete dj cl d w =
     (case WebhookTriggerDeps_DeleteStale dj cl d w of
        (Inl err, w1) \<Rightarrow> (Inl err, w1)
      | (Inr _, w1) \<Rightarrow>
          (case wd_Objects d of
             None \<Rightarrow> (Inr True, w1)
           | Some objs \<Rightarrow>
               delete_dependency dj WebhookTriggerKind (o_Meta (kd_Object (wd_WebhookTrigger d))) (gc_ConfigMap cl) (ti_OwnerConfigMap objs) w1))"

definition ConfigMapKind :: group_version_kind where
  "ConfigMapKind = \<lparr>gvk_Group = [], gvk_Version = ''v1'', gvk_Kind = ''ConfigMap''\<rparr>"

definition ConfigMap_Own :: "trigger_configmap keyed \<Rightarrow> 'a keyed \<Rightarrow> unit res \<times> 'a keyed" where
  "ConfigMap_Own cm t = (case Own ConfigMapKind (o_Meta (kd_Object cm)) (o_Meta (kd_Object t)) of (r, m) \<Rightarrow> (r, on_meta (\<lambda>_. m) t))"

definition owned_object :: "(trigger_objects \<Rightarrow> 'a keyed) \<Rightarrow> (('a keyed \<Rightarrow> 'a keyed) \<Rightarrow> trigger_objects \<Rightarrow> trigger_objects) \<Rightarrow> trigger_objects \<Rightarrow> unit res \<times> trigger_objects" where
  "owned_object get update objs = (case ConfigMap_Own (ti_OwnerConfigMap objs) (get objs) of (r, x) \<Rightarrow> (r, update (\<lambda>_. x) objs))"

text \<open>Everything but the mutable ConfigMap is owned.\<close>

definition own_objects :: "trigger_objects \<Rightarrow> unit res \<times> trigger_objects" where
  "own_objects =
     own_fields
       [owned_object ti_NetworkPolicy ti_NetworkPolicy_update,
        owned_object ti_ImmutableConfigMap ti_ImmutableConfigMap_update,
        owned_object (\<lambda>objs. sa_Account (ti_MetadataAPIServiceAccount objs)) (\<lambda>f. ti_MetadataAPIServiceAccount_update (on_account f)),
        owned_object ti_MetadataAPIRole ti_MetadataAPIRole_update,
        owned_object ti_MetadataAPIRoleBinding ti_MetadataAPIRoleBinding_update,
        owned_object (\<lambda>objs. sa_Account (ti_KnativeServiceAccount objs)) (\<lambda>f. ti_KnativeServiceAccount_update (on_account f))]"

definition trigger_persisters :: "'w trigger_client \<Rightarrow> (unit, trigger_objects, 'w) stepped list" where
  "trigger_persisters cl =
     [on_field ti_NetworkPolicy ti_NetworkPolicy_update (persists (rc_NetworkPolicy (gc_Run cl))),
      on_field ti_ImmutableConfigMap ti_ImmutableConfigMap_update (persists (gc_ConfigMap cl)),
      on_field ti_MutableConfigMap ti_MutableConfigMap_update (persists (gc_ConfigMap cl)),
      on_field ti_MetadataAPIServiceAccount ti_MetadataAPIServiceAccount_update (ServiceAccount_Persist (gc_Run cl)),
      on_field ti_MetadataAPIRole ti_MetadataAPIRole_update (persists (rc_Role (gc_Run cl))),
      on_field ti_MetadataAPIRoleBinding ti_MetadataAPIRoleBinding_update (persists (rc_RoleBinding (gc_Run cl))),
      on_field ti_KnativeServiceAccount ti_KnativeServiceAccount_update (ServiceAccount_Persist (gc_Run cl))]"

text \<open>The owner is persisted first, because the owner references need its UID.\<close>

definition persist_objects :: "'w trigger_client \<Rightarrow> (unit, trigger_objects, 'w) stepped" where
  "persist_objects cl objs w =
     (case keyed_Persist (gc_ConfigMap cl) (ti_OwnerConfigMap objs) w of
        ((Inl err, cm), w1) \<Rightarrow> Some ((Inl err, objs\<lparr>ti_OwnerConfigMap := cm\<rparr>), w1)
      | ((Inr _, cm), w1) \<Rightarrow>
          (case own_objects (objs\<lparr>ti_OwnerConfigMap := cm\<rparr>) of
             (Inl err, objs1) \<Rightarrow> Some ((Inl err, objs1), w1)
           | (Inr _, objs1) \<Rightarrow> persist_fields (trigger_persisters cl) objs1 w1))"

definition WebhookTriggerDeps_Persist :: "dependency_json \<Rightarrow> 'w trigger_client \<Rightarrow> (unit, trigger_deps, 'w) stepped" where
  "WebhookTriggerDeps_Persist dj cl d w =
     (case WebhookTriggerDeps_DeleteStale dj cl d w of
        (Inl err, w1) \<Rightarrow> Some ((Inl err, d), w1)
      | (Inr _, w1) \<Rightarrow> on_field wd_Objects wd_Objects_update (non_nil (persist_objects cl)) d w1)"

text \<open>Configuring; \<open>None\<close> is a panic.\<close>

definition label_objects :: "object_meta \<Rightarrow> trigger_objects \<Rightarrow> trigger_objects" where
  "label_objects src objs =
     (let copy = CopyLabelsAndAnnotations src in
      objs\<lparr>ti_ImmutableConfigMap := on_meta copy (ti_ImmutableConfigMap objs),
           ti_MutableConfigMap := on_meta copy (ti_MutableConfigMap objs),
           ti_MetadataAPIServiceAccount := on_account (on_meta copy) (ti_MetadataAPIServiceAccount objs),
           ti_MetadataAPIRole := on_meta copy (ti_MetadataAPIRole objs),
           ti_KnativeServiceAccount := on_account (on_meta copy) (ti_KnativeServiceAccount objs)\<rparr>)"

definition configure_trigger_access :: "trigger_objects \<Rightarrow> trigger_objects" where
  "configure_trigger_access objs =
     (let sa = ConfigureMetadataAPIServiceAccount (ti_MetadataAPIServiceAccount objs);
          role = ConfigureMetadataAPIRole (ti_ImmutableConfigMap objs) (ti_MutableConfigMap objs) (ti_MetadataAPIRole objs)
      in objs\<lparr>ti_MetadataAPIServiceAccount := sa,
              ti_MetadataAPIRole := role,
              ti_MetadataAPIRoleBinding := ConfigureMetadataAPIRoleBinding sa role (ti_MetadataAPIRoleBinding objs),
              ti_KnativeServiceAccount := ConfigureUntrustedServiceAccount (ti_KnativeServiceAccount objs)\<rparr>)"

definition configure_objects :: "dependency_json \<Rightarrow> golib \<Rightarrow> trigger_body keyed \<Rightarrow> trigger_objects \<Rightarrow> ((goerror + unit) \<times> trigger_objects) option" where
  "configure_objects dj lib wt objs =
     (let meta = o_Meta (kd_Object wt);
          o1 = objs\<lparr>ti_OwnerConfigMap := on_meta (SetDependencyOf dj WebhookTriggerKind meta) (ti_OwnerConfigMap objs)\<rparr>;
          o2 = label_objects meta o1;
          o3 = o2\<lparr>ti_NetworkPolicy := ConfigureNetworkPolicyForWebhookTrigger [] (as_trigger wt) (ti_NetworkPolicy o2)\<rparr>
      in case ConfigureImmutableConfigMapForWebhookTrigger lib wt (o_Body (kd_Object (ti_ImmutableConfigMap o3))) of
           None \<Rightarrow> None
         | Some (r, cm) \<Rightarrow>
             (let o4 = o3\<lparr>ti_ImmutableConfigMap := with_spec cm (ti_ImmutableConfigMap o3)\<rparr> in
              case r of Inl err \<Rightarrow> Some (Inl err, o4) | Inr _ \<Rightarrow> Some (Inr (), configure_trigger_access o4)))"

definition ConfigureWebhookTriggerDeps :: "dependency_json \<Rightarrow> golib \<Rightarrow> trigger_deps \<Rightarrow> ((goerror + unit) \<times> trigger_deps) option" where
  "ConfigureWebhookTriggerDeps dj lib d =
     Option.bind (wd_Objects d) (\<lambda>objs.
       Option.bind (configure_objects dj lib (wd_WebhookTrigger d) objs) (\<lambda>(r, objs'). Some (r, d\<lparr>wd_Objects := Some objs'\<rparr>)))"

definition ApplyWebhookTriggerDeps :: "dependency_json \<Rightarrow> golib \<Rightarrow> 'w trigger_client \<Rightarrow> trigger_body keyed \<Rightarrow> string \<Rightarrow> 'w \<Rightarrow>
    ((goerror + trigger_deps) \<times> 'w) option" where
  "ApplyWebhookTriggerDeps dj lib cl wt metadataAPIURL w =
     Option.bind (WebhookTriggerDeps_Load cl (NewWebhookTriggerDeps wt metadataAPIURL) w) (\<lambda>((r, d), w1).
       case r of
         Inl err \<Rightarrow> Some (Inl (plain_error err), w1)
       | Inr loaded \<Rightarrow>
           if \<not> lr_Upstream loaded then Some (Inl (plain_error ErrRequired), w1)
           else
             Option.bind (ConfigureWebhookTriggerDeps dj lib d) (\<lambda>(r, d1).
               case r of
                 Inl err \<Rightarrow> Some (Inl err, w1)
               | Inr _ \<Rightarrow>
                   Option.bind (WebhookTriggerDeps_Persist dj cl d1 w1) (\<lambda>((r, d2), w2).
                     Some (case r of Inl err \<Rightarrow> Inl (plain_error err) | Inr _ \<Rightarrow> Inr d2, w2))))"

section \<open>The token of a trigger\<close>

text \<open>The last second of Go's times, 1970 counted from year 1.\<close>

definition maxUsableTime :: int where
  "maxUsableTime = (2 ^ 63 - 1 - 62135596800) * 10 ^ 9 + 999999999"

definition RelayControllerTokenHashAnnotation :: string where "RelayControllerTokenHashAnnotation = ''controller.relay.sh/token-hash''"

text \<open>The data of the token: what a trigger, its tenant and the tenant's event sink say. The URL of the sink is left out if it
  cannot be parsed.\<close>

definition event_claims :: "(string \<Rightarrow> string option) \<Rightarrow> tenant_objects \<Rightarrow> (string \<times> string) option" where
  "event_claims parse_url td =
     (case to_Sink td of
        None \<Rightarrow> None
      | Some es \<Rightarrow>
          map_option (\<lambda>u. (u,
              if ss_Token (es_Sink es) \<noteq> [] then ss_Token (es_Sink es)
              else (case (es_TokenSecret es, ss_SecretKeyRef (es_Sink es)) of
                      (Some sec, Some (_, key)) \<Rightarrow> fst (OpaqueSecret_Data (sb_Data (o_Body (kd_Object sec))) key)
                    | _ \<Rightarrow> [])))
            (parse_url (ss_URL (es_Sink es))))"

definition trigger_claims :: "(string \<Rightarrow> string option) \<Rightarrow> trigger_deps \<Rightarrow> tenant_objects \<Rightarrow> trigger_objects \<Rightarrow> string \<Rightarrow> int \<Rightarrow> claims" where
  "trigger_claims parse_url d td objs sat now =
     (let mt = ModelWebhookTrigger (as_trigger (wd_WebhookTrigger d));
          annotations = om_Annotations (o_Meta (kd_Object (wd_WebhookTrigger d)))
      in \<lparr>jwt_Claims = Some
            \<lparr>jwt_Issuer = ControllerIssuer,
             jwt_Subject = path_Join [Plural ActionTypeTrigger, HexEncoding (Trigger_Hash mt)],
             jwt_Audience = [MetadataAPIAudienceV1],
             jwt_ID = [],
             jwt_Expiry = NewNumericDate maxUsableTime,
             jwt_NotBefore = NewNumericDate now,
             jwt_IssuedAt = NewNumericDate now\<rparr>,
          KubernetesNamespaceName = key_Name (kd_Key (to_Namespace td)),
          KubernetesNamespaceUID = om_UID (o_Meta (kd_Object (to_Namespace td))),
          KubernetesServiceAccountToken = sat,
          RelayDomainID = lookup_str annotations RelayDomainIDAnnotation,
          RelayTenantID = lookup_str annotations RelayTenantIDAnnotation,
          RelayRunID = [],
          RelayName = Trigger_Name mt,
          RelayKubernetesImmutableConfigMapName = key_Name (kd_Key (ti_ImmutableConfigMap objs)),
          RelayKubernetesMutableConfigMapName = key_Name (kd_Key (ti_MutableConfigMap objs)),
          RelayVaultEnginePath = lookup_str annotations RelayVaultEngineMountAnnotation,
          RelayVaultSecretPath = lookup_str annotations RelayVaultSecretPathAnnotation,
          RelayVaultConnectionPath = lookup_str annotations RelayVaultConnectionPathAnnotation,
          RelayEventAPIURL = map_option fst (event_claims parse_url td),
          RelayEventAPIToken = (case event_claims parse_url td of None \<Rightarrow> [] | Some (_, tok) \<Rightarrow> tok)\<rparr>)"

text \<open>The hash of the claims that decides whether a new token is issued.\<close>

definition identity_hash :: "claims \<Rightarrow> structured_hash" where
  "identity_hash c =
     (let idh = StructuredHash_Set ''vault'' [RelayVaultEnginePath c, RelayVaultSecretPath c, RelayVaultConnectionPath c]
            (StructuredHash_Set ''parents'' [RelayDomainID c, RelayTenantID c]
              (StructuredHash_Set ''subject'' [jwt_Subject (the (jwt_Claims c))] (NewStructuredHash sha256_Sum)))
      in case RelayEventAPIURL c of
           None \<Rightarrow> idh
         | Some u \<Rightarrow> StructuredHash_Set ''event'' [u, RelayEventAPIToken c] idh)"

definition AnnotateTriggerToken :: "(string \<Rightarrow> string option) \<Rightarrow> 'w issuing \<Rightarrow> trigger_deps \<Rightarrow> object_meta \<Rightarrow> 'w \<Rightarrow> ((unit res \<times> object_meta) \<times> 'w) option" where
  "AnnotateTriggerToken parse_url is d target w =
     (case (wd_TenantDeps d, wd_Objects d) of
        (Some td, Some objs) \<Rightarrow>
          (case sa_DefaultTokenSecret (ti_MetadataAPIServiceAccount objs) of
             None \<Rightarrow> None
           | Some sats \<Rightarrow>
               (case ServiceAccountTokenSecret_Token (sb_Data (o_Body (kd_Object sats))) of
                  Inl err \<Rightarrow> Some ((Inl err, target), w)
                | Inr sat \<Rightarrow>
                    (let c = trigger_claims parse_url d td objs sat (is_Now is w);
                         enc = HexEncoding (StructuredHash_Sum (identity_hash c))
                     in if enc = lookup_str (om_Annotations target) RelayControllerTokenHashAnnotation then Some ((Inr (), target), w)
                        else
                          (case is_Issue is c w of
                             (Inl err, w') \<Rightarrow> Some ((Inl err, target), w')
                           | (Inr tok, w') \<Rightarrow>
                               Some ((Inr (), snd (Annotate KubernetesSubjectAnnotation (jwt_Subject (the (jwt_Claims c)))
                                 (snd (Annotate KubernetesTokenAnnotation tok
                                   (snd (Annotate RelayControllerTokenHashAnnotation enc target)))))), w')))))
      | _ \<Rightarrow> None)"

end
