(* ===== verification/Trigger_Reconciler.thy ===== *)
theory Trigger_Reconciler
  imports Trigger_Deps Tenant_Reconciler
begin

text \<open>
  The Knative service that runs a trigger (\<open>pkg/obj/knativeservice.go\<close>) and the reconciler of triggers
  (\<open>pkg/reconciler/trigger\<close>).
\<close>

section \<open>The service\<close>

record volume_mount =
  vm_Name :: string
  vm_ReadOnly :: bool
  vm_MountPath :: string

record knative_container =
  kc_Name :: string
  kc_Image :: string
  kc_ImagePullPolicy :: string
  kc_Env :: "(string \<times> string) list"
  kc_VolumeMounts :: "volume_mount list"
  kc_Command :: "string list"
  kc_Args :: "string list"

text \<open>A volume from a ConfigMap, with the key, path and mode of each item.\<close>

record configmap_volume =
  cv_Name :: string
  cv_ConfigMap :: string
  cv_Items :: "(string \<times> string \<times> int) list"

record revision_template =
  rt_Meta :: object_meta
  rt_ServiceAccountName :: string
  rt_Volumes :: "configmap_volume list"
  rt_Containers :: "knative_container list"

text \<open>The specification of the service, and of its status whether it is ready and where it is.\<close>

record knative_body =
  kb_Template :: revision_template
  kb_IsReady :: bool
  kb_URL :: "string option"

definition empty_template :: revision_template where
  "empty_template = \<lparr>rt_Meta = empty_meta, rt_ServiceAccountName = [], rt_Volumes = [], rt_Containers = []\<rparr>"

definition NewKnativeService :: "object_key \<Rightarrow> knative_body keyed" where
  "NewKnativeService = new_keyed \<lparr>kb_Template = empty_template, kb_IsReady = False, kb_URL = None\<rparr>"

definition ImmutableConfigMapResourceVersionAnnotation :: string where
  "ImmutableConfigMapResourceVersionAnnotation = ''controller.relay.sh/immutable-config-map-resource-version''"

text \<open>The metadata of the template: the annotations of an existing token are kept.\<close>

definition template_meta :: "trigger_body keyed \<Rightarrow> trigger_objects \<Rightarrow> string gomap \<Rightarrow> object_meta" where
  "template_meta wt objs old =
     empty_meta\<lparr>om_Labels := [(''controller.relay.sh/webhook-trigger-id'', key_Name (kd_Key wt))],
       om_Annotations :=
         [(ImmutableConfigMapResourceVersionAnnotation, cm_ResourceVersion (tcm_Map (o_Body (kd_Object (ti_ImmutableConfigMap objs))))),
          (RelayControllerTokenHashAnnotation, lookup_str old RelayControllerTokenHashAnnotation),
          (KubernetesTokenAnnotation, lookup_str old KubernetesTokenAnnotation),
          (KubernetesSubjectAnnotation, lookup_str old KubernetesSubjectAnnotation)]\<rparr>"

definition script_volume :: "trigger_body keyed \<Rightarrow> trigger_objects \<Rightarrow> configmap_volume" where
  "script_volume wt objs =
     \<lparr>cv_Name = ''config'', cv_ConfigMap = key_Name (kd_Key (ti_ImmutableConfigMap objs)),
      cv_Items = [(scriptConfigMapKey (Trigger (ModelWebhookTrigger (as_trigger wt))), ''input-script'', 493)]\<rparr>"

definition trigger_container :: "trigger_body keyed \<Rightarrow> string \<Rightarrow> knative_container" where
  "trigger_container wt metadataAPIURL =
     (let spec = trigger_spec wt;
          container = \<lparr>kc_Name = om_Name (o_Meta (kd_Object wt)), kc_Image = (if gb_Image spec = [] then DefaultImage else gb_Image spec),
            kc_ImagePullPolicy = ''Always'', kc_Env = [(''METADATA_API_URL'', metadataAPIURL)],
            kc_VolumeMounts = [], kc_Command = [], kc_Args = []\<rparr>
      in if length (gb_Input spec) > 0 then
           container\<lparr>kc_VolumeMounts := [\<lparr>vm_Name = ''config'', vm_ReadOnly = True, vm_MountPath = ''/var/run/puppet/relay/config''\<rparr>],
                     kc_Command := [''/var/run/puppet/relay/config/input-script'']\<rparr>
         else
           container\<lparr>kc_Command := (if gb_Command spec \<noteq> [] then [gb_Command spec] else []),
                     kc_Args := (if length (gb_Args spec) > 0 then gb_Args spec else [])\<rparr>)"

definition RelayControllerToolsVolumeClaimAnnotation :: string where
  "RelayControllerToolsVolumeClaimAnnotation = ''controller.relay.sh/tools-volume-claim''"

text \<open>The metadata of the service itself, and the owner it gets.\<close>

definition service_meta :: "dependency_json \<Rightarrow> trigger_body keyed \<Rightarrow> trigger_objects \<Rightarrow> object_meta \<Rightarrow> unit res \<times> object_meta" where
  "service_meta dj wt objs m =
     (let m1 = snd (Annotate ''getambassador.io/ambassador-id'' ''webhook'' m);
          m2 = snd (obj_Label ''serving.knative.dev/visibility'' ''cluster-local'' m1);
          m3 = CopyLabelsAndAnnotations (o_Meta (kd_Object wt)) m2
      in case Own ConfigMapKind (o_Meta (kd_Object (ti_OwnerConfigMap objs))) m3 of
           (Inl err, m4) \<Rightarrow> (Inl err, m4)
         | (Inr _, m4) \<Rightarrow> (Inr (), SetDependencyOf dj WebhookTriggerKind (o_Meta (kd_Object wt)) m4))"

definition with_tools :: "tenant_body keyed \<Rightarrow> object_meta \<Rightarrow> object_meta" where
  "with_tools t m =
     (if tb_VolumeClaimTemplate (o_Body (kd_Object t)) \<noteq> None
      then snd (Annotate RelayControllerToolsVolumeClaimAnnotation (tools_rox t) m) else m)"

definition ConfigureKnativeService :: "dependency_json \<Rightarrow> (string \<Rightarrow> string option) \<Rightarrow> 'w issuing \<Rightarrow> trigger_deps \<Rightarrow> knative_body keyed \<Rightarrow> 'w \<Rightarrow>
    ((unit res \<times> knative_body keyed) \<times> 'w) option" where
  "ConfigureKnativeService dj parse_url is d s w =
     Option.bind (wd_Objects d) (\<lambda>objs.
       let wt = wd_WebhookTrigger d in
       case service_meta dj wt objs (o_Meta (kd_Object s)) of
         (Inl err, m) \<Rightarrow> Some ((Inl err, on_meta (\<lambda>_. m) s), w)
       | (Inr _, m) \<Rightarrow>
           (let s1 = on_meta (\<lambda>_. m) s; old = om_Annotations (rt_Meta (kb_Template (o_Body (kd_Object s)))) in
            Option.bind (AnnotateTriggerToken parse_url is d (template_meta wt objs old) w) (\<lambda>((r, tm), w').
              case r of
                Inl err \<Rightarrow> Some ((Inl err, s1), w')
              | Inr _ \<Rightarrow>
                  Some ((Inr (), with_spec ((o_Body (kd_Object s1))\<lparr>kb_Template :=
                    \<lparr>rt_Meta = with_tools (wd_Tenant d) tm,
                     rt_ServiceAccountName = key_Name (kd_Key (sa_Account (ti_KnativeServiceAccount objs))),
                     rt_Volumes = (if length (gb_Input (trigger_spec wt)) > 0 then [script_volume wt objs] else []),
                     rt_Containers = [trigger_container wt (wd_MetadataAPIURL d)]\<rparr>\<rparr>) s1), w'))))"

record 'w trigger_env =
  ge_Client :: "'w trigger_client"
  ge_Trigger :: "(trigger_body, 'w) object_client"
  ge_UpdateStatus :: "trigger_body object \<Rightarrow> 'w \<Rightarrow> trigger_body object res \<times> 'w"
  ge_Service :: "(knative_body, 'w) object_client"
  ge_Issuing :: "'w issuing"
  ge_Json :: dependency_json
  ge_ParseURL :: "string \<Rightarrow> string option"
  ge_Lib :: golib
  ge_Now :: "'w \<Rightarrow> string \<Rightarrow> int"
  ge_MetadataAPIURL :: string

definition ApplyKnativeService :: "'w trigger_env \<Rightarrow> trigger_deps \<Rightarrow> 'w \<Rightarrow> (knative_body keyed res \<times> 'w) option" where
  "ApplyKnativeService ge d w =
     Option.bind (wd_TenantDeps d) (\<lambda>td.
       case keyed_Load (ge_Service ge) (NewKnativeService
              \<lparr>key_Namespace = key_Name (kd_Key (to_Namespace td)), key_Name = key_Name (kd_Key (wd_WebhookTrigger d))\<rparr>) w of
         ((Inl err, _), w1) \<Rightarrow> Some (Inl err, w1)
       | ((Inr _, s), w1) \<Rightarrow>
           Option.bind (ConfigureKnativeService (ge_Json ge) (ge_ParseURL ge) (ge_Issuing ge) d s w1) (\<lambda>((r, s1), w2).
             case r of
               Inl err \<Rightarrow> Some (Inl err, w2)
             | Inr _ \<Rightarrow>
                 (case keyed_Persist (ge_Service ge) s1 w2 of
                    ((Inl err, _), w3) \<Rightarrow> Some (Inl err, w3)
                  | ((Inr _, s2), w3) \<Rightarrow> Some (Inr s2, w3))))"

definition AsKnativeServiceResult :: "knative_body keyed res \<Rightarrow> knative_service_result" where
  "AsKnativeServiceResult r =
     (case r of
        Inl err \<Rightarrow> \<lparr>ksr_KnativeService = None, ksr_Error = Some (error_string err)\<rparr>
      | Inr s \<Rightarrow> \<lparr>ksr_KnativeService = Some \<lparr>ks_Namespace = key_Namespace (kd_Key s), ks_IsReady = kb_IsReady (o_Body (kd_Object s)),
          ks_URL = kb_URL (o_Body (kd_Object s))\<rparr>, ksr_Error = None\<rparr>)"

section \<open>The reconciler\<close>

definition Trigger_FinalizerName :: string where "Trigger_FinalizerName = ''webhooktrigger.finalizers.controller.relay.sh''"

definition RelayControllerTenantNameLabel :: string where "RelayControllerTenantNameLabel = ''controller.relay.sh/tenant-name''"

definition empty_trigger :: trigger_body where
  "empty_trigger =
     \<lparr>gb_TenantRef = [], gb_Name = [], gb_Image = [], gb_Input = [], gb_Command = [], gb_Args = [], gb_Spec = [], gb_Env = [],
      gb_Generation = 0, gb_Status = \<lparr>wts_ObservedGeneration = 0, wts_Namespace = [], wts_URL = [], wts_Conditions = []\<rparr>\<rparr>"

definition NewWebhookTrigger :: "object_key \<Rightarrow> trigger_body keyed" where
  "NewWebhookTrigger = new_keyed empty_trigger"

text \<open>The label that names the tenant; the trigger is persisted if it was not there.\<close>

definition label_tenant :: "'w trigger_env \<Rightarrow> trigger_body keyed \<Rightarrow> 'w \<Rightarrow> (unit res \<times> trigger_body keyed) \<times> 'w" where
  "label_tenant ge wt w =
     (case obj_Label RelayControllerTenantNameLabel (gb_TenantRef (trigger_spec wt)) (o_Meta (kd_Object wt)) of
        (changed, m) \<Rightarrow>
          if changed then keyed_Persist (ge_Trigger ge) (on_meta (\<lambda>_. m) wt) w else ((Inr (), wt), w))"

text \<open>The service and the status.\<close>

definition settle_trigger :: "'w trigger_env \<Rightarrow> trigger_deps \<Rightarrow> 'w \<Rightarrow> 'w reconcile_outcome" where
  "settle_trigger ge d w =
     Option.bind (ApplyKnativeService ge d w) (\<lambda>(r, w1).
       let wt = wd_WebhookTrigger d in
       Option.bind (ConfigureWebhookTrigger (ge_Now ge w1) (AsKnativeServiceResult r) (as_trigger wt)) (\<lambda>t.
         case ge_UpdateStatus ge (kd_Object (with_spec ((trigger_spec wt)\<lparr>gb_Status := wt_Status t\<rparr>) wt)) w1 of
           (Inl err, w2) \<Rightarrow> reconciled (Some (plain_error err)) w2
         | (Inr obj, w2) \<Rightarrow>
             if \<not> WebhookTrigger_Ready (as_trigger (wt\<lparr>kd_Object := obj\<rparr>))
             then Some ((\<lparr>Requeue = False, RequeueAfter = 120 * 10 ^ 9\<rparr>, None), w2)
             else reconciled None w2))"

text \<open>Configure and persist the dependencies.\<close>

definition apply_trigger_deps :: "'w trigger_env \<Rightarrow> trigger_deps \<Rightarrow> 'w \<Rightarrow> 'w reconcile_outcome" where
  "apply_trigger_deps ge d w =
     Option.bind (ConfigureWebhookTriggerDeps (ge_Json ge) (ge_Lib ge) d) (\<lambda>(r, d1).
       case r of
         Inl err \<Rightarrow> reconciled (Some (failed_to ''configure dependencies'' err)) w
       | Inr _ \<Rightarrow>
           Option.bind (WebhookTriggerDeps_Persist (ge_Json ge) (ge_Client ge) d1 w) (\<lambda>((r, d2), w1).
             case r of
               Inl err \<Rightarrow>
                 reconciled (Some (failed_to ''apply dependencies''
                   (MarkTransient (plain_error err) [\<lambda>m. TransientRuleExact m (Plain ErrRequired)]))) w1
             | Inr _ \<Rightarrow> settle_trigger ge d2 w1))"

definition waiting_error :: goerror where
  "waiting_error = MarkTransient (plain_error (OtherError ''waiting for dependencies to reconcile'')) [TransientAlways]"

text \<open>After loading: finalize, label, delete what is stale, and go on if the tenant is there.\<close>

definition reconcile_loaded :: "'w trigger_env \<Rightarrow> load_result \<Rightarrow> trigger_deps \<Rightarrow> 'w \<Rightarrow> 'w reconcile_outcome" where
  "reconcile_loaded ge loaded d w =
     (let wt = wd_WebhookTrigger d in
      case Finalize Trigger_FinalizerName
             (\<lambda>w. case WebhookTriggerDeps_Delete (ge_Json ge) (ge_Client ge) d w of (Inl err, w') \<Rightarrow> (Inl err, w') | (Inr _, w') \<Rightarrow> (Inr (), w'))
             (CreateOrUpdate (ge_Trigger ge) (kd_Key wt)) (kd_Object wt) w of
        ((Inl err, _), w1) \<Rightarrow> reconciled (Some (plain_error err)) w1
      | ((Inr finalized, obj), w1) \<Rightarrow>
          if finalized then reconciled None w1
          else
            (case label_tenant ge (wt\<lparr>kd_Object := obj\<rparr>) w1 of
               ((Inl err, _), w2) \<Rightarrow> reconciled (Some (plain_error err)) w2
             | ((Inr _, wt1), w2) \<Rightarrow>
                 (let d1 = d\<lparr>wd_WebhookTrigger := wt1\<rparr> in
                  case WebhookTriggerDeps_DeleteStale (ge_Json ge) (ge_Client ge) d1 w2 of
                    (Inl err, w3) \<Rightarrow> reconciled (Some (failed_to ''delete stale dependencies'' (plain_error err))) w3
                  | (Inr _, w3) \<Rightarrow>
                      if \<not> lr_Upstream loaded then reconciled (Some waiting_error) w3
                      else apply_trigger_deps ge d1 w3)))"

definition Trigger_Reconcile :: "'w trigger_env \<Rightarrow> request \<Rightarrow> 'w \<Rightarrow> 'w reconcile_outcome" where
  "Trigger_Reconcile ge req w =
     (case keyed_Load (ge_Trigger ge) (NewWebhookTrigger \<lparr>key_Namespace = Req_Namespace req, key_Name = Req_Name req\<rparr>) w of
        ((Inl err, _), w1) \<Rightarrow> reconciled (Some (failed_to ''load dependencies'' (plain_error err))) w1
      | ((Inr found, wt), w1) \<Rightarrow>
          if \<not> found then reconciled None w1
          else
            Option.bind (WebhookTriggerDeps_Load (ge_Client ge) (NewWebhookTriggerDeps wt (ge_MetadataAPIURL ge)) w1) (\<lambda>((r, d), w2).
              case r of
                Inl err \<Rightarrow> reconciled (Some (failed_to ''load dependencies'' (plain_error err))) w2
              | Inr loaded \<Rightarrow> reconcile_loaded ge loaded d w2))"

end
