(* ===== verification/Trigger_Reconciler_Props.thy ===== *)
theory Trigger_Reconciler_Props
  imports Trigger_Reconciler Tenant_Reconciler_Props Token_Props
begin

text \<open>
  The tokens of triggers and what the reconciler of triggers deletes.
\<close>

section \<open>A token is issued once\<close>

text \<open>The time is no part of the hash.\<close>

lemma identity_hash_time: "identity_hash (trigger_claims p d td objs sat now) = identity_hash (trigger_claims p d td objs sat' now')"
  by (simp add: identity_hash_def trigger_claims_def Let_def split: option.split)

text \<open>What is annotated when annotating succeeds.\<close>

lemma AnnotateTriggerToken_cases:
  assumes "AnnotateTriggerToken p is d target w = Some ((Inr (), target'), w')"
  obtains td objs sats sat enc c where "wd_TenantDeps d = Some td" "wd_Objects d = Some objs"
    "sa_DefaultTokenSecret (ti_MetadataAPIServiceAccount objs) = Some sats"
    "ServiceAccountTokenSecret_Token (sb_Data (o_Body (kd_Object sats))) = Inr sat"
    "c = trigger_claims p d td objs sat (is_Now is w)"
    "enc = HexEncoding (StructuredHash_Sum (identity_hash c))"
    "enc = lookup_str (om_Annotations target) RelayControllerTokenHashAnnotation \<and> target' = target \<and> w' = w \<or>
     (\<exists>tok. is_Issue is c w = (Inr tok, w') \<and> target' =
        snd (Annotate KubernetesSubjectAnnotation (jwt_Subject (the (jwt_Claims c)))
          (snd (Annotate KubernetesTokenAnnotation tok (snd (Annotate RelayControllerTokenHashAnnotation enc target))))))"
  using assms
  by (auto simp: AnnotateTriggerToken_def Let_def split: option.splits sum.splits prod.splits if_splits intro: that)

lemma lookup_Annotate:
  "lookup_str (om_Annotations (snd (Annotate n v m))) k = (if k = n then v else lookup_str (om_Annotations m) k)"
  by (simp add: lookup_str_def Annotate_map)

lemmas token_annotations = RelayControllerTokenHashAnnotation_def KubernetesTokenAnnotation_def KubernetesSubjectAnnotation_def
  ImmutableConfigMapResourceVersionAnnotation_def RelayControllerToolsVolumeClaimAnnotation_def

lemma AnnotateTriggerToken_again:
  assumes "AnnotateTriggerToken p is d target w = Some ((Inr (), target'), w')"
    and "lookup_str (om_Annotations target2) RelayControllerTokenHashAnnotation = lookup_str (om_Annotations target') RelayControllerTokenHashAnnotation"
  shows "AnnotateTriggerToken p is2 d target2 w2 = Some ((Inr (), target2), w2)"
proof (rule AnnotateTriggerToken_cases [OF assms(1)])
  fix td objs sats sat enc c
  assume d: "wd_TenantDeps d = Some td" "wd_Objects d = Some objs" "sa_DefaultTokenSecret (ti_MetadataAPIServiceAccount objs) = Some sats"
    "ServiceAccountTokenSecret_Token (sb_Data (o_Body (kd_Object sats))) = Inr sat"
    and c: "c = trigger_claims p d td objs sat (is_Now is w)" "enc = HexEncoding (StructuredHash_Sum (identity_hash c))"
    and r: "enc = lookup_str (om_Annotations target) RelayControllerTokenHashAnnotation \<and> target' = target \<and> w' = w \<or>
     (\<exists>tok. is_Issue is c w = (Inr tok, w') \<and> target' =
        snd (Annotate KubernetesSubjectAnnotation (jwt_Subject (the (jwt_Claims c)))
          (snd (Annotate KubernetesTokenAnnotation tok (snd (Annotate RelayControllerTokenHashAnnotation enc target))))))"
  from r have "lookup_str (om_Annotations target') RelayControllerTokenHashAnnotation = enc"
    by (auto simp: lookup_Annotate token_annotations)
  with assms(2) have "lookup_str (om_Annotations target2) RelayControllerTokenHashAnnotation = enc" by simp
  moreover have "enc = HexEncoding (StructuredHash_Sum (identity_hash (trigger_claims p d td objs sat (is_Now is2 w2))))"
    using c identity_hash_time by metis
  ultimately show ?thesis using d by (simp add: AnnotateTriggerToken_def Let_def)
qed

text \<open>The metadata that a template gets, with the hash, the token and the subject in it.\<close>

definition token_meta :: "trigger_body keyed \<Rightarrow> trigger_objects \<Rightarrow> string \<Rightarrow> string \<Rightarrow> string \<Rightarrow> object_meta" where
  "token_meta wt objs h tok sub = template_meta wt objs
     [(RelayControllerTokenHashAnnotation, h), (KubernetesTokenAnnotation, tok), (KubernetesSubjectAnnotation, sub)]"

lemma template_meta_token_meta:
  "template_meta wt objs old = token_meta wt objs (lookup_str old RelayControllerTokenHashAnnotation)
     (lookup_str old KubernetesTokenAnnotation) (lookup_str old KubernetesSubjectAnnotation)"
  by (simp add: token_meta_def template_meta_def lookup_str_def token_annotations)

lemma token_meta_lookup:
  "lookup_str (om_Annotations (token_meta wt objs h tok sub)) RelayControllerTokenHashAnnotation = h"
  "lookup_str (om_Annotations (token_meta wt objs h tok sub)) KubernetesTokenAnnotation = tok"
  "lookup_str (om_Annotations (token_meta wt objs h tok sub)) KubernetesSubjectAnnotation = sub"
  by (simp_all add: token_meta_def template_meta_def lookup_str_def token_annotations)

lemma token_meta_Annotate:
  "snd (Annotate RelayControllerTokenHashAnnotation v (token_meta wt objs h tok sub)) = token_meta wt objs v tok sub"
  "snd (Annotate KubernetesTokenAnnotation v (token_meta wt objs h tok sub)) = token_meta wt objs h v sub"
  "snd (Annotate KubernetesSubjectAnnotation v (token_meta wt objs h tok sub)) = token_meta wt objs h tok v"
  by (auto simp: token_meta_def template_meta_def lookup_str_def token_annotations Annotate_def)

lemma with_tools_lookup:
  "lookup_str (om_Annotations (with_tools t m)) RelayControllerTokenHashAnnotation = lookup_str (om_Annotations m) RelayControllerTokenHashAnnotation"
  "lookup_str (om_Annotations (with_tools t m)) KubernetesTokenAnnotation = lookup_str (om_Annotations m) KubernetesTokenAnnotation"
  "lookup_str (om_Annotations (with_tools t m)) KubernetesSubjectAnnotation = lookup_str (om_Annotations m) KubernetesSubjectAnnotation"
  by (simp_all add: with_tools_def lookup_Annotate token_annotations)

text \<open>What annotating made of a template is what the next reconciliation starts from.\<close>

lemma template_again:
  assumes "AnnotateTriggerToken p is d (template_meta wt objs old) w = Some ((Inr (), tm), w')"
  shows "template_meta wt objs (om_Annotations (with_tools t tm)) = tm"
    and "AnnotateTriggerToken p is2 d tm w2 = Some ((Inr (), tm), w2)"
proof -
  from assms obtain h tok sub where "tm = token_meta wt objs h tok sub"
    by (rule AnnotateTriggerToken_cases) (auto simp: template_meta_token_meta token_meta_Annotate)
  then show "template_meta wt objs (om_Annotations (with_tools t tm)) = tm"
    by (simp add: template_meta_token_meta with_tools_lookup token_meta_lookup)
  show "AnnotateTriggerToken p is2 d tm w2 = Some ((Inr (), tm), w2)"
    by (rule AnnotateTriggerToken_again [OF assms refl])
qed

lemma meta_namespaces:
  "om_Namespace (snd (Annotate n v m)) = om_Namespace m" "om_Namespace (snd (obj_Label n v m)) = om_Namespace m"
  by (simp_all add: Annotate_def obj_Label_def)

lemma CopyLabelsAndAnnotations_namespace: "om_Namespace (CopyLabelsAndAnnotations src m) = om_Namespace m"
proof -
  have "om_Namespace (fold (\<lambda>(name, value) t. snd (Annotate name value t)) xs m) = om_Namespace m" for xs m
    by (induction xs arbitrary: m) (auto simp: meta_namespaces)
  moreover have "om_Namespace (fold (\<lambda>(name, value) t. snd (obj_Label name value t)) xs m) = om_Namespace m" for xs m
    by (induction xs arbitrary: m) (auto simp: meta_namespaces)
  ultimately show ?thesis by (simp add: CopyLabelsAndAnnotations_def)
qed

lemma service_meta_ok:
  assumes "om_Namespace m = om_Namespace (o_Meta (kd_Object (ti_OwnerConfigMap objs)))"
  obtains m' where "service_meta dj wt objs m = (Inr (), m')"
  using assms by (simp add: service_meta_def Own_def Let_def meta_namespaces CopyLabelsAndAnnotations_namespace)

text \<open>C16: The token of a trigger is issued once. When the service of a trigger has been configured and nothing the token says of the
  trigger, its tenant and its event sink has changed, configuring the service again, at any later time and with any
  issuer, issues no token and leaves the template of the service as it is, so that no new revision is rolled out.\<close>

theorem trigger_service_stable:
  assumes "ConfigureKnativeService dj p is d s w = Some ((Inr (), s'), w')"
    and "kb_Template (o_Body (kd_Object s2)) = kb_Template (o_Body (kd_Object s'))"
    and "wd_Objects d = Some objs" and "om_Namespace (o_Meta (kd_Object s2)) = om_Namespace (o_Meta (kd_Object (ti_OwnerConfigMap objs)))"
  shows "\<exists>s3. ConfigureKnativeService dj p is2 d s2 w2 = Some ((Inr (), s3), w2) \<and>
    kb_Template (o_Body (kd_Object s3)) = kb_Template (o_Body (kd_Object s2))"
proof -
  from assms(1,3) obtain m tm old where
    tm: "AnnotateTriggerToken p is d (template_meta (wd_WebhookTrigger d) objs old) w = Some ((Inr (), tm), w')"
    and s': "kb_Template (o_Body (kd_Object s')) =
      \<lparr>rt_Meta = with_tools (wd_Tenant d) tm, rt_ServiceAccountName = key_Name (kd_Key (sa_Account (ti_KnativeServiceAccount objs))),
       rt_Volumes = (if length (gb_Input (trigger_spec (wd_WebhookTrigger d))) > 0 then [script_volume (wd_WebhookTrigger d) objs] else []),
       rt_Containers = [trigger_container (wd_WebhookTrigger d) (wd_MetadataAPIURL d)]\<rparr>"
    by (auto simp: ConfigureKnativeService_def Let_def with_spec_def split: sum.splits prod.splits bind_splits)
  obtain m' where "service_meta dj (wd_WebhookTrigger d) objs (o_Meta (kd_Object s2)) = (Inr (), m')"
    using service_meta_ok [OF assms(4)] by metis
  with assms(2,3) s' template_again(1) [OF tm, of "wd_Tenant d"] template_again(2) [OF tm, of is2 w2] show ?thesis
    by (auto simp: ConfigureKnativeService_def Let_def with_spec_def)
qed

section \<open>The token is accepted\<close>

lemma length_sha256_round: "length st = 8 \<Longrightarrow> length (sha256_round kw st) = 8"
  by (auto simp: sha256_round_def Let_def split: list.splits)

lemma length_sha256_rounds: "length st = 8 \<Longrightarrow> length (fold sha256_round kws st) = 8"
  by (induction kws arbitrary: st) (simp_all add: length_sha256_round)

lemma length_sha256_blocks: "length st = 8 \<Longrightarrow> length (sha256_blocks ws st) = 8"
proof (induction ws st rule: sha256_blocks.induct)
  case (1 ws st)
  then show ?case by (subst sha256_blocks.simps) (simp add: sha256_block_def length_sha256_rounds)
qed

lemma length_sha256_Sum: "length (sha256_Sum m) = 32"
proof -
  have "length (concat (map be_bytes ws)) = 4 * length ws" for ws
    by (induction ws) (simp_all add: be_bytes_def)
  then show ?thesis by (simp add: sha256_Sum_def length_sha256_blocks)
qed

lemma identity_hash_encoded: "HexEncoding (StructuredHash_Sum (identity_hash c)) \<noteq> []"
proof -
  have "sh_factory (identity_hash c) = sha256_Sum"
    by (simp add: identity_hash_def StructuredHash_Set_def NewStructuredHash_def Let_def split: option.split)
  then have "length (StructuredHash_Sum (identity_hash c)) = 32" by (simp add: StructuredHash_Sum_def length_sha256_Sum)
  then show ?thesis by (cases "StructuredHash_Sum (identity_hash c)") (simp_all add: HexEncoding_def hex_EncodeToString_def)
qed





section \<open>Deleting\<close>

definition guard_configmaps :: "(trigger_configmap object \<Rightarrow> bool) \<Rightarrow> (trigger_configmap object \<Rightarrow> 'w \<Rightarrow> unit res \<times> 'w) \<Rightarrow> 'w trigger_client \<Rightarrow> 'w trigger_client" where
  "guard_configmaps ok other cl = cl\<lparr>gc_ConfigMap := guard_delete ok other (gc_ConfigMap cl)\<rparr>"

lemma guard_configmaps_sel [simp]:
  "gc_Run (guard_configmaps ok other cl) = gc_Run cl" "gc_Tenant (guard_configmaps ok other cl) = gc_Tenant cl"
  "gc_ConfigMap (guard_configmaps ok other cl) = guard_delete ok other (gc_ConfigMap cl)"
  by (simp_all add: guard_configmaps_def)

lemma guard_configmaps_deps [simp]:
  "WebhookTriggerDeps_Load (guard_configmaps ok other cl) = WebhookTriggerDeps_Load cl"
  "persist_objects (guard_configmaps ok other cl) = persist_objects cl"
  unfolding WebhookTriggerDeps_Load_def [abs_def] load_without_tenant_def [abs_def] load_objects_def [abs_def] trigger_loaders_def
    persist_objects_def [abs_def] trigger_persisters_def guard_configmaps_sel guard_delete_keyed
  by (rule refl)+

lemma guard_configmaps_delete:
  assumes "at_request req (kd_Object (wd_WebhookTrigger d))"
  shows "WebhookTriggerDeps_DeleteStale dj (guard_configmaps (marked_for dj ''WebhookTrigger'' req) other cl) d w = WebhookTriggerDeps_DeleteStale dj cl d w"
    and "WebhookTriggerDeps_Delete dj (guard_configmaps (marked_for dj ''WebhookTrigger'' req) other cl) d w = WebhookTriggerDeps_Delete dj cl d w"
    and "WebhookTriggerDeps_Persist dj (guard_configmaps (marked_for dj ''WebhookTrigger'' req) other cl) d w = WebhookTriggerDeps_Persist dj cl d w"
proof -
  let ?o = "o_Meta (kd_Object (wd_WebhookTrigger d))"
  have del: "delete_dependency dj WebhookTriggerKind ?o (guard_delete (marked_for dj ''WebhookTrigger'' req) other c) x w =
      delete_dependency dj WebhookTriggerKind ?o c x w" for c x w
    using assms dependency_marked_for [of dj WebhookTriggerKind ?o "kd_Object x" req]
    by (intro delete_dependency_guarded) (simp add: WebhookTriggerKind_def)
  show stale: "WebhookTriggerDeps_DeleteStale dj (guard_configmaps (marked_for dj ''WebhookTrigger'' req) other cl) d w = WebhookTriggerDeps_DeleteStale dj cl d w" for w
    by (simp add: WebhookTriggerDeps_DeleteStale_def del split: option.splits)
  show "WebhookTriggerDeps_Delete dj (guard_configmaps (marked_for dj ''WebhookTrigger'' req) other cl) d w = WebhookTriggerDeps_Delete dj cl d w"
    unfolding WebhookTriggerDeps_Delete_def stale by (simp add: del split: prod.splits sum.splits option.splits)
  show "WebhookTriggerDeps_Persist dj (guard_configmaps (marked_for dj ''WebhookTrigger'' req) other cl) d w = WebhookTriggerDeps_Persist dj cl d w"
    unfolding WebhookTriggerDeps_Persist_def stale guard_configmaps_deps by (rule refl)
qed

lemma guard_trigger_env_sel [simp]:
  "ge_Client (ge\<lparr>ge_Client := cl\<rparr>) = cl" "ge_Trigger (ge\<lparr>ge_Client := cl\<rparr>) = ge_Trigger ge"
  "ge_UpdateStatus (ge\<lparr>ge_Client := cl\<rparr>) = ge_UpdateStatus ge" "ge_Service (ge\<lparr>ge_Client := cl\<rparr>) = ge_Service ge"
  "ge_Issuing (ge\<lparr>ge_Client := cl\<rparr>) = ge_Issuing ge" "ge_Json (ge\<lparr>ge_Client := cl\<rparr>) = ge_Json ge"
  "ge_ParseURL (ge\<lparr>ge_Client := cl\<rparr>) = ge_ParseURL ge" "ge_Lib (ge\<lparr>ge_Client := cl\<rparr>) = ge_Lib ge"
  "ge_Now (ge\<lparr>ge_Client := cl\<rparr>) = ge_Now ge" "ge_MetadataAPIURL (ge\<lparr>ge_Client := cl\<rparr>) = ge_MetadataAPIURL ge"
  by simp_all

lemma guard_trigger_steps:
  "settle_trigger (ge\<lparr>ge_Client := cl\<rparr>) = settle_trigger ge" "label_tenant (ge\<lparr>ge_Client := cl\<rparr>) = label_tenant ge"
  unfolding settle_trigger_def [abs_def] ApplyKnativeService_def [abs_def] label_tenant_def [abs_def] guard_trigger_env_sel
  by (rule refl)+

lemma Configure_keeps_trigger:
  "ConfigureWebhookTriggerDeps dj lib d = Some (r, d') \<Longrightarrow> wd_WebhookTrigger d' = wd_WebhookTrigger d"
  by (auto simp: ConfigureWebhookTriggerDeps_def split: bind_splits)

lemma apply_trigger_deps_guarded:
  assumes "at_request req (kd_Object (wd_WebhookTrigger d))"
  shows "apply_trigger_deps (ge\<lparr>ge_Client := guard_configmaps (marked_for (ge_Json ge) ''WebhookTrigger'' req) other (ge_Client ge)\<rparr>) d w =
    apply_trigger_deps ge d w"
proof (cases "ConfigureWebhookTriggerDeps (ge_Json ge) (ge_Lib ge) d")
  case (Some x)
  obtain r d1 where x: "x = (r, d1)" by (cases x)
  then have "at_request req (kd_Object (wd_WebhookTrigger d1))" using Configure_keeps_trigger Some assms by metis
  note persist = guard_configmaps_delete(3) [OF this, of "ge_Json ge"]
  show ?thesis
    unfolding apply_trigger_deps_def guard_trigger_steps guard_trigger_env_sel Some x
    by (simp only: Option.bind.simps prod.case persist)
qed (simp add: apply_trigger_deps_def)

lemma label_tenant_at_key:
  assumes "answers_at_key (ge_Trigger ge)" "kd_Key wt = \<lparr>key_Namespace = Req_Namespace req, key_Name = Req_Name req\<rparr>"
    "at_request req (kd_Object wt)" "label_tenant ge wt w = ((r, wt'), w')"
  shows "at_request req (kd_Object wt')"
proof (cases "obj_Label RelayControllerTenantNameLabel (gb_TenantRef (trigger_spec wt)) (o_Meta (kd_Object wt))")
  case (Pair changed m)
  with assms(3,4) show ?thesis
    by (auto simp: label_tenant_def keyed_Persist_def on_meta_def assms(2) split: if_splits prod.splits
        dest!: CreateOrUpdate_at_key [OF assms(1)])
qed

lemma WebhookTriggerDeps_Load_trigger:
  assumes "WebhookTriggerDeps_Load cl d w = Some ((r, d'), w')"
  shows "wd_WebhookTrigger d' = wd_WebhookTrigger d"
proof -
  have objs: "wd_WebhookTrigger d2 = wd_WebhookTrigger d1" if "load_fields True (trigger_loaders cl) d1 w1 = Some ((r1, d2), w2)" for d1 d2 w1 w2 r1
    by (rule load_fields_invariant [OF _ that]) (auto simp: trigger_loaders_def on_object_def dest!: on_field_result)
  show ?thesis
    using assms
    by (auto simp: WebhookTriggerDeps_Load_def load_without_tenant_def load_objects_def Let_def
        split: prod.splits sum.splits if_splits bind_splits dest!: objs)
qed

text \<open>C17: The reconciler of triggers deletes no ConfigMap that is not marked as a dependency of the trigger it was called for, when the
  trigger is deleted, when its tenant goes away or moves to another namespace, and otherwise.\<close>

theorem trigger_deletes_only_own:
  assumes "answers_at_key (ge_Trigger ge)"
  shows "Trigger_Reconcile (ge\<lparr>ge_Client := guard_configmaps (marked_for (ge_Json ge) ''WebhookTrigger'' req) other (ge_Client ge)\<rparr>) req w =
    Trigger_Reconcile ge req w"
proof -
  let ?key = "\<lparr>key_Namespace = Req_Namespace req, key_Name = Req_Name req\<rparr>"
  let ?ge = "ge\<lparr>ge_Client := guard_configmaps (marked_for (ge_Json ge) ''WebhookTrigger'' req) other (ge_Client ge)\<rparr>"
  obtain r wt w1 where load: "keyed_Load (ge_Trigger ge) (NewWebhookTrigger ?key) w = ((r, wt), w1)" by (rule nested_pair_cases)
  have step: "reconcile_loaded ?ge loaded d w2 = reconcile_loaded ge loaded d w2"
    if d: "at_request req (kd_Object (wd_WebhookTrigger d))" "kd_Key (wd_WebhookTrigger d) = ?key" for loaded d w2
  proof -
    let ?wt = "wd_WebhookTrigger d"
    let ?run = "\<lambda>w. case WebhookTriggerDeps_Delete (ge_Json ge) (ge_Client ge) d w of (Inl err, w') \<Rightarrow> (Inl err, w') | (Inr _, w') \<Rightarrow> (Inr (), w')"
    obtain f obj w3 where fin: "Finalize Trigger_FinalizerName ?run (CreateOrUpdate (ge_Trigger ge) ?key) (kd_Object ?wt) w2 = ((f, obj), w3)"
      by (rule nested_pair_cases)
    have "at_request req obj" by (rule Finalize_at_key [OF assms d(1) fin])
    moreover obtain r4 wt1 w4 where label: "label_tenant ge (?wt\<lparr>kd_Object := obj\<rparr>) w3 = ((r4, wt1), w4)" by (rule nested_pair_cases)
    ultimately have d1: "at_request req (kd_Object (wd_WebhookTrigger (d\<lparr>wd_WebhookTrigger := wt1\<rparr>)))"
      using label_tenant_at_key [OF assms _ _ label] d(2) by simp
    show ?thesis
      unfolding reconcile_loaded_def guard_trigger_steps guard_trigger_env_sel Let_def d(2) guard_configmaps_delete(2) [OF d(1)] fin
        prod.case label
      by (simp add: guard_configmaps_delete(1) [OF d1] apply_trigger_deps_guarded [OF d1] split: sum.splits prod.splits)
  qed
  show ?thesis
  proof (cases "r = Inr True")
    case True
    with load have wt: "at_request req (kd_Object wt)" "kd_Key wt = ?key"
      using keyed_Load_at_key [OF assms] by (auto simp: NewWebhookTrigger_def)
    have "reconcile_loaded ?ge loaded d w2 = reconcile_loaded ge loaded d w2"
      if "WebhookTriggerDeps_Load (ge_Client ge) (NewWebhookTriggerDeps wt (ge_MetadataAPIURL ge)) w1 = Some ((Inr loaded, d), w2)" for loaded d w2
      using WebhookTriggerDeps_Load_trigger [OF that] wt by (intro step) (simp_all add: NewWebhookTriggerDeps_def)
    then show ?thesis
      using load True by (auto simp: Trigger_Reconcile_def split: bind_splits sum.splits)
  next
    case False
    with load show ?thesis by (auto simp: Trigger_Reconcile_def split: sum.splits)
  qed
qed

section \<open>A trigger\<close>

text \<open>The trigger \<open>t\<close> of an unmanaged tenant, with a token of the metadata API's account.\<close>

definition ex_trigger :: "bool \<Rightarrow> object_key \<Rightarrow> trigger_body object" where
  "ex_trigger deleting key =
     \<lparr>o_Meta = empty_meta\<lparr>om_Namespace := key_Namespace key, om_Name := key_Name key, om_UID := ''1'', om_Deleting := deleting,
        om_Finalizers := [Trigger_FinalizerName]\<rparr>,
      o_Body = empty_trigger\<lparr>gb_TenantRef := ''tenant'', gb_Status := (gb_Status empty_trigger)\<lparr>wts_Namespace := ''old''\<rparr>\<rparr>\<rparr>"

definition ex_trigger_key :: object_key where "ex_trigger_key = \<lparr>key_Namespace = ''ns'', key_Name = ''t''\<rparr>"

definition ex_trigger_objects :: trigger_objects where
  "ex_trigger_objects = (new_trigger_objects ex_trigger_key)\<lparr>ti_MetadataAPIServiceAccount :=
     (NewServiceAccount ex_trigger_key)\<lparr>sa_DefaultTokenSecret :=
       Some (new_keyed \<lparr>sb_Type = SecretTypeServiceAccountToken, sb_Data = [(''token'', ''sat'')]\<rparr> ex_trigger_key)\<rparr>\<rparr>"

definition ex_tenant_objects :: tenant_objects where
  "ex_tenant_objects = (NewTenantDeps (NewTenant \<lparr>key_Namespace = ''ns'', key_Name = ''tenant''\<rparr>))\<lparr>to_Namespace :=
     on_meta (om_UID_update (\<lambda>_. ''uid'')) (NewNamespace ''ns'')\<rparr>"

definition ex_trigger_deps :: trigger_deps where
  "ex_trigger_deps =
     \<lparr>wd_WebhookTrigger = \<lparr>kd_Key = ex_trigger_key, kd_Object = ex_trigger False ex_trigger_key\<rparr>,
      wd_Tenant = to_Tenant ex_tenant_objects, wd_TenantDeps = Some ex_tenant_objects, wd_StaleOwnerConfigMap = None,
      wd_Objects = Some ex_trigger_objects, wd_MetadataAPIURL = ''http://api''\<rparr>"

definition ex_trigger_claims :: claims where
  "ex_trigger_claims = trigger_claims Some ex_trigger_deps ex_tenant_objects ex_trigger_objects ''sat'' ex_now"

lemma ex_trigger_token:
  assumes "lookup_str (om_Annotations target) RelayControllerTokenHashAnnotation = []" "is_Now is w = ex_now" "is_Issue is ex_trigger_claims w = (Inr tok, w')"
  obtains target' where "AnnotateTriggerToken Some is ex_trigger_deps target w = Some ((Inr (), target'), w')"
    "lookup_str (om_Annotations target') KubernetesTokenAnnotation = tok"
    "lookup_str (om_Annotations target') KubernetesSubjectAnnotation = jwt_Subject (the (jwt_Claims ex_trigger_claims))"
proof -
  have "wd_TenantDeps ex_trigger_deps = Some ex_tenant_objects" "wd_Objects ex_trigger_deps = Some ex_trigger_objects"
    by (simp_all add: ex_trigger_deps_def)
  moreover have "sa_DefaultTokenSecret (ti_MetadataAPIServiceAccount ex_trigger_objects) =
      Some (new_keyed \<lparr>sb_Type = SecretTypeServiceAccountToken, sb_Data = [(''token'', ''sat'')]\<rparr> ex_trigger_key)"
    by (simp add: ex_trigger_objects_def)
  moreover have "ServiceAccountTokenSecret_Token [(''token'', ''sat'')] = Inr ''sat''"
    by (simp add: ServiceAccountTokenSecret_Token_def lookup_str_def)
  ultimately have "AnnotateTriggerToken Some is ex_trigger_deps target w =
      Some ((Inr (), snd (Annotate KubernetesSubjectAnnotation (jwt_Subject (the (jwt_Claims ex_trigger_claims)))
        (snd (Annotate KubernetesTokenAnnotation tok (snd (Annotate RelayControllerTokenHashAnnotation
          (HexEncoding (StructuredHash_Sum (identity_hash ex_trigger_claims))) target)))))), w')"
    using assms by (simp add: AnnotateTriggerToken_def new_keyed_def Let_def identity_hash_encoded flip: ex_trigger_claims_def)
  then show ?thesis by (rule that) (simp_all add: lookup_Annotate token_annotations)
qed

definition ex_issuing :: "int issuing" where
  "ex_issuing = \<lparr>is_Issue = (\<lambda>_ w. (Inr ''jwt'', w + 1)), is_Now = (\<lambda>w. ex_now + w)\<rparr>"

theorem trigger_service_stable_witness:
  "\<exists>s' s3. ConfigureKnativeService ex_mark Some ex_issuing ex_trigger_deps (NewKnativeService ex_trigger_key) 0 = Some ((Inr (), s'), 1) \<and>
     ConfigureKnativeService ex_mark Some ex_issuing ex_trigger_deps s' 5 = Some ((Inr (), s3), 5) \<and>
     kb_Template (o_Body (kd_Object s3)) = kb_Template (o_Body (kd_Object s'))"
proof -
  let ?wt = "wd_WebhookTrigger ex_trigger_deps"
  let ?m = "o_Meta (kd_Object (NewKnativeService ex_trigger_key))"
  have objs: "wd_Objects ex_trigger_deps = Some ex_trigger_objects" by (simp add: ex_trigger_deps_def)
  have ns: "om_Namespace (o_Meta (kd_Object (ti_OwnerConfigMap ex_trigger_objects))) = []" "om_Namespace ?m = []"
    by (simp_all add: ex_trigger_objects_def new_trigger_objects_def NewConfigMap_def NewKnativeService_def new_keyed_def empty_meta_def)
  obtain m where m: "service_meta ex_mark ?wt ex_trigger_objects ?m = (Inr (), m)"
    using service_meta_ok [of ?m ex_trigger_objects] ns by metis
  have ns': "om_Namespace m = []"
    using m ns by (auto simp: service_meta_def Own_def Let_def meta_namespaces CopyLabelsAndAnnotations_namespace SetDependencyOf_def split: if_splits)
  have "lookup_str (om_Annotations (template_meta ?wt ex_trigger_objects (om_Annotations (rt_Meta (kb_Template (o_Body (kd_Object (NewKnativeService ex_trigger_key)))))))) RelayControllerTokenHashAnnotation = []"
    unfolding template_meta_token_meta token_meta_lookup
    by (simp add: NewKnativeService_def new_keyed_def empty_template_def empty_meta_def lookup_str_def)
  then obtain tm where "AnnotateTriggerToken Some ex_issuing ex_trigger_deps
      (template_meta ?wt ex_trigger_objects (om_Annotations (rt_Meta (kb_Template (o_Body (kd_Object (NewKnativeService ex_trigger_key))))))) 0 = Some ((Inr (), tm), 1)"
    by (rule ex_trigger_token [of _ ex_issuing 0 "''jwt''" 1]) (simp_all add: ex_issuing_def)
  then obtain s' where s': "ConfigureKnativeService ex_mark Some ex_issuing ex_trigger_deps (NewKnativeService ex_trigger_key) 0 = Some ((Inr (), s'), 1)"
    "om_Namespace (o_Meta (kd_Object s')) = []"
    using m ns' by (auto simp: ConfigureKnativeService_def objs Let_def with_spec_def on_meta_def)
  from trigger_service_stable [OF s'(1) refl objs, of ex_issuing 5] s'(2) ns(1) have
    "\<exists>s3. ConfigureKnativeService ex_mark Some ex_issuing ex_trigger_deps s' 5 = Some ((Inr (), s3), 5) \<and>
      kb_Template (o_Body (kd_Object s3)) = kb_Template (o_Body (kd_Object s'))" by simp
  with s'(1) show ?thesis by blast
qed




text \<open>The trigger is deleted after its tenant: the owner of its objects in the namespace \<open>old\<close> is deleted. The world is the list of
  the namespaces of what was deleted.\<close>

definition ex_trigger_mark :: dependency_json where
  "ex_trigger_mark = \<lparr>dj_Marshal = (\<lambda>_. ''m''),
     dj_Unmarshal = (\<lambda>s. if s = ''m'' then
         Inr \<lparr>do_APIVersion = ''relay.sh/v1beta1'', do_Kind = ''WebhookTrigger'', do_Namespace = ''d'', do_Name = ''t'', do_UID = ''1''\<rparr>
       else Inl (OtherError ''json''))\<rparr>"

definition ex_owner :: "object_key \<Rightarrow> trigger_configmap object" where
  "ex_owner key = \<lparr>o_Meta = empty_meta\<lparr>om_Namespace := key_Namespace key, om_Name := key_Name key, om_UID := ''2'',
     om_Annotations := [(RelayControllerDependencyOfAnnotation, ''m'')]\<rparr>, o_Body = empty_trigger_configmap\<rparr>"

definition ex_trigger_client :: "string list trigger_client" where
  "ex_trigger_client = \<lparr>gc_Run = ex_run_client, gc_Tenant = client_with nothing,
     gc_ConfigMap = (client_with (\<lambda>key. Inr (ex_owner key)))\<lparr>oc_Delete := (\<lambda>obj w. (Inr (), om_Namespace (o_Meta obj) # w))\<rparr>\<rparr>"

definition ex_trigger_env :: "string list trigger_env" where
  "ex_trigger_env =
     \<lparr>ge_Client = ex_trigger_client, ge_Trigger = client_with (\<lambda>key. Inr (ex_trigger True key)), ge_UpdateStatus = (\<lambda>obj w. (Inr obj, w)),
      ge_Service = client_with nothing, ge_Issuing = \<lparr>is_Issue = (\<lambda>_ w. (Inr ''jwt'', w)), is_Now = (\<lambda>_. ex_now)\<rparr>, ge_Json = ex_trigger_mark,
      ge_ParseURL = Some, ge_Lib = \<lparr>render_html = (\<lambda>s. s), render_jira = (\<lambda>s. s), json_text = (\<lambda>s. Inr (GStr s))\<rparr>,
      ge_Now = (\<lambda>_ _. 0), ge_MetadataAPIURL = ''http://api''\<rparr>"

lemma ex_trigger_deletion:
  "outcome_of (Trigger_Reconcile ex_trigger_env \<lparr>Req_Namespace = ''d'', Req_Name = ''t''\<rparr> []) = Some (False, True, [''old''])"
  by code_simp

theorem trigger_deletes_only_own_witness:
  "outcome_of (Trigger_Reconcile (ex_trigger_env\<lparr>ge_Client := guard_configmaps (marked_for ex_trigger_mark ''WebhookTrigger'' \<lparr>Req_Namespace = ''d'', Req_Name = ''t''\<rparr>)
       (\<lambda>obj w. (Inl (OtherError ''never''), ''other'' # w)) ex_trigger_client\<rparr>) \<lparr>Req_Namespace = ''d'', Req_Name = ''t''\<rparr> []) = Some (False, True, [''old''])"
proof -
  have at: "answers_at_key (ge_Trigger ex_trigger_env)"
    by (auto simp: answers_at_key_def ex_trigger_env_def client_with_def ex_trigger_def)
  have sel: "ge_Json ex_trigger_env = ex_trigger_mark" "ge_Client ex_trigger_env = ex_trigger_client"
    by (simp_all add: ex_trigger_env_def)
  show ?thesis unfolding trigger_deletes_only_own [OF at, unfolded sel] by (rule ex_trigger_deletion)
qed

end
