(* ===== verification/Admission.thy ===== *)
theory Admission
  imports Tenant_Deps
begin

text \<open>
  The admission webhooks for pods (\<open>pkg/admission\<close>) and the event handlers that turn changes of objects into
  requests to reconcile their owners (\<open>pkg/controller/handler\<close>).

  Decoding a request is a parameter, and so is listing objects. Printing a pod as JSON does not fail; the patch in a response turns the pod of the
  request into the pod that the handler made, and is modelled by it.
\<close>

section \<open>Pods\<close>

record toleration =
  tl_Key :: string
  tl_Value :: string
  tl_Effect :: string

record pod_mount =
  pm_Name :: string
  pm_MountPath :: string
  pm_ReadOnly :: bool

text \<open>Containers and volumes with what else they have.\<close>

record 'x pod_container =
  pc_VolumeMounts :: "pod_mount list"
  pc_Rest :: 'x

datatype 'x volume_source = ClaimSource (claim_name: string) (claim_read_only: bool) | OtherSource 'x

record 'x pod_volume =
  pv_Name :: string
  pv_Source :: "'x volume_source"

record ('c, 'v, 'r) admitted_pod =
  ap_Annotations :: "string gomap"
  ap_NodeSelector :: "string gomap"
  ap_Tolerations :: "toleration list"
  ap_DNSPolicy :: string
  ap_DNSConfig :: "string list option"
  ap_RuntimeClassName :: "string option"
  ap_Containers :: "'c pod_container list"
  ap_Volumes :: "'v pod_volume list"
  ap_Rest :: 'r

datatype 'p admission_response = Errored nat err | Patched 'p | Allowed

section \<open>Enforcement (\<open>podenforcement.go\<close>)\<close>

definition PodNodeSelector :: "string gomap" where
  "PodNodeSelector = [(''nebula.puppet.com/scheduling.customer-ready'', ''true'')]"

definition PodTolerations :: "toleration list" where
  "PodTolerations =
     [\<lparr>tl_Key = ''nebula.puppet.com/scheduling.customer-workload'', tl_Value = ''true'', tl_Effect = ''NoSchedule''\<rparr>,
      \<lparr>tl_Key = ''sandbox.gke.io/runtime'', tl_Value = ''gvisor'', tl_Effect = ''NoSchedule''\<rparr>]"

definition PodDNSPolicy :: string where "PodDNSPolicy = ''None''"

definition PodDNSConfig :: "string list" where "PodDNSConfig = [''1.1.1.1'', ''1.0.0.1'', ''8.8.8.8'']"

definition PodSandboxRuntimeClassName :: string where "PodSandboxRuntimeClassName = ''gvisor''"

record pod_enforcement_handler =
  peh_sandboxed :: bool
  peh_standalone :: bool

definition PodEnforcementHandlerWithSandboxing :: "bool \<Rightarrow> pod_enforcement_handler \<Rightarrow> pod_enforcement_handler" where
  "PodEnforcementHandlerWithSandboxing sandboxed peh = peh\<lparr>peh_sandboxed := sandboxed\<rparr>"

definition PodEnforcementHandlerWithStandaloneMode :: "bool \<Rightarrow> pod_enforcement_handler \<Rightarrow> pod_enforcement_handler" where
  "PodEnforcementHandlerWithStandaloneMode standalone peh = peh\<lparr>peh_standalone := standalone\<rparr>"

definition NewPodEnforcementHandler :: "(pod_enforcement_handler \<Rightarrow> pod_enforcement_handler) list \<Rightarrow> pod_enforcement_handler" where
  "NewPodEnforcementHandler opts = fold (\<lambda>opt. opt) opts \<lparr>peh_sandboxed = False, peh_standalone = False\<rparr>"

definition enforce :: "pod_enforcement_handler \<Rightarrow> ('c, 'v, 'r) admitted_pod \<Rightarrow> ('c, 'v, 'r) admitted_pod" where
  "enforce peh pod =
     (let pod1 = pod\<lparr>ap_NodeSelector := PodNodeSelector, ap_Tolerations := PodTolerations\<rparr>;
          pod2 = (if \<not> peh_standalone peh then pod1\<lparr>ap_DNSPolicy := PodDNSPolicy, ap_DNSConfig := Some PodDNSConfig\<rparr> else pod1)
      in if peh_sandboxed peh then pod2\<lparr>ap_RuntimeClassName := Some PodSandboxRuntimeClassName\<rparr> else pod2)"

definition PodEnforcementHandler_Handle :: "('q \<Rightarrow> ('c, 'v, 'r) admitted_pod res) \<Rightarrow> pod_enforcement_handler \<Rightarrow> 'q \<Rightarrow> ('c, 'v, 'r) admitted_pod admission_response" where
  "PodEnforcementHandler_Handle decode peh req =
     (case decode req of Inl err \<Rightarrow> Errored 400 err | Inr pod \<Rightarrow> Patched (enforce peh pod))"

section \<open>Tools (\<open>volumeclaim.go\<close>)\<close>

definition ToolInjectionMountName :: string where "ToolInjectionMountName = ''relay-runtime-tools''"

definition ToolInjectionMountPath :: string where "ToolInjectionMountPath = ''/var/lib/puppet/relay/''"

definition tools_annotation :: string where "tools_annotation = ''controller.relay.sh/tools-volume-claim''"

definition has_tools_mount :: "'c pod_container \<Rightarrow> bool" where
  "has_tools_mount c = list_ex (\<lambda>vm. pm_Name vm = ToolInjectionMountName) (pc_VolumeMounts c)"

definition mount_tools :: "'c pod_container \<Rightarrow> 'c pod_container" where
  "mount_tools c =
     (if \<not> has_tools_mount c then
        c\<lparr>pc_VolumeMounts := pc_VolumeMounts c @ [\<lparr>pm_Name = ToolInjectionMountName, pm_MountPath = ToolInjectionMountPath, pm_ReadOnly = True\<rparr>]\<rparr>
      else c)"

text \<open>The loop over the containers, with the flag and the new containers.\<close>

fun mount_loop :: "'c pod_container list \<Rightarrow> bool \<times> 'c pod_container list \<Rightarrow> bool \<times> 'c pod_container list" where
  "mount_loop [] st = st"
| "mount_loop (c # rest) st = mount_loop rest (fst st \<or> \<not> has_tools_mount c, snd st @ [mount_tools c])"

definition VolumeClaimHandler_Handle :: "('q \<Rightarrow> ('c, 'v, 'r) admitted_pod res) \<Rightarrow> 'q \<Rightarrow> ('c, 'v, 'r) admitted_pod admission_response" where
  "VolumeClaimHandler_Handle decode req =
     (case decode req of
        Inl err \<Rightarrow> Errored 400 err
      | Inr pod \<Rightarrow>
          (case map_of (ap_Annotations pod) tools_annotation of
             None \<Rightarrow> Allowed
           | Some claim \<Rightarrow>
               (let (mounted, cs) = mount_loop (ap_Containers pod) (False, []);
                    pod1 = (if mounted then pod\<lparr>ap_Containers := cs\<rparr> else pod);
                    missing = \<not> list_ex (\<lambda>v. pv_Name v = ToolInjectionMountName) (ap_Volumes pod1);
                    pod2 = (if missing then pod1\<lparr>ap_Volumes := ap_Volumes pod1 @
                      [\<lparr>pv_Name = ToolInjectionMountName, pv_Source = ClaimSource claim True\<rparr>]\<rparr> else pod1)
                in if mounted \<or> missing then Patched pod2 else Allowed)))"

section \<open>Requests for owners (\<open>pkg/controller/handler\<close>)\<close>

text \<open>An event with the metadata of the object it is about; a work queue is a list, to the end of which requests are added.\<close>

datatype 'm object_event = CreateEvent 'm | UpdateEvent 'm 'm | DeleteEvent 'm | GenericEvent 'm

definition add_dependent :: "dependency_json \<Rightarrow> group_version_kind \<Rightarrow> object_meta \<Rightarrow> request list \<Rightarrow> request list" where
  "add_dependent dj gvk target q =
     (let annotation = lookup_str (om_Annotations target) RelayControllerDependencyOfAnnotation in
      if annotation = [] then q
      else
        (case dj_Unmarshal dj annotation of
           Inl _ \<Rightarrow> q
         | Inr dep \<Rightarrow>
             if gvk_Kind gvk \<noteq> do_Kind dep \<or> (gvk_Group gvk, gvk_Version gvk) \<noteq> ParseGroupVersion (do_APIVersion dep) then q
             else q @ [\<lparr>Req_Namespace = do_Namespace dep, Req_Name = do_Name dep\<rparr>]))"

fun handle_event :: "('m \<Rightarrow> 'q \<Rightarrow> 'q) \<Rightarrow> 'm object_event \<Rightarrow> 'q \<Rightarrow> 'q" where
  "handle_event add (CreateEvent m) q = add m q"
| "handle_event add (UpdateEvent old new) q = add new (add old q)"
| "handle_event add (DeleteEvent m) q = add m q"
| "handle_event add (GenericEvent m) q = add m q"

definition EnqueueRequestForAnnotatedDependent :: "dependency_json \<Rightarrow> group_version_kind \<Rightarrow> object_meta object_event \<Rightarrow> request list \<Rightarrow> request list" where
  "EnqueueRequestForAnnotatedDependent dj gvk = handle_event (add_dependent dj gvk)"

text \<open>Listing by namespace and label; an error is a panic, so that the process restarts.\<close>

definition add_references :: "(string \<Rightarrow> string \<Rightarrow> string \<Rightarrow> object_meta list res) \<Rightarrow> string \<Rightarrow> object_meta \<Rightarrow> request list option \<Rightarrow> request list option" where
  "add_references list_labelled label target q =
     Option.bind q (\<lambda>q.
       case list_labelled (om_Namespace target) label (om_Name target) of
         Inl _ \<Rightarrow> None
       | Inr objs \<Rightarrow> Some (q @ map (\<lambda>m. \<lparr>Req_Namespace = om_Namespace m, Req_Name = om_Name m\<rparr>) objs))"

definition EnqueueRequestForReferencesByNameLabel ::
    "(string \<Rightarrow> string \<Rightarrow> string \<Rightarrow> object_meta list res) \<Rightarrow> string \<Rightarrow> object_meta object_event \<Rightarrow> request list \<Rightarrow> request list option" where
  "EnqueueRequestForReferencesByNameLabel list_labelled label ev q = handle_event (add_references list_labelled label) ev (Some q)"

end
