(* ===== verification/Admission_Props.thy ===== *)
theory Admission_Props
  imports Admission Tenant_Reconciler_Props
begin

text \<open>
  What an admitted pod looks like, and that events about a dependency reach its owner.
\<close>

section \<open>Enforcement\<close>




section \<open>Tools\<close>













text \<open>What the webhooks do to a container and to the volumes, with the names and paths written out.\<close>

definition tools_added :: "string option \<Rightarrow> 'c pod_container \<Rightarrow> 'c pod_container \<Rightarrow> bool" where
  "tools_added claim c c' \<longleftrightarrow> pc_Rest c' = pc_Rest c \<and>
     pc_VolumeMounts c' = pc_VolumeMounts c @
       (if claim = None \<or> list_ex (\<lambda>m. pm_Name m = ''relay-runtime-tools'') (pc_VolumeMounts c) then []
        else [\<lparr>pm_Name = ''relay-runtime-tools'', pm_MountPath = ''/var/lib/puppet/relay/'', pm_ReadOnly = True\<rparr>])"


lemma tools_added_None [simp]: "tools_added None c c"
  by (simp add: tools_added_def)







section \<open>Events\<close>

text \<open>What the reconcilers take for a dependency of an owner, and delete as one, makes them reconcile the owner when it changes.\<close>

lemma add_dependent_prefix: "\<exists>q'. add_dependent dj gvk m q = q @ q'"
  by (auto simp: add_dependent_def Let_def split: sum.splits)

lemma dependency_added:
  assumes "IsDependencyOf dj gvk owner m = Inr True"
  shows "\<lparr>Req_Namespace = om_Namespace owner, Req_Name = om_Name owner\<rparr> \<in> set (add_dependent dj gvk m q)"
  using assms by (auto simp: IsDependencyOf_def add_dependent_def Let_def split: if_splits sum.splits)

fun event_about :: "'m \<Rightarrow> 'm object_event \<Rightarrow> bool" where
  "event_about m (CreateEvent m') \<longleftrightarrow> m = m'"
| "event_about m (UpdateEvent old new) \<longleftrightarrow> m = old \<or> m = new"
| "event_about m (DeleteEvent m') \<longleftrightarrow> m = m'"
| "event_about m (GenericEvent m') \<longleftrightarrow> m = m'"

lemma dependency_events_reach_owner:
  assumes "IsDependencyOf dj gvk owner m = Inr True" "event_about m ev"
  shows "\<lparr>Req_Namespace = om_Namespace owner, Req_Name = om_Name owner\<rparr> \<in> set (EnqueueRequestForAnnotatedDependent dj gvk ev q)"
proof -
  have later: "r \<in> set (add_dependent dj gvk m' (add_dependent dj gvk m q))" if "r \<in> set (add_dependent dj gvk m q)" for r m'
    using that add_dependent_prefix [of dj gvk m' "add_dependent dj gvk m q"] by auto
  show ?thesis
    using assms(2) later dependency_added [OF assms(1)]
    by (cases ev) (auto simp: EnqueueRequestForAnnotatedDependent_def)
qed

text \<open>A request is only made for the owner that a mark names.\<close>

lemma event_requests_marked:
  assumes "r \<in> set (EnqueueRequestForAnnotatedDependent dj gvk ev [])"
  obtains m where "event_about m ev" "marked_for dj (gvk_Kind gvk) r (\<lparr>o_Meta = m, o_Body = ()\<rparr>)"
proof -
  have added: "r \<in> set q \<or> marked_for dj (gvk_Kind gvk) r (\<lparr>o_Meta = m, o_Body = ()\<rparr>)" if "r \<in> set (add_dependent dj gvk m q)" for m q
    using that by (auto simp: add_dependent_def marked_for_def Let_def split: if_splits sum.splits)
  show ?thesis
  proof (cases ev)
    case (UpdateEvent old new)
    with assms consider "r \<in> set (add_dependent dj gvk old [])" | "marked_for dj (gvk_Kind gvk) r (\<lparr>o_Meta = new, o_Body = ()\<rparr>)"
      using added by (fastforce simp: EnqueueRequestForAnnotatedDependent_def)
    then show ?thesis
      by cases (use UpdateEvent added [of old "[]"] in \<open>auto intro: that\<close>)
  qed (use assms added [of _ "[]"] in \<open>auto simp: EnqueueRequestForAnnotatedDependent_def intro: that\<close>)
qed

text \<open>What is written by the one side is read by the other: marks and events.\<close>

definition valid_gvk :: "group_version_kind \<Rightarrow> bool" where
  "valid_gvk gvk \<longleftrightarrow> gvk_Group gvk \<noteq> [] \<and> CHR ''/'' \<notin> set (gvk_Group gvk) \<and> CHR ''/'' \<notin> set (gvk_Version gvk)"

definition json_reads :: "dependency_json \<Rightarrow> bool" where
  "json_reads dj \<longleftrightarrow> (\<forall>dep. dj_Unmarshal dj (dj_Marshal dj dep) = Inr dep \<and> dj_Marshal dj dep \<noteq> [])"

lemma marked_lookup:
  "lookup_str (om_Annotations (SetDependencyOf dj gvk owner target)) RelayControllerDependencyOfAnnotation =
     dj_Marshal dj \<lparr>do_APIVersion = GroupVersion_String gvk, do_Kind = gvk_Kind gvk, do_Namespace = om_Namespace owner,
       do_Name = om_Name owner, do_UID = om_UID owner\<rparr>"
  by (auto simp: SetDependencyOf_def Annotate_def lookup_str_def)

lemma add_marked:
  assumes "json_reads dj" "valid_gvk g"
  shows "add_dependent dj gvk (SetDependencyOf dj g owner target) q =
    q @ (if gvk = g then [\<lparr>Req_Namespace = om_Namespace owner, Req_Name = om_Name owner\<rparr>] else [])"
  using assms ParseGroupVersion_String [of g]
  by (auto simp: add_dependent_def Let_def marked_lookup json_reads_def valid_gvk_def intro: group_version_kind.equality)

text \<open>C27: Events about dependencies reach their owner and nobody else. For objects that \<open>SetDependencyOf\<close> has marked, an event (creation,
  change, deletion or other) makes the controller of a kind reconcile exactly those owners of this kind that the object is marked with, before
  or after the change; and such an object passes for a dependency of an owner, when it is deleted as one, exactly if it was marked with that
  owner, by kind, UID, namespace and name. Relied on is that the JSON library reads back what it wrote; the group and the version of the owner's kind must
  not contain a slash, and the group must not be empty.\<close>

theorem dependents_reach_owner:
  assumes "json_reads dj" and "\<forall>g owner target. event_about (g, owner, target) ev \<longrightarrow> valid_gvk g"
  shows "(r \<in> set (EnqueueRequestForAnnotatedDependent dj gvk (map_object_event (\<lambda>(g, owner, target). SetDependencyOf dj g owner target) ev) []) \<longleftrightarrow>
      (\<exists>owner target. event_about (gvk, owner, target) ev \<and> r = \<lparr>Req_Namespace = om_Namespace owner, Req_Name = om_Name owner\<rparr>)) \<and>
    (\<forall>g owner target. event_about (g, owner, target) ev \<longrightarrow>
      IsDependencyOf dj gvk owner' (SetDependencyOf dj g owner target) =
        Inr (gvk = g \<and> om_UID owner' = om_UID owner \<and> om_Namespace owner' = om_Namespace owner \<and> om_Name owner' = om_Name owner))"
proof (intro conjI allI impI)
  have added: "add_dependent dj gvk (case m of (g, owner, target) \<Rightarrow> SetDependencyOf dj g owner target) q =
      q @ (case m of (g, owner, target) \<Rightarrow> if gvk = g then [\<lparr>Req_Namespace = om_Namespace owner, Req_Name = om_Name owner\<rparr>] else [])"
    if "event_about m ev" for m q
  proof (cases m)
    case (fields g owner target)
    with that assms(2) have "valid_gvk g" by blast
    from add_marked [OF assms(1) this] show ?thesis by (simp add: fields)
  qed
  show "r \<in> set (EnqueueRequestForAnnotatedDependent dj gvk (map_object_event (\<lambda>(g, owner, target). SetDependencyOf dj g owner target) ev) []) \<longleftrightarrow>
      (\<exists>owner target. event_about (gvk, owner, target) ev \<and> r = \<lparr>Req_Namespace = om_Namespace owner, Req_Name = om_Name owner\<rparr>)"
    using added by (cases ev) (auto simp: EnqueueRequestForAnnotatedDependent_def split: prod.splits if_splits)
next
  fix g owner target
  assume "event_about (g, owner, target) ev"
  then have "valid_gvk g" using assms(2) by blast
  then show "IsDependencyOf dj gvk owner' (SetDependencyOf dj g owner target) =
      Inr (gvk = g \<and> om_UID owner' = om_UID owner \<and> om_Namespace owner' = om_Namespace owner \<and> om_Name owner' = om_Name owner)"
    using assms(1) ParseGroupVersion_String [of g]
    by (auto simp: IsDependencyOf_def Let_def marked_lookup json_reads_def valid_gvk_def intro: group_version_kind.equality)
qed

text \<open>A concrete notation for marks: each text with a marker before each of its characters, and one after it.\<close>

fun ex_write :: "string \<Rightarrow> string" where
  "ex_write [] = ''.''"
| "ex_write (c # cs) = CHR ''x'' # c # ex_write cs"

fun ex_read :: "string \<Rightarrow> string \<times> string" where
  "ex_read (x # c # cs) = (if x = CHR ''x'' then apfst (Cons c) (ex_read cs) else ([], c # cs))"
| "ex_read _ = ([], [])"

lemma ex_read_write: "ex_read (ex_write s @ rest) = (s, rest)"
proof (induction s)
  case Nil
  show ?case by (cases rest) simp_all
qed simp

definition ex_json :: dependency_json where
  "ex_json =
     \<lparr>dj_Marshal = (\<lambda>d. ex_write (do_APIVersion d) @ ex_write (do_Kind d) @ ex_write (do_Namespace d) @ ex_write (do_Name d) @ ex_write (do_UID d)),
      dj_Unmarshal = (\<lambda>s.
        let (a, s) = ex_read s; (k, s) = ex_read s; (ns, s) = ex_read s; (n, s) = ex_read s; (u, s) = ex_read s
        in Inr \<lparr>do_APIVersion = a, do_Kind = k, do_Namespace = ns, do_Name = n, do_UID = u\<rparr>)\<rparr>"

lemma ex_json_reads: "json_reads ex_json"
proof -
  have "ex_write s \<noteq> []" for s by (cases s) simp_all
  moreover have "ex_read (ex_write s) = (s, [])" for s using ex_read_write [of s "[]"] by simp
  ultimately show ?thesis by (simp add: json_reads_def ex_json_def ex_read_write)
qed

text \<open>A change of the mark of a namespace from one tenant to another makes both be reconciled.\<close>

theorem dependents_reach_owner_witness:
  "let owner = (\<lambda>n. empty_meta\<lparr>om_Namespace := ''d'', om_Name := n, om_UID := ''1''\<rparr>);
       marked = (\<lambda>n. SetDependencyOf ex_json TenantKind (owner n) empty_meta)
   in \<lparr>Req_Namespace = ''d'', Req_Name = ''a''\<rparr> \<in> set (EnqueueRequestForAnnotatedDependent ex_json TenantKind (UpdateEvent (marked ''a'') (marked ''b'')) [])"
proof -
  let ?owner = "\<lambda>n. empty_meta\<lparr>om_Namespace := ''d'', om_Name := n, om_UID := ''1''\<rparr>"
  let ?ev = "UpdateEvent (TenantKind, ?owner ''a'', empty_meta) (TenantKind, ?owner ''b'', empty_meta)"
  have "\<forall>g owner target. event_about (g, owner, target) ?ev \<longrightarrow> valid_gvk g" by (auto simp: valid_gvk_def TenantKind_def)
  from dependents_reach_owner [OF ex_json_reads this, of "\<lparr>Req_Namespace = ''d'', Req_Name = ''a''\<rparr>" TenantKind]
  show ?thesis by (auto simp: Let_def)
qed

end
