(* ===== verification/Workflow_Types.thy ===== *)
theory Workflow_Types
  imports Trigger_Deps Evaluate
begin

text \<open>
  Workflow files (\<open>pkg/workflow/types/v1\<close>): their data, decoding from YAML, the JSON form of steps and trigger
  sources, and the mapping to workflow runs, tenants and webhook triggers.

  Reading a YAML document into its data is a parameter, as are a manager of files, the clock expressions of \<open>cron\<close> and
  the text of a URL. A tree of an expression is a value, \<open>GNil\<close> if there is none. In a JSON document no two members name
  the same field. A step has a variant. \<open>None\<close> as an outcome is a panic.
\<close>

section \<open>Data (\<open>types.go\<close>)\<close>

record workflow_parameter =
  wp_Default :: gval
  wp_Description :: string
  wp_Type :: string

record workflow_run_parameter =
  wrp_Value :: gval

text \<open>The specs are expression maps; a nil map is \<open>None\<close>. So is a nil list of dependencies.\<close>

record container_mixin =
  cm_Image :: string
  cm_Spec :: "gval gomap option"
  cm_InputFile :: string
  cm_Input :: "string list"
  cm_Command :: string
  cm_Args :: "string list"
  cm_inputFileLoaded :: bool

record yaml_container_mixin =
  ym_Image :: string
  ym_Spec :: "gval gomap option"
  ym_Input :: "string list"
  ym_InputFile :: string
  ym_Command :: string
  ym_Args :: "string list"

record yaml_workflow_step =
  ys_Name :: string
  ys_Type :: string
  ys_Container :: yaml_container_mixin
  ys_DependsOn :: "string list option"
  ys_When :: gval

record yaml_trigger_source =
  yts_Type :: string
  yts_Schema :: "gval gomap"
  yts_Schedule :: string
  yts_Container :: yaml_container_mixin

record yaml_workflow_trigger =
  yt_Name :: string
  yt_Source :: yaml_trigger_source
  yt_Key :: gval
  yt_Parameters :: "gval gomap option"
  yt_When :: gval

record yaml_workflow_data =
  yd_APIVersion :: string
  yd_Description :: string
  yd_Name :: string
  yd_Parameters :: "workflow_parameter option gomap"
  yd_Steps :: "yaml_workflow_step list"
  yd_Triggers :: "yaml_workflow_trigger list"

datatype step_variant = ContainerWorkflowStep container_mixin | ApprovalWorkflowStep

primrec StepType :: "step_variant \<Rightarrow> string" where
  "StepType (ContainerWorkflowStep _) = ''container''"
| "StepType ApprovalWorkflowStep = ''approval''"

datatype trigger_source_variant =
    PushWorkflowTriggerSource "gval gomap"
  | ScheduleWorkflowTriggerSource string
  | WebhookWorkflowTriggerSource container_mixin

primrec TriggerSourceType :: "trigger_source_variant \<Rightarrow> string" where
  "TriggerSourceType (PushWorkflowTriggerSource _) = ''push''"
| "TriggerSourceType (ScheduleWorkflowTriggerSource _) = ''schedule''"
| "TriggerSourceType (WebhookWorkflowTriggerSource _) = ''webhook''"

record wf_step =
  wst_Name :: string
  wst_DependsOn :: "string list option"
  wst_When :: gval
  wst_Variant :: step_variant

record wf_trigger_source =
  src_Type :: string
  src_Variant :: "trigger_source_variant option"

record wf_trigger =
  tr_Name :: string
  tr_Source :: "wf_trigger_source option"
  tr_Key :: gval
  tr_Parameters :: "gval gomap option"
  tr_When :: gval

record workflow_data =
  wd_APIVersion :: string
  wd_Description :: string
  wd_Name :: string
  wd_Parameters :: "workflow_parameter option gomap"
  wd_Steps :: "wf_step list"
  wd_Triggers :: "wf_trigger list"

definition ExpressionMap_AsParseTree :: "gval gomap \<Rightarrow> gval" where
  "ExpressionMap_AsParseTree em = GMap em"

section \<open>Errors (\<open>errors.go\<close>)\<close>

datatype workflow_error =
    WorkflowFileFormatError err
  | WorkflowStepInvalidError (wsi_Name: string) (wsi_Type: string)
  | MissingTenantIDError
  | MissingWorkflowIDError
  | PlainError err

primrec workflow_error_Error :: "workflow_error \<Rightarrow> string" where
  "workflow_error_Error (WorkflowFileFormatError _) = ''workflow file format error''"
| "workflow_error_Error (WorkflowStepInvalidError name ty) = ''workflow step is invalid: '' @ name @ '' '' @ ty"
| "workflow_error_Error MissingTenantIDError = ''tenantID cannot be blank''"
| "workflow_error_Error MissingWorkflowIDError = ''workflowID cannot be blank''"
| "workflow_error_Error (PlainError err) = error_string err"

section \<open>Input files and schedules\<close>

text \<open>A reader yields its content and then ends, or fails with an error.\<close>

record reader =
  rd_Content :: string
  rd_Error :: "err option"

definition LoadInputFile :: "(string \<Rightarrow> reader res) \<Rightarrow> container_mixin \<Rightarrow> err option \<times> container_mixin" where
  "LoadInputFile im c =
     (if cm_inputFileLoaded c \<or> cm_InputFile c = [] then (None, c)
      else
        (case im (cm_InputFile c) of
           Inl err \<Rightarrow> (Some err, c)
         | Inr r \<Rightarrow>
             (case rd_Error r of
                Some _ \<Rightarrow> (Some (OtherError ''TODO''), c)
              | None \<Rightarrow> (None, c\<lparr>cm_Input := [rd_Content r], cm_inputFileLoaded := True\<rparr>))))"

definition Schedule_Next :: "(string \<Rightarrow> (int \<Rightarrow> int) res) \<Rightarrow> string \<Rightarrow> int \<Rightarrow> int res" where
  "Schedule_Next ParseStandard schedule from =
     (case ParseStandard schedule of Inl _ \<Rightarrow> Inl (OtherError ''TODO'') | Inr sched \<Rightarrow> Inr (sched from))"

section \<open>Decoding (\<open>decoder.go\<close>)\<close>

datatype workflow_step_type = WorkflowStepTypeContainer | WorkflowStepTypeApproval

definition makeStepType :: "yaml_workflow_step \<Rightarrow> workflow_error + workflow_step_type" where
  "makeStepType step =
     (if ys_Type step = [] \<or> ys_Type step = ''container'' then Inr WorkflowStepTypeContainer
      else if ys_Type step = ''approval'' then Inr WorkflowStepTypeApproval
      else Inl (WorkflowStepInvalidError (ys_Name step) (ys_Type step)))"

text \<open>A copy of the map with the trees of YAML as trees of JSON, which are the same trees.\<close>

definition makeJSONTreeMap :: "gval gomap option \<Rightarrow> gval gomap option" where
  "makeJSONTreeMap ym = (case ym of None \<Rightarrow> None | Some m \<Rightarrow> Some (map (\<lambda>(k, v). (k, v)) m))"

definition container_of :: "yaml_container_mixin \<Rightarrow> container_mixin" where
  "container_of y =
     \<lparr>cm_Image = ym_Image y, cm_Spec = makeJSONTreeMap (ym_Spec y), cm_InputFile = ym_InputFile y, cm_Input = ym_Input y,
      cm_Command = ym_Command y, cm_Args = ym_Args y, cm_inputFileLoaded = False\<rparr>"

definition approval_condition :: "string \<Rightarrow> gval" where
  "approval_condition name =
     GMap [(''$fn.equals'',
       GList [GMap [(''$type'', GStr ''Answer''), (''askRef'', GStr name), (''name'', GStr ''approval'')], GStr ''approved''])]"

definition existing_conditions :: "gval \<Rightarrow> gval list" where
  "existing_conditions t = (if t = GNil then [] else case t of GList existing \<Rightarrow> existing | _ \<Rightarrow> [t])"

definition decode_step :: "yaml_workflow_step \<Rightarrow> workflow_error + wf_step" where
  "decode_step step =
     (case makeStepType step of
        Inl err \<Rightarrow> Inl err
      | Inr WorkflowStepTypeApproval \<Rightarrow>
          Inr \<lparr>wst_Name = ys_Name step, wst_DependsOn = ys_DependsOn step,
            wst_When = GList (approval_condition (ys_Name step) # existing_conditions (ys_When step)), wst_Variant = ApprovalWorkflowStep\<rparr>
      | Inr WorkflowStepTypeContainer \<Rightarrow>
          Inr \<lparr>wst_Name = ys_Name step, wst_DependsOn = ys_DependsOn step, wst_When = ys_When step,
            wst_Variant = ContainerWorkflowStep (container_of (ys_Container step))\<rparr>)"

text \<open>A source of another type is left out.\<close>

definition decode_source :: "yaml_trigger_source \<Rightarrow> wf_trigger_source option" where
  "decode_source s =
     (if yts_Type s = ''push'' then Some \<lparr>src_Type = ''push'', src_Variant = Some (PushWorkflowTriggerSource (yts_Schema s))\<rparr>
      else if yts_Type s = ''schedule'' then
        Some \<lparr>src_Type = ''schedule'', src_Variant = Some (ScheduleWorkflowTriggerSource (yts_Schedule s))\<rparr>
      else if yts_Type s = ''webhook'' then
        Some \<lparr>src_Type = ''webhook'', src_Variant = Some (WebhookWorkflowTriggerSource (container_of (yts_Container s)))\<rparr>
      else None)"

definition decode_trigger :: "yaml_workflow_trigger \<Rightarrow> wf_trigger" where
  "decode_trigger t =
     \<lparr>tr_Name = yt_Name t, tr_Source = decode_source (yt_Source t), tr_Key = yt_Key t,
      tr_Parameters = makeJSONTreeMap (yt_Parameters t), tr_When = yt_When t\<rparr>"

fun decode_steps :: "yaml_workflow_step list \<Rightarrow> wf_step list \<Rightarrow> workflow_error + wf_step list" where
  "decode_steps [] acc = Inr acc"
| "decode_steps (s # ss) acc = (case decode_step s of Inl err \<Rightarrow> Inl err | Inr ws \<Rightarrow> decode_steps ss (acc @ [ws]))"

definition yamlWorkflowDataToWorkflowData :: "yaml_workflow_data \<Rightarrow> workflow_error + workflow_data" where
  "yamlWorkflowDataToWorkflowData ywd =
     (case decode_steps (yd_Steps ywd) [] of
        Inl err \<Rightarrow> Inl err
      | Inr steps \<Rightarrow>
          Inr \<lparr>wd_APIVersion = yd_APIVersion ywd, wd_Description = yd_Description ywd, wd_Name = yd_Name ywd,
            wd_Parameters = yd_Parameters ywd, wd_Steps = steps, wd_Triggers = map decode_trigger (yd_Triggers ywd)\<rparr>)"

definition YAMLDecoder_Decode :: "(string \<Rightarrow> yaml_workflow_data res) \<Rightarrow> string \<Rightarrow> workflow_error + workflow_data" where
  "YAMLDecoder_Decode yaml_Unmarshal data =
     (case yaml_Unmarshal data of Inl err \<Rightarrow> Inl (WorkflowFileFormatError err) | Inr ywd \<Rightarrow> yamlWorkflowDataToWorkflowData ywd)"

subsection \<open>Streams\<close>

definition io_EOF :: err where "io_EOF = OtherError ''EOF''"

text \<open>\<open>bytes.Buffer.ReadFrom\<close>: everything the reader has is appended; the end of the reader is not an error.\<close>

definition Buffer_ReadFrom :: "reader \<Rightarrow> string \<Rightarrow> err option \<times> reader \<times> string" where
  "Buffer_ReadFrom r buf =
     (if rd_Error r = Some io_EOF then None else rd_Error r, r\<lparr>rd_Content := []\<rparr>, buf @ rd_Content r)"

record streaming_decoder =
  sd_reader :: reader
  sd_buf :: string

definition NewDocumentStreamingDecoder :: "reader \<Rightarrow> streaming_decoder" where
  "NewDocumentStreamingDecoder r = \<lparr>sd_reader = r, sd_buf = []\<rparr>"

definition DecodeStream ::
    "(string \<Rightarrow> workflow_error + workflow_data) \<Rightarrow> streaming_decoder \<Rightarrow> (workflow_data option \<times> workflow_error option) \<times> streaming_decoder" where
  "DecodeStream decode d =
     (case Buffer_ReadFrom (sd_reader d) (sd_buf d) of (err, r, buf) \<Rightarrow>
      let d' = \<lparr>sd_reader = r, sd_buf = buf\<rparr> in
      if err \<noteq> None \<and> err \<noteq> Some io_EOF then ((None, map_option PlainError err), d')
      else
        (case decode buf of
           Inl derr \<Rightarrow> ((None, Some derr), d')
         | Inr wd \<Rightarrow> ((Some wd, map_option PlainError err), d')))"

section \<open>JSON (\<open>types.go\<close>, \<open>expr/serialize\<close>)\<close>

text \<open>A tree is printed after an evaluation without functions and without data, and read as it is.\<close>

definition JSONTree_MarshalJSON :: "golib \<Rightarrow> gval \<Rightarrow> json res" where
  "JSONTree_MarshalJSON lib jt =
     (case evaluate (NewEvaluator lib [WithInvocationResolver []]) jt (-1) of
        Inl err \<Rightarrow> Inl err
      | Inr r \<Rightarrow> (case JSONResultMapper r of Inl err \<Rightarrow> Inl err | Inr (j, _) \<Rightarrow> Inr j))"

definition JSONTree_UnmarshalJSON :: "json \<Rightarrow> gval" where
  "JSONTree_UnmarshalJSON j = json_unmarshal j"

definition marshal_trees :: "golib \<Rightarrow> gval gomap \<Rightarrow> json res" where
  "marshal_trees lib m =
     (case traverse (\<lambda>(k, t). case JSONTree_MarshalJSON lib t of Inl err \<Rightarrow> Inl err | Inr j \<Rightarrow> Inr (utf8_coerce k, j)) m of
        Inl err \<Rightarrow> Inl err | Inr js \<Rightarrow> Inr (JObj js))"

text \<open>Fields marked \<open>omitempty\<close>.\<close>

definition jstr :: "string \<Rightarrow> json" where "jstr s = JStr (utf8_coerce s)"

definition omit_str :: "string \<Rightarrow> string \<Rightarrow> (string \<times> json) list" where
  "omit_str name s = (if s = [] then [] else [(name, jstr s)])"

definition omit_strs :: "string \<Rightarrow> string list \<Rightarrow> (string \<times> json) list" where
  "omit_strs name ss = (if ss = [] then [] else [(name, JArr (map jstr ss))])"

definition omit_map :: "(gval gomap \<Rightarrow> json res) \<Rightarrow> string \<Rightarrow> gval gomap \<Rightarrow> (string \<times> json) list res" where
  "omit_map marshal name m = (if m = [] then Inr [] else case marshal m of Inl err \<Rightarrow> Inl err | Inr j \<Rightarrow> Inr [(name, j)])"

definition nil_map :: "'v gomap option \<Rightarrow> 'v gomap" where
  "nil_map m = (case m of None \<Rightarrow> [] | Some m \<Rightarrow> m)"

definition marshal_container :: "golib \<Rightarrow> container_mixin \<Rightarrow> (string \<times> json) list res" where
  "marshal_container lib c =
     (case omit_map (marshal_trees lib) ''spec'' (nil_map (cm_Spec c)) of
        Inl err \<Rightarrow> Inl err
      | Inr spec \<Rightarrow>
          Inr ([(''image'', jstr (cm_Image c))] @ spec @ omit_str ''inputFile'' (cm_InputFile c) @ omit_strs ''input'' (cm_Input c) @
            omit_str ''command'' (cm_Command c) @ omit_strs ''args'' (cm_Args c)))"

text \<open>The fields that steps have in common; the condition is not set here, so that it is always null.\<close>

definition marshal_common :: "string \<Rightarrow> string \<Rightarrow> string list option \<Rightarrow> (string \<times> json) list" where
  "marshal_common name ty deps =
     [(''name'', jstr name), (''type'', jstr ty),
      (''depends_on'', case deps of None \<Rightarrow> JNull | Some ds \<Rightarrow> JArr (map jstr ds)), (''when'', JNull)]"

definition WorkflowStep_MarshalJSON :: "golib \<Rightarrow> wf_step \<Rightarrow> json res" where
  "WorkflowStep_MarshalJSON lib ws =
     (case wst_Variant ws of
        ContainerWorkflowStep c \<Rightarrow>
          (case marshal_container lib c of
             Inl err \<Rightarrow> Inl err
           | Inr ms \<Rightarrow> Inr (JObj (marshal_common (wst_Name ws) ''container'' (wst_DependsOn ws) @ ms)))
      | ApprovalWorkflowStep \<Rightarrow> Inr (JObj (marshal_common (wst_Name ws) ''approval'' (wst_DependsOn ws))))"

definition WorkflowTriggerSource_MarshalJSON :: "golib \<Rightarrow> wf_trigger_source \<Rightarrow> json res" where
  "WorkflowTriggerSource_MarshalJSON lib wts =
     (case src_Variant wts of
        None \<Rightarrow> Inr JNull
      | Some (PushWorkflowTriggerSource schema) \<Rightarrow>
          (case omit_map (\<lambda>m. json_marshal (GMap m)) ''schema'' schema of
             Inl err \<Rightarrow> Inl err | Inr ms \<Rightarrow> Inr (JObj ((''type'', jstr ''push'') # ms)))
      | Some (ScheduleWorkflowTriggerSource schedule) \<Rightarrow>
          Inr (JObj ((''type'', jstr ''schedule'') # omit_str ''schedule'' schedule))
      | Some (WebhookWorkflowTriggerSource c) \<Rightarrow>
          (case marshal_container lib c of
             Inl err \<Rightarrow> Inl err | Inr ms \<Rightarrow> Inr (JObj ((''type'', jstr ''webhook'') # ms))))"

subsection \<open>Reading\<close>

text \<open>A member is for the field whose name it has when the case of letters is ignored; the long s is an s in that.\<close>

definition lower :: "char \<Rightarrow> char" where
  "lower c = (if CHR ''A'' \<le> c \<and> c \<le> CHR ''Z'' then char_of (of_char c + 32 :: nat) else c)"

fun fold_key :: "string \<Rightarrow> string" where
  "fold_key [] = []"
| "fold_key [c] = [lower c]"
| "fold_key (c # d # cs) = (if c = CHR 0xC5 \<and> d = CHR 0xBF then CHR ''s'' # fold_key cs else lower c # fold_key (d # cs))"

definition member :: "string \<Rightarrow> (string \<times> json) list \<Rightarrow> json option" where
  "member name m = map_option snd (find (\<lambda>(k, _). fold_key k = fold_key name) m)"

definition type_mismatch :: err where "type_mismatch = OtherError ''json: cannot unmarshal''"

definition json_members :: "json \<Rightarrow> (string \<times> json) list res" where
  "json_members j = (case j of JObj m \<Rightarrow> Inr m | JNull \<Rightarrow> Inr [] | _ \<Rightarrow> Inl type_mismatch)"

definition read_string :: "json option \<Rightarrow> string res" where
  "read_string j = (case j of None \<Rightarrow> Inr [] | Some JNull \<Rightarrow> Inr [] | Some (JStr s) \<Rightarrow> Inr s | _ \<Rightarrow> Inl type_mismatch)"

definition read_strings :: "json option \<Rightarrow> string list option res" where
  "read_strings j =
     (case j of
        None \<Rightarrow> Inr None | Some JNull \<Rightarrow> Inr None
      | Some (JArr js) \<Rightarrow> (case traverse (\<lambda>j. read_string (Some j)) js of Inl err \<Rightarrow> Inl err | Inr ss \<Rightarrow> Inr (Some ss))
      | _ \<Rightarrow> Inl type_mismatch)"

definition read_tree :: "json option \<Rightarrow> gval" where
  "read_tree j = (case j of None \<Rightarrow> GNil | Some j \<Rightarrow> JSONTree_UnmarshalJSON j)"

text \<open>A map of trees, and a map of values: a later member replaces an earlier one of the same name.\<close>

definition read_map :: "json option \<Rightarrow> gval gomap option res" where
  "read_map j =
     (case j of
        None \<Rightarrow> Inr None | Some JNull \<Rightarrow> Inr None
      | Some (JObj m) \<Rightarrow> Inr (Some (fold (\<lambda>(k, v). AList.update k v) (map (\<lambda>(k, j). (k, json_unmarshal j)) m) []))
      | _ \<Rightarrow> Inl type_mismatch)"

definition and_read :: "'a res \<Rightarrow> ('a \<Rightarrow> 'b res) \<Rightarrow> 'b res" where
  "and_read r f = (case r of Inl err \<Rightarrow> Inl err | Inr x \<Rightarrow> f x)"

definition read_container :: "(string \<times> json) list \<Rightarrow> container_mixin res" where
  "read_container m =
     and_read (read_string (member ''image'' m)) (\<lambda>image.
     and_read (read_map (member ''spec'' m)) (\<lambda>spec.
     and_read (read_string (member ''inputFile'' m)) (\<lambda>inputFile.
     and_read (read_strings (member ''input'' m)) (\<lambda>input.
     and_read (read_string (member ''command'' m)) (\<lambda>command.
     and_read (read_strings (member ''args'' m)) (\<lambda>args.
       Inr \<lparr>cm_Image = image, cm_Spec = spec, cm_InputFile = inputFile, cm_Input = case_option [] id input,
            cm_Command = command, cm_Args = case_option [] id args, cm_inputFileLoaded = False\<rparr>))))))"

definition WorkflowStep_UnmarshalJSON :: "json \<Rightarrow> wf_step res" where
  "WorkflowStep_UnmarshalJSON j =
     and_read (json_members j) (\<lambda>m.
     and_read (read_string (member ''name'' m)) (\<lambda>name.
     and_read (read_string (member ''type'' m)) (\<lambda>ty.
     and_read (read_strings (member ''depends_on'' m)) (\<lambda>deps.
     and_read
       (if ty = ''approval'' then Inr ApprovalWorkflowStep
        else case read_container m of Inl err \<Rightarrow> Inl err | Inr c \<Rightarrow> Inr (ContainerWorkflowStep c))
       (\<lambda>variant. Inr \<lparr>wst_Name = name, wst_DependsOn = deps, wst_When = read_tree (member ''when'' m), wst_Variant = variant\<rparr>)))))"

text \<open>The variant stays what it was if the type is not known.\<close>

definition WorkflowTriggerSource_UnmarshalJSON :: "wf_trigger_source \<Rightarrow> json \<Rightarrow> wf_trigger_source res" where
  "WorkflowTriggerSource_UnmarshalJSON wts j =
     and_read (json_members j) (\<lambda>m.
     and_read (read_string (member ''type'' m)) (\<lambda>ty.
       if ty = ''push'' then
         and_read (read_map (member ''schema'' m)) (\<lambda>schema. Inr \<lparr>src_Type = ty, src_Variant = Some (PushWorkflowTriggerSource (nil_map schema))\<rparr>)
       else if ty = ''schedule'' then
         and_read (read_string (member ''schedule'' m)) (\<lambda>s. Inr \<lparr>src_Type = ty, src_Variant = Some (ScheduleWorkflowTriggerSource s)\<rparr>)
       else if ty = ''webhook'' then
         and_read (read_container m) (\<lambda>c. Inr \<lparr>src_Type = ty, src_Variant = Some (WebhookWorkflowTriggerSource c)\<rparr>)
       else Inr (wts\<lparr>src_Type := ty\<rparr>)))"

section \<open>Mapping to objects\<close>

definition defaultWorkflowName :: string where "defaultWorkflowName = ''workflow''"
definition defaultWorkflowRunName :: string where "defaultWorkflowRunName = ''workflow-run''"
definition defaultNamespace :: string where "defaultNamespace = ''default''"

definition AccountIDLabel :: string where "AccountIDLabel = ''managed.relay.sh/account-id''"
definition WorkflowIDLabel :: string where "WorkflowIDLabel = ''managed.relay.sh/workflow-id''"
definition WorkflowNameLabel :: string where "WorkflowNameLabel = ''managed.relay.sh/workflow-name''"
definition WorkflowTriggerIDLabel :: string where "WorkflowTriggerIDLabel = ''managed.relay.sh/workflow-trigger-id''"
definition WorkflowTriggerNameLabel :: string where "WorkflowTriggerNameLabel = ''managed.relay.sh/workflow-trigger-name''"

definition mapNamespace :: "string \<Rightarrow> unit object" where
  "mapNamespace ns =
     \<lparr>o_Meta = empty_meta\<lparr>om_Name := ns, om_Labels :=
        [(''app.kubernetes.io/managed-by'', ''nebula''), (''nebula.puppet.com/network-policy.customer'', ''true''),
         (''controller.relay.sh/tenant-workload'', ''true'')]\<rparr>, o_Body = ()\<rparr>"

text \<open>A namespace is only made if it is not the default one.\<close>

definition map_namespace_of :: "string \<Rightarrow> unit object option" where
  "map_namespace_of ns = (if ns \<noteq> defaultNamespace then Some (mapNamespace ns) else None)"

subsection \<open>Runs (\<open>workflowrunmapping.go\<close>)\<close>

record run_engine_mapper =
  rm_name :: string
  rm_runName :: string
  rm_namespace :: string
  rm_runParameters :: "workflow_run_parameter option gomap"
  rm_domainID :: string
  rm_vaultEngineMount :: string

definition NewDefaultRunEngineMapper :: "(run_engine_mapper \<Rightarrow> run_engine_mapper) list \<Rightarrow> run_engine_mapper" where
  "NewDefaultRunEngineMapper opts = fold (\<lambda>opt. opt) opts
     \<lparr>rm_name = defaultWorkflowName, rm_runName = defaultWorkflowRunName, rm_namespace = defaultNamespace, rm_runParameters = [],
      rm_domainID = [], rm_vaultEngineMount = []\<rparr>"

definition WithDomainIDRunOption :: "string \<Rightarrow> run_engine_mapper \<Rightarrow> run_engine_mapper" where
  "WithDomainIDRunOption ident m = m\<lparr>rm_domainID := ident\<rparr>"
definition WithWorkflowNameRunOption :: "string \<Rightarrow> run_engine_mapper \<Rightarrow> run_engine_mapper" where
  "WithWorkflowNameRunOption name m = m\<lparr>rm_name := name\<rparr>"
definition WithWorkflowRunNameRunOption :: "string \<Rightarrow> run_engine_mapper \<Rightarrow> run_engine_mapper" where
  "WithWorkflowRunNameRunOption name m = m\<lparr>rm_runName := name\<rparr>"
definition WithNamespaceRunOption :: "string \<Rightarrow> run_engine_mapper \<Rightarrow> run_engine_mapper" where
  "WithNamespaceRunOption ns m = m\<lparr>rm_namespace := ns\<rparr>"
definition WithRunParametersRunOption :: "workflow_run_parameter option gomap \<Rightarrow> run_engine_mapper \<Rightarrow> run_engine_mapper" where
  "WithRunParametersRunOption params m = m\<lparr>rm_runParameters := params\<rparr>"
definition WithVaultEngineMountRunOption :: "string \<Rightarrow> run_engine_mapper \<Rightarrow> run_engine_mapper" where
  "WithVaultEngineMountRunOption mount m = m\<lparr>rm_vaultEngineMount := mount\<rparr>"

definition mapStepSpec :: "gval gomap \<Rightarrow> gval gomap" where
  "mapStepSpec jm = map (\<lambda>(k, v). (k, v)) jm"

definition map_step :: "wf_step \<Rightarrow> workflow_step" where
  "map_step value =
     (let step = \<lparr>ws_Name = wst_Name value, ws_Image = [], ws_Spec = [], ws_Input = [], ws_Command = [], ws_Args = [], ws_Env = [],
            ws_When = wst_When value, ws_DependsOn = case_option [] id (wst_DependsOn value)\<rparr> in
      case wst_Variant value of
        ContainerWorkflowStep c \<Rightarrow>
          step\<lparr>ws_Image := cm_Image c, ws_Spec := mapStepSpec (nil_map (cm_Spec c)), ws_Input := cm_Input c,
               ws_Command := cm_Command c, ws_Args := cm_Args c\<rparr>
      | ApprovalWorkflowStep \<Rightarrow> step)"

definition mapSteps :: "workflow_data \<Rightarrow> workflow_step list" where
  "mapSteps wd = map map_step (wd_Steps wd)"

text \<open>The defaults of the parameters and the values of a run; a nil parameter is a panic.\<close>

definition field_values :: "('p \<Rightarrow> gval) \<Rightarrow> 'p option gomap \<Rightarrow> gval gomap option" where
  "field_values field params =
     (if list_all (\<lambda>(_, p). p \<noteq> None) params then Some (map (\<lambda>(k, p). (k, field (the p))) params) else None)"

definition run_annotations :: "run_engine_mapper \<Rightarrow> string gomap" where
  "run_annotations m =
     [(RelayDomainIDAnnotation, rm_domainID m), (RelayTenantIDAnnotation, rm_name m)] @
     (if rm_vaultEngineMount m \<noteq> [] then
        [(RelayVaultEngineMountAnnotation, rm_vaultEngineMount m),
         (RelayVaultSecretPathAnnotation, path_Join [''workflows'', rm_name m]),
         (RelayVaultConnectionPathAnnotation, path_Join [''connections'', rm_domainID m])]
      else [])"

text \<open>A run with the name of its workflow.\<close>

record named_workflow_run = workflow_run +
  wr_WorkflowName :: string

record run_mapping =
  rk_Namespace :: "unit object option"
  rk_WorkflowRun :: named_workflow_run

definition Run_ToRuntimeObjectsManifest :: "run_engine_mapper \<Rightarrow> workflow_data \<Rightarrow> run_mapping option" where
  "Run_ToRuntimeObjectsManifest m wd =
     Option.bind (field_values wp_Default (wd_Parameters wd)) (\<lambda>wp.
     Option.bind (field_values wrp_Value (rm_runParameters m)) (\<lambda>wrp.
       Some \<lparr>rk_Namespace = map_namespace_of (rm_namespace m),
         rk_WorkflowRun =
           \<lparr>wr_Key = \<lparr>key_Namespace = rm_namespace m, key_Name = rm_runName m\<rparr>,
            wr_Meta = empty_meta\<lparr>om_Name := rm_runName m, om_Namespace := rm_namespace m, om_Annotations := run_annotations m\<rparr>,
            wr_SpecName = rm_runName m, wr_Steps = mapSteps wd, wr_WorkflowParameters = wp, wr_Parameters = wrp, wr_TenantRef = None,
            wr_StateWorkflow = [], wr_StateSteps = [],
            wr_Status = \<lparr>rs_Status = [], rs_StartTime = None, rs_CompletionTime = None, rs_Steps = [], rs_Conditions = []\<rparr>,
            wr_WorkflowName = rm_name m\<rparr>\<rparr>))"

subsection \<open>Tenants (\<open>tenantmapping.go\<close>)\<close>

record 'u tenant_engine_mapper =
  tm_id :: string
  tm_name :: string
  tm_namespace :: string
  tm_workflowID :: string
  tm_workflowName :: string
  tm_tokenSecretName :: string
  tm_eventURL :: "'u option"

definition NewDefaultTenantEngineMapper :: "('u tenant_engine_mapper \<Rightarrow> 'u tenant_engine_mapper) list \<Rightarrow> 'u tenant_engine_mapper" where
  "NewDefaultTenantEngineMapper opts = fold (\<lambda>opt. opt) opts
     \<lparr>tm_id = [], tm_name = [], tm_namespace = defaultNamespace, tm_workflowID = [], tm_workflowName = defaultWorkflowName,
      tm_tokenSecretName = [], tm_eventURL = None\<rparr>"

definition WithNameTenantOption :: "string \<Rightarrow> 'u tenant_engine_mapper \<Rightarrow> 'u tenant_engine_mapper" where
  "WithNameTenantOption name m = m\<lparr>tm_name := name\<rparr>"
definition WithIDTenantOption :: "string \<Rightarrow> 'u tenant_engine_mapper \<Rightarrow> 'u tenant_engine_mapper" where
  "WithIDTenantOption ident m = m\<lparr>tm_id := ident\<rparr>"
definition WithWorkflowNameTenantOption :: "string \<Rightarrow> 'u tenant_engine_mapper \<Rightarrow> 'u tenant_engine_mapper" where
  "WithWorkflowNameTenantOption name m = m\<lparr>tm_workflowName := name\<rparr>"
definition WithWorkflowIDTenantOption :: "string \<Rightarrow> 'u tenant_engine_mapper \<Rightarrow> 'u tenant_engine_mapper" where
  "WithWorkflowIDTenantOption ident m = m\<lparr>tm_workflowID := ident\<rparr>"
definition WithNamespaceTenantOption :: "string \<Rightarrow> 'u tenant_engine_mapper \<Rightarrow> 'u tenant_engine_mapper" where
  "WithNamespaceTenantOption ns m = m\<lparr>tm_namespace := ns\<rparr>"
definition WithEventURLTenantOption :: "'u option \<Rightarrow> 'u tenant_engine_mapper \<Rightarrow> 'u tenant_engine_mapper" where
  "WithEventURLTenantOption u m = m\<lparr>tm_eventURL := u\<rparr>"
definition WithTokenSecretNameTenantOption :: "string \<Rightarrow> 'u tenant_engine_mapper \<Rightarrow> 'u tenant_engine_mapper" where
  "WithTokenSecretNameTenantOption name m = m\<lparr>tm_tokenSecretName := name\<rparr>"

record tenant_mapping =
  tk_Namespace :: "unit object option"
  tk_Tenant :: "tenant_body object"

definition Tenant_ToRuntimeObjectsManifest :: "('u \<Rightarrow> string) \<Rightarrow> 'u tenant_engine_mapper \<Rightarrow> workflow_error + tenant_mapping" where
  "Tenant_ToRuntimeObjectsManifest url_String m =
     (if tm_id m = [] then Inl MissingTenantIDError
      else if tm_workflowID m = [] then Inl MissingWorkflowIDError
      else
        (let name = (if tm_name m = [] then tm_workflowID m else tm_name m);
             labels = [(AccountIDLabel, tm_id m), (WorkflowIDLabel, tm_workflowID m), (WorkflowNameLabel, tm_workflowName m)];
             sink = map_option (\<lambda>u. \<lparr>ss_URL = url_String u, ss_Token = [], ss_SecretKeyRef = Some (tm_tokenSecretName m, ''token'')\<rparr>) (tm_eventURL m)
         in Inr \<lparr>tk_Namespace = map_namespace_of (tm_namespace m),
              tk_Tenant = \<lparr>o_Meta = empty_meta\<lparr>om_Name := name, om_Namespace := tm_namespace m, om_Labels := labels\<rparr>,
                o_Body = empty_tenant\<lparr>tb_TemplateName := name, tb_Sink := sink\<rparr>\<rparr>\<rparr>))"

subsection \<open>Webhook triggers (\<open>webhooktriggermapping.go\<close>)\<close>

record trigger_engine_mapper =
  gm_id :: string
  gm_name :: string
  gm_image :: string

definition WithIDWebhookTriggerOption :: "string \<Rightarrow> trigger_engine_mapper \<Rightarrow> trigger_engine_mapper" where
  "WithIDWebhookTriggerOption ident m = m\<lparr>gm_id := ident\<rparr>"
definition WithNameWebhookTriggerOption :: "string \<Rightarrow> trigger_engine_mapper \<Rightarrow> trigger_engine_mapper" where
  "WithNameWebhookTriggerOption name m = m\<lparr>gm_name := name\<rparr>"
definition WithImageWebhookTriggerOption :: "string \<Rightarrow> trigger_engine_mapper \<Rightarrow> trigger_engine_mapper" where
  "WithImageWebhookTriggerOption img m = m\<lparr>gm_image := img\<rparr>"

definition NewDefaultWebhookTriggerEngineMapper :: "(trigger_engine_mapper \<Rightarrow> trigger_engine_mapper) list \<Rightarrow> trigger_engine_mapper" where
  "NewDefaultWebhookTriggerEngineMapper opts = fold (\<lambda>opt. opt) opts \<lparr>gm_id = [], gm_name = [], gm_image = []\<rparr>"

text \<open>The tenant is given by its metadata and its resource version.\<close>

definition Trigger_ToRuntimeObjectsManifest ::
    "trigger_engine_mapper \<Rightarrow> object_meta \<Rightarrow> string \<Rightarrow> container_mixin \<Rightarrow> trigger_body object" where
  "Trigger_ToRuntimeObjectsManifest m tenant resourceVersion source =
     \<lparr>o_Meta = empty_meta\<lparr>om_Name := ''trigger-'' @ gm_id m, om_Namespace := om_Namespace tenant,
        om_Labels := [(WorkflowTriggerIDLabel, gm_id m), (WorkflowTriggerNameLabel, gm_name m)],
        om_Annotations := [(''managed.relay.sh/tenant.resource-version'', resourceVersion)],
        om_OwnerReferences := [NewControllerRef tenant TenantKind]\<rparr>,
      o_Body = \<lparr>gb_TenantRef = om_Name tenant, gb_Name = gm_name m, gb_Image = gm_image m, gb_Input = cm_Input source,
        gb_Command = cm_Command source, gb_Args = cm_Args source, gb_Spec = mapStepSpec (nil_map (cm_Spec source)), gb_Env = [],
        gb_Generation = 0, gb_Status = \<lparr>wts_ObservedGeneration = 0, wts_Namespace = [], wts_URL = [], wts_Conditions = []\<rparr>\<rparr>\<rparr>"

end
