(* ===== verification/Workflow_Types_Props.thy ===== *)
theory Workflow_Types_Props
  imports Workflow_Types Metadata_Api_Props
begin

text \<open>
  Decoding keeps the steps of a workflow in order, an approval step does not pass before it is approved, and what
  is lost in the JSON form of a step.
\<close>

section \<open>Decoding\<close>

lemma decode_steps_ok:
  "decode_steps ss acc = Inr ws \<longleftrightarrow> (\<exists>ds. ws = acc @ ds \<and> map decode_step ss = map Inr ds)"
proof (induction ss arbitrary: acc)
  case (Cons s ss)
  show ?case
  proof (cases "decode_step s")
    case (Inr d)
    have "(\<exists>ds. ws = acc @ ds \<and> map decode_step (s # ss) = map Inr ds) \<longleftrightarrow>
        (\<exists>ds. ws = acc @ d # ds \<and> map decode_step ss = map Inr ds)"
      using Inr by (auto simp: Cons_eq_map_conv)
    then show ?thesis using Inr Cons.IH [of "acc @ [d]"] by simp
  qed (auto simp: Cons_eq_map_conv)
qed auto

lemma decode_steps_error:
  "decode_steps ss acc = Inl err \<longleftrightarrow>
     (\<exists>s \<in> set ss. find (\<lambda>s. decode_step s \<notin> range Inr) ss = Some s \<and> decode_step s = Inl err)"
  by (induction ss arbitrary: acc) (auto split: sum.splits)

lemma decode_step_error:
  "decode_step s = Inl err \<longleftrightarrow> ys_Type s \<notin> {[], ''container'', ''approval''} \<and> err = WorkflowStepInvalidError (ys_Name s) (ys_Type s)"
  by (auto simp: decode_step_def makeStepType_def)

lemma map_decoded: "map f xs = map Inr ds \<Longrightarrow> (\<And>x d. f x = Inr d \<Longrightarrow> g d = h x) \<Longrightarrow> map g ds = map h xs"
  by (induction xs arbitrary: ds) (auto simp: Cons_eq_map_conv)

text \<open>A workflow is decoded exactly if the types of its steps are known, and its steps come in the order of the file.\<close>

lemma workflow_decoded:
  assumes "yamlWorkflowDataToWorkflowData ywd = Inr wd"
  shows "map wst_Name (wd_Steps wd) = map ys_Name (yd_Steps ywd)"
    and "map wst_DependsOn (wd_Steps wd) = map ys_DependsOn (yd_Steps ywd)"
    and "map tr_Name (wd_Triggers wd) = map yt_Name (yd_Triggers ywd)"
proof -
  from assms have steps: "map decode_step (yd_Steps ywd) = map Inr (wd_Steps wd)" and triggers: "wd_Triggers wd = map decode_trigger (yd_Triggers ywd)"
    by (auto simp: yamlWorkflowDataToWorkflowData_def decode_steps_ok split: sum.splits)
  have step: "wst_Name d = ys_Name s \<and> wst_DependsOn d = ys_DependsOn s" if "decode_step s = Inr d" for s d
    using that by (auto simp: decode_step_def split: sum.splits workflow_step_type.splits)
  from steps step show "map wst_Name (wd_Steps wd) = map ys_Name (yd_Steps ywd)" "map wst_DependsOn (wd_Steps wd) = map ys_DependsOn (yd_Steps ywd)"
    by (auto dest: map_decoded)
  show "map tr_Name (wd_Triggers wd) = map yt_Name (yd_Triggers ywd)"
    by (simp add: triggers decode_trigger_def)
qed

lemma approval_decoded:
  assumes "yamlWorkflowDataToWorkflowData ywd = Inr wd" "s \<in> set (yd_Steps ywd)" "ys_Type s = ''approval''"
  shows "\<exists>ws \<in> set (mapSteps wd). ws_Name ws = ys_Name s \<and> ws_When ws = GList (approval_condition (ys_Name s) # existing_conditions (ys_When s))"
proof -
  from assms(1) have steps: "map decode_step (yd_Steps ywd) = map Inr (wd_Steps wd)"
    by (auto simp: yamlWorkflowDataToWorkflowData_def decode_steps_ok split: sum.splits)
  let ?d = "\<lparr>wst_Name = ys_Name s, wst_DependsOn = ys_DependsOn s,
    wst_When = GList (approval_condition (ys_Name s) # existing_conditions (ys_When s)), wst_Variant = ApprovalWorkflowStep\<rparr>"
  have "decode_step s = Inr ?d" using assms(3) by (simp add: decode_step_def makeStepType_def)
  then have "Inr ?d \<in> set (map decode_step (yd_Steps ywd))" using assms(2) by force
  then have "?d \<in> set (wd_Steps wd)" using steps by auto
  then have "map_step ?d \<in> set (mapSteps wd)" by (simp add: mapSteps_def)
  then show ?thesis by (rule rev_bexI) (simp add: map_step_def)
qed

section \<open>Approval\<close>

abbreviation condition_evaluator :: "golib \<Rightarrow> 'e metadata_managers \<Rightarrow> 'e \<Rightarrow> evaluator" where
  "condition_evaluator lib m e \<equiv> NewEvaluator lib [parameters_of m e, secrets_of m e, outputs_of m e, answers_of m e]"

lemma condition_evaluator_fields:
  "answerTypeResolver (condition_evaluator lib m e) = AnswerTypeResolver (\<lambda>n. fst (m_State m n e))"
  "resultMapper (condition_evaluator lib m e) = IdentityResultMapper"
  "invoke (condition_evaluator lib m e) = (\<lambda>i. i)"
  "invocationPositional (condition_evaluator lib m e) = ResolveInvocationPositional (library lib)"
  by (simp_all add: NewEvaluator_def parameters_of_def secrets_of_def outputs_of_def answers_of_def WithParameterTypeResolver_def
      WithSecretTypeResolver_def WithOutputTypeResolver_def WithAnswerTypeResolver_def)

text \<open>The reference to the answer, evaluated.\<close>

abbreviation approval_answer :: "string \<Rightarrow> gval gomap" where
  "approval_answer name \<equiv> [(''$type'', GStr ''Answer''), (''askRef'', GStr name), (''name'', GStr ''approval'')]"

lemma true_result: "r = value_result v \<longleftrightarrow> Complete r \<and> Value r = v"
  by (cases r) (auto simp: Complete_iff value_result_def)

lemma answer_evaluated:
  "checked (evaluateType ev (approval_answer name)) = Inr (value_result (GStr s)) \<longleftrightarrow> answerTypeResolver ev (name, ''approval'') = Inr (GStr s)"
proof -
  have "evaluateType ev (approval_answer name) =
      resolved ''Answer'' (approval_answer name) as_AnswerNotFound report_answer (answerTypeResolver ev (name, ''approval''))"
    by (simp add: evaluateType_def get_string_def)
  then show ?thesis
    by (auto simp: resolved_def checked_def value_result_def supported_def split: sum.splits option.splits if_splits)
qed

lemma list_evaluated:
  "evaluate ev (GList vs) (-1) = Inr (value_result (GList ws)) \<longleftrightarrow> list_all2 (\<lambda>v w. evaluate ev v (-1) = Inr (value_result w)) vs ws"
proof (cases "eval_items (\<lambda>v. evaluate ev v (-1)) (index_items vs)")
  case (Inl err)
  then have "\<not> list_all2 (\<lambda>v w. evaluate ev v (-1) = Inr (value_result w)) vs ws"
  proof (rule contrapos_pn)
    assume "list_all2 (\<lambda>v w. evaluate ev v (-1) = Inr (value_result w)) vs ws"
    then have "\<exists>w. evaluate ev v (-1) = Inr (value_result w)" if "v \<in> set vs" for v
      using that by (fastforce simp: list_all2_conv_all_nth in_set_conv_nth)
    then have "\<exists>y. (case x of (k, v) \<Rightarrow> case evaluate ev v (-1) of Inl err \<Rightarrow> Inl (PathEvaluationError k err) | Inr nv \<Rightarrow> Inr (k, nv)) = Inr y"
      if "x \<in> set (index_items vs)" for x using that by (cases x) (fastforce dest: set_index_items)
    then show "eval_items (\<lambda>v. evaluate ev v (-1)) (index_items vs) \<noteq> Inl err"
      unfolding eval_items_def traverse_Inl_iff by fastforce
  qed
  with Inl show ?thesis by (simp add: full_list)
next
  case (Inr nvs)
  then have nvs: "list_all2 (\<lambda>v nv. evaluate ev v (-1) = Inr (snd nv)) (map snd (index_items vs)) nvs"
    unfolding eval_items_def traverse_Inr_iff list.rel_map
    by (rule list.rel_mono_strong) (auto split: prod.splits sum.splits)
  have "evaluate ev (GList vs) (-1) = Inr (value_result (GList ws)) \<longleftrightarrow>
      list_all (Complete \<circ> snd) nvs \<and> map (Value \<circ> snd) nvs = ws"
    by (simp add: full_list Inr true_result Complete_causes causes_collect case_prod_unfold list_all_iff)
  also have "\<dots> \<longleftrightarrow> list_all2 (\<lambda>v w. evaluate ev v (-1) = Inr (value_result w)) vs ws"
    using nvs unfolding map_snd_index_items
    by (induction vs nvs arbitrary: ws rule: list_all2_induct) (auto simp: true_result list_all2_Cons1)
  finally show ?thesis .
qed

text \<open>A list of conditions passes exactly if each of them evaluates to true.\<close>

lemma conditions_passed:
  "conditions_response (EvaluateAll (condition_evaluator lib m e) (GList cs)) = [Wrote_Object 200 (conditions_envelope True ''all checks passed'')] \<longleftrightarrow>
     list_all (\<lambda>c. evaluate (condition_evaluator lib m e) c (-1) = Inr (value_result (GBool True))) cs"
proof -
  let ?ev = "condition_evaluator lib m e"
  have "EvaluateAll ?ev (GList cs) = evaluate ?ev (GList cs) (-1)"
    by (simp add: EvaluateAll_def Evaluate_def condition_evaluator_fields IdentityResultMapper_def split: sum.split)
  moreover have "evaluate ?ev (GList cs) (-1) = Inr (value_result (GList (replicate (length cs) (GBool True)))) \<longleftrightarrow>
      list_all (\<lambda>c. evaluate ?ev c (-1) = Inr (value_result (GBool True))) cs"
    by (auto simp: list_evaluated list_all2_conv_all_nth list_all_length)
  moreover have "conditions_response r = [Wrote_Object 200 (conditions_envelope True ''all checks passed'')] \<longleftrightarrow>
      r = Inr (value_result (GList (replicate (length cs) (GBool True))))" if "r = evaluate ?ev (GList cs) (-1)" for r
  proof (cases r)
    case (Inr rv)
    with that obtain vs where vs: "Value rv = GList vs" "length vs = length cs"
      by (auto simp: full_list index_items_def eval_items_def dest!: traverse_length split: sum.splits)
    have "(\<forall>v \<in> set vs. v = GBool True) \<longleftrightarrow> vs = replicate (length cs) (GBool True)"
      using vs replicate_length_same [of vs "GBool True"] by (metis in_set_replicate)
    with Inr vs show ?thesis
      by (cases "Complete rv") (simp_all add: conditions_response_passed check_conditions_def true_result check_list_passed)
  qed (simp add: conditions_response_def)
  ultimately show ?thesis by simp
qed

lemma equals_resolved: "ResolveInvocationPositional (library lib) ''equals'' [a, b] = Inr (Inr (GBool (deep_equal a b)))"
  by (simp add: ResolveInvocationPositional_def descriptor_defs equals_positional_def wrap_invoker_def)

lemma deep_equal_GStr: "deep_equal v (GStr s) \<longleftrightarrow> v = GStr s"
  by (cases v) auto

text \<open>The condition of an approval step is true exactly if the answer is that it is approved.\<close>

lemma approval_evaluated:
  "evaluate (condition_evaluator lib m e) (approval_condition name) (-1) = Inr (value_result (GBool True)) \<longleftrightarrow>
   answerTypeResolver (condition_evaluator lib m e) (name, ''approval'') = Inr (GStr ''approved'')"
proof -
  let ?ev = "condition_evaluator lib m e"
  let ?pair = "GList [GMap (approval_answer name), GStr ''approved'']"
  have atom: "evaluate ?ev (GStr ''approved'') (-1) = Inr (value_result (GStr ''approved''))"
    by (simp add: evaluate_atom is_container_def checked_def supported_def value_result_def)
  have invocation: "evaluate ?ev (approval_condition name) (-1) = checked (evaluateInvocation ?ev (evals ?ev) [(''$fn.equals'', ?pair)])"
    by (simp add: approval_condition_def evaluate_invocation is_fn_map_def has_prefix_def)
  have called: "checked (evaluateInvocation ?ev (evals ?ev) [(''$fn.equals'', ?pair)]) = Inr (value_result (GBool True)) \<longleftrightarrow>
      evaluate ?ev ?pair (-1) = Inr (value_result (GList [GStr ''approved'', GStr ''approved'']))"
  proof (cases "evaluate ?ev ?pair (-1)")
    case (Inr a)
    then obtain v w where a: "Value a = GList [v, w]" and w: "Complete a \<Longrightarrow> w = GStr ''approved''"
      using atom by (auto simp: full_list index_items_def eval_items_def upt_conv_Cons split: sum.splits)
    show ?thesis
    proof (cases "Complete a")
      case True
      then show ?thesis
        using Inr a w
        by (auto simp: evaluateInvocation_def trim_prefix_def has_prefix_def resolve_call_def condition_evaluator_fields equals_resolved
            deep_equal_GStr checked_def supported_def true_result)
    next
      case False
      then show ?thesis using Inr
        by (auto simp: evaluateInvocation_def trim_prefix_def has_prefix_def checked_def supported_def true_result Result_extends_def)
    qed
  qed (simp add: evaluateInvocation_def checked_def)
  have "evaluate ?ev ?pair (-1) = Inr (value_result (GList [GStr ''approved'', GStr ''approved''])) \<longleftrightarrow> answerTypeResolver ?ev (name, ''approval'') = Inr (GStr ''approved'')"
    using atom by (simp add: list_evaluated evaluate_type answer_evaluated)
  then show ?thesis by (simp only: invocation called)
qed

text \<open>C9: A step of type \<open>approval\<close> in a workflow file becomes a step of the run that passes exactly if it was approved: the metadata
  API reports its conditions as passed if and only if the answer stored for the step is ''approved'' and every condition that the
  file gives for the step evaluates to true.\<close>

theorem approval_required:
  assumes "yamlWorkflowDataToWorkflowData ywd = Inr wd" and "s \<in> set (yd_Steps ywd)" and "ys_Type s = ''approval''"
  shows "\<exists>ws \<in> set (mapSteps wd). ws_Name ws = ys_Name s \<and>
    (m_Conditions m e = (Inr \<lparr>Condition_Tree = ws_When ws\<rparr>, e') \<longrightarrow>
     (fst (GetConditions lib m e) = Some [Wrote_Object 200 (conditions_envelope True ''all checks passed'')] \<longleftrightarrow>
      (\<exists>st. fst (m_State m ''approval'' e') = Inr st \<and> State_Value st = GStr ''approved'') \<and>
      list_all (\<lambda>c. evaluate (condition_evaluator lib m e') c (-1) = Inr (value_result (GBool True))) (existing_conditions (ys_When s))))"
proof -
  from approval_decoded [OF assms] obtain ws where ws: "ws \<in> set (mapSteps wd)" "ws_Name ws = ys_Name s"
    "ws_When ws = GList (approval_condition (ys_Name s) # existing_conditions (ys_When s))" by blast
  have "fst (GetConditions lib m e) = Some [Wrote_Object 200 (conditions_envelope True ''all checks passed'')] \<longleftrightarrow>
      answerTypeResolver (condition_evaluator lib m e') (ys_Name s, ''approval'') = Inr (GStr ''approved'') \<and>
      list_all (\<lambda>c. evaluate (condition_evaluator lib m e') c (-1) = Inr (value_result (GBool True))) (existing_conditions (ys_When s))"
    if "m_Conditions m e = (Inr \<lparr>Condition_Tree = ws_When ws\<rparr>, e')"
    using that ws(3) by (simp add: GetConditions_def conditions_passed approval_evaluated)
  moreover have "answerTypeResolver (condition_evaluator lib m e') (n, ''approval'') = Inr (GStr ''approved'') \<longleftrightarrow>
      (\<exists>st. fst (m_State m ''approval'' e') = Inr st \<and> State_Value st = GStr ''approved'')" for n
    by (auto simp: condition_evaluator_fields AnswerTypeResolver_def split: sum.splits)
  ultimately show ?thesis using ws by blast
qed

definition ex_file :: yaml_workflow_data where
  "ex_file = \<lparr>yd_APIVersion = ''v1'', yd_Description = [], yd_Name = ''deploy'', yd_Parameters = [],
     yd_Steps = [\<lparr>ys_Name = ''gate'', ys_Type = ''approval'',
       ys_Container = \<lparr>ym_Image = [], ym_Spec = None, ym_Input = [], ym_InputFile = [], ym_Command = [], ym_Args = []\<rparr>,
       ys_DependsOn = None, ys_When = GNil\<rparr>], yd_Triggers = []\<rparr>"

definition gated_managers :: "string \<Rightarrow> unit metadata_managers" where
  "gated_managers answer = NewMetadataBuilder
     \<lparr>m_Conditions := (\<lambda>e. (Inr \<lparr>Condition_Tree = GList [approval_condition ''gate'']\<rparr>, e)),
      m_State := (\<lambda>n e. (Inr \<lparr>State_Name = n, State_Value = GStr answer\<rparr>, e))\<rparr>"

theorem approval_required_witness:
  "fst (GetConditions ex_golib (gated_managers ''approved'') ()) = Some [Wrote_Object 200 (conditions_envelope True ''all checks passed'')] \<and>
   fst (GetConditions ex_golib (gated_managers ''rejected'') ()) \<noteq> Some [Wrote_Object 200 (conditions_envelope True ''all checks passed'')]"
proof -
  obtain wd where wd: "yamlWorkflowDataToWorkflowData ex_file = Inr wd"
      "mapSteps wd = [\<lparr>ws_Name = ''gate'', ws_Image = [], ws_Spec = [], ws_Input = [], ws_Command = [], ws_Args = [], ws_Env = [],
         ws_When = GList [approval_condition ''gate''], ws_DependsOn = []\<rparr>]"
    by (simp add: yamlWorkflowDataToWorkflowData_def ex_file_def decode_step_def makeStepType_def mapSteps_def map_step_def existing_conditions_def)
  have "fst (GetConditions ex_golib (gated_managers a) ()) = Some [Wrote_Object 200 (conditions_envelope True ''all checks passed'')] \<longleftrightarrow> a = ''approved''" for a
    using approval_required [OF wd(1), of "hd (yd_Steps ex_file)" "gated_managers a" "()" "()" ex_golib] wd(2)
    by (simp add: ex_file_def gated_managers_def existing_conditions_def)
  then show ?thesis by simp
qed

section \<open>JSON\<close>

lemma read_jstr [simp]: "utf8_valid s \<Longrightarrow> read_string (Some (jstr s)) = Inr s"
  by (simp add: jstr_def read_string_def utf8_coerce_valid)

lemma read_jstrs [simp]: "list_all utf8_valid ss \<Longrightarrow> read_strings (Some (JArr (map jstr ss))) = Inr (Some ss)"
proof (induction ss)
  case (Cons s ss)
  then show ?case by (auto simp: read_strings_def split: sum.splits)
qed (simp add: read_strings_def)

lemma fold_keys:
  "fold_key ''name'' = ''name''" "fold_key ''type'' = ''type''" "fold_key ''depends_on'' = ''depends_on''" "fold_key ''when'' = ''when''"
  "fold_key ''schedule'' = ''schedule''"
  by code_simp+

lemma valid_literals: "utf8_valid ''approval''" "utf8_valid ''schedule''"
  by code_simp+

text \<open>An approval step read back from its own JSON has lost its condition, with the approval in it.\<close>

lemma approval_lost_in_json:
  assumes "wst_Variant ws = ApprovalWorkflowStep" "utf8_valid (wst_Name ws)" "list_all utf8_valid (case_option [] id (wst_DependsOn ws))"
  shows "\<exists>j. WorkflowStep_MarshalJSON lib ws = Inr j \<and> WorkflowStep_UnmarshalJSON j = Inr (ws\<lparr>wst_When := GNil\<rparr>)"
proof -
  have deps: "read_strings (Some (case wst_DependsOn ws of None \<Rightarrow> JNull | Some ds \<Rightarrow> JArr (map jstr ds))) = Inr (wst_DependsOn ws)"
    using assms(3) by (cases "wst_DependsOn ws") (auto simp: read_strings_def [of "Some JNull"])
  show ?thesis
    using assms(1,2) deps
    by (cases ws) (simp del: fold_key.simps add: WorkflowStep_MarshalJSON_def marshal_common_def WorkflowStep_UnmarshalJSON_def json_members_def member_def
        fold_keys and_read_def read_tree_def JSONTree_UnmarshalJSON_def valid_literals)
qed

lemma schedule_roundtrip:
  assumes "utf8_valid schedule"
  shows "\<exists>j. WorkflowTriggerSource_MarshalJSON lib \<lparr>src_Type = ty, src_Variant = Some (ScheduleWorkflowTriggerSource schedule)\<rparr> = Inr j \<and>
    WorkflowTriggerSource_UnmarshalJSON old j = Inr \<lparr>src_Type = ''schedule'', src_Variant = Some (ScheduleWorkflowTriggerSource schedule)\<rparr>"
  using assms
  by (simp del: fold_key.simps add: WorkflowTriggerSource_MarshalJSON_def WorkflowTriggerSource_UnmarshalJSON_def json_members_def member_def fold_keys and_read_def
      omit_str_def valid_literals read_string_def [of None])

section \<open>Streams\<close>

text \<open>Decoding a stream never reports its end, and decoding again returns the same workflow again.\<close>

lemma stream_repeats:
  assumes "rd_Error r = None" "decode (rd_Content r) = Inr wd"
  shows "\<exists>d. DecodeStream decode (NewDocumentStreamingDecoder r) = ((Some wd, None), d) \<and> DecodeStream decode d = ((Some wd, None), d)"
  using assms by (simp add: DecodeStream_def NewDocumentStreamingDecoder_def Buffer_ReadFrom_def)

section \<open>Mapping\<close>

text \<open>A parameter of a workflow file without anything in it makes the mapping panic; otherwise there is a run.\<close>

lemma run_mapped_iff:
  "Run_ToRuntimeObjectsManifest m wd \<noteq> None \<longleftrightarrow>
     (\<forall>(k, p) \<in> set (wd_Parameters wd). p \<noteq> None) \<and> (\<forall>(k, p) \<in> set (rm_runParameters m). p \<noteq> None)"
  by (auto simp: Run_ToRuntimeObjectsManifest_def field_values_def list_all_iff split: if_splits)

text \<open>A tenant is mapped exactly if it has an account and a workflow, and an event sink exactly if there is a URL.\<close>

lemma tenant_mapped:
  "(\<exists>k. Tenant_ToRuntimeObjectsManifest us m = Inr k) \<longleftrightarrow> tm_id m \<noteq> [] \<and> tm_workflowID m \<noteq> []"
  "Tenant_ToRuntimeObjectsManifest us m = Inr k \<Longrightarrow>
     om_Name (o_Meta (tk_Tenant k)) \<noteq> [] \<and> tb_TemplateName (o_Body (tk_Tenant k)) = om_Name (o_Meta (tk_Tenant k)) \<and>
     (tb_Sink (o_Body (tk_Tenant k)) = None \<longleftrightarrow> tm_eventURL m = None)"
  by (auto simp: Tenant_ToRuntimeObjectsManifest_def Let_def empty_meta_def empty_tenant_def split: if_splits)

end
