(* ===== verification/Spec2Isabelle.thy ===== *)
theory Spec2Isabelle
  imports Expr_Properties Configmap_Props Errmark Metadata_Api_Props Obj_Util_Props Run_Configmap_Props Obj_Status_Props Pipeline_Props Network_Policy_Props Parse_Yaml_Props Run_Deps_Props Tenant_Reconciler_Props Trigger_Reconciler_Props Admission_Props Workflow_Types_Props
begin

text \<open>
  A verification library for relay-core, the controller and metadata service that execute Relay
  workflows on Kubernetes.

  \<^bold>\<open>The program.\<close> A workflow run is a custom resource with steps. The controller
  (\<open>src/pkg/reconciler/workflow\<close>) turns it into a Tekton pipeline, stores parameters and the specs of the
  steps in a ConfigMap, gives every step a token (\<open>src/pkg/obj/workflowrundeps.go\<close>), and reports the
  progress of the pipeline in the status of the run (\<open>src/pkg/obj/workflowrun.go\<close>). A step that runs asks
  the metadata API (\<open>src/pkg/metadataapi\<close>) for its spec, secrets, conditions and environment, and sets
  outputs. The API finds out which pod is asking by its address, authenticates it by the token on the
  pod (\<open>src/pkg/authenticate\<close>), builds managers for its data (\<open>src/pkg/manager\<close>), and evaluates
  expressions over that data (\<open>src/pkg/expr\<close>). The controller evaluates the same expressions once before
  it stores them, without access to any data; what it cannot resolve stays in the stored value and is
  resolved by the API.

  \<^bold>\<open>Theories.\<close> Definitions keep the names of the source; a method \<open>m\<close> of a type \<open>T\<close> is \<open>T_m\<close> where the
  bare name is taken.

  \<^item> \<open>Relay_Prelude\<close>: lists, association lists as Go maps (\<open>gomap\<close>), sorting, text. \<open>Go_Values\<close>: dynamic
    values (\<open>gval\<close>) and errors (\<open>err\<close>, \<open>res\<close>). \<open>Go_Stdlib\<close>: \<open>path.Join\<close>, SHA-1, hexadecimal. \<open>Go_Net\<close>: IP addresses.
  \<^item> \<open>Transfer_Encoding\<close>: the encodings and the JSON form of values (horsehead's \<open>transfer\<close>), and
    that decoding inverts encoding.
  \<^item> \<open>Fn\<close>, \<open>Resolve\<close>, \<open>Unresolvable\<close>, \<open>Evaluate\<close>: \<open>src/pkg/expr\<close>: functions, resolvers, reports of what could not
    be resolved, the evaluator and its result mappers. \<open>Evaluate_Props\<close>, \<open>Staged\<close>, \<open>Reports\<close> carry the proofs
    and \<open>Expr_Properties\<close> the properties: evaluating in stages is evaluating once, reports are exact and,
    for four of the seven kinds of references, sorted lists of what is unresolved, errors are located, values without expressions are fixed.
  \<^item> \<open>Parse_Yaml\<close>, \<open>Parse_Yaml_Props\<close>: the YAML syntax of expressions. Nodes are a store with sharing, which the parser
    rewrites in place; the loop refines a recursive expansion of trees, and ends unless an alias is cyclic.
  \<^item> \<open>Model\<close>, \<open>Managers\<close>, \<open>Configmap\<close>, \<open>Remote_Managers\<close>: \<open>src/pkg/model\<close> and \<open>src/pkg/manager\<close>.
    \<open>Configmap_Props\<close>: a write changes one key of the newest version, the retry loop returns if the namespace
    exists and other writers stop, entries of different actions do not interfere. \<open>Remote_Props\<close>: paths in
    Vault, connections, events.
  \<^item> \<open>Authenticate\<close>, \<open>Tokens\<close>, \<open>Metadata_Auth\<close>: \<open>src/pkg/authenticate\<close>, the tokens the controller issues, and
    the middleware. Their properties (\<open>Authenticate_Props\<close>, \<open>Metadata_Auth_Props\<close>, \<open>Token_Props\<close>): a pod gets
    credentials only for the action its token names, and the token the controller issues for a step
    does authenticate its pod until it expires. That Vault accepts a token is decided by \<open>token_valid\<close>, the checks of Vault's JWT login
    for issuer, audience and times.
  \<^item> \<open>Metadata_Api\<close>, \<open>Metadata_Api_Props\<close>: the handlers, the decision on conditions, what each handler
    answers, and that triggers reach no data of steps.
  \<^item> \<open>Errmark\<close>: \<open>src/pkg/errmark\<close> and the filters of \<open>src/pkg/reconciler/filter\<close>.
  \<^item> \<open>Obj_Util\<close>, \<open>Obj_Util_Props\<close>: \<open>src/pkg/obj\<close>: metadata, ownership, finalizers, loading and persisting.
  \<^item> \<open>Graph\<close>, \<open>Workflow_Run\<close>, \<open>Workflow_Run_Props\<close>: the graph library with its topological traversal, the
    status of a run, and how skipping spreads along dependencies.
  \<^item> \<open>Run_Configmap\<close>, \<open>Run_Configmap_Props\<close>: the ConfigMaps of a run (\<open>configmap.go\<close>), and that the spec the
    controller stores is the spec the API delivers.
  \<^item> \<open>Pipeline\<close>, \<open>Pipeline_Props\<close>: tasks, conditions, the pipeline and its run, and that the pipeline has the
    steps, the order and the conditions of the workflow.
  \<^item> \<open>Network_Policy\<close>, \<open>Network_Policy_Props\<close>: the network policies of tenants, runs and triggers with the documented
    meaning of policies, and which addresses of 32 bits the pods of a tenant reach.
  \<^item> \<open>Run_Deps\<close>, \<open>Run_Deps_Props\<close>: what a run needs before its pipeline (\<open>workflowrundeps.go\<close>): service accounts and the
    wait for their tokens, the role and its binding, limits; and the reconciler of runs. The role gives the metadata API
    exactly its two ConfigMaps, and waiting for a token ends with the deadline.
  \<^item> \<open>Obj_Status\<close>, \<open>Obj_Status_Props\<close>: the status conditions of tenants and webhook triggers, exactly when a
    tenant is ready, and that the time of a condition changes only with what the condition says.
  \<^item> \<open>Tenant_Deps\<close>, \<open>Tenant_Reconciler\<close>, \<open>Tenant_Reconciler_Props\<close>: marks of dependencies across namespaces, what a tenant needs
    (\<open>tenantdeps.go\<close>), the volumes and the job for tools, and the reconciler of tenants: it deletes only what is marked as the
    tenant's own, and asks to be called again until the tenant is ready.
  \<^item> \<open>Hash_Util\<close>: SHA-256, the text of JSON, and the structured hash of \<open>src/pkg/util/hashutil\<close>.
  \<^item> \<open>Trigger_Deps\<close>, \<open>Trigger_Reconciler\<close>, \<open>Trigger_Reconciler_Props\<close>: what a webhook trigger needs (\<open>webhooktriggerdeps.go\<close>), its
    token, its Knative service, and the reconciler of triggers: the token is accepted, is issued once, and only what is marked as
    the trigger's own is deleted.
  \<^item> \<open>Admission\<close>, \<open>Admission_Props\<close>: the admission webhooks (\<open>src/pkg/admission\<close>) and the event handlers
    (\<open>src/pkg/controller/handler\<close>): a pod that was admitted has the confinement of workloads and the tools it asks for, admitting it
    again changes nothing, and an event about a dependency makes requests for its owners and for nobody else.
  \<^item> \<open>Workflow_Types\<close>, \<open>Workflow_Types_Props\<close>: workflow files (\<open>src/pkg/workflow/types/v1\<close>): decoding, the JSON of steps and trigger
    sources, and the mapping to runs, tenants and triggers. A step that asks for approval passes exactly if it was approved.

  \<^bold>\<open>Orders that Go leaves open.\<close> A Go map is a list of pairs and is iterated in the order of the list; the theorems hold for every list, and so
  for every order, but one list stands for the same order in all iterations over it. The elements of a hash set come out in the order of
  insertion; \<open>strict_categories_deterministic\<close> and \<open>evaluate_report_ordered\<close> show where that order cannot be seen.

  \<^bold>\<open>State and effects.\<close> Code that talks to a service (Kubernetes, Vault, HTTP) takes the operations of the
  service as arguments; they act on a world \<open>'w\<close> and return a result and the next world. Errors are
  values: \<open>res\<close> is \<open>err + 'a\<close>. A panic of the source that the model represents is the outcome \<open>None\<close>.

  \<^bold>\<open>Termination.\<close> Recursion over values is by size, the traversal of a graph by the edges left and the
  queue. No definition uses fuel. The retry loop \<open>MutateConfigMap\<close> may run forever and is a
  \<open>partial_function\<close>, with \<open>None\<close> for a run that never ends; \<open>kv_set_returns\<close> shows when it returns and
  \<open>mutate_missing_namespace\<close> when it does not. So is the loop of the YAML parser: \<open>yaml_expansion\<close> shows that it ends on
  every document that stands for a tree, \<open>cyclic_never_ends\<close> a document on which it does not. And so is \<open>retry_until\<close>, which
  waits for the token of a service account; \<open>account_load_ends\<close> shows that it ends when the clock goes on.

  \<^bold>\<open>Interfaces.\<close> What one component relies on of another is a locale, interpreted on the definitions of the
  model: \<open>keyed_store\<close> and \<open>keyed_view\<close> (what a read returns after a write; the managers), \<open>resolver_kind\<close>
  (chains of resolvers), \<open>less_order\<close> and \<open>strict_less_order\<close> (the orders behind sorted reports),
  \<open>extending_resolver\<close> and \<open>session_resolver\<close> (what resolving a token does to the state of an
  authentication), \<open>optimistic_configmaps\<close> and \<open>available_configmaps\<close> (resource versions of the Kubernetes
  API over the history of an object; an update is refused only if the object is in another version, and the namespace is there).

  \<^bold>\<open>Assumptions on services.\<close> Signatures of JOSE, Vault's transit engine and the Kubernetes API are
  parameters; properties that need them to work state the documented behaviour they need, and their
  witnesses instantiate them. What the properties on stored entries need of a value (\<open>transferable\<close>) is that JSON carries it: a type that JSON
  decodes to, keys in valid UTF-8, no map with a string under \<open>$encoding\<close>.

  \<^bold>\<open>Not modelled.\<close> Scanning of YAML and decoding of its nodes, the JSONPath languages (on vendored parsers), rendering of Markdown,
  the writes of a deep merge into the maps of its arguments, validation of workflow files by JSON schema, HTTP routing, configuration and main functions,
  generated code (error types, deep copies, assets), test support, metrics. The JSON text of the mark of a dependency and the
  parsing of the URL of an event sink are parameters. Registration of controllers, the commands and the clients they construct are
  wiring of libraries.
\<close>

end
